(* ===== verification/Prelude.thy ===== *)
theory Prelude
  imports Main "HOL-Library.Word"
begin

text \<open>
  Shared vocabulary of the development: the integer widths of the Rust code, the
  standard-library arithmetic it calls (checked, saturating and power-of-two operations on
  unsigned integers), the state-and-error actions in which every stateful function of the
  code is written, and the weakest-precondition rules by which those actions are reasoned
  about.  The collection \<open>wp_rules\<close> holds one equation per primitive action, so that
  unfolding a function and simplifying with it computes the function's effect.
\<close>

named_theorems wp_rules "weakest preconditions of the primitive actions"
named_theorems action_defs "definitions of the primitive actions"

section \<open>Integers of the source\<close>

type_synonym u8 = "8 word"
type_synonym u32 = "32 word"
type_synonym u64 = "64 word"
type_synonym u128 = "128 word"
type_synonym bytes = "u8 list"

text \<open>\<open>checked_add\<close> of the Rust standard library: \<open>None\<close> on overflow.\<close>

definition checked_add :: "'l::len word \<Rightarrow> 'l word \<Rightarrow> 'l word option" where
  "checked_add a b = (if unat a + unat b < 2 ^ LENGTH('l) then Some (a + b) else None)"

text \<open>
  \<open>checked_next_power_of_two\<close>: the least power of two that is at least the argument, when
  the type can hold it.  The search is over the bit positions of the type.
\<close>

definition checked_next_power_of_two :: "'l::len word \<Rightarrow> 'l word option" where
  "checked_next_power_of_two a =
     map_option (\<lambda>k. 2 ^ k) (find (\<lambda>k. unat a \<le> 2 ^ k) [0..<LENGTH('l)])"

lemma checked_add_Some:
  fixes a b c :: "'l::len word"
  shows "checked_add a b = Some c \<longleftrightarrow> unat a + unat b < 2 ^ LENGTH('l) \<and> c = a + b"
  by (auto simp: checked_add_def)

lemma checked_add_unat:
  "checked_add a b = Some c \<Longrightarrow> unat c = unat a + unat b"
  by (auto simp: checked_add_def unat_word_ariths split: if_splits)

lemma checked_add_None:
  fixes a b :: "'l::len word"
  shows "checked_add a b = None \<longleftrightarrow> 2 ^ LENGTH('l) \<le> unat a + unat b"
  by (simp add: checked_add_def not_less)

lemma checked_add_one_None:
  fixes a :: "'l::len word"
  shows "checked_add a 1 = None \<longleftrightarrow> a = - 1"
proof -
  have "unat a < 2 ^ LENGTH('l)" by (rule unsigned_less)
  then have "2 ^ LENGTH('l) \<le> unat a + 1 \<longleftrightarrow> unat a = 2 ^ LENGTH('l) - 1" by linarith
  also have "\<dots> \<longleftrightarrow> unat a = unat (- 1 :: 'l word)"
    by (simp add: unsigned_minus_1_eq_mask mask_eq_exp_minus_1)
  also have "\<dots> \<longleftrightarrow> a = - 1" by (rule word_unat_eq_iff [symmetric])
  finally show ?thesis by (simp add: checked_add_None)
qed

lemma checked_add_one: "checked_add a 1 = (if a = - 1 then None else Some (a + 1))"
  using checked_add_one_None [of a] by (cases "checked_add a 1") (auto simp: checked_add_Some)

section \<open>Actions: state passing with early return\<close>

text \<open>
  An action takes the state and gives a result and the state it leaves.  \<open>Inl\<close> is an
  \<open>Err\<close> (or an early return through \<open>?\<close>), \<open>Inr\<close> is an \<open>Ok\<close>; the state a failing action
  leaves is the state at the point of failure, with nothing undone.
\<close>

type_synonym ('x, 'e, 'a) action = "'x \<Rightarrow> ('e + 'a) \<times> 'x"

definition done_with :: "'a \<Rightarrow> ('x, 'e, 'a) action" where
  [action_defs]: "done_with a s = (Inr a, s)"

definition fail_with :: "'e \<Rightarrow> ('x, 'e, 'a) action" where
  [action_defs]: "fail_with e s = (Inl e, s)"

text \<open>Sequencing: the rest runs on the value of an \<open>Ok\<close>, an \<open>Err\<close> ends the function.\<close>

definition try_then ::
    "('x, 'e, 'a) action \<Rightarrow> ('a \<Rightarrow> ('x, 'e, 'b) action) \<Rightarrow> ('x, 'e, 'b) action" where
  [action_defs]: "try_then m f s = (case m s of
     (Inl e, t) \<Rightarrow> (Inl e, t)
   | (Inr a, t) \<Rightarrow> f a t)"

lemma try_thenE:
  assumes "try_then m f s = (r, t)"
  obtains (stopped) e where "m s = (Inl e, t)" "r = Inl e"
    | (went_on) a u where "m s = (Inr a, u)" "f a u = (r, t)"
  using assms by (auto simp: try_then_def split: prod.splits sum.splits)

definition from_result :: "'e + 'a \<Rightarrow> ('x, 'e, 'a) action" where
  [action_defs]: "from_result r s = (r, s)"

definition ok_or :: "'e \<Rightarrow> 'a option \<Rightarrow> ('x, 'e, 'a) action" where
  [action_defs]: "ok_or e v s = (case v of None \<Rightarrow> (Inl e, s) | Some a \<Rightarrow> (Inr a, s))"

text \<open>The \<open>ensure!\<close> macro: an early return unless the condition holds.\<close>

definition ensure :: "bool \<Rightarrow> 'e \<Rightarrow> ('x, 'e, unit) action" where
  [action_defs]: "ensure c e s = (if c then (Inr (), s) else (Inl e, s))"

section \<open>Weakest preconditions\<close>

text \<open>
  \<open>wp m Q E s\<close> says that running \<open>m\<close> from \<open>s\<close> ends in \<open>Q\<close> when it returns \<open>Ok\<close> and in
  \<open>E\<close> when it returns \<open>Err\<close>.  Every action is total, so this is total correctness.
\<close>

definition wp :: "('x, 'e, 'a) action \<Rightarrow> ('a \<Rightarrow> 'x \<Rightarrow> bool) \<Rightarrow> ('e \<Rightarrow> 'x \<Rightarrow> bool) \<Rightarrow> 'x \<Rightarrow> bool" where
  "wp m Q E s = (case m s of (Inl e, t) \<Rightarrow> E e t | (Inr a, t) \<Rightarrow> Q a t)"

lemma wp_done [wp_rules]: "wp (done_with a) Q E s = Q a s"
  by (simp add: wp_def done_with_def)

lemma wp_fail [wp_rules]: "wp (fail_with e) Q E s = E e s"
  by (simp add: wp_def fail_with_def)

lemma wp_try_then [wp_rules]:
  "wp (try_then m f) Q E s = wp m (\<lambda>a. wp (f a) Q E) E s"
  by (simp add: wp_def try_then_def split: prod.splits sum.splits)

lemma wp_from_result [wp_rules]:
  "wp (from_result r) Q E s = (case r of Inl e \<Rightarrow> E e s | Inr a \<Rightarrow> Q a s)"
  by (simp add: wp_def from_result_def split: sum.splits)

lemma wp_ok_or [wp_rules]:
  "wp (ok_or e v) Q E s = (case v of None \<Rightarrow> E e s | Some a \<Rightarrow> Q a s)"
  by (simp add: wp_def ok_or_def split: option.splits)

lemma wp_ensure [wp_rules]:
  "wp (ensure c e) Q E s = (if c then Q () s else E e s)"
  by (simp add: wp_def ensure_def)

lemma wp_if [wp_rules]:
  "wp (if c then m else n) Q E s = (if c then wp m Q E s else wp n Q E s)"
  by simp

lemma wp_case_option [wp_rules]:
  "wp (case v of None \<Rightarrow> m | Some a \<Rightarrow> f a) Q E s =
     (case v of None \<Rightarrow> wp m Q E s | Some a \<Rightarrow> wp (f a) Q E s)"
  by (simp split: option.splits)

lemma wp_Let [wp_rules]: "wp (let x = v in f x) Q E s = (let x = v in wp (f x) Q E s)"
  by (simp add: Let_def)

lemma wp_OkD: "m s = (Inr a, t) \<Longrightarrow> wp m Q E s \<Longrightarrow> Q a t"
  by (simp add: wp_def)

lemma wp_ErrD: "m s = (Inl e, t) \<Longrightarrow> wp m Q E s \<Longrightarrow> E e t"
  by (simp add: wp_def)

lemma wp_exact: "wp m (\<lambda>a t. (Inr a, t) = r) (\<lambda>e t. (Inl e, t) = r) s \<Longrightarrow> m s = r"
  by (auto simp: wp_def split: prod.splits sum.splits)

lemma wp_mono:
  assumes "wp m Q E s" "\<And>a t. Q a t \<Longrightarrow> Q' a t" "\<And>e t. E e t \<Longrightarrow> E' e t"
  shows "wp m Q' E' s"
  using assms by (auto simp: wp_def split: prod.splits sum.splits)

lemma wp_conj:
  "wp m Q E s \<Longrightarrow> wp m Q' E' s \<Longrightarrow> wp m (\<lambda>a t. Q a t \<and> Q' a t) (\<lambda>e t. E e t \<and> E' e t) s"
  by (auto simp: wp_def split: prod.splits sum.splits)

end
