(* ===== verification/Frame.thy ===== *)
theory Frame
  imports Prelude
begin

text \<open>
  What the pallets use of FRAME.  Storage items are declared by the pallets themselves
  (\<open>#[pallet::storage]\<close>), so a pallet's storage is a record with one field per item: a
  \<open>StorageMap\<close> is a map from keys to values, a \<open>StorageValue\<close> an optional value or, as
  \<open>ValueQuery\<close>, a plain one.  Every access of an item is also recorded, because the weights
  the pallets declare are about the number of database reads and writes.  The functions of
  FRAME that compute something (\<open>ensure_signed\<close>, \<open>BoundedVec::try_from\<close>,
  \<open>saturated_into\<close>, the block number, the storage layer that the \<open>#[pallet::call]\<close> macro
  puts around every dispatchable) are not part of the repository: they are parameters, with
  the documented behaviour the pallets rely on stated as named hypotheses.
\<close>

section \<open>State of a dispatch\<close>

datatype access = Read string | Write string

text \<open>
  \<open>store\<close> is the storage, \<open>deposited\<close> the events given to \<open>deposit_event\<close> so far (oldest
  first), \<open>accesses\<close> the reads and writes of storage items so far (oldest first).
\<close>

record ('st, 'ev) ext =
  store :: 'st
  deposited :: "'ev list"
  accesses :: "access list"

text \<open>
  A \<open>DispatchError\<close> is either one of the pallet's own errors or one the framework made
  (\<open>ensure_signed\<close> gives one for an unsigned origin).
\<close>

datatype ('d, 'e) dispatch_error = Framework 'd | Module 'e

type_synonym ('st, 'ev, 'd, 'e) dispatchable =
  "(('st, 'ev) ext, ('d, 'e) dispatch_error, unit) action"

section \<open>Functions of the framework\<close>

text \<open>
  The framework functions the pallets call: \<open>'o\<close> is the origin, \<open>'a\<close> the account id,
  \<open>'d\<close> the framework's errors.  \<open>block_number\<close> is the number of the current block, of the
  runtime's type \<open>BlockNumber = u32\<close>.
\<close>

record ('o, 'a, 'd) frame =
  ensure_signed :: "'o \<Rightarrow> 'd + 'a"
  block_number :: u32
  saturated_into_u64 :: "u32 \<Rightarrow> u64"
  bounded_try_from :: "u32 \<Rightarrow> bytes \<Rightarrow> bytes option"
  bounded_default :: bytes

text \<open>
  Documented behaviour of \<open>BoundedVec\<close>: \<open>try_from\<close> succeeds, with the same elements,
  exactly on vectors no longer than the bound; the default is empty.
\<close>

definition bounded_vec_ok :: "('o, 'a, 'd) frame \<Rightarrow> bool" where
  "bounded_vec_ok F \<longleftrightarrow>
     (\<forall>n v. bounded_try_from F n v = (if length v \<le> unat n then Some v else None)) \<and>
     bounded_default F = []"

lemma bounded_try_from_ok:
  "bounded_vec_ok F \<Longrightarrow> bounded_try_from F n v = (if length v \<le> unat n then Some v else None)"
  by (simp add: bounded_vec_ok_def)

lemma bounded_default_ok: "bounded_vec_ok F \<Longrightarrow> bounded_default F = []"
  by (simp add: bounded_vec_ok_def)

lemmas bounded_ok = bounded_try_from_ok bounded_default_ok

text \<open>
  Documented behaviour of a storage layer (\<open>with_storage_layer\<close>): either the body succeeded
  and its effects are committed, or the call fails and storage and events are as before.  A
  layer may fail on its own account (its nesting is limited), so a failure is not tied to a
  failure of the body.
\<close>

definition storage_layer :: "(('st, 'ev, 'd, 'e) dispatchable \<Rightarrow> ('st, 'ev, 'd, 'e) dispatchable) \<Rightarrow> bool" where
  "storage_layer layer \<longleftrightarrow> (\<forall>m s.
     (\<exists>t. m s = (Inr (), t) \<and> layer m s = (Inr (), t)) \<or>
     (\<exists>e t. layer m s = (Inl e, t) \<and> store t = store s \<and> deposited t = deposited s))"

lemma storage_layer_cases:
  assumes "storage_layer layer"
  obtains (committed) t where "m s = (Inr (), t)" "layer m s = (Inr (), t)"
    | (rolled_back) e t where "layer m s = (Inl e, t)" "store t = store s" "deposited t = deposited s"
  using assms unfolding storage_layer_def by blast

lemma storage_layer_Ok:
  assumes "storage_layer layer" "layer m s = (Inr (), t)"
  shows "m s = (Inr (), t)"
  using assms(1) by (rule storage_layer_cases [where m = m and s = s]) (use assms(2) in auto)

lemma storage_layer_Err:
  assumes "storage_layer layer" "layer m s = (Inl e, t)"
  shows "store t = store s" "deposited t = deposited s"
  using assms(1) by (rule storage_layer_cases [where m = m and s = s], use assms(2) in auto)+

text \<open>
  A layer fails on its own account only when it is nested too deeply; a \<open>shallow\<close> one gives
  the result of its body.
\<close>

definition shallow_layer :: "(('st, 'ev, 'd, 'e) dispatchable \<Rightarrow> ('st, 'ev, 'd, 'e) dispatchable) \<Rightarrow> bool" where
  "shallow_layer layer \<longleftrightarrow> storage_layer layer \<and> (\<forall>m s. fst (layer m s) = fst (m s))"

lemma shallow_layer_Ok:
  assumes "shallow_layer layer" "m s = (Inr (), t)"
  shows "layer m s = (Inr (), t)"
proof -
  have "fst (layer m s) = Inr ()" using assms by (simp add: shallow_layer_def)
  then obtain u where "layer m s = (Inr (), u)" by (cases "layer m s") auto
  with storage_layer_Ok [of layer m s u] assms show ?thesis by (simp add: shallow_layer_def)
qed

lemma shallow_layer_Err:
  assumes "shallow_layer layer" "fst (m s) = Inl e"
  obtains t where "layer m s = (Inl e, t)" "store t = store s" "deposited t = deposited s"
proof -
  have "fst (layer m s) = Inl e" using assms by (simp add: shallow_layer_def)
  then obtain t where t: "layer m s = (Inl e, t)" by (cases "layer m s") auto
  with assms(1) show ?thesis
    by (intro that [OF t]) (auto simp: shallow_layer_def dest: storage_layer_Err)
qed

text \<open>A layer of this kind: keep what an \<open>Ok\<close> did, restore on \<open>Err\<close>.\<close>

definition rollback_layer :: "('st, 'ev, 'd, 'e) dispatchable \<Rightarrow> ('st, 'ev, 'd, 'e) dispatchable" where
  "rollback_layer m s = (case m s of
     (Inr u, t) \<Rightarrow> (Inr u, t)
   | (Inl e, t) \<Rightarrow> (Inl e, s\<lparr>accesses := accesses t\<rparr>))"

lemma storage_layer_rollback: "storage_layer rollback_layer"
  by (auto simp: storage_layer_def rollback_layer_def split: prod.splits sum.splits)

lemma shallow_layer_rollback: "shallow_layer rollback_layer"
  by (simp add: shallow_layer_def storage_layer_rollback rollback_layer_def split: prod.split sum.split)

text \<open>Framework functions of this kind, over origins that name the signer or nobody.\<close>

definition plain_frame :: "u32 \<Rightarrow> ('a option, 'a, unit) frame" where
  "plain_frame n = \<lparr>
     ensure_signed = (\<lambda>o1. case o1 of None \<Rightarrow> Inl () | Some a \<Rightarrow> Inr a),
     block_number = n,
     saturated_into_u64 = ucast,
     bounded_try_from = (\<lambda>n v. if length v \<le> unat n then Some v else None),
     bounded_default = []\<rparr>"

lemma bounded_vec_ok_plain: "bounded_vec_ok (plain_frame n)"
  by (simp add: bounded_vec_ok_def plain_frame_def)

section \<open>Storage items\<close>

text \<open>
  A storage item is a name, the way to read it from the pallet's storage and the way to
  change it there.  \<open>item_read\<close> and \<open>item_write\<close> are the two accesses; the operations of
  the item kinds are made from them.
\<close>

record ('st, 'v) item =
  item_name :: string
  item_get :: "'st \<Rightarrow> 'v"
  item_update :: "('v \<Rightarrow> 'v) \<Rightarrow> 'st \<Rightarrow> 'st"

definition item_read :: "('st, 'v) item \<Rightarrow> ('v \<Rightarrow> 'w) \<Rightarrow> (('st, 'ev) ext, 'e, 'w) action" where
  "item_read i f s = (Inr (f (item_get i (store s))), s\<lparr>accesses := accesses s @ [Read (item_name i)]\<rparr>)"

definition item_write :: "('st, 'v) item \<Rightarrow> ('v \<Rightarrow> 'v) \<Rightarrow> (('st, 'ev) ext, 'e, unit) action" where
  "item_write i f s = (Inr (), s\<lparr>store := item_update i f (store s),
                                  accesses := accesses s @ [Write (item_name i)]\<rparr>)"

definition value_get :: "('st, 'v) item \<Rightarrow> (('st, 'ev) ext, 'e, 'v) action" where
  "value_get i = item_read i (\<lambda>v. v)"

definition value_put :: "('st, 'v) item \<Rightarrow> 'v \<Rightarrow> (('st, 'ev) ext, 'e, unit) action" where
  "value_put i v = item_write i (\<lambda>_. v)"

definition map_get :: "('st, 'k \<rightharpoonup> 'v) item \<Rightarrow> 'k \<Rightarrow> (('st, 'ev) ext, 'e, 'v option) action" where
  "map_get i k = item_read i (\<lambda>m. m k)"

definition map_contains_key :: "('st, 'k \<rightharpoonup> 'v) item \<Rightarrow> 'k \<Rightarrow> (('st, 'ev) ext, 'e, bool) action" where
  "map_contains_key i k = item_read i (\<lambda>m. m k \<noteq> None)"

definition map_insert :: "('st, 'k \<rightharpoonup> 'v) item \<Rightarrow> 'k \<Rightarrow> 'v \<Rightarrow> (('st, 'ev) ext, 'e, unit) action" where
  "map_insert i k v = item_write i (\<lambda>m. m(k \<mapsto> v))"

definition map_remove :: "('st, 'k \<rightharpoonup> 'v) item \<Rightarrow> 'k \<Rightarrow> (('st, 'ev) ext, 'e, unit) action" where
  "map_remove i k = item_write i (\<lambda>m. m(k := None))"

text \<open>\<open>deposit_event\<close> of the pallets (generated by \<open>#[pallet::generate_deposit]\<close>).\<close>

definition deposit_event :: "'ev \<Rightarrow> (('st, 'ev) ext, 'e, unit) action" where
  "deposit_event ev s = (Inr (), s\<lparr>deposited := deposited s @ [ev]\<rparr>)"

lemma wp_item_read [wp_rules]:
  "wp (item_read i f) Q E s =
     Q (f (item_get i (store s))) (s\<lparr>accesses := accesses s @ [Read (item_name i)]\<rparr>)"
  by (simp add: wp_def item_read_def)

lemma wp_item_write [wp_rules]:
  "wp (item_write i f) Q E s =
     Q () (s\<lparr>store := item_update i f (store s), accesses := accesses s @ [Write (item_name i)]\<rparr>)"
  by (simp add: wp_def item_write_def)

lemma wp_deposit_event [wp_rules]:
  "wp (deposit_event ev) Q E s = Q () (s\<lparr>deposited := deposited s @ [ev]\<rparr>)"
  by (simp add: wp_def deposit_event_def)

lemmas item_ops [wp_rules] =
  value_get_def value_put_def map_get_def map_contains_key_def map_insert_def map_remove_def

section \<open>Accesses counted\<close>

fun reads :: "access list \<Rightarrow> nat" where
  "reads [] = 0"
| "reads (Read _ # as) = Suc (reads as)"
| "reads (Write _ # as) = reads as"

fun writes :: "access list \<Rightarrow> nat" where
  "writes [] = 0"
| "writes (Read _ # as) = writes as"
| "writes (Write _ # as) = Suc (writes as)"

lemma reads_append [simp]: "reads (as @ bs) = reads as + reads bs"
  by (induction as rule: reads.induct) auto

lemma writes_append [simp]: "writes (as @ bs) = writes as + writes bs"
  by (induction as rule: writes.induct) auto

text \<open>A dispatch from storage \<open>st\<close> with nothing recorded yet.\<close>

definition fresh_ext :: "'st \<Rightarrow> ('st, 'ev) ext" where
  "fresh_ext st = \<lparr>store = st, deposited = [], accesses = []\<rparr>"

lemma fresh_ext_simps [simp]:
  "store (fresh_ext st) = st" "deposited (fresh_ext st) = []" "accesses (fresh_ext st) = []"
  by (simp_all add: fresh_ext_def)

end
