(* ===== verification/Storage_Items.thy ===== *)
theory Storage_Items
  imports Frame
begin

text \<open>
  The interface between storage items and the storage that holds them.  A component that is
  written against an item (a dispatchable, or the runtime for the storage of a whole pallet)
  relies on three laws: what is written is read back, writes compose, and a write that
  changes nothing leaves the storage as it is.  Two items of one storage are independent
  when neither sees the other's writes.  Every item of the pallets is an interpretation of
  these locales, in the theory that declares it.
\<close>

locale storage_item =
  fixes i :: "('st, 'v) item"
  assumes get_update: "item_get i (item_update i f st) = f (item_get i st)"
    and update_update: "item_update i f (item_update i g st) = item_update i (\<lambda>v. f (g v)) st"
    and update_same: "f (item_get i st) = item_get i st \<Longrightarrow> item_update i f st = st"
begin

lemma put_get:
  "wp (try_then (value_put i v) (\<lambda>_. value_get i)) (\<lambda>a t. a = v \<and> item_get i (store t) = v) E s"
  by (simp add: wp_rules get_update)

lemma put_put:
  "item_update i (\<lambda>_. v) (item_update i (\<lambda>_. w) st) = item_update i (\<lambda>_. v) st"
  by (simp add: update_update)

lemma read_keeps_store: "wp (item_read i f) (\<lambda>_ t. store t = store s \<and> deposited t = deposited s) E s"
  by (simp add: wp_rules)

end

locale storage_map = storage_item i for i :: "('st, 'k \<rightharpoonup> 'v) item"
begin

lemma get_after_insert:
  "wp (try_then (map_insert i k v) (\<lambda>_. map_get i k')) 
     (\<lambda>r t. r = (if k' = k then Some v else item_get i (store s) k')) E s"
  by (simp add: wp_rules get_update)

lemma get_after_remove:
  "wp (try_then (map_remove i k) (\<lambda>_. map_get i k'))
     (\<lambda>r t. r = (if k' = k then None else item_get i (store s) k')) E s"
  by (simp add: wp_rules get_update)

lemma contains_key_iff_get:
  "wp (map_contains_key i k) (\<lambda>b t. b = (item_get i (store s) k \<noteq> None) \<and> store t = store s) E s"
  by (simp add: wp_rules)

lemma insert_twice:
  "item_update i (\<lambda>m. m(k \<mapsto> v)) (item_update i (\<lambda>m. m(k \<mapsto> w)) st) = item_update i (\<lambda>m. m(k \<mapsto> v)) st"
  by (simp add: update_update)

end

locale independent_items = a: storage_item i + b: storage_item j
  for i :: "('st, 'v) item" and j :: "('st, 'w) item" +
  assumes get_other: "item_get i (item_update j f st) = item_get i st"
    and get_other': "item_get j (item_update i g st) = item_get j st"
    and update_commute: "item_update i g (item_update j f st) = item_update j f (item_update i g st)"
begin

lemma write_keeps_other:
  "wp (item_write j f) (\<lambda>_ t. item_get i (store t) = item_get i (store s)) E s"
  "wp (item_write i g) (\<lambda>_ t. item_get j (store t) = item_get j (store s)) E s"
  by (simp_all add: wp_rules get_other get_other')

end

end
