(* ===== verification/Pallet_Contract.thy ===== *)
theory Pallet_Contract
  imports Frame
begin

text \<open>
  What a runtime relies on when it composes pallets: a pallet has a genesis storage and a
  dispatch function, and an invariant that genesis satisfies and every successful dispatch
  keeps.  The storage layer around every dispatchable turns the second promise into one
  about all dispatches, failed ones included, and so about every storage a chain can reach.
\<close>

section \<open>Chains of extrinsics\<close>

text \<open>
  \<open>reachable layer dispatch legal genesis st\<close>: some sequence of extrinsics, each applied
  under the storage layer whether it succeeds or not, leads from \<open>genesis\<close> to \<open>st\<close>.  An
  extrinsic \<open>x\<close> carries its origin, its call and the framework functions of its block;
  \<open>legal\<close> is what is assumed of those.
\<close>

type_synonym ('st, 'ev, 'd, 'e) layer =
  "('st, 'ev, 'd, 'e) dispatchable \<Rightarrow> ('st, 'ev, 'd, 'e) dispatchable"

inductive reachable ::
    "('st, 'ev, 'd, 'e) layer \<Rightarrow> ('x \<Rightarrow> ('st, 'ev, 'd, 'e) dispatchable) \<Rightarrow> ('x \<Rightarrow> bool) \<Rightarrow>
     'st \<Rightarrow> 'st \<Rightarrow> bool" for layer dispatch legal genesis where
  at_genesis: "reachable layer dispatch legal genesis genesis"
| extrinsic: "reachable layer dispatch legal genesis (store s) \<Longrightarrow> legal x \<Longrightarrow>
     layer (dispatch x) s = (r, t) \<Longrightarrow> reachable layer dispatch legal genesis (store t)"

inductive_cases reachable_elim: "reachable layer dispatch legal genesis st"

text \<open>The same as a function of the extrinsics, for concrete runs.\<close>

fun apply_all ::
    "('st, 'ev, 'd, 'e) layer \<Rightarrow> ('x \<Rightarrow> ('st, 'ev, 'd, 'e) dispatchable) \<Rightarrow> 'st \<Rightarrow> 'x list \<Rightarrow> 'st" where
  "apply_all layer dispatch st [] = st"
| "apply_all layer dispatch st (x # xs) =
     apply_all layer dispatch (store (snd (layer (dispatch x) (fresh_ext st)))) xs"

lemma reachable_apply_all:
  "reachable layer dispatch legal genesis st \<Longrightarrow> list_all legal xs \<Longrightarrow>
     reachable layer dispatch legal genesis (apply_all layer dispatch st xs)"
proof (induction xs arbitrary: st)
  case Nil
  then show ?case by simp
next
  case (Cons x xs)
  let ?s = "fresh_ext st"
  have "reachable layer dispatch legal genesis (store (snd (layer (dispatch x) ?s)))"
    by (rule reachable.extrinsic [where s = ?s and x = x and r = "fst (layer (dispatch x) ?s)"])
       (use Cons.prems in simp_all)
  with Cons show ?case by simp
qed

lemma apply_all_append:
  "apply_all layer dispatch st (xs @ ys) = apply_all layer dispatch (apply_all layer dispatch st xs) ys"
  by (induction xs arbitrary: st) simp_all

text \<open>
  The extrinsics of a block share the block's event log; \<open>apply_block\<close> keeps storage and log
  together.
\<close>

fun apply_block ::
    "('st, 'ev, 'd, 'e) layer \<Rightarrow> ('x \<Rightarrow> ('st, 'ev, 'd, 'e) dispatchable) \<Rightarrow>
     ('st, 'ev) ext \<Rightarrow> 'x list \<Rightarrow> ('st, 'ev) ext" where
  "apply_block layer dispatch s [] = s"
| "apply_block layer dispatch s (x # xs) =
     apply_block layer dispatch (snd (layer (dispatch x) s)) xs"

section \<open>Pallets whose events tell their storage\<close>

text \<open>
  \<open>holds st evs\<close> relates the storage to the events deposited since genesis.  A client that
  follows the events (an indexer) relies on such a relation after every block.
\<close>

locale logged_pallet =
  fixes dispatch :: "'x \<Rightarrow> ('st, 'ev, 'd, 'e) dispatchable"
    and legal :: "'x \<Rightarrow> bool"
    and genesis :: 'st
    and holds :: "'st \<Rightarrow> 'ev list \<Rightarrow> bool"
  assumes genesis_holds: "holds genesis []"
    and dispatch_holds: "legal x \<Longrightarrow> holds (store s) (deposited s) \<Longrightarrow> dispatch x s = (Inr (), t) \<Longrightarrow>
      holds (store t) (deposited t)"
begin

lemma layered_holds:
  assumes "storage_layer layer" "legal x" "holds (store s) (deposited s)"
  shows "holds (store (snd (layer (dispatch x) s))) (deposited (snd (layer (dispatch x) s)))"
  using assms(1)
proof (rule storage_layer_cases [where m = "dispatch x" and s = s])
  fix u assume "dispatch x s = (Inr (), u)" "layer (dispatch x) s = (Inr (), u)"
  with assms(2,3) show ?thesis using dispatch_holds by auto
next
  fix e u assume "layer (dispatch x) s = (Inl e, u)" "store u = store s" "deposited u = deposited s"
  with assms(3) show ?thesis by auto
qed

lemma block_holds:
  assumes "storage_layer layer" "list_all legal xs" "holds (store s) (deposited s)"
  shows "holds (store (apply_block layer dispatch s xs)) (deposited (apply_block layer dispatch s xs))"
  using assms(2,3)
  by (induction xs arbitrary: s) (auto intro: layered_holds [OF assms(1)])

lemma genesis_block_holds:
  assumes "storage_layer layer" "list_all legal xs"
  shows "holds (store (apply_block layer dispatch (fresh_ext genesis) xs))
    (deposited (apply_block layer dispatch (fresh_ext genesis) xs))"
  by (rule block_holds [OF assms]) (simp add: genesis_holds)

end

section \<open>The contract\<close>

locale pallet_contract =
  fixes dispatch :: "'x \<Rightarrow> ('st, 'ev, 'd, 'e) dispatchable"
    and legal :: "'x \<Rightarrow> bool"
    and genesis :: 'st
    and inv :: "'st \<Rightarrow> bool"
  assumes genesis_inv: "inv genesis"
    and dispatch_inv: "legal x \<Longrightarrow> inv (store s) \<Longrightarrow> dispatch x s = (Inr (), t) \<Longrightarrow> inv (store t)"
begin

text \<open>An invariant is the case where the events do not matter.\<close>

sublocale logged: logged_pallet dispatch legal genesis "\<lambda>st evs. inv st"
  by unfold_locales (auto intro: genesis_inv dispatch_inv)

lemma layered_inv:
  assumes "storage_layer layer" "legal x" "inv (store s)" "layer (dispatch x) s = (r, t)"
  shows "inv (store t)"
  using logged.layered_holds [OF assms(1-3)] assms(4) by simp

lemma reachable_inv:
  assumes "storage_layer layer" "reachable layer dispatch legal genesis st"
  shows "inv st"
  using assms(2) by induction (use assms(1) in \<open>auto intro: genesis_inv layered_inv\<close>)

lemma apply_all_inv:
  assumes "storage_layer layer" "inv st" "list_all legal xs"
  shows "inv (apply_all layer dispatch st xs)"
  using assms(2,3)
proof (induction xs arbitrary: st)
  case (Cons x xs)
  have "inv (store (snd (layer (dispatch x) (fresh_ext st))))"
    by (rule layered_inv [OF assms(1), of x "fresh_ext st" "fst (layer (dispatch x) (fresh_ext st))"])
       (use Cons.prems in simp_all)
  with Cons show ?case by simp
qed simp

lemma failed_keeps_inv:
  assumes "storage_layer layer" "inv (store s)" "layer (dispatch x) s = (Inl e, t)"
  shows "inv (store t) \<and> deposited t = deposited s"
  using storage_layer_Err [OF assms(1,3)] assms(2) by simp

end

end
