(* ===== verification/Profile_Pallet.thy ===== *)
theory Profile_Pallet
  imports Storage_Items Pallet_Contract
begin

text \<open>
  The user-profile pallet (\<open>pallets/user-profile/src/lib.rs\<close>): a profile per account, the
  account's race statistics, and an index from usernames to accounts that is meant to keep
  usernames unique.  This theory holds the data, the three dispatchables and the exact
  effect of each on every branch; the invariants are in \<open>Profile_Invariants\<close>.
\<close>

section \<open>Configuration and data\<close>

text \<open>The \<open>Config\<close> trait's two constants.\<close>

record profile_config =
  max_username_length :: u32
  max_bio_length :: u32

record 'a user_profile =
  account :: 'a
  username :: bytes
  avatar :: "bytes option"
  bio :: "bytes option"
  created_at :: u64

record user_stats =
  total_races :: u32
  wins :: u32
  total_distance :: u64
  total_rewards :: u128

text \<open>\<open>UserStats::default()\<close>, derived: every field zero.\<close>

definition default_stats :: user_stats where
  "default_stats = \<lparr>total_races = 0, wins = 0, total_distance = 0, total_rewards = 0\<rparr>"

record 'a profile_storage =
  profiles :: "'a \<rightharpoonup> 'a user_profile"
  user_stats_map :: "'a \<rightharpoonup> user_stats"
  username_to_account :: "bytes \<rightharpoonup> 'a"

definition profiles_item :: "('a profile_storage, 'a \<rightharpoonup> 'a user_profile) item" where
  "profiles_item = \<lparr>item_name = ''Profiles'', item_get = profiles, item_update = profiles_update\<rparr>"

definition user_stats_item :: "('a profile_storage, 'a \<rightharpoonup> user_stats) item" where
  "user_stats_item =
     \<lparr>item_name = ''UserStatsMap'', item_get = user_stats_map, item_update = user_stats_map_update\<rparr>"

definition username_item :: "('a profile_storage, bytes \<rightharpoonup> 'a) item" where
  "username_item =
     \<lparr>item_name = ''UsernameToAccount'', item_get = username_to_account,
      item_update = username_to_account_update\<rparr>"

lemma profile_item_simps [simp]:
  "item_name profiles_item = ''Profiles''"
  "item_get profiles_item = profiles"
  "item_update profiles_item = profiles_update"
  "item_name user_stats_item = ''UserStatsMap''"
  "item_get user_stats_item = user_stats_map"
  "item_update user_stats_item = user_stats_map_update"
  "item_name username_item = ''UsernameToAccount''"
  "item_get username_item = username_to_account"
  "item_update username_item = username_to_account_update"
  by (simp_all add: profiles_item_def user_stats_item_def username_item_def)

interpretation profiles: storage_map profiles_item
  by unfold_locales auto

interpretation user_stats: storage_map user_stats_item
  by unfold_locales auto

interpretation usernames: storage_map username_item
  by unfold_locales auto

interpretation profiles_stats: independent_items profiles_item user_stats_item
  by unfold_locales auto

interpretation profiles_usernames: independent_items profiles_item username_item
  by unfold_locales auto

datatype 'a profile_event =
    UsernameSet 'a bytes
  | ProfileUpdated 'a "bytes option" "bytes option option" "bytes option option"
  | StatsUpdated 'a u32 u32 u64 u128

datatype profile_error = UsernameTaken | UsernameTooLong | BioTooLong

type_synonym ('a, 'd) profile_action =
  "('a profile_storage, 'a profile_event, 'd, profile_error) dispatchable"

section \<open>Dispatchables\<close>

definition set_username ::
    "profile_config \<Rightarrow> ('o, 'a, 'd) frame \<Rightarrow> 'o \<Rightarrow> bytes \<Rightarrow> ('a, 'd) profile_action" where
  "set_username C F origin name =
     try_then (from_result (map_sum Framework id (ensure_signed F origin))) (\<lambda>who.
     try_then (ok_or (Module UsernameTooLong) (bounded_try_from F (max_username_length C) name))
       (\<lambda>username_bounded.
     try_then (map_get username_item username_bounded) (\<lambda>taken.
     try_then (case taken of
         Some existing_account \<Rightarrow> ensure (existing_account = who) (Module UsernameTaken)
       | None \<Rightarrow> done_with ()) (\<lambda>_.
     try_then (map_get profiles_item who) (\<lambda>existing.
     try_then (case existing of
         Some existing_profile \<Rightarrow>
           try_then (map_remove username_item (username existing_profile)) (\<lambda>_.
           done_with (created_at existing_profile))
       | None \<Rightarrow>
           try_then (map_insert user_stats_item who default_stats) (\<lambda>_.
           done_with (saturated_into_u64 F (block_number F)))) (\<lambda>created.
     let profile = \<lparr>account = who, username = username_bounded, avatar = None, bio = None,
                    created_at = created\<rparr> in
     try_then (map_insert profiles_item who profile) (\<lambda>_.
     try_then (map_insert username_item username_bounded who) (\<lambda>_.
     try_then (deposit_event (UsernameSet who username_bounded)) (\<lambda>_.
     done_with ())))))))))"

text \<open>
  \<open>option.map(|v| BoundedVec::try_from(v).map_err(..)).transpose()?\<close>: no value stays no
  value, a value that is too long is the given error.
\<close>

definition try_bound ::
    "('o, 'a, 'd) frame \<Rightarrow> u32 \<Rightarrow> 'e \<Rightarrow> bytes option \<Rightarrow> ('x, 'e, bytes option) action" where
  "try_bound F n e v = (case v of
     None \<Rightarrow> done_with None
   | Some b \<Rightarrow> try_then (ok_or e (bounded_try_from F n b)) (\<lambda>b'. done_with (Some b')))"

text \<open>\<open>BoundedVec::try_from(v).unwrap_or_default()\<close>, used for the fields of the event.\<close>

definition bound_or_default :: "('o, 'a, 'd) frame \<Rightarrow> u32 \<Rightarrow> bytes \<Rightarrow> bytes" where
  "bound_or_default F n v = (case bounded_try_from F n v of Some b \<Rightarrow> b | None \<Rightarrow> bounded_default F)"

text \<open>The block of \<open>update_profile\<close> that moves the account to a new username.\<close>

definition change_username ::
    "profile_config \<Rightarrow> ('o, 'a, 'd) frame \<Rightarrow> 'a \<Rightarrow> 'a user_profile \<Rightarrow> bytes \<Rightarrow>
     (('a profile_storage, 'a profile_event) ext, ('d, profile_error) dispatch_error, 'a user_profile) action" where
  "change_username C F who profile new_username =
     try_then (ok_or (Module UsernameTooLong) (bounded_try_from F (max_username_length C) new_username))
       (\<lambda>username_bounded.
     try_then (map_get username_item username_bounded) (\<lambda>taken.
     try_then (case taken of
         Some existing_account \<Rightarrow>
           if existing_account \<noteq> who then fail_with (Module UsernameTaken) else done_with ()
       | None \<Rightarrow> done_with ()) (\<lambda>_.
     try_then (map_remove username_item (username profile)) (\<lambda>_.
     try_then (map_insert username_item username_bounded who) (\<lambda>_.
     done_with (profile\<lparr>username := username_bounded\<rparr>))))))"

definition update_profile ::
    "profile_config \<Rightarrow> ('o, 'a, 'd) frame \<Rightarrow> 'o \<Rightarrow> bytes option \<Rightarrow> bytes option option \<Rightarrow>
     bytes option option \<Rightarrow> ('a, 'd) profile_action" where
  "update_profile C F origin uname av bi =
     try_then (from_result (map_sum Framework id (ensure_signed F origin))) (\<lambda>who.
     try_then (map_get profiles_item who) (\<lambda>existing.
     let profile0 = (case existing of
         Some p \<Rightarrow> p
       | None \<Rightarrow> \<lparr>account = who, username = bounded_default F, avatar = None, bio = None,
                  created_at = saturated_into_u64 F (block_number F)\<rparr>) in
     try_then (map_contains_key user_stats_item who) (\<lambda>has_stats.
     try_then (if \<not> has_stats then map_insert user_stats_item who default_stats else done_with ()) (\<lambda>_.
     try_then (case uname of
         Some new_username \<Rightarrow> change_username C F who profile0 new_username
       | None \<Rightarrow> done_with profile0) (\<lambda>profile1.
     try_then (case av of
         Some avatar_option \<Rightarrow>
           try_then (try_bound F (max_username_length C) (Module UsernameTooLong) avatar_option) (\<lambda>v.
           done_with (profile1\<lparr>avatar := v\<rparr>))
       | None \<Rightarrow> done_with profile1) (\<lambda>profile2.
     try_then (case bi of
         Some bio_option \<Rightarrow>
           try_then (try_bound F (max_bio_length C) (Module BioTooLong) bio_option) (\<lambda>v.
           done_with (profile2\<lparr>bio := v\<rparr>))
       | None \<Rightarrow> done_with profile2) (\<lambda>profile3.
     try_then (map_insert profiles_item who profile3) (\<lambda>_.
     try_then (deposit_event (ProfileUpdated who
         (map_option (bound_or_default F (max_username_length C)) uname)
         (map_option (map_option (bound_or_default F (max_username_length C))) av)
         (map_option (map_option (bound_or_default F (max_bio_length C))) bi))) (\<lambda>_.
     done_with ())))))))))"

text \<open>The four optional fields of \<open>update_stats\<close>.\<close>

definition set_stats ::
    "u32 option \<Rightarrow> u32 option \<Rightarrow> u64 option \<Rightarrow> u128 option \<Rightarrow> user_stats \<Rightarrow> user_stats" where
  "set_stats races w distance rewards stats0 =
     (let stats1 = (case races of Some r \<Rightarrow> stats0\<lparr>total_races := r\<rparr> | None \<Rightarrow> stats0);
          stats2 = (case w of Some x \<Rightarrow> stats1\<lparr>wins := x\<rparr> | None \<Rightarrow> stats1);
          stats3 = (case distance of Some d \<Rightarrow> stats2\<lparr>total_distance := d\<rparr> | None \<Rightarrow> stats2)
      in (case rewards of Some r \<Rightarrow> stats3\<lparr>total_rewards := r\<rparr> | None \<Rightarrow> stats3))"

definition update_stats ::
    "('o, 'a, 'd) frame \<Rightarrow> 'o \<Rightarrow> u32 option \<Rightarrow> u32 option \<Rightarrow> u64 option \<Rightarrow> u128 option \<Rightarrow>
     ('a, 'd) profile_action" where
  "update_stats F origin races w distance rewards =
     try_then (from_result (map_sum Framework id (ensure_signed F origin))) (\<lambda>who.
     try_then (map_get user_stats_item who) (\<lambda>existing.
     let stats = set_stats races w distance rewards
           (case existing of Some s \<Rightarrow> s | None \<Rightarrow> default_stats) in
     try_then (map_insert user_stats_item who stats) (\<lambda>_.
     try_then (deposit_event (StatsUpdated who (total_races stats) (wins stats)
         (total_distance stats) (total_rewards stats))) (\<lambda>_.
     done_with ()))))"

text \<open>The \<open>Call\<close> enum and its dispatch.\<close>

datatype profile_call =
    Set_username bytes
  | Update_profile "bytes option" "bytes option option" "bytes option option"
  | Update_stats "u32 option" "u32 option" "u64 option" "u128 option"

fun profile_dispatch ::
    "profile_config \<Rightarrow> ('o, 'a, 'd) frame \<Rightarrow> 'o \<Rightarrow> profile_call \<Rightarrow> ('a, 'd) profile_action" where
  "profile_dispatch C F origin (Set_username u) = set_username C F origin u"
| "profile_dispatch C F origin (Update_profile u v b) = update_profile C F origin u v b"
| "profile_dispatch C F origin (Update_stats r w d x) = update_stats F origin r w d x"

fun profile_call_index :: "profile_call \<Rightarrow> nat" where
  "profile_call_index (Set_username u) = 0"
| "profile_call_index (Update_profile u v b) = 1"
| "profile_call_index (Update_stats r w d x) = 2"

definition profile_genesis :: "'a profile_storage" where
  "profile_genesis = \<lparr>profiles = Map.empty, user_stats_map = Map.empty, username_to_account = Map.empty\<rparr>"

end
