(* ===== verification/Profile_Effects.thy ===== *)
theory Profile_Effects
  imports Profile_Pallet
begin

text \<open>
  What the calls of the user-profile pallet do, as closed descriptions: which verdict a call
  gets (the errors in the order the code checks them) and the storage a successful call
  leaves.  The lemmas \<open>set_username_eq\<close>, \<open>update_profile_eq\<close> and \<open>update_stats_eq\<close> say that
  the dispatchables do exactly that; every later proof rests on them.
\<close>

section \<open>Verdicts\<close>

definition too_long :: "u32 \<Rightarrow> bytes \<Rightarrow> bool" where
  "too_long n v \<longleftrightarrow> unat n < length v"

definition taken_by_other :: "'a profile_storage \<Rightarrow> 'a \<Rightarrow> bytes \<Rightarrow> bool" where
  "taken_by_other st who name \<longleftrightarrow>
     (case username_to_account st name of Some b \<Rightarrow> b \<noteq> who | None \<Rightarrow> False)"

definition username_verdict :: "profile_config \<Rightarrow> 'a profile_storage \<Rightarrow> 'a \<Rightarrow> bytes \<Rightarrow> profile_error option" where
  "username_verdict C st who name =
     (if too_long (max_username_length C) name then Some UsernameTooLong
      else if taken_by_other st who name then Some UsernameTaken else None)"

definition update_verdict ::
    "profile_config \<Rightarrow> 'a profile_storage \<Rightarrow> 'a \<Rightarrow> bytes option \<Rightarrow> bytes option option \<Rightarrow>
     bytes option option \<Rightarrow> profile_error option" where
  "update_verdict C st who u av bi =
     (case Option.bind u (username_verdict C st who) of
        Some e \<Rightarrow> Some e
      | None \<Rightarrow>
          if (case av of Some (Some v) \<Rightarrow> too_long (max_username_length C) v | _ \<Rightarrow> False)
          then Some UsernameTooLong
          else if (case bi of Some (Some v) \<Rightarrow> too_long (max_bio_length C) v | _ \<Rightarrow> False)
          then Some BioTooLong else None)"

section \<open>Storage after a success\<close>

definition now :: "('o, 'a, 'd) frame \<Rightarrow> u64" where
  "now F = saturated_into_u64 F (block_number F)"

definition move_username :: "'a \<Rightarrow> bytes \<Rightarrow> bytes \<Rightarrow> (bytes \<rightharpoonup> 'a) \<Rightarrow> (bytes \<rightharpoonup> 'a)" where
  "move_username who old new names = (names(old := None))(new \<mapsto> who)"

definition named_storage :: "u64 \<Rightarrow> 'a \<Rightarrow> bytes \<Rightarrow> 'a profile_storage \<Rightarrow> 'a profile_storage" where
  "named_storage t who name st = (case profiles st who of
     Some p \<Rightarrow> st\<lparr>
       profiles := (profiles st)(who \<mapsto> \<lparr>account = who, username = name, avatar = None,
                                         bio = None, created_at = created_at p\<rparr>),
       username_to_account := move_username who (username p) name (username_to_account st)\<rparr>
   | None \<Rightarrow> st\<lparr>
       profiles := (profiles st)(who \<mapsto> \<lparr>account = who, username = name, avatar = None,
                                         bio = None, created_at = t\<rparr>),
       user_stats_map := (user_stats_map st)(who \<mapsto> default_stats),
       username_to_account := (username_to_account st)(name \<mapsto> who)\<rparr>)"

definition base_profile :: "u64 \<Rightarrow> 'a \<Rightarrow> 'a profile_storage \<Rightarrow> 'a user_profile" where
  "base_profile t who st = (case profiles st who of
     Some p \<Rightarrow> p
   | None \<Rightarrow> \<lparr>account = who, username = [], avatar = None, bio = None, created_at = t\<rparr>)"

definition edit_profile ::
    "bytes option \<Rightarrow> bytes option option \<Rightarrow> bytes option option \<Rightarrow> 'a user_profile \<Rightarrow> 'a user_profile" where
  "edit_profile u av bi p =
     p\<lparr>username := case_option (username p) id u,
       avatar := case_option (avatar p) id av,
       bio := case_option (bio p) id bi\<rparr>"

definition updated_storage ::
    "u64 \<Rightarrow> 'a \<Rightarrow> bytes option \<Rightarrow> bytes option option \<Rightarrow> bytes option option \<Rightarrow>
     'a profile_storage \<Rightarrow> 'a profile_storage" where
  "updated_storage t who u av bi st =
     (let p = base_profile t who st in st\<lparr>
        profiles := (profiles st)(who \<mapsto> edit_profile u av bi p),
        user_stats_map := (if user_stats_map st who = None
                           then (user_stats_map st)(who \<mapsto> default_stats) else user_stats_map st),
        username_to_account := (case u of
            None \<Rightarrow> username_to_account st
          | Some name \<Rightarrow> move_username who (username p) name (username_to_account st))\<rparr>)"

definition stats_storage ::
    "'a \<Rightarrow> u32 option \<Rightarrow> u32 option \<Rightarrow> u64 option \<Rightarrow> u128 option \<Rightarrow>
     'a profile_storage \<Rightarrow> 'a profile_storage" where
  "stats_storage who r w d x st = st\<lparr>user_stats_map := (user_stats_map st)(who \<mapsto>
     set_stats r w d x (case_option default_stats id (user_stats_map st who)))\<rparr>"

lemma move_username_abs: "move_username who old new = (\<lambda>m. m(old := None, new \<mapsto> who))"
  by (rule ext) (simp add: move_username_def)

section \<open>The dispatchables meet the description\<close>

lemma wp_try_bound [wp_rules]:
  "bounded_vec_ok F \<Longrightarrow> wp (try_bound F n e v) Q E s =
     (if (case v of Some b \<Rightarrow> too_long n b | None \<Rightarrow> False) then E e s else Q v s)"
  by (auto simp: try_bound_def wp_rules bounded_ok too_long_def split: option.splits)

lemma wp_change_username [wp_rules]:
  "bounded_vec_ok F \<Longrightarrow> wp (change_username C F who p name) Q E s =
     (if too_long (max_username_length C) name then E (Module UsernameTooLong) s
      else if taken_by_other (store s) who name
      then E (Module UsernameTaken) (s\<lparr>accesses := accesses s @ [Read ''UsernameToAccount'']\<rparr>)
      else Q (p\<lparr>username := name\<rparr>)
        (s\<lparr>store := username_to_account_update (move_username who (username p) name) (store s),
           accesses := accesses s @ [Read ''UsernameToAccount'', Write ''UsernameToAccount'',
                                     Write ''UsernameToAccount'']\<rparr>))"
  by (auto simp: change_username_def wp_rules bounded_ok too_long_def taken_by_other_def
        move_username_abs comp_def split: option.splits)

lemma set_username_eq:
  assumes "bounded_vec_ok F"
  shows "set_username C F origin name s = (case ensure_signed F origin of
     Inl d \<Rightarrow> (Inl (Framework d), s)
   | Inr who \<Rightarrow> (case username_verdict C (store s) who name of
       Some e \<Rightarrow> (Inl (Module e),
          if e = UsernameTaken
          then s\<lparr>accesses := accesses s @ [Read ''UsernameToAccount'']\<rparr> else s)
     | None \<Rightarrow> (Inr (), s\<lparr>
         store := named_storage (now F) who name (store s),
         deposited := deposited s @ [UsernameSet who name],
         accesses := accesses s @ [Read ''UsernameToAccount'', Read ''Profiles'',
           Write (if profiles (store s) who = None then ''UserStatsMap'' else ''UsernameToAccount''),
           Write ''Profiles'', Write ''UsernameToAccount'']\<rparr>)))"
  using assms
  by (intro wp_exact)
     (auto simp: set_username_def wp_rules bounded_ok username_verdict_def too_long_def
        taken_by_other_def named_storage_def move_username_def now_def comp_def
        split: sum.split option.split)

lemma update_stats_eq:
  "update_stats F origin r w d x s = (case ensure_signed F origin of
     Inl e \<Rightarrow> (Inl (Framework e), s)
   | Inr who \<Rightarrow> (let st = set_stats r w d x (case_option default_stats id (user_stats_map (store s) who))
      in (Inr (), s\<lparr>
        store := stats_storage who r w d x (store s),
        deposited := deposited s @ [StatsUpdated who (total_races st) (wins st) (total_distance st) (total_rewards st)],
        accesses := accesses s @ [Read ''UserStatsMap'', Write ''UserStatsMap'']\<rparr>)))"
  by (rule wp_exact)
     (simp add: update_stats_def wp_rules stats_storage_def Let_def split: sum.split option.split)

lemma bound_or_default_ok:
  "bounded_vec_ok F \<Longrightarrow> bound_or_default F n v = (if too_long n v then [] else v)"
  by (simp add: bound_or_default_def bounded_ok too_long_def)

text \<open>
  \<open>update_profile\<close>: the result is the verdict, and a success leaves the described storage.
  The state of a failing body is not described here (it can hold a half-done username
  change, which is what the storage layer is for).
\<close>

lemma update_profile_wp:
  assumes "bounded_vec_ok F"
  shows "wp (update_profile C F origin u av bi)
     (\<lambda>_ t. \<exists>who. ensure_signed F origin = Inr who \<and> update_verdict C (store s) who u av bi = None \<and>
        store t = updated_storage (now F) who u av bi (store s) \<and>
        deposited t = deposited s @ [ProfileUpdated who u av bi])
     (\<lambda>e t. (case ensure_signed F origin of
        Inl d \<Rightarrow> e = Framework d \<and> t = s
      | Inr who \<Rightarrow> \<exists>e'. update_verdict C (store s) who u av bi = Some e' \<and> e = Module e' \<and>
          deposited t = deposited s)) s"
proof (cases "ensure_signed F origin")
  case (Inl d)
  then show ?thesis by (simp add: update_profile_def wp_rules)
next
  case (Inr who)
  note defs = update_profile_def update_verdict_def username_verdict_def updated_storage_def
    base_profile_def edit_profile_def now_def
  show ?thesis
    using assms Inr
    by (cases u; cases av; cases bi)
       (auto simp: defs wp_rules bounded_ok bound_or_default_ok comp_def taken_by_other_def
          split: option.splits if_splits)
qed

lemma update_profile_OkD:
  assumes "bounded_vec_ok F" "update_profile C F origin u av bi s = (Inr (), t)"
  obtains who where "ensure_signed F origin = Inr who"
    "update_verdict C (store s) who u av bi = None"
    "store t = updated_storage (now F) who u av bi (store s)"
    "deposited t = deposited s @ [ProfileUpdated who u av bi]"
  using wp_OkD [OF assms(2) update_profile_wp [OF assms(1)]] by blast

lemma set_username_OkD:
  assumes "bounded_vec_ok F" "set_username C F origin name s = (Inr (), t)"
  obtains who where "ensure_signed F origin = Inr who"
    "username_verdict C (store s) who name = None"
    "store t = named_storage (now F) who name (store s)"
    "deposited t = deposited s @ [UsernameSet who name]"
  using assms by (auto simp: set_username_eq split: sum.splits option.splits)

definition stats_event :: "'a \<Rightarrow> user_stats \<Rightarrow> 'a profile_event" where
  "stats_event who st =
     StatsUpdated who (total_races st) (wins st) (total_distance st) (total_rewards st)"

lemma update_stats_OkD:
  assumes "update_stats F origin r w d x s = (Inr (), t)"
  obtains who where "ensure_signed F origin = Inr who"
    "store t = stats_storage who r w d x (store s)"
    "deposited t = deposited s @ [stats_event who
       (set_stats r w d x (case_option default_stats id (user_stats_map (store s) who)))]"
  using assms by (auto simp: update_stats_eq Let_def stats_event_def split: sum.splits)

text \<open>One case per call, with the storage the successful call leaves.\<close>

lemma profile_dispatch_OkD:
  assumes "bounded_vec_ok F" "profile_dispatch C F origin c s = (Inr (), t)"
  obtains (named) who name where "c = Set_username name" "ensure_signed F origin = Inr who"
      "username_verdict C (store s) who name = None"
      "store t = named_storage (now F) who name (store s)"
      "deposited t = deposited s @ [UsernameSet who name]"
  | (updated) who u av bi where "c = Update_profile u av bi" "ensure_signed F origin = Inr who"
      "update_verdict C (store s) who u av bi = None"
      "store t = updated_storage (now F) who u av bi (store s)"
      "deposited t = deposited s @ [ProfileUpdated who u av bi]"
  | (stats) who r w d x where "c = Update_stats r w d x" "ensure_signed F origin = Inr who"
      "store t = stats_storage who r w d x (store s)"
      "deposited t = deposited s @ [stats_event who
         (set_stats r w d x (case_option default_stats id (user_stats_map (store s) who)))]"
proof (cases c)
  case (Set_username name)
  with assms show ?thesis by (auto intro: named elim: set_username_OkD)
next
  case (Update_profile u av bi)
  with assms show ?thesis by (auto intro: updated elim: update_profile_OkD)
next
  case (Update_stats r w d x)
  with assms show ?thesis by (auto intro: stats elim: update_stats_OkD)
qed

end
