(* ===== verification/Profile_Invariants.thy ===== *)
theory Profile_Invariants
  imports Profile_Effects
begin

text \<open>
  The invariant of the user-profile pallet and its preservation by every call.  The index is
  sound (an entry leads to a profile with that username) and complete for non-empty
  usernames (a profile's non-empty username leads back to its account).  It is not complete
  for the empty username: \<open>update_profile\<close> gives a new account the empty username without
  an index entry, and removing "the old username" of such an account removes whatever entry
  the empty username has.
\<close>

section \<open>The invariant\<close>

definition index_sound :: "'a profile_storage \<Rightarrow> bool" where
  "index_sound st \<longleftrightarrow> (\<forall>u a. username_to_account st u = Some a \<longrightarrow>
     (\<exists>p. profiles st a = Some p \<and> username p = u))"

definition index_complete :: "'a profile_storage \<Rightarrow> bool" where
  "index_complete st \<longleftrightarrow> (\<forall>a p. profiles st a = Some p \<and> username p \<noteq> [] \<longrightarrow>
     username_to_account st (username p) = Some a)"

definition profile_bounded :: "profile_config \<Rightarrow> 'a user_profile \<Rightarrow> bool" where
  "profile_bounded C p \<longleftrightarrow> \<not> too_long (max_username_length C) (username p) \<and>
     (\<forall>v. avatar p = Some v \<longrightarrow> \<not> too_long (max_username_length C) v) \<and>
     (\<forall>v. bio p = Some v \<longrightarrow> \<not> too_long (max_bio_length C) v)"

definition profiles_wf :: "profile_config \<Rightarrow> 'a profile_storage \<Rightarrow> bool" where
  "profiles_wf C st \<longleftrightarrow> (\<forall>a p. profiles st a = Some p \<longrightarrow>
     account p = a \<and> profile_bounded C p \<and> user_stats_map st a \<noteq> None)"

definition profile_inv :: "profile_config \<Rightarrow> 'a profile_storage \<Rightarrow> bool" where
  "profile_inv C st \<longleftrightarrow> index_sound st \<and> index_complete st \<and> profiles_wf C st"

lemma profile_invI:
  "index_sound st \<Longrightarrow> index_complete st \<Longrightarrow> profiles_wf C st \<Longrightarrow> profile_inv C st"
  by (simp add: profile_inv_def)

lemma profile_invD:
  assumes "profile_inv C st"
  shows "index_sound st" "index_complete st" "profiles_wf C st"
  using assms by (simp_all add: profile_inv_def)

lemma index_iff:
  assumes "profile_inv C st" "u \<noteq> []"
  shows "username_to_account st u = Some a \<longleftrightarrow> (\<exists>p. profiles st a = Some p \<and> username p = u)"
  using profile_invD(1,2) [OF assms(1)] assms(2)
  unfolding index_sound_def index_complete_def by metis

section \<open>Moving a username in the index\<close>

text \<open>
  Both username changes move one account from its old username to a free one.  For the
  index this is one step, stated for any profile map that gives the account the new name
  and keeps the others.
\<close>

lemma index_sound_move:
  assumes "index_sound st" "profiles st' = (profiles st)(who \<mapsto> p)" "username p = name"
    and "username_to_account st' = move_username who old name (username_to_account st)"
    and "\<And>q. profiles st who = Some q \<Longrightarrow> username q = old"
  shows "index_sound st'"
  using assms unfolding index_sound_def move_username_def
  by (auto split: if_splits)

lemma index_complete_move:
  assumes "index_complete st" "profiles st' = (profiles st)(who \<mapsto> p)" "username p = name"
    and "username_to_account st' = move_username who old name (username_to_account st)"
    and "\<not> taken_by_other st who name"
    and "old \<noteq> [] \<Longrightarrow> old \<noteq> name \<Longrightarrow> username_to_account st old = Some who"
  shows "index_complete st'"
  unfolding index_complete_def
proof (intro allI impI)
  fix a q assume q: "profiles st' a = Some q \<and> username q \<noteq> []"
  show "username_to_account st' (username q) = Some a"
  proof (cases "a = who")
    case True
    with q assms(2-4) show ?thesis by (simp add: move_username_def)
  next
    case False
    with q assms(1,2) have "username_to_account st (username q) = Some a"
      by (auto simp: index_complete_def)
    moreover from this False assms(5) have "username q \<noteq> name"
      by (auto simp: taken_by_other_def)
    moreover from False q assms(6) calculation have "username q \<noteq> old" by auto
    ultimately show ?thesis using assms(4) by (simp add: move_username_def)
  qed
qed

lemma index_keep:
  assumes "profiles st' = (profiles st)(who \<mapsto> p)"
    and "username_to_account st' = username_to_account st"
    and "(case profiles st who of Some q \<Rightarrow> username p = username q | None \<Rightarrow> username p = [])"
  shows "index_sound st \<Longrightarrow> index_sound st'" "index_complete st \<Longrightarrow> index_complete st'"
  using assms unfolding index_sound_def index_complete_def
  by (fastforce split: option.splits if_splits)+

section \<open>Preservation\<close>

lemma base_profile_username:
  "profiles st who = Some q \<Longrightarrow> username q = username (base_profile t who st)"
  by (simp add: base_profile_def)

lemma base_profile_indexed:
  assumes "index_complete st" "username (base_profile t who st) \<noteq> []"
  shows "username_to_account st (username (base_profile t who st)) = Some who"
  using assms by (auto simp: base_profile_def index_complete_def split: option.splits)

lemma username_verdict_None:
  "username_verdict C st who name = None \<longleftrightarrow>
     \<not> too_long (max_username_length C) name \<and> \<not> taken_by_other st who name"
  by (simp add: username_verdict_def)

lemma move_free:
  "move_username who name name names = names(name \<mapsto> who)"
  by (simp add: move_username_def)

text \<open>\<open>set_username\<close> is such a move; a new account moves from the name itself.\<close>

definition named_from :: "'a profile_storage \<Rightarrow> 'a \<Rightarrow> bytes \<Rightarrow> bytes" where
  "named_from st who name = (case profiles st who of Some q \<Rightarrow> username q | None \<Rightarrow> name)"

lemma named_storage_move:
  "profiles (named_storage t who name st) = (profiles st)(who \<mapsto>
     \<lparr>account = who, username = name, avatar = None, bio = None,
      created_at = created_at (base_profile t who st)\<rparr>)"
  "username_to_account (named_storage t who name st) =
     move_username who (named_from st who name) name (username_to_account st)"
  by (simp_all add: named_storage_def named_from_def base_profile_def move_free split: option.split)

lemma named_from_indexed:
  assumes "index_complete st" "named_from st who name \<noteq> []" "named_from st who name \<noteq> name"
  shows "username_to_account st (named_from st who name) = Some who"
  using assms by (auto simp: index_complete_def named_from_def split: option.splits)

lemma named_storage_index:
  assumes "profile_inv C st" "username_verdict C st who name = None"
  shows "index_sound (named_storage t who name st)" "index_complete (named_storage t who name st)"
proof -
  note inv = profile_invD [OF assms(1)]
  have free: "\<not> taken_by_other st who name" using assms(2) by (simp add: username_verdict_None)
  show "index_sound (named_storage t who name st)"
    by (rule index_sound_move [OF inv(1) named_storage_move(1) _ named_storage_move(2)])
       (simp_all add: named_from_def)
  show "index_complete (named_storage t who name st)"
    by (rule index_complete_move [OF inv(2) named_storage_move(1) _ named_storage_move(2) free])
       (simp_all add: named_from_indexed [OF inv(2)])
qed

lemma named_storage_inv:
  assumes "profile_inv C st" "username_verdict C st who name = None"
  shows "profile_inv C (named_storage t who name st)"
proof (rule profile_invI)
  show "profiles_wf C (named_storage t who name st)"
    using profile_invD(3) [OF assms(1)] assms(2)
    by (auto simp: profiles_wf_def named_storage_def profile_bounded_def username_verdict_None
        split: option.splits)
qed (use named_storage_index [OF assms] in blast)+

lemma update_verdict_None:
  assumes "update_verdict C st who u av bi = None"
  shows "\<And>name. u = Some name \<Longrightarrow> username_verdict C st who name = None"
    and "\<And>v. av = Some (Some v) \<Longrightarrow> \<not> too_long (max_username_length C) v"
    and "\<And>v. bi = Some (Some v) \<Longrightarrow> \<not> too_long (max_bio_length C) v"
  using assms by (auto simp: update_verdict_def split: option.splits if_splits)

lemma updated_storage_index:
  assumes "profile_inv C st" "update_verdict C st who u av bi = None"
  shows "index_sound (updated_storage t who u av bi st)"
    and "index_complete (updated_storage t who u av bi st)"
proof -
  let ?st = "updated_storage t who u av bi st" and ?b = "base_profile t who st"
  let ?p = "edit_profile u av bi ?b"
  have pr: "profiles ?st = (profiles st)(who \<mapsto> ?p)"
    by (simp add: updated_storage_def Let_def)
  have "index_sound ?st \<and> index_complete ?st"
  proof (cases u)
    case None
    then have same: "username_to_account ?st = username_to_account st"
      "(case profiles st who of Some q \<Rightarrow> username ?p = username q | None \<Rightarrow> username ?p = [])"
      by (simp_all add: updated_storage_def Let_def edit_profile_def base_profile_def split: option.split)
    show ?thesis
      using index_keep [OF pr same] profile_invD [OF assms(1)] by simp
  next
    case (Some name)
    then have mv: "username_to_account ?st = move_username who (username ?b) name (username_to_account st)"
      "username ?p = name"
      by (simp_all add: updated_storage_def Let_def edit_profile_def)
    have "\<not> taken_by_other st who name"
      using update_verdict_None(1) [OF assms(2) Some] by (simp add: username_verdict_None)
    with index_sound_move [OF profile_invD(1) [OF assms(1)] pr mv(2,1)]
      index_complete_move [OF profile_invD(2) [OF assms(1)] pr mv(2,1)]
      base_profile_indexed [OF profile_invD(2) [OF assms(1)]] base_profile_username
    show ?thesis by metis
  qed
  then show "index_sound ?st" "index_complete ?st" by simp_all
qed

lemma updated_storage_inv:
  assumes "profile_inv C st" "update_verdict C st who u av bi = None"
  shows "profile_inv C (updated_storage t who u av bi st)"
proof (rule profile_invI)
  have wf: "profiles_wf C st" using assms(1) by (rule profile_invD)
  have b: "account (base_profile t who st) = who" "profile_bounded C (base_profile t who st)"
    using wf by (auto simp: base_profile_def profiles_wf_def profile_bounded_def too_long_def
        split: option.splits)
  have "profile_bounded C (edit_profile u av bi (base_profile t who st))"
    using b(2) update_verdict_None [OF assms(2)]
    by (auto simp: profile_bounded_def edit_profile_def username_verdict_None split: option.splits)
  then show "profiles_wf C (updated_storage t who u av bi st)"
    using wf b(1) by (auto simp: profiles_wf_def updated_storage_def Let_def edit_profile_def)
qed (use updated_storage_index [OF assms] in blast)+

lemma stats_storage_inv: "profile_inv C st \<Longrightarrow> profile_inv C (stats_storage who r w d x st)"
  by (auto simp: profile_inv_def index_sound_def index_complete_def profiles_wf_def stats_storage_def)

lemma profile_genesis_inv: "profile_inv C profile_genesis"
  by (simp add: profile_inv_def index_sound_def index_complete_def profiles_wf_def profile_genesis_def)

lemma profile_dispatch_inv:
  assumes "bounded_vec_ok F" "profile_inv C (store s)" "profile_dispatch C F origin c s = (Inr (), t)"
  shows "profile_inv C (store t)"
  using assms(1,3)
  by (rule profile_dispatch_OkD)
     (use assms(2) in \<open>simp_all add: named_storage_inv updated_storage_inv stats_storage_inv\<close>)

section \<open>The pallet as a provider of the contract\<close>

type_synonym ('o, 'a, 'd) profile_extrinsic = "('o, 'a, 'd) frame \<times> 'o \<times> profile_call"

definition profile_apply ::
    "profile_config \<Rightarrow> ('o, 'a, 'd) profile_extrinsic \<Rightarrow> ('a, 'd) profile_action" where
  "profile_apply C x = (case x of (F, origin, c) \<Rightarrow> profile_dispatch C F origin c)"

definition profile_legal :: "('o, 'a, 'd) profile_extrinsic \<Rightarrow> bool" where
  "profile_legal x \<longleftrightarrow> bounded_vec_ok (fst x)"

interpretation profile: pallet_contract "profile_apply C" profile_legal profile_genesis "profile_inv C"
  for C
  by unfold_locales
     (auto simp: profile_genesis_inv profile_apply_def profile_legal_def
       intro: profile_dispatch_inv split: prod.splits)

end
