(* ===== verification/Profile_Registry.thy ===== *)
theory Profile_Registry
  imports Profile_Invariants
begin

text \<open>
  The abstract contract of the pallet's usernames and the facts about runs that the
  properties rest on: a registry maps each named account to its non-empty username, a call
  claims a username or none, and a claim of a name that another account holds is refused.
  The calls of the pallet are simulated by it (\<open>registry_simulation\<close>,
  \<open>registry_rejection\<close>).  The configuration of the pallet's own test runtime and a short
  run of it serve the witnesses.
\<close>

section \<open>The registry\<close>

definition registry :: "'a profile_storage \<Rightarrow> 'a \<rightharpoonup> bytes" where
  "registry st = (\<lambda>a. case profiles st a of
     Some p \<Rightarrow> if username p = [] then None else Some (username p)
   | None \<Rightarrow> None)"

definition claim :: "('a \<rightharpoonup> bytes) \<Rightarrow> 'a \<Rightarrow> bytes \<Rightarrow> ('a \<rightharpoonup> bytes) option" where
  "claim reg who name =
     (if name = [] then Some (reg(who := None))
      else if \<exists>b. b \<noteq> who \<and> reg b = Some name then None
      else Some (reg(who \<mapsto> name)))"

fun claimed :: "profile_call \<Rightarrow> bytes option" where
  "claimed (Set_username name) = Some name"
| "claimed (Update_profile u av bi) = u"
| "claimed (Update_stats r w d x) = None"

definition registry_step :: "('a \<rightharpoonup> bytes) \<Rightarrow> 'a \<Rightarrow> profile_call \<Rightarrow> ('a \<rightharpoonup> bytes) option" where
  "registry_step reg who c = (case claimed c of None \<Rightarrow> Some reg | Some name \<Rightarrow> claim reg who name)"

lemma taken_iff_registered:
  assumes "profile_inv C st" "name \<noteq> []"
  shows "taken_by_other st who name \<longleftrightarrow> (\<exists>b. b \<noteq> who \<and> registry st b = Some name)"
proof -
  have "username_to_account st name = Some b \<longleftrightarrow> registry st b = Some name" for b
    using index_iff [OF assms, of b] assms(2) by (auto simp: registry_def split: option.split)
  moreover have "taken_by_other st who name \<longleftrightarrow> (\<exists>b. b \<noteq> who \<and> username_to_account st name = Some b)"
    by (auto simp: taken_by_other_def split: option.split)
  ultimately show ?thesis by simp
qed

lemma claim_free:
  assumes "profile_inv C st" "username_verdict C st who name = None"
  shows "claim (registry st) who name =
     Some (if name = [] then (registry st)(who := None) else (registry st)(who \<mapsto> name))"
  using assms taken_iff_registered [OF assms(1), of name who]
  by (auto simp: claim_def username_verdict_None)

lemma registry_update:
  "profiles st' = (profiles st)(who \<mapsto> p) \<Longrightarrow>
     registry st' = (registry st)(who := if username p = [] then None else Some (username p))"
  by (auto simp: registry_def)

lemma registry_keep:
  "profiles st' = (profiles st)(who \<mapsto> p) \<Longrightarrow> username p = username (base_profile t who st) \<Longrightarrow>
     registry st' = registry st"
  by (auto simp: registry_def base_profile_def split: option.splits)

lemma updated_profiles:
  "profiles (updated_storage t who u av bi st) =
     (profiles st)(who \<mapsto> edit_profile u av bi (base_profile t who st))"
  by (simp add: updated_storage_def Let_def)

lemma named_registry:
  assumes "profile_inv C st" "username_verdict C st who name = None"
  shows "claim (registry st) who name = Some (registry (named_storage t who name st))"
  by (simp add: claim_free [OF assms] registry_update [OF named_storage_move(1)])

lemma updated_registry:
  assumes "profile_inv C st" "update_verdict C st who u av bi = None"
  shows "registry_step (registry st) who (Update_profile u av bi) =
     Some (registry (updated_storage t who u av bi st))"
proof (cases u)
  case None
  then have "registry (updated_storage t who u av bi st) = registry st"
    by (intro registry_keep [OF updated_profiles]) (simp add: edit_profile_def)
  with None show ?thesis by (simp add: registry_step_def)
next
  case (Some name)
  then show ?thesis
    using claim_free [OF assms(1) update_verdict_None(1) [OF assms(2) Some]]
    by (simp add: registry_step_def registry_update [OF updated_profiles] edit_profile_def)
qed

lemma registry_simulates:
  assumes "bounded_vec_ok F" "profile_inv C (store s)" "ensure_signed F origin = Inr who"
    and "profile_dispatch C F origin c s = (Inr (), t)"
  shows "registry_step (registry (store s)) who c = Some (registry (store t))"
  using assms(1,4)
proof (rule profile_dispatch_OkD)
  fix who' name
  assume "c = Set_username name" "ensure_signed F origin = Inr who'"
    "username_verdict C (store s) who' name = None"
    "store t = named_storage (now F) who' name (store s)"
  then show ?thesis using assms(2,3) by (simp add: registry_step_def named_registry)
next
  fix who' u av bi
  assume "c = Update_profile u av bi" "ensure_signed F origin = Inr who'"
    "update_verdict C (store s) who' u av bi = None"
    "store t = updated_storage (now F) who' u av bi (store s)"
  then show ?thesis using assms(2,3) by (simp add: updated_registry)
next
  fix who' r w d x
  assume "c = Update_stats r w d x" "store t = stats_storage who' r w d x (store s)"
  then show ?thesis
    by (simp add: registry_step_def registry_def stats_storage_def)
qed

text \<open>A refusal as \<open>UsernameTaken\<close> comes from a claimed name indexed to another account.\<close>

lemma taken_refused:
  assumes "bounded_vec_ok F" "ensure_signed F origin = Inr who"
    and "profile_dispatch C F origin c s = (Inl (Module UsernameTaken), t)"
  shows "\<exists>name. claimed c = Some name \<and> taken_by_other (store s) who name"
proof (cases c)
  case (Set_username name)
  with assms show ?thesis
    by (auto simp: set_username_eq username_verdict_def split: option.splits if_splits)
next
  case (Update_profile u av bi)
  with assms(3) have "update_profile C F origin u av bi s = (Inl (Module UsernameTaken), t)" by simp
  from wp_ErrD [OF this update_profile_wp [OF assms(1)]] assms(2) Update_profile show ?thesis
    by (cases u) (auto simp: update_verdict_def username_verdict_def split: option.splits if_splits)
next
  case (Update_stats r w d x)
  with assms show ?thesis by (simp add: update_stats_eq Let_def)
qed

lemma update_profile_Ok:
  assumes "update_verdict C (store s) a u av bi = None"
  shows "update_profile C (plain_frame n) (Some a) u av bi s =
     (Inr (), snd (update_profile C (plain_frame n) (Some a) u av bi s))"
  using update_profile_wp [OF bounded_vec_ok_plain, of C n "Some a" u av bi s] assms
  by (auto simp: wp_def plain_frame_def split: prod.splits sum.splits)

section \<open>What other accounts keep\<close>

lemma others_keep:
  assumes "bounded_vec_ok F" "ensure_signed F origin = Inr who"
    and "profile_dispatch C F origin c s = (Inr (), t)" "b \<noteq> who"
  shows "profiles (store t) b = profiles (store s) b"
    and "user_stats_map (store t) b = user_stats_map (store s) b"
  using assms(1,3)
  by (rule profile_dispatch_OkD;
      use assms(2,4) in \<open>auto simp: named_storage_def updated_storage_def stats_storage_def Let_def
        split: option.splits\<close>)+

section \<open>Profiles last, and keep their creation time\<close>

lemma created_at_kept:
  assumes "bounded_vec_ok F" "profile_dispatch C F origin c s = (Inr (), t)"
    and "profiles (store s) a = Some p"
  shows "\<exists>q. profiles (store t) a = Some q \<and> created_at q = created_at p"
  using assms(1,2)
  by (rule profile_dispatch_OkD)
     (use assms(3) in \<open>auto simp: named_storage_def updated_storage_def stats_storage_def Let_def
        edit_profile_def base_profile_def split: option.splits\<close>)

lemma created_at_layered:
  assumes "storage_layer layer" "profile_legal x" "profiles (store s) a = Some p"
    and "layer (profile_apply C x) s = (r, t)"
  shows "\<exists>q. profiles (store t) a = Some q \<and> created_at q = created_at p"
  using assms(1)
proof (rule storage_layer_cases [where m = "profile_apply C x" and s = s])
  fix u assume "profile_apply C x s = (Inr (), u)" "layer (profile_apply C x) s = (Inr (), u)"
  with assms(2-4) show ?thesis
    by (auto simp: profile_apply_def profile_legal_def split: prod.splits intro: created_at_kept)
next
  fix e u assume "layer (profile_apply C x) s = (Inl e, u)" "store u = store s"
  with assms(3,4) show ?thesis by auto
qed

lemma created_at_run:
  assumes "storage_layer layer" "list_all profile_legal xs" "profiles st a = Some p"
  shows "\<exists>q. profiles (apply_all layer (profile_apply C) st xs) a = Some q \<and> created_at q = created_at p"
  using assms(2,3)
proof (induction xs arbitrary: st p)
  case (Cons x xs)
  let ?r = "layer (profile_apply C x) (fresh_ext st)"
  obtain q where q: "profiles (store (snd ?r)) a = Some q" "created_at q = created_at p"
    using created_at_layered [OF assms(1), of x "fresh_ext st" a p C "fst ?r" "snd ?r"] Cons.prems
    by auto
  from Cons.IH [OF _ q(1)] Cons.prems q(2) show ?case by auto
qed simp

section \<open>A run of the test runtime\<close>

text \<open>\<open>impl pallet_user_profile::Config for Test\<close> of the pallet's \<open>mock.rs\<close>.\<close>

definition mock_config :: profile_config where
  "mock_config = \<lparr>max_username_length = 32, max_bio_length = 256\<rparr>"

type_synonym demo_extrinsic = "(nat option, nat, unit) profile_extrinsic"

text \<open>Block \<open>n\<close>, an extrinsic signed by account \<open>a\<close>.\<close>

definition signed_by :: "u32 \<Rightarrow> nat \<Rightarrow> profile_call \<Rightarrow> demo_extrinsic" where
  "signed_by n a c = (plain_frame n, Some a, c)"

lemma profile_legal_signed_by [simp]: "profile_legal (signed_by n a c)"
  by (simp add: profile_legal_def signed_by_def bounded_vec_ok_plain)

definition demo :: "demo_extrinsic list \<Rightarrow> nat profile_storage" where
  "demo xs = apply_all rollback_layer (profile_apply mock_config) profile_genesis xs"

lemma demo_reachable:
  "list_all profile_legal xs \<Longrightarrow>
     reachable rollback_layer (profile_apply mock_config) (profile_legal :: demo_extrinsic \<Rightarrow> bool)
       profile_genesis (demo xs)"
  unfolding demo_def by (rule reachable_apply_all [OF reachable.at_genesis])

lemma plain_frame_simps [simp]:
  "ensure_signed (plain_frame n) o1 = (case o1 of None \<Rightarrow> Inl () | Some a \<Rightarrow> Inr a)"
  "now (plain_frame n) = ucast n"
  by (simp_all add: plain_frame_def now_def)

lemma signed_named:
  "store (snd (rollback_layer (profile_apply C (signed_by n a (Set_username name))) (fresh_ext st))) =
     (if username_verdict C st a name = None then named_storage (ucast n) a name st else st)"
  by (simp add: rollback_layer_def profile_apply_def signed_by_def
        set_username_eq [OF bounded_vec_ok_plain] split: option.split)

lemma signed_updated:
  "store (snd (rollback_layer (profile_apply C (signed_by n a (Update_profile u av bi))) (fresh_ext st))) =
     (if update_verdict C st a u av bi = None then updated_storage (ucast n) a u av bi st else st)"
proof -
  note w = update_profile_wp [OF bounded_vec_ok_plain, of C n "Some a" u av bi "fresh_ext st"]
  obtain r t where rt: "update_profile C (plain_frame n) (Some a) u av bi (fresh_ext st) = (r, t)"
    by (cases "update_profile C (plain_frame n) (Some a) u av bi (fresh_ext st)")
  from w show ?thesis
    unfolding wp_def rt
    by (cases r) (auto simp: rollback_layer_def profile_apply_def signed_by_def rt)
qed

lemma signed_stats:
  "store (snd (rollback_layer (profile_apply C (signed_by n a (Update_stats r w d x))) (fresh_ext st))) =
     stats_storage a r w d x st"
  by (simp add: rollback_layer_def profile_apply_def signed_by_def update_stats_eq Let_def)

lemmas demo_simps = demo_def signed_named signed_updated signed_stats
  profile_genesis_def mock_config_def username_verdict_def update_verdict_def too_long_def
  taken_by_other_def named_storage_def updated_storage_def stats_storage_def move_username_def
  base_profile_def edit_profile_def Let_def

text \<open>Accounts 7 and 8 take the usernames \<open>a\<close> and \<open>b\<close>, in blocks 1 and 2.\<close>

definition two_names :: "nat profile_storage" where
  "two_names = demo [signed_by 1 7 (Set_username [97]), signed_by 2 8 (Set_username [98])]"

lemma two_names_reachable:
  "reachable rollback_layer (profile_apply mock_config) (profile_legal :: demo_extrinsic \<Rightarrow> bool)
     profile_genesis two_names"
  unfolding two_names_def by (rule demo_reachable) simp

lemma two_names_profiles:
  "profiles two_names 7 = Some \<lparr>account = 7, username = [97], avatar = None, bio = None, created_at = 1\<rparr>"
  "profiles two_names 8 = Some \<lparr>account = 8, username = [98], avatar = None, bio = None, created_at = 2\<rparr>"
  by (simp_all add: two_names_def demo_simps)

end
