(* ===== verification/Profile_Properties.thy ===== *)
theory Profile_Properties
  imports Profile_Registry
begin

text \<open>
  The properties of the user-profile pallet, over its dispatchables and over every storage a
  chain of extrinsics can reach under any storage layer.  Each property with hypotheses has a
  witness on a run of the pallet's own test configuration.
\<close>

section \<open>Invariants of every reachable storage\<close>

text \<open>
  C1. Usernames are unique: in every storage reachable from genesis, two accounts with the
  same non-empty username are the same account.
\<close>

theorem usernames_unique:
  assumes "storage_layer layer"
    and "reachable layer (profile_apply C) profile_legal profile_genesis st"
    and "profiles st a = Some p" "profiles st b = Some q"
    and "username p = username q" "username p \<noteq> []"
  shows "a = b"
proof -
  have inv: "profile_inv C st" by (rule profile.reachable_inv [OF assms(1,2)])
  have "username_to_account st (username p) = Some a"
    using index_iff [OF inv assms(6)] assms(3) by blast
  moreover have "username_to_account st (username p) = Some b"
    using index_iff [OF inv assms(6)] assms(4,5) by metis
  ultimately show ?thesis by simp
qed

theorem usernames_unique_witness:
  "map_option username (profiles two_names 7) \<noteq> map_option username (profiles two_names 8)"
proof
  assume eq: "map_option username (profiles two_names 7) = map_option username (profiles two_names 8)"
  have "(7::nat) = 8"
    by (rule usernames_unique [OF storage_layer_rollback two_names_reachable two_names_profiles])
       (use eq in \<open>simp_all add: two_names_profiles\<close>)
  then show False by simp
qed

text \<open>
  C3. The username index and the profiles agree: in every reachable storage, looking up a
  non-empty username gives an account exactly when that account's profile has the username.
\<close>

theorem username_index_agrees:
  assumes "storage_layer layer"
    and "reachable layer (profile_apply C) profile_legal profile_genesis st"
    and "name \<noteq> []"
  shows "username_to_account st name = Some a \<longleftrightarrow>
     (\<exists>p. profiles st a = Some p \<and> username p = name)"
  by (rule index_iff [OF profile.reachable_inv [OF assms(1,2)] assms(3)])

theorem username_index_agrees_witness: "username_to_account two_names [98] = Some 8"
  by (subst username_index_agrees [OF storage_layer_rollback two_names_reachable])
     (simp_all add: two_names_profiles)

text \<open>
  C29. Every stored profile is well formed: in every reachable storage a profile is stored
  under its own account, its username and avatar fit the username bound, its bio fits the
  bio bound, and the account has statistics.
\<close>

theorem stored_profiles_wf:
  assumes "storage_layer layer"
    and "reachable layer (profile_apply C) profile_legal profile_genesis st"
    and "profiles st a = Some p"
  shows "account p = a \<and> length (username p) \<le> unat (max_username_length C) \<and>
    case_option True (\<lambda>v. length v \<le> unat (max_username_length C)) (avatar p) \<and>
    case_option True (\<lambda>v. length v \<le> unat (max_bio_length C)) (bio p) \<and>
    user_stats_map st a \<noteq> None"
proof -
  have "profiles_wf C st"
    using profile.reachable_inv [OF assms(1,2)] by (rule profile_invD)
  with assms(3) show ?thesis
    by (auto simp: profiles_wf_def profile_bounded_def too_long_def not_less split: option.split)
qed

theorem stored_profiles_wf_witness: "user_stats_map two_names 8 \<noteq> None"
  using stored_profiles_wf [OF storage_layer_rollback two_names_reachable two_names_profiles(2)]
  by simp

text \<open>
  A profile, once stored, is never lost and keeps its creation time, whatever extrinsics
  follow and whoever signs them.
\<close>

theorem created_at_immutable:
  assumes "storage_layer layer" "list_all profile_legal xs" "profiles st a = Some p"
  shows "\<exists>q. profiles (apply_all layer (profile_apply C) st xs) a = Some q \<and> created_at q = created_at p"
  by (rule created_at_run [OF assms])

theorem created_at_immutable_witness:
  "\<exists>q. profiles (apply_all rollback_layer (profile_apply mock_config) two_names
      [signed_by 9 7 (Set_username [99]), signed_by 10 8 (Update_profile None None (Some (Some [1])))]) 8 = Some q
     \<and> created_at q = 2"
  using created_at_immutable [OF storage_layer_rollback,
      of "[signed_by 9 7 (Set_username [99]), signed_by 10 8 (Update_profile None None (Some (Some [1])))]",
      OF _ two_names_profiles(2), of mock_config]
  by simp

section \<open>What each call does\<close>

text \<open>
  C6. \<open>set_username\<close> in full: an unsigned origin is refused with the framework's error; a
  username over the bound is \<open>UsernameTooLong\<close>, one indexed to another account is
  \<open>UsernameTaken\<close>, and in these cases storage and events are as before even without a
  storage layer; otherwise the profile is replaced, the index entry moves from the old
  username to the new one, a new account gets zeroed statistics and the block number as its
  creation time, and one event reports the name, the same for a new profile and for a change
  of name (the source documents \<open>UsernameSet\<close> as deposited when a profile is created).
\<close>

theorem set_username_outcome:
  assumes "bounded_vec_ok F" "set_username C F origin name s = (r, t)"
  shows "(r, store t, deposited t) = (case ensure_signed F origin of
     Inl d \<Rightarrow> (Inl (Framework d), store s, deposited s)
   | Inr who \<Rightarrow>
       if unat (max_username_length C) < length name
       then (Inl (Module UsernameTooLong), store s, deposited s)
       else if username_to_account (store s) name \<notin> {None, Some who}
       then (Inl (Module UsernameTaken), store s, deposited s)
       else (Inr (),
         (case profiles (store s) who of
            Some p \<Rightarrow> (store s)
              \<lparr>profiles := (profiles (store s))(who \<mapsto> \<lparr>account = who, username = name,
                 avatar = None, bio = None, created_at = created_at p\<rparr>),
               username_to_account :=
                 (username_to_account (store s))(username p := None, name \<mapsto> who)\<rparr>
          | None \<Rightarrow> (store s)
              \<lparr>profiles := (profiles (store s))(who \<mapsto> \<lparr>account = who, username = name,
                 avatar = None, bio = None, created_at = saturated_into_u64 F (block_number F)\<rparr>),
               user_stats_map := (user_stats_map (store s))(who \<mapsto>
                 \<lparr>total_races = 0, wins = 0, total_distance = 0, total_rewards = 0\<rparr>),
               username_to_account := (username_to_account (store s))(name \<mapsto> who)\<rparr>),
         deposited s @ [UsernameSet who name]))"
  using assms(2) unfolding set_username_eq [OF assms(1)]
  by (auto simp: username_verdict_def too_long_def taken_by_other_def named_storage_def
      move_username_def now_def default_stats_def split: sum.splits option.splits if_splits)

theorem set_username_outcome_witness:
  "fst (set_username mock_config (plain_frame 3) (Some 9) [97] (fresh_ext two_names)) =
     Inl (Module UsernameTaken)"
proof -
  obtain r t where rt: "set_username mock_config (plain_frame 3) (Some (9::nat)) [97] (fresh_ext two_names) = (r, t)"
    by (cases "set_username mock_config (plain_frame 3) (Some (9::nat)) [97] (fresh_ext two_names)")
  have "username_to_account two_names [97] = Some 7"
    by (simp add: two_names_def demo_simps)
  with set_username_outcome [OF bounded_vec_ok_plain rt] have "r = Inl (Module UsernameTaken)"
    by (simp add: mock_config_def)
  then show ?thesis by (simp add: rt)
qed

text \<open>
  C7. \<open>update_profile\<close> in full: the errors come in the order username too long, username
  taken, avatar too long, bio too long; a success writes exactly the given fields over the
  account's profile (or over an empty one made in this block), gives the account statistics
  if it has none and leaves existing ones, moves the index entry only when a username is
  given, and its event carries the given fields unchanged.
\<close>

theorem update_profile_outcome:
  assumes "bounded_vec_ok F" "ensure_signed F origin = Inr who"
    and "update_profile C F origin u av bi s = (r, t)"
  shows "case update_verdict C (store s) who u av bi of
     Some e \<Rightarrow> r = Inl (Module e)
   | None \<Rightarrow> r = Inr () \<and>
       profiles (store t) = (profiles (store s))(who \<mapsto>
         edit_profile u av bi (base_profile (saturated_into_u64 F (block_number F)) who (store s))) \<and>
       user_stats_map (store t) = (if user_stats_map (store s) who = None
         then (user_stats_map (store s))(who \<mapsto> default_stats) else user_stats_map (store s)) \<and>
       username_to_account (store t) = (case u of
         None \<Rightarrow> username_to_account (store s)
       | Some name \<Rightarrow> (username_to_account (store s))
           (case_option [] username (profiles (store s) who) := None, name \<mapsto> who)) \<and>
       deposited t = deposited s @ [ProfileUpdated who u av bi]"
  using update_profile_wp [OF assms(1), of C origin u av bi s] assms(2)
  unfolding wp_def assms(3)
  by (cases r)
     (auto simp: updated_storage_def Let_def now_def move_username_def base_profile_def
       split: option.splits)

theorem update_profile_outcome_witness:
  "fst (update_profile mock_config (plain_frame 3) (Some 8) (Some [97]) None None (fresh_ext two_names)) =
     Inl (Module UsernameTaken) \<and>
   deposited (snd (update_profile mock_config (plain_frame 3) (Some 8) (Some [99]) None None
     (fresh_ext two_names))) = [ProfileUpdated 8 (Some [99]) None None]"
proof -
  have name: "username_to_account two_names [97] = Some 7" "username_to_account two_names [99] = None"
    by (simp_all add: two_names_def demo_simps)
  note out = update_profile_outcome [OF bounded_vec_ok_plain, where s = "fresh_ext two_names",
      where origin = "Some (8::nat)" and who = 8 and C = mock_config and av = None and bi = None,
      OF _ prod.collapse [symmetric], of 3]
  show ?thesis
    using out [of "Some [97]"] out [of "Some [99]"] name
    by (simp add: update_verdict_def username_verdict_def too_long_def taken_by_other_def mock_config_def)
qed

text \<open>
  \<open>update_stats\<close> never fails for a signed origin; it replaces exactly the statistics
  that are given, over the account's own or over zeros, reports the resulting four values
  in its event, and touches no profile, no username and no other account's statistics.
\<close>

theorem update_stats_outcome:
  assumes "ensure_signed F origin = Inr who" "update_stats F origin r w d x s = (res, t)"
  shows "res = Inr () \<and> profiles (store t) = profiles (store s) \<and>
     username_to_account (store t) = username_to_account (store s) \<and>
     (\<exists>old new. old = (case user_stats_map (store s) who of Some st \<Rightarrow> st | None \<Rightarrow> default_stats) \<and>
        user_stats_map (store t) = (user_stats_map (store s))(who \<mapsto> new) \<and>
        total_races new = case_option (total_races old) id r \<and>
        wins new = case_option (wins old) id w \<and>
        total_distance new = case_option (total_distance old) id d \<and>
        total_rewards new = case_option (total_rewards old) id x \<and>
        deposited t = deposited s @
          [StatsUpdated who (total_races new) (wins new) (total_distance new) (total_rewards new)])"
  using assms
  by (auto simp: update_stats_eq stats_storage_def set_stats_def Let_def split: option.split)

theorem update_stats_outcome_witness:
  "fst (update_stats (plain_frame 3) (Some (8::nat)) None (Some 5) None None (fresh_ext two_names)) = Inr ()"
  using update_stats_outcome [of "plain_frame 3" "Some (8::nat)" 8 None "Some 5" None None "fresh_ext two_names",
      OF _ prod.collapse [symmetric]]
  by simp

text \<open>
  C28. A call acts on its signer only: after a successful call, every other account has the
  profile and the statistics it had, and in a storage satisfying the invariant every
  non-empty username of another account still leads to it.
\<close>

theorem only_signer_affected:
  assumes "bounded_vec_ok F" "ensure_signed F origin = Inr who" "profile_inv C (store s)"
    and "profile_dispatch C F origin c s = (Inr (), t)" "b \<noteq> who"
  shows "profiles (store t) b = profiles (store s) b \<and>
    user_stats_map (store t) b = user_stats_map (store s) b \<and>
    (\<forall>name. name \<noteq> [] \<longrightarrow>
       (username_to_account (store t) name = Some b \<longleftrightarrow> username_to_account (store s) name = Some b))"
proof -
  note others = others_keep [OF assms(1,2,4,5)]
  have "profile_inv C (store t)" using assms(1,3,4) by (rule profile_dispatch_inv)
  then show ?thesis
    using others index_iff [OF assms(3), of _ b] index_iff [of C "store t" _ b] by simp
qed

lemma two_names_inv: "profile_inv mock_config two_names"
  using profile.reachable_inv [OF storage_layer_rollback two_names_reachable] .

theorem only_signer_affected_witness:
  "profiles (store (snd (profile_dispatch mock_config (plain_frame 3) (Some (7::nat)) (Set_username [100])
     (fresh_ext two_names)))) 8 = profiles two_names 8"
proof -
  let ?s = "fresh_ext two_names :: (nat profile_storage, nat profile_event) ext"
  let ?r = "profile_dispatch mock_config (plain_frame 3) (Some (7::nat)) (Set_username [100]) ?s"
  have "username_to_account two_names [100] = None" by (simp add: two_names_def demo_simps)
  then have "?r = (Inr (), snd ?r)"
    by (simp add: set_username_eq [OF bounded_vec_ok_plain] username_verdict_def too_long_def
        taken_by_other_def mock_config_def)
  from only_signer_affected [OF bounded_vec_ok_plain _ _ this, of 7 8] two_names_inv
  show ?thesis by simp
qed

section \<open>The username registry\<close>

text \<open>
  C2. The pallet implements the abstract username registry: from a storage satisfying the
  invariant, every successful call is the registry's step for its signer (claim the given
  username, release it when it is empty, or leave the registry alone), and a call that is
  refused as \<open>UsernameTaken\<close> with a non-empty name is one the registry refuses.
\<close>

theorem registry_refinement:
  assumes "bounded_vec_ok F" "ensure_signed F origin = Inr who" "profile_inv C (store s)"
    and "profile_dispatch C F origin c s = (r, t)"
  shows "(r = Inr () \<longrightarrow>
       registry_step (registry (store s)) who c = Some (registry (store t))) \<and>
     (r = Inl (Module UsernameTaken) \<and> claimed c \<noteq> Some [] \<longrightarrow>
       registry_step (registry (store s)) who c = None)"
proof (intro conjI impI)
  assume "r = Inr ()"
  with assms(4) show "registry_step (registry (store s)) who c = Some (registry (store t))"
    by (intro registry_simulates [OF assms(1,3,2)]) simp
next
  assume r: "r = Inl (Module UsernameTaken) \<and> claimed c \<noteq> Some []"
  then obtain name where name: "claimed c = Some name" "taken_by_other (store s) who name"
    using taken_refused [OF assms(1,2)] assms(4) by blast
  with r show "registry_step (registry (store s)) who c = None"
    using taken_iff_registered [OF assms(3), of name who] by (auto simp: registry_step_def claim_def)
qed

theorem registry_refinement_witness:
  "registry_step (registry two_names) 7 (Set_username [98]) = None"
proof -
  let ?s = "fresh_ext two_names :: (nat profile_storage, nat profile_event) ext"
  have "username_to_account two_names [98] = Some 8" by (simp add: two_names_def demo_simps)
  then have "\<exists>t. profile_dispatch mock_config (plain_frame 3) (Some (7::nat)) (Set_username [98]) ?s =
      (Inl (Module UsernameTaken), t)"
    by (simp add: set_username_eq [OF bounded_vec_ok_plain] username_verdict_def too_long_def
        taken_by_other_def mock_config_def)
  then obtain t where "profile_dispatch mock_config (plain_frame 3) (Some (7::nat)) (Set_username [98]) ?s =
      (Inl (Module UsernameTaken), t)" ..
  from registry_refinement [OF bounded_vec_ok_plain _ _ this, of 7] two_names_inv show ?thesis
    by simp
qed

section \<open>Where the code falls short\<close>

text \<open>
  C40. Setting a username discards data.  After any successful \<open>set_username\<close> the avatar and
  the bio of the account are unset, even when the new name is the old one; and statistics
  recorded before the account had a profile are zero after its first \<open>set_username\<close>
  (\<open>update_profile\<close> keeps them).
\<close>

theorem set_username_discards_data:
  assumes "bounded_vec_ok F" "ensure_signed F origin = Inr who"
    and "set_username C F origin name s = (Inr (), t)"
  shows "(\<exists>p. profiles (store t) who = Some p \<and> avatar p = None \<and> bio p = None) \<and>
    (profiles (store s) who = None \<longrightarrow> user_stats_map (store t) who =
       Some \<lparr>total_races = 0, wins = 0, total_distance = 0, total_rewards = 0\<rparr>)"
  using assms(1,3)
  by (rule set_username_OkD)
     (use assms(2) in \<open>auto simp: named_storage_def default_stats_def split: option.split\<close>)

text \<open>A bio given with \<open>update_profile\<close>, and ten races recorded before the first username.\<close>

theorem set_username_discards_data_witness:
  "(let st = demo [signed_by 1 7 (Update_profile (Some [97]) None (Some (Some [1])))];
        t = snd (set_username mock_config (plain_frame 2) (Some 7) [97] (fresh_ext st))
    in map_option bio (profiles st 7) = Some (Some [1]) \<and> map_option bio (profiles (store t) 7) = Some None) \<and>
   (let st = demo [signed_by 1 7 (Update_stats (Some 10) None None None)];
        t = snd (set_username mock_config (plain_frame 2) (Some 7) [97] (fresh_ext st))
    in map_option total_races (user_stats_map st 7) = Some 10 \<and>
       map_option total_races (user_stats_map (store t) 7) = Some 0)"
proof -
  let ?run = "\<lambda>st. set_username mock_config (plain_frame 2) (Some 7) [97] (fresh_ext st)"
  have accepted: "?run st = (Inr (), snd (?run st))"
    if "username_to_account st [97] = None \<or> username_to_account st [97] = Some 7" for st
    using that by (auto simp: set_username_eq [OF bounded_vec_ok_plain] username_verdict_def too_long_def
        taken_by_other_def mock_config_def)
  let ?bio = "demo [signed_by 1 7 (Update_profile (Some [97]) None (Some (Some [1])))]"
  let ?stats = "demo [signed_by 1 7 (Update_stats (Some 10) None None None)]"
  have "map_option bio (profiles ?bio 7) = Some (Some [1])" "username_to_account ?bio [97] = Some 7"
    "profiles ?stats 7 = None" "username_to_account ?stats [97] = None"
    "map_option total_races (user_stats_map ?stats 7) = Some 10"
    by (simp_all add: demo_simps set_stats_def)
  then show ?thesis
    using set_username_discards_data [OF bounded_vec_ok_plain _ accepted [of ?bio], of 7]
      set_username_discards_data [OF bounded_vec_ok_plain _ accepted [of ?stats], of 7]
    by (auto simp: Let_def)
qed

text \<open>
  C39. An account with no profile that takes a non-empty username through \<open>update_profile\<close>
  removes the index entry of the empty username, whoever holds it: the holder's profile
  still says its username is empty, but the index no longer leads to it and the next account
  may claim the empty username as well.
\<close>

theorem empty_username_entry_removed:
  assumes "bounded_vec_ok F" "ensure_signed F origin = Inr who" "profiles (store s) who = None"
    and "username_to_account (store s) [] = Some b" "b \<noteq> who" "name \<noteq> []"
    and "update_profile C F origin (Some name) av bi s = (Inr (), t)"
  shows "username_to_account (store t) [] = None \<and> profiles (store t) b = profiles (store s) b \<and>
    (\<forall>c. username_verdict C (store t) c [] = None)"
  using assms(1,7)
  by (rule update_profile_OkD)
     (use assms(2-6) in \<open>auto simp: updated_storage_def Let_def base_profile_def move_username_def
        username_verdict_def taken_by_other_def too_long_def\<close>)

theorem empty_username_entry_removed_witness:
  "username_to_account (demo [signed_by 1 7 (Set_username [])]) [] = Some 7 \<and>
   username_to_account (store (snd (update_profile mock_config (plain_frame 2) (Some 8) (Some [97]) None None
      (fresh_ext (demo [signed_by 1 7 (Set_username [])]))))) [] = None"
proof -
  let ?st = "demo [signed_by 1 7 (Set_username [])]"
  let ?r = "update_profile mock_config (plain_frame 2) (Some 8) (Some [97]) None None (fresh_ext ?st)"
  have st: "profiles ?st 8 = None" "username_to_account ?st [97] = None" "username_to_account ?st [] = Some 7"
    by (simp_all add: demo_simps)
  have "update_verdict mock_config ?st 8 (Some [97]) None None = None"
    using st by (simp add: update_verdict_def username_verdict_def too_long_def taken_by_other_def mock_config_def)
  then have "?r = (Inr (), snd ?r)"
    by (intro update_profile_Ok) simp
  from empty_username_entry_removed [OF bounded_vec_ok_plain _ _ _ _ _ this, of 8 7] st
  show ?thesis by simp
qed

text \<open>
  Two accounts can both have set the empty username: usernames are unique only when they
  are not empty.  (Account 7 sets it, account 8 joins through \<open>update_profile\<close>, account 9
  then sets it too.)
\<close>

theorem empty_username_not_unique:
  "let st = demo [signed_by 1 7 (Set_username []), signed_by 2 8 (Update_profile (Some [97]) None None),
       signed_by 3 9 (Set_username [])]
   in map_option username (profiles st 7) = Some [] \<and> map_option username (profiles st 9) = Some [] \<and>
      username_to_account st [] = Some 9"
  by (simp add: demo_simps)

end
