(* ===== verification/Profile_Liveness.thy ===== *)
theory Profile_Liveness
  imports Profile_Registry
begin

text \<open>
  What accounts can always achieve with the user-profile pallet: a username that nobody else
  holds can be taken, and one that its holder gives up can be taken by another.
\<close>

definition holds_name :: "'a profile_storage \<Rightarrow> 'a \<Rightarrow> bytes \<Rightarrow> bool" where
  "holds_name st a name \<longleftrightarrow> (\<exists>p. profiles st a = Some p \<and> username p = name)"

lemma holds_name_index:
  assumes "profile_inv C st" "name \<noteq> []"
  shows "holds_name st a name \<longleftrightarrow> username_to_account st name = Some a"
  using index_iff [OF assms] by (simp add: holds_name_def)

lemma free_name_verdict:
  assumes "profile_inv C st" "name \<noteq> []" "\<not> too_long (max_username_length C) name"
    and "\<And>b. b \<noteq> who \<Longrightarrow> \<not> holds_name st b name"
  shows "username_verdict C st who name = None"
proof -
  have "\<not> taken_by_other st who name"
    using holds_name_index [OF assms(1,2)] assms(4)
    by (auto simp: taken_by_other_def split: option.split)
  then show ?thesis using assms(3) by (simp add: username_verdict_def)
qed

lemma named_holds:
  "holds_name (named_storage t who name st) b n \<longleftrightarrow> (if b = who then n = name else holds_name st b n)"
  by (auto simp: holds_name_def named_storage_def split: option.split)

text \<open>One claim, run as an extrinsic.\<close>

lemma claim_runs:
  assumes "shallow_layer layer" "bounded_vec_ok F" "ensure_signed F origin = Inr who"
    and "username_verdict C st who name = None"
  shows "fst (layer (profile_apply C (F, origin, Set_username name)) (fresh_ext st)) = Inr ()"
    and "apply_all layer (profile_apply C) st [(F, origin, Set_username name)] =
      named_storage (now F) who name st"
proof -
  let ?x = "(F, origin, Set_username name)"
  have "profile_apply C ?x (fresh_ext st) = (Inr (), snd (profile_apply C ?x (fresh_ext st)))"
    "store (snd (profile_apply C ?x (fresh_ext st))) = named_storage (now F) who name st"
    using assms(3,4) by (simp_all add: profile_apply_def set_username_eq [OF assms(2)])
  with shallow_layer_Ok [OF assms(1), of "profile_apply C ?x"] show
    "fst (layer (profile_apply C ?x) (fresh_ext st)) = Inr ()"
    "apply_all layer (profile_apply C) st [?x] = named_storage (now F) who name st"
    by (metis fst_conv, metis apply_all.simps snd_conv)
qed

text \<open>
  C11. Usernames stay available.  From every storage a chain reaches, a signed account that
  sets a non-empty username within the bound that no other account holds succeeds and then
  holds it.  And a held username can change hands: its holder moves to a spare name that
  nobody else holds, the other account then sets the released one, both extrinsics take
  effect, and every third account holds what it held.
\<close>

theorem usernames_claimable:
  assumes "shallow_layer layer" "reachable layer (profile_apply C) profile_legal profile_genesis st"
    and "bounded_vec_ok F" "ensure_signed F origin = Inr who"
    and "name \<noteq> []" "\<not> too_long (max_username_length C) name"
  shows "((\<forall>b. b \<noteq> who \<longrightarrow> \<not> holds_name st b name) \<longrightarrow>
       fst (layer (profile_apply C (F, origin, Set_username name)) (fresh_ext st)) = Inr () \<and>
       holds_name (apply_all layer (profile_apply C) st [(F, origin, Set_username name)]) who name) \<and>
    (\<forall>b origin' spare. b \<noteq> who \<and> holds_name st b name \<and> ensure_signed F origin' = Inr b \<and>
       spare \<noteq> [] \<and> spare \<noteq> name \<and> \<not> too_long (max_username_length C) spare \<and>
       (\<forall>c. c \<noteq> b \<longrightarrow> \<not> holds_name st c spare) \<longrightarrow>
       (let st' = apply_all layer (profile_apply C) st
          [(F, origin', Set_username spare), (F, origin, Set_username name)]
        in holds_name st' who name \<and> holds_name st' b spare \<and>
           (\<forall>c n. c \<noteq> who \<and> c \<noteq> b \<longrightarrow> holds_name st' c n = holds_name st c n)))"
proof -
  have layer: "storage_layer layer" using assms(1) by (simp add: shallow_layer_def)
  have inv: "profile_inv C st" by (rule profile.reachable_inv [OF layer assms(2)])
  note run = claim_runs [OF assms(1,3)]
  have first: "fst (layer (profile_apply C (F, origin, Set_username name)) (fresh_ext st)) = Inr () \<and>
      holds_name (apply_all layer (profile_apply C) st [(F, origin, Set_username name)]) who name"
    if "\<forall>b. b \<noteq> who \<longrightarrow> \<not> holds_name st b name"
  proof -
    have "username_verdict C st who name = None"
      using that by (intro free_name_verdict [OF inv assms(5,6)]) simp
    from run [OF assms(4) this] show ?thesis by (simp add: named_holds)
  qed
  have second: "holds_name st' who name \<and> holds_name st' b spare \<and>
      (\<forall>c n. c \<noteq> who \<and> c \<noteq> b \<longrightarrow> holds_name st' c n = holds_name st c n)"
    if b: "b \<noteq> who" "holds_name st b name" "ensure_signed F origin' = Inr b" "spare \<noteq> []" "spare \<noteq> name"
      "\<not> too_long (max_username_length C) spare" "\<forall>c. c \<noteq> b \<longrightarrow> \<not> holds_name st c spare"
      and st': "st' = apply_all layer (profile_apply C) st
          [(F, origin', Set_username spare), (F, origin, Set_username name)]"
    for b origin' spare st'
  proof -
    let ?mid = "named_storage (now F) b spare st"
    have "username_verdict C st b spare = None"
      using b by (intro free_name_verdict [OF inv]) simp_all
    note mid = run(2) [OF b(3) this]
    have mid_inv: "profile_inv C ?mid"
      using profile.apply_all_inv [OF layer inv, of "[(F, origin', Set_username spare)]"] assms(3) mid
      by (simp add: profile_legal_def)
    have only: "c = b" if "holds_name st c name" for c
      using that b(2) holds_name_index [OF inv assms(5)] by simp
    have "username_verdict C ?mid who name = None"
      using b(5) only by (intro free_name_verdict [OF mid_inv assms(5,6)]) (auto simp: named_holds)
    note final = run(2) [OF assms(4) this]
    have "st' = named_storage (now F) who name ?mid"
      using apply_all_append [of layer "profile_apply C" st "[(F, origin', Set_username spare)]"
          "[(F, origin, Set_username name)]"] mid final st' by simp
    then show ?thesis using b(1) by (simp add: named_holds)
  qed
  show ?thesis
    unfolding Let_def
    by (rule conjI, rule impI, rule first, assumption, intro allI impI, rule second [OF _ _ _ _ _ _ _ refl]) blast+
qed

theorem usernames_claimable_witness:
  "holds_name two_names 8 [98] \<and>
   (let st' = apply_all rollback_layer (profile_apply mock_config) two_names
      [(plain_frame 3, Some 8, Set_username [99]), (plain_frame 3, Some 7, Set_username [98])]
    in holds_name st' 7 [98] \<and> holds_name st' 8 [99])"
proof -
  have others: "profiles two_names c = None" if "c \<noteq> 7" "c \<noteq> 8" for c
    using that by (simp add: two_names_def demo_simps)
  have free: "\<not> holds_name two_names c [99]" for c
    using others [of c]
    by (cases "c = 7"; cases "c = 8") (simp_all add: holds_name_def two_names_profiles)
  have held: "holds_name two_names 8 [98]" by (simp add: holds_name_def two_names_profiles)
  have "ensure_signed (plain_frame 3) (Some (7 :: nat)) = Inr 7" "\<not> too_long (max_username_length mock_config) [98]"
    by (simp_all add: too_long_def mock_config_def)
  note both = usernames_claimable [OF shallow_layer_rollback two_names_reachable bounded_vec_ok_plain
      this(1) _ this(2)]
  have "\<not> too_long (max_username_length mock_config) [99]" by (simp add: too_long_def mock_config_def)
  with both [THEN conjunct2, THEN spec, of 8, THEN spec, of "Some 8", THEN spec, of "[99]"] held free
  show ?thesis
    by (simp add: Let_def del: apply_all.simps)
qed

end
