(* ===== verification/Profile_Events.thy ===== *)
theory Profile_Events
  imports Profile_Registry
begin

text \<open>
  The user-profile pallet as its followers see it.  An indexer that starts at genesis and
  applies every event of the pallet to its own copy of the profiles (username, avatar, bio)
  and statistics has, after every block, exactly what the storage holds.
\<close>

type_synonym shown_profile = "bytes \<times> bytes option \<times> bytes option"

type_synonym 'a followed = "('a \<rightharpoonup> shown_profile) \<times> ('a \<rightharpoonup> user_stats)"

definition shown :: "'a profile_storage \<Rightarrow> 'a followed" where
  "shown st = (\<lambda>a. map_option (\<lambda>p. (username p, avatar p, bio p)) (profiles st a), user_stats_map st)"

text \<open>What a follower does with one event.\<close>

fun follow :: "'a followed \<Rightarrow> 'a profile_event \<Rightarrow> 'a followed" where
  "follow (v, w) (UsernameSet a name) =
     (v(a \<mapsto> (name, None, None)), if v a = None then w(a \<mapsto> default_stats) else w)"
| "follow (v, w) (ProfileUpdated a u av bi) =
     (case case_option ([], None, None) id (v a) of (n0, a0, b0) \<Rightarrow>
        (v(a \<mapsto> (case_option n0 id u, case_option a0 id av, case_option b0 id bi)),
         if w a = None then w(a \<mapsto> default_stats) else w))"
| "follow (v, w) (StatsUpdated a r n d x) =
     (v, w(a \<mapsto> \<lparr>total_races = r, wins = n, total_distance = d, total_rewards = x\<rparr>))"

definition follow_all :: "'a profile_event list \<Rightarrow> 'a followed" where
  "follow_all evs = foldl follow (Map.empty, Map.empty) evs"

definition profile_told :: "'a profile_storage \<Rightarrow> 'a profile_event list \<Rightarrow> bool" where
  "profile_told st evs \<longleftrightarrow> shown st = follow_all evs"

lemma stats_eta [simp]:
  "\<lparr>total_races = total_races s, wins = wins s, total_distance = total_distance s,
     total_rewards = total_rewards s\<rparr> = (s :: user_stats)"
  by simp

lemma shown_named:
  "shown (named_storage t who name st) = follow (shown st) (UsernameSet who name)"
  by (auto simp: shown_def named_storage_def fun_eq_iff split: option.split)

lemma shown_updated:
  "shown (updated_storage t who u av bi st) = follow (shown st) (ProfileUpdated who u av bi)"
  by (auto simp: shown_def updated_storage_def edit_profile_def base_profile_def Let_def fun_eq_iff
      split: option.split)

lemma shown_stats:
  "shown (stats_storage who r w d x st) = follow (shown st)
     (stats_event who (set_stats r w d x (case_option default_stats id (user_stats_map st who))))"
  by (simp only: shown_def stats_event_def stats_storage_def follow.simps stats_eta) simp

lemma profile_dispatch_told:
  assumes "bounded_vec_ok F" "profile_told (store s) (deposited s)"
    and "profile_dispatch C F origin c s = (Inr (), t)"
  shows "profile_told (store t) (deposited t)"
  using assms(1,3)
  by (rule profile_dispatch_OkD)
     (use assms(2) in \<open>simp_all add: profile_told_def follow_all_def shown_named shown_updated shown_stats\<close>)

interpretation profile_log: logged_pallet "profile_apply C" profile_legal profile_genesis profile_told
  for C
proof
  show "profile_told profile_genesis []"
    by (simp add: profile_told_def follow_all_def shown_def profile_genesis_def)
next
  fix x s t
  assume "profile_legal x" "profile_told (store s) (deposited s)" "profile_apply C x s = (Inr (), t)"
  then show "profile_told (store t) (deposited t)"
    by (cases x) (auto simp: profile_legal_def profile_apply_def intro: profile_dispatch_told)
qed

text \<open>
  C16. The events tell the profiles: after any block of extrinsics from genesis, successful
  and failed, under any storage layer, applying the deposited events one by one gives
  exactly the username, avatar and bio of every profile and every account's statistics.
\<close>

theorem profiles_follow_events:
  assumes "storage_layer layer" "list_all profile_legal xs"
  shows "shown (store (apply_block layer (profile_apply C) (fresh_ext profile_genesis) xs)) =
    follow_all (deposited (apply_block layer (profile_apply C) (fresh_ext profile_genesis) xs))"
  using profile_log.genesis_block_holds [OF assms] by (simp add: profile_told_def)

theorem profiles_follow_events_witness:
  "shown (store (apply_block rollback_layer (profile_apply mock_config) (fresh_ext profile_genesis)
      [signed_by 1 7 (Set_username [97]), signed_by 1 8 (Set_username [97])])) =
   follow_all (deposited (apply_block rollback_layer (profile_apply mock_config) (fresh_ext profile_genesis)
      [signed_by 1 7 (Set_username [97]), signed_by 1 8 (Set_username [97])]))"
  by (rule profiles_follow_events [OF storage_layer_rollback]) simp

end
