(* ===== verification/Counter_Pallet.thy ===== *)
theory Counter_Pallet
  imports Storage_Items Pallet_Contract
begin

text \<open>
  The simple-counter pallet (\<open>pallets/simple-counter/src/lib.rs\<close>): one global \<open>u64\<close> that
  any signed account can increment, unless it is at its maximum, or reset to zero.
\<close>

section \<open>Storage, events, errors\<close>

text \<open>A \<open>ValueQuery\<close> value: reading an unset counter gives the default, 0.\<close>

record counter_storage =
  counter :: u64

definition counter_item :: "(counter_storage, u64) item" where
  "counter_item = \<lparr>item_name = ''Counter'', item_get = counter, item_update = counter_update\<rparr>"

lemma counter_item_simps [simp]:
  "item_name counter_item = ''Counter''"
  "item_get counter_item = counter"
  "item_update counter_item = counter_update"
  by (simp_all add: counter_item_def)

interpretation counter: storage_item counter_item
  by unfold_locales auto

datatype 'a counter_event = CounterIncremented u64 'a | CounterReset 'a

datatype counter_error = Overflow

section \<open>Dispatchables\<close>

definition increment ::
    "('o, 'a, 'd) frame \<Rightarrow> 'o \<Rightarrow> (counter_storage, 'a counter_event, 'd, counter_error) dispatchable" where
  "increment F origin =
     try_then (from_result (map_sum Framework id (ensure_signed F origin))) (\<lambda>who.
     try_then (value_get counter_item) (\<lambda>current.
     try_then (ok_or (Module Overflow) (checked_add current 1)) (\<lambda>new.
     try_then (value_put counter_item new) (\<lambda>_.
     try_then (deposit_event (CounterIncremented new who)) (\<lambda>_.
     done_with ())))))"

definition reset ::
    "('o, 'a, 'd) frame \<Rightarrow> 'o \<Rightarrow> (counter_storage, 'a counter_event, 'd, counter_error) dispatchable" where
  "reset F origin =
     try_then (from_result (map_sum Framework id (ensure_signed F origin))) (\<lambda>who.
     try_then (value_put counter_item 0) (\<lambda>_.
     try_then (deposit_event (CounterReset who)) (\<lambda>_.
     done_with ())))"

datatype counter_call = Increment | Reset

fun counter_dispatch ::
    "('o, 'a, 'd) frame \<Rightarrow> 'o \<Rightarrow> counter_call \<Rightarrow> (counter_storage, 'a counter_event, 'd, counter_error) dispatchable" where
  "counter_dispatch F origin Increment = increment F origin"
| "counter_dispatch F origin Reset = reset F origin"

fun counter_call_index :: "counter_call \<Rightarrow> nat" where
  "counter_call_index Increment = 0"
| "counter_call_index Reset = 1"

definition counter_genesis :: counter_storage where
  "counter_genesis = \<lparr>counter = 0\<rparr>"

section \<open>What each call does, branch by branch\<close>

lemma increment_eq:
  "increment F origin s = (case ensure_signed F origin of
     Inl d \<Rightarrow> (Inl (Framework d), s)
   | Inr a \<Rightarrow>
       if counter (store s) = - 1
       then (Inl (Module Overflow), s\<lparr>accesses := accesses s @ [Read ''Counter'']\<rparr>)
       else (Inr (), s\<lparr>store := (store s)\<lparr>counter := counter (store s) + 1\<rparr>,
                       deposited := deposited s @ [CounterIncremented (counter (store s) + 1) a],
                       accesses := accesses s @ [Read ''Counter'', Write ''Counter'']\<rparr>))"
  by (rule wp_exact)
     (simp add: increment_def wp_rules checked_add_one split: sum.split option.split)

lemma reset_eq:
  "reset F origin s = (case ensure_signed F origin of
     Inl d \<Rightarrow> (Inl (Framework d), s)
   | Inr a \<Rightarrow> (Inr (), s\<lparr>store := (store s)\<lparr>counter := 0\<rparr>,
                          deposited := deposited s @ [CounterReset a],
                          accesses := accesses s @ [Write ''Counter'']\<rparr>))"
  by (rule wp_exact) (simp add: reset_def wp_rules split: sum.split)

end
