(* ===== verification/Template_Pallet.thy ===== *)
theory Template_Pallet
  imports Storage_Items
begin

text \<open>
  The template pallet (\<open>pallets/template/src/lib.rs\<close>): one optional \<open>u32\<close> in storage, a
  call that sets it and a call that increments it and fails when it is unset or at its
  maximum.
\<close>

section \<open>Storage, events, errors\<close>

record template_storage =
  something :: "u32 option"

definition something_item :: "(template_storage, u32 option) item" where
  "something_item = \<lparr>item_name = ''Something'', item_get = something, item_update = something_update\<rparr>"

lemma something_item_simps [simp]:
  "item_name something_item = ''Something''"
  "item_get something_item = something"
  "item_update something_item = something_update"
  by (simp_all add: something_item_def)

interpretation something: storage_item something_item
  by unfold_locales auto

datatype 'a template_event = SomethingStored u32 'a

datatype template_error = NoneValue | StorageOverflow

section \<open>Dispatchables\<close>

definition do_something ::
    "('o, 'a, 'd) frame \<Rightarrow> 'o \<Rightarrow> u32 \<Rightarrow> (template_storage, 'a template_event, 'd, template_error) dispatchable" where
  "do_something F origin v =
     try_then (from_result (map_sum Framework id (ensure_signed F origin))) (\<lambda>who.
     try_then (value_put something_item (Some v)) (\<lambda>_.
     try_then (deposit_event (SomethingStored v who)) (\<lambda>_.
     done_with ())))"

definition cause_error ::
    "('o, 'a, 'd) frame \<Rightarrow> 'o \<Rightarrow> (template_storage, 'a template_event, 'd, template_error) dispatchable" where
  "cause_error F origin =
     try_then (from_result (map_sum Framework id (ensure_signed F origin))) (\<lambda>_.
     try_then (value_get something_item) (\<lambda>value.
     case value of
       None \<Rightarrow> fail_with (Module NoneValue)
     | Some old \<Rightarrow>
         try_then (ok_or (Module StorageOverflow) (checked_add old 1)) (\<lambda>new.
         try_then (value_put something_item (Some new)) (\<lambda>_.
         done_with ()))))"

text \<open>The \<open>Call\<close> enum of the pallet, and what dispatching one of its variants runs.\<close>

datatype template_call = Do_something u32 | Cause_error

fun template_dispatch ::
    "('o, 'a, 'd) frame \<Rightarrow> 'o \<Rightarrow> template_call \<Rightarrow> (template_storage, 'a template_event, 'd, template_error) dispatchable" where
  "template_dispatch F origin (Do_something v) = do_something F origin v"
| "template_dispatch F origin Cause_error = cause_error F origin"

text \<open>\<open>#[pallet::call_index(..)]\<close>\<close>

fun template_call_index :: "template_call \<Rightarrow> nat" where
  "template_call_index (Do_something v) = 0"
| "template_call_index Cause_error = 1"

definition template_genesis :: template_storage where
  "template_genesis = \<lparr>something = None\<rparr>"

section \<open>What each call does, branch by branch\<close>

lemma do_something_eq:
  "do_something F origin v s = (case ensure_signed F origin of
     Inl d \<Rightarrow> (Inl (Framework d), s)
   | Inr a \<Rightarrow> (Inr (), s\<lparr>store := (store s)\<lparr>something := Some v\<rparr>,
                          deposited := deposited s @ [SomethingStored v a],
                          accesses := accesses s @ [Write ''Something'']\<rparr>))"
  by (rule wp_exact) (simp add: do_something_def wp_rules split: sum.splits)

lemma cause_error_eq:
  "cause_error F origin s = (case ensure_signed F origin of
     Inl d \<Rightarrow> (Inl (Framework d), s)
   | Inr a \<Rightarrow> (case something (store s) of
       None \<Rightarrow> (Inl (Module NoneValue), s\<lparr>accesses := accesses s @ [Read ''Something'']\<rparr>)
     | Some old \<Rightarrow>
         if old = - 1 then (Inl (Module StorageOverflow), s\<lparr>accesses := accesses s @ [Read ''Something'']\<rparr>)
         else (Inr (), s\<lparr>store := (store s)\<lparr>something := Some (old + 1)\<rparr>,
                         accesses := accesses s @ [Read ''Something'', Write ''Something'']\<rparr>)))"
  by (rule wp_exact)
     (simp add: cause_error_def wp_rules checked_add_one split: sum.split option.split)

end
