(* ===== verification/Counter_Properties.thy ===== *)
theory Counter_Properties
  imports Counter_Pallet Template_Pallet Pallet_Contract
begin

text \<open>
  The properties of the two small pallets.  Their abstract contracts are on natural numbers:
  the counter counts increments since the last reset below \<open>2 ^ 64\<close>, the template's value is
  set or incremented below \<open>2 ^ 32\<close>.  The counter's events tell its value at any time.
\<close>

section \<open>Abstract counters\<close>

fun counter_spec :: "nat \<Rightarrow> counter_call \<Rightarrow> nat option" where
  "counter_spec n Increment = (if n + 1 < 2 ^ 64 then Some (n + 1) else None)"
| "counter_spec n Reset = Some 0"

fun template_spec :: "nat option \<Rightarrow> template_call \<Rightarrow> template_error + nat option" where
  "template_spec v (Do_something w) = Inr (Some (unat w))"
| "template_spec None Cause_error = Inl NoneValue"
| "template_spec (Some n) Cause_error =
     (if n + 1 < 2 ^ 32 then Inr (Some (n + 1)) else Inl StorageOverflow)"

lemma unat_max_iff:
  fixes a :: "'l::len word"
  shows "a = - 1 \<longleftrightarrow> \<not> unat a + 1 < 2 ^ LENGTH('l)"
  using checked_add_one_None [of a] by (auto simp: checked_add_None not_less)

lemma unat_add_one:
  fixes a :: "'l::len word"
  shows "a \<noteq> - 1 \<Longrightarrow> unat (a + 1) = unat a + 1"
  using checked_add_unat [of a 1 "a + 1"] by (simp add: checked_add_one)

text \<open>The counter a follower of the events has: one more per increment, 0 at a reset.\<close>

fun replay_counter :: "'a counter_event list \<Rightarrow> nat" where
  "replay_counter [] = 0"
| "replay_counter (CounterIncremented new who # evs) = Suc (replay_counter evs)"
| "replay_counter (CounterReset who # evs) = 0"

definition counter_told :: "counter_storage \<Rightarrow> 'a counter_event list \<Rightarrow> bool" where
  "counter_told st evs \<longleftrightarrow> unat (counter st) = replay_counter (rev evs)"

type_synonym ('o, 'a, 'd) counter_extrinsic = "('o, 'a, 'd) frame \<times> 'o \<times> counter_call"

definition counter_apply :: "('o, 'a, 'd) counter_extrinsic \<Rightarrow>
    (counter_storage, 'a counter_event, 'd, counter_error) dispatchable" where
  "counter_apply x = (case x of (F, origin, c) \<Rightarrow> counter_dispatch F origin c)"

lemma counter_dispatch_cases:
  assumes "counter_dispatch F origin c s = (Inr (), t)"
  obtains (incremented) who where "ensure_signed F origin = Inr who" "c = Increment"
      "counter (store s) \<noteq> - 1" "store t = \<lparr>counter = counter (store s) + 1\<rparr>"
      "deposited t = deposited s @ [CounterIncremented (counter (store s) + 1) who]"
    | (reset_done) who where "ensure_signed F origin = Inr who" "c = Reset"
      "store t = \<lparr>counter = 0\<rparr>" "deposited t = deposited s @ [CounterReset who]"
  using assms by (cases c) (auto simp: increment_eq reset_eq split: sum.splits if_splits)

interpretation counter_log: logged_pallet counter_apply "\<lambda>_. True" counter_genesis counter_told
proof
  show "counter_told counter_genesis []"
    by (simp add: counter_told_def counter_genesis_def)
next
  fix x s t assume "counter_told (store s) (deposited s)" "counter_apply x s = (Inr (), t)"
  then show "counter_told (store t) (deposited t)"
    by (cases x) (auto simp: counter_apply_def counter_told_def unat_add_one elim!: counter_dispatch_cases)
qed

section \<open>Properties\<close>

text \<open>
  C12. The counter pallet implements the bounded counter: a signed call does what the
  abstract counter does on the number stored (one more, or zero) and announces it, and where
  the abstract counter has no next value (an increment at \<open>2 ^ 64 - 1\<close>) it fails with
  \<open>Overflow\<close> and leaves storage and events alone; it never wraps around.
\<close>

theorem counter_refinement:
  assumes "ensure_signed F origin = Inr who" "counter_dispatch F origin c s = (r, t)"
  shows "case counter_spec (unat (counter (store s))) c of
     Some n \<Rightarrow> r = Inr () \<and> unat (counter (store t)) = n \<and>
       deposited t = deposited s @
         [case c of Increment \<Rightarrow> CounterIncremented (counter (store t)) who | Reset \<Rightarrow> CounterReset who]
   | None \<Rightarrow> r = Inl (Module Overflow) \<and> store t = store s \<and> deposited t = deposited s"
  using assms unat_max_iff [of "counter (store s)"] unat_add_one [of "counter (store s)"]
  by (cases c) (auto simp: increment_eq reset_eq split: if_splits)

theorem counter_refinement_witness:
  "fst (counter_dispatch (plain_frame 1) (Some (5::nat)) Increment (fresh_ext \<lparr>counter = - 1\<rparr>)) =
     Inl (Module Overflow) \<and>
   unat (counter (store (snd (counter_dispatch (plain_frame 1) (Some (5::nat)) Increment
     (fresh_ext \<lparr>counter = 41\<rparr>))))) = 42"
  using counter_refinement [of "plain_frame 1" "Some (5::nat)" 5 Increment "fresh_ext \<lparr>counter = - 1\<rparr>",
      OF _ prod.collapse [symmetric]]
    counter_refinement [of "plain_frame 1" "Some (5::nat)" 5 Increment "fresh_ext \<lparr>counter = 41\<rparr>",
      OF _ prod.collapse [symmetric]]
  by (simp add: plain_frame_def unsigned_minus_1_eq_mask mask_eq_exp_minus_1)

text \<open>
  The counter's events tell its value: after any block of extrinsics from genesis,
  successful and failed, under any storage layer, the stored counter is the number of
  increment events since the last reset event.
\<close>

theorem counter_follows_events:
  assumes "storage_layer layer"
  shows "unat (counter (store (apply_block layer counter_apply (fresh_ext counter_genesis) xs))) =
    replay_counter (rev (deposited (apply_block layer counter_apply (fresh_ext counter_genesis) xs)))"
  using counter_log.genesis_block_holds [OF assms, of xs]
  by (simp add: counter_told_def list_all_iff)

theorem counter_follows_events_witness:
  "unat (counter (store (apply_block rollback_layer counter_apply (fresh_ext counter_genesis)
      [(plain_frame 1, Some (5::nat), Increment), (plain_frame 1, None, Reset),
       (plain_frame 1, Some 6, Increment)]))) = 2"
  by (subst counter_follows_events [OF storage_layer_rollback])
     (simp add: counter_apply_def rollback_layer_def increment_eq reset_eq plain_frame_def counter_genesis_def)

text \<open>
  C31. The template pallet implements the optional bounded number: \<open>do_something\<close> stores its
  argument whatever was there, \<open>cause_error\<close> adds one, or fails with \<open>NoneValue\<close> when nothing
  is stored and with \<open>StorageOverflow\<close> at \<open>2 ^ 32 - 1\<close>, leaving storage and events alone.
\<close>

theorem template_refinement:
  assumes "ensure_signed F origin = Inr who" "template_dispatch F origin c s = (r, t)"
  shows "case template_spec (map_option unat (something (store s))) c of
     Inr v \<Rightarrow> r = Inr () \<and> map_option unat (something (store t)) = v \<and>
       deposited t = deposited s @
         (case c of Do_something w \<Rightarrow> [SomethingStored w who] | Cause_error \<Rightarrow> [])
   | Inl e \<Rightarrow> r = Inl (Module e) \<and> store t = store s \<and> deposited t = deposited s"
proof (cases c)
  case (Do_something w)
  with assms show ?thesis by (auto simp: do_something_eq)
next
  case Cause_error
  with assms unat_max_iff [where 'l = 32] unat_add_one [where 'l = 32] show ?thesis
    by (cases "something (store s)") (auto simp: cause_error_eq split: if_splits)
qed

theorem template_refinement_witness:
  "fst (template_dispatch (plain_frame 1) (Some (5::nat)) Cause_error (fresh_ext template_genesis)) =
     Inl (Module NoneValue)"
  using template_refinement [of "plain_frame 1" "Some (5::nat)" 5 Cause_error "fresh_ext template_genesis",
      OF _ prod.collapse [symmetric]]
  by (simp add: plain_frame_def template_genesis_def)

text \<open>
  Nobody without a signature changes the small pallets: an origin that \<open>ensure_signed\<close>
  refuses gets the framework's own error from every call, before storage is even read.
\<close>

lemma unsigned_refused:
  assumes "ensure_signed F origin = Inl d"
  shows "counter_dispatch F origin c s = (Inl (Framework d), s) \<and>
    template_dispatch F origin c' s' = (Inl (Framework d), s')"
  using assms
  by (cases c; cases c') (simp_all add: increment_eq reset_eq do_something_eq cause_error_eq)

lemma unsigned_refused_witness:
  "counter_dispatch (plain_frame 1 :: (nat option, nat, unit) frame) None Reset (fresh_ext \<lparr>counter = 3\<rparr>) =
     (Inl (Framework ()), fresh_ext \<lparr>counter = 3\<rparr>)"
  using unsigned_refused [of "plain_frame 1 :: (nat option, nat, unit) frame" None "()" Reset
      "fresh_ext \<lparr>counter = 3\<rparr>"]
  by (simp add: plain_frame_def)

end
