(* ===== verification/Weights.thy ===== *)
theory Weights
  imports Counter_Properties Profile_Registry
begin

text \<open>
  The weights the pallets declare for their calls (\<open>weights.rs\<close> of each pallet) against the
  database accesses the calls make.  \<open>Weight\<close>, its saturating addition and the database
  weights are types and functions of \<open>sp_weights\<close> and \<open>frame_support\<close>: parameters here, with
  their documented arithmetic as the hypothesis \<open>weight_laws\<close>.
\<close>

section \<open>Weights\<close>

record 'w weight_api =
  from_parts :: "u64 \<Rightarrow> u64 \<Rightarrow> 'w"
  saturating_add :: "'w \<Rightarrow> 'w \<Rightarrow> 'w"

text \<open>A \<open>RuntimeDbWeight\<close>: \<open>T::DbWeight::get()\<close> or \<open>RocksDbWeight::get()\<close>.\<close>

record 'w db_weight =
  db_reads :: "u64 \<Rightarrow> 'w"
  db_writes :: "u64 \<Rightarrow> 'w"

text \<open>
  Documented arithmetic, read off through the reference time \<open>rt\<close> of a weight: a read costs
  \<open>rc\<close>, a write \<open>wc\<close>, and everything saturates at \<open>u64::MAX\<close>.
\<close>

definition max_u64 :: nat where
  "max_u64 = 2 ^ 64 - 1"

definition weight_laws :: "'w weight_api \<Rightarrow> 'w db_weight \<Rightarrow> ('w \<Rightarrow> nat) \<Rightarrow> nat \<Rightarrow> nat \<Rightarrow> bool" where
  "weight_laws A D rt rc wc \<longleftrightarrow>
     (\<forall>a b. rt (from_parts A a b) = unat a) \<and>
     (\<forall>x y. rt (saturating_add A x y) = min max_u64 (rt x + rt y)) \<and>
     (\<forall>n. rt (db_reads D n) = min max_u64 (unat n * rc)) \<and>
     (\<forall>n. rt (db_writes D n) = min max_u64 (unat n * wc))"

lemma weight_lawsD:
  assumes "weight_laws A D rt rc wc"
  shows "rt (from_parts A a b) = unat a"
    "rt (saturating_add A x y) = min max_u64 (rt x + rt y)"
    "rt (db_reads D n) = min max_u64 (unat n * rc)"
    "rt (db_writes D n) = min max_u64 (unat n * wc)"
  using assms by (simp_all add: weight_laws_def)

text \<open>
  Two instances: reference times as numbers, with the costs given, and pairs that count the
  declared reads and writes.
\<close>

definition time_api :: "nat weight_api" where
  "time_api = \<lparr>from_parts = (\<lambda>a b. unat a), saturating_add = (\<lambda>x y. min max_u64 (x + y))\<rparr>"

definition time_db :: "nat \<Rightarrow> nat \<Rightarrow> nat db_weight" where
  "time_db rc wc = \<lparr>db_reads = (\<lambda>n. min max_u64 (unat n * rc)), db_writes = (\<lambda>n. min max_u64 (unat n * wc))\<rparr>"

lemma weight_laws_time: "weight_laws time_api (time_db rc wc) id rc wc"
  by (simp add: weight_laws_def time_api_def time_db_def)

definition count_api :: "(nat \<times> nat) weight_api" where
  "count_api = \<lparr>from_parts = (\<lambda>a b. (0, 0)), saturating_add = (\<lambda>x y. (fst x + fst y, snd x + snd y))\<rparr>"

definition count_db :: "(nat \<times> nat) db_weight" where
  "count_db = \<lparr>db_reads = (\<lambda>n. (unat n, 0)), db_writes = (\<lambda>n. (0, unat n))\<rparr>"

section \<open>The \<open>WeightInfo\<close> traits and their implementations\<close>

record 'w template_weight_info =
  do_something_weight :: 'w
  cause_error_weight :: 'w

record 'w counter_weight_info =
  increment_weight :: 'w
  reset_weight :: 'w

record 'w profile_weight_info =
  set_username_weight :: 'w
  update_profile_weight :: 'w
  update_stats_weight :: 'w

text \<open>\<open>impl WeightInfo for SubstrateWeight<T>\<close>, over \<open>T::DbWeight\<close>.\<close>

definition template_substrate_weight :: "'w weight_api \<Rightarrow> 'w db_weight \<Rightarrow> 'w template_weight_info" where
  "template_substrate_weight A D = \<lparr>
     do_something_weight = saturating_add A (from_parts A 9000000 0) (db_writes D 1),
     cause_error_weight = saturating_add A (saturating_add A (from_parts A 6000000 1489)
       (db_reads D 1)) (db_writes D 1)\<rparr>"

definition counter_substrate_weight :: "'w weight_api \<Rightarrow> 'w db_weight \<Rightarrow> 'w counter_weight_info" where
  "counter_substrate_weight A D = \<lparr>
     increment_weight = saturating_add A (saturating_add A (from_parts A 6000000 0)
       (db_reads D 1)) (db_writes D 1),
     reset_weight = saturating_add A (from_parts A 5000000 0) (db_writes D 1)\<rparr>"

definition profile_substrate_weight :: "'w weight_api \<Rightarrow> 'w db_weight \<Rightarrow> 'w profile_weight_info" where
  "profile_substrate_weight A D = \<lparr>
     set_username_weight = saturating_add A (saturating_add A (from_parts A 25000000 0)
       (db_reads D 1)) (db_writes D 3),
     update_profile_weight = saturating_add A (saturating_add A (from_parts A 30000000 0)
       (db_reads D 2)) (db_writes D 3),
     update_stats_weight = saturating_add A (saturating_add A (from_parts A 20000000 0)
       (db_reads D 2)) (db_writes D 1)\<rparr>"

text \<open>\<open>impl WeightInfo for ()\<close>, over \<open>RocksDbWeight\<close>.\<close>

definition template_unit_weight :: "'w weight_api \<Rightarrow> 'w db_weight \<Rightarrow> 'w template_weight_info" where
  "template_unit_weight A rocks = \<lparr>
     do_something_weight = saturating_add A (from_parts A 9000000 0) (db_writes rocks 1),
     cause_error_weight = saturating_add A (saturating_add A (from_parts A 6000000 1489)
       (db_reads rocks 1)) (db_writes rocks 1)\<rparr>"

definition counter_unit_weight :: "'w weight_api \<Rightarrow> 'w db_weight \<Rightarrow> 'w counter_weight_info" where
  "counter_unit_weight A rocks = \<lparr>
     increment_weight = saturating_add A (saturating_add A (from_parts A 6000000 0)
       (db_reads rocks 1)) (db_writes rocks 1),
     reset_weight = saturating_add A (from_parts A 5000000 0) (db_writes rocks 1)\<rparr>"

definition profile_unit_weight :: "'w weight_api \<Rightarrow> 'w db_weight \<Rightarrow> 'w profile_weight_info" where
  "profile_unit_weight A rocks = \<lparr>
     set_username_weight = saturating_add A (saturating_add A (from_parts A 25000000 0)
       (db_reads rocks 1)) (db_writes rocks 3),
     update_profile_weight = saturating_add A (saturating_add A (from_parts A 30000000 0)
       (db_reads rocks 2)) (db_writes rocks 3),
     update_stats_weight = saturating_add A (saturating_add A (from_parts A 20000000 0)
       (db_reads rocks 2)) (db_writes rocks 1)\<rparr>"

text \<open>\<open>#[pallet::weight(T::WeightInfo::..())]\<close> on each call.\<close>

fun template_call_weight :: "'w template_weight_info \<Rightarrow> template_call \<Rightarrow> 'w" where
  "template_call_weight W (Do_something v) = do_something_weight W"
| "template_call_weight W Cause_error = cause_error_weight W"

fun counter_call_weight :: "'w counter_weight_info \<Rightarrow> counter_call \<Rightarrow> 'w" where
  "counter_call_weight W Increment = increment_weight W"
| "counter_call_weight W Reset = reset_weight W"

fun profile_call_weight :: "'w profile_weight_info \<Rightarrow> profile_call \<Rightarrow> 'w" where
  "profile_call_weight W (Set_username u) = set_username_weight W"
| "profile_call_weight W (Update_profile u v b) = update_profile_weight W"
| "profile_call_weight W (Update_stats r w d x) = update_stats_weight W"

section \<open>Accesses within the declaration\<close>

text \<open>
  A pallet whose calls never read or write more than their weights declare.  The time the
  database then takes is covered by the declared accesses, whatever a read or a write costs.
\<close>

definition db_cost :: "nat \<Rightarrow> nat \<Rightarrow> access list \<Rightarrow> nat" where
  "db_cost rc wc as = reads as * rc + writes as * wc"

locale weighed_pallet =
  fixes dispatch :: "'x \<Rightarrow> ('st, 'ev, 'd, 'e) dispatchable"
    and declared :: "'x \<Rightarrow> nat \<times> nat"
  assumes within: "dispatch x s = (r, t) \<Longrightarrow>
    reads (accesses t) \<le> reads (accesses s) + fst (declared x) \<and>
    writes (accesses t) \<le> writes (accesses s) + snd (declared x)"
begin

lemma cost_covered:
  assumes "dispatch x (fresh_ext st) = (r, t)"
  shows "db_cost rc wc (accesses t) \<le> fst (declared x) * rc + snd (declared x) * wc"
  using within [OF assms] by (simp add: db_cost_def add_mono mult_le_mono1)

end

type_synonym ('o, 'a, 'd) template_extrinsic = "('o, 'a, 'd) frame \<times> 'o \<times> template_call"

definition template_apply :: "('o, 'a, 'd) template_extrinsic \<Rightarrow>
    (template_storage, 'a template_event, 'd, template_error) dispatchable" where
  "template_apply x = (case x of (F, origin, c) \<Rightarrow> template_dispatch F origin c)"

definition counter_declared :: "('o, 'a, 'd) counter_extrinsic \<Rightarrow> nat \<times> nat" where
  "counter_declared x = counter_call_weight (counter_substrate_weight count_api count_db) (snd (snd x))"

definition template_declared :: "('o, 'a, 'd) template_extrinsic \<Rightarrow> nat \<times> nat" where
  "template_declared x = template_call_weight (template_substrate_weight count_api count_db) (snd (snd x))"

interpretation counter_weighed: weighed_pallet counter_apply counter_declared
proof
  fix x s r t assume "counter_apply x s = (r, t)"
  then show "reads (accesses t) \<le> reads (accesses s) + fst (counter_declared x) \<and>
    writes (accesses t) \<le> writes (accesses s) + snd (counter_declared x)"
    by (cases x; cases "snd (snd x)")
       (auto simp: counter_apply_def counter_declared_def counter_substrate_weight_def count_api_def
          count_db_def increment_eq reset_eq split: sum.splits if_splits)
qed

interpretation template_weighed: weighed_pallet template_apply template_declared
proof
  fix x s r t assume "template_apply x s = (r, t)"
  then show "reads (accesses t) \<le> reads (accesses s) + fst (template_declared x) \<and>
    writes (accesses t) \<le> writes (accesses s) + snd (template_declared x)"
    by (cases x; cases "snd (snd x)")
       (auto simp: template_apply_def template_declared_def template_substrate_weight_def count_api_def
          count_db_def do_something_eq cause_error_eq split: sum.splits option.splits if_splits)
qed

end
