(* ===== verification/Weight_Properties.thy ===== *)
theory Weight_Properties
  imports Weights
begin

text \<open>
  What the declared weights are worth: the small pallets declare enough for every execution,
  the user-profile pallet declares too little for two of its three calls and too much for
  the third.
\<close>

text \<open>Reads and writes of \<open>update_profile\<close>, by what it is given and what it finds.\<close>

lemma update_profile_accesses:
  assumes "bounded_vec_ok F" "ensure_signed F origin = Inr who"
    and "update_profile C F origin u av bi s = (Inr (), t)"
  shows "reads (accesses t) = reads (accesses s) + 2 + (if u = None then 0 else 1) \<and>
    writes (accesses t) = writes (accesses s) + 1 +
      (if user_stats_map (store s) who = None then 1 else 0) + (if u = None then 0 else 2)"
    (is "?Q t")
proof -
  have "wp (update_profile C F origin u av bi) (\<lambda>_ t. ?Q t) (\<lambda>_ _. True) s"
    using assms(1,2)
    by (cases u; cases av; cases bi) (auto simp: update_profile_def wp_rules bounded_ok)
  with assms(3) show ?thesis by (rule wp_OkD)
qed

lemma set_username_accesses:
  assumes "bounded_vec_ok F" "set_username C F origin name s = (Inr (), t)"
  shows "reads (accesses t) = reads (accesses s) + 2 \<and> writes (accesses t) = writes (accesses s) + 3"
  using assms(2) by (auto simp: set_username_eq [OF assms(1)] split: sum.splits option.splits)

lemma update_stats_accesses:
  assumes "update_stats F origin r w d x s = (Inr (), t)"
  shows "reads (accesses t) = reads (accesses s) + 1 \<and> writes (accesses t) = writes (accesses s) + 1"
  using assms by (auto simp: update_stats_eq Let_def split: sum.splits)

text \<open>The execution time part of each declared weight.\<close>

fun counter_time :: "counter_call \<Rightarrow> nat" where
  "counter_time Increment = 6000000"
| "counter_time Reset = 5000000"

fun template_time :: "template_call \<Rightarrow> nat" where
  "template_time (Do_something v) = 9000000"
| "template_time Cause_error = 6000000"

lemma counter_declared_time:
  assumes "weight_laws A D rt rc wc"
  shows "rt (counter_call_weight (counter_substrate_weight A D) c) = min max_u64
      (counter_time c + (fst (counter_declared (F, origin, c)) * rc + snd (counter_declared (F, origin, c)) * wc))"
  using assms
  by (cases c) (auto simp: counter_declared_def counter_substrate_weight_def count_api_def count_db_def
      weight_lawsD max_u64_def min_def)

lemma template_declared_time:
  assumes "weight_laws A D rt rc wc"
  shows "rt (template_call_weight (template_substrate_weight A D) c) = min max_u64
      (template_time c + (fst (template_declared (F, origin, c)) * rc + snd (template_declared (F, origin, c)) * wc))"
  using assms
  by (cases c) (auto simp: template_declared_def template_substrate_weight_def count_api_def count_db_def
      weight_lawsD max_u64_def min_def)

text \<open>
  The weights of the counter and template pallets cover their database accesses: for
  every call, every storage and every outcome, the declared reference time is at least the
  declared execution time plus the cost of the reads and writes made (up to saturation at
  \<open>u64::MAX\<close>), whatever a read and a write cost.
\<close>

theorem small_pallet_weights_cover:
  assumes "weight_laws A D rt rc wc"
    and "counter_apply (F, origin, c) (fresh_ext st) = (r, t)"
    and "template_apply (F', origin', c') (fresh_ext st') = (r', t')"
  shows "min max_u64 (counter_time c + db_cost rc wc (accesses t)) \<le>
      rt (counter_call_weight (counter_substrate_weight A D) c) \<and>
    min max_u64 (template_time c' + db_cost rc wc (accesses t')) \<le>
      rt (template_call_weight (template_substrate_weight A D) c')"
  using counter_weighed.cost_covered [OF assms(2), of rc wc]
    template_weighed.cost_covered [OF assms(3), of rc wc]
  unfolding counter_declared_time [OF assms(1), where F = F and origin = origin]
    template_declared_time [OF assms(1), where F = F' and origin = origin']
  by (auto simp: min_def)

theorem small_pallet_weights_cover_witness:
  "6000000 + db_cost 25000000 100000000
     (accesses (snd (counter_apply (plain_frame 1, Some (5::nat), Increment) (fresh_ext \<lparr>counter = 4\<rparr>)))) \<le>
   counter_call_weight (counter_substrate_weight time_api (time_db 25000000 100000000)) Increment"
proof -
  let ?c = "counter_apply (plain_frame 1, Some (5::nat), Increment) (fresh_ext \<lparr>counter = 4\<rparr>)"
  let ?t = "template_apply (plain_frame 1, Some (5::nat), Cause_error) (fresh_ext template_genesis)"
  have "db_cost 25000000 100000000 (accesses (snd ?c)) = 125000000"
    by (simp add: counter_apply_def increment_eq plain_frame_def db_cost_def word_eq_iff_unsigned)
  then show ?thesis
    using small_pallet_weights_cover [OF weight_laws_time prod.collapse [symmetric, of ?c]
        prod.collapse [symmetric, of ?t], of 25000000 100000000]
    by (simp add: max_u64_def)
qed

text \<open>
  C38. The user-profile weights miss the accesses of their calls: every successful
  \<open>set_username\<close> makes two reads where one is declared, an \<open>update_profile\<close> with a username
  from an account without statistics makes three reads and four writes where two and three
  are declared, and every \<open>update_stats\<close> makes one read where two are declared.  The
  declared time is off by exactly these accesses when nothing saturates.
\<close>

theorem profile_weights_miss_accesses:
  assumes "weight_laws A D rt rc wc" "bounded_vec_ok F" "ensure_signed F origin = Inr who"
    and "30000000 + 3 * rc + 4 * wc \<le> max_u64"
    and "set_username C F origin name (fresh_ext st1) = (Inr (), t1)"
    and "update_profile C F origin (Some u) av bi (fresh_ext st2) = (Inr (), t2)"
    and "user_stats_map st2 who = None"
    and "update_stats F origin r w d x (fresh_ext st3) = (Inr (), t3)"
  shows "rt (set_username_weight (profile_substrate_weight A D)) + rc =
      25000000 + db_cost rc wc (accesses t1) \<and>
    rt (update_profile_weight (profile_substrate_weight A D)) + rc + wc =
      30000000 + db_cost rc wc (accesses t2) \<and>
    rt (update_stats_weight (profile_substrate_weight A D)) =
      20000000 + db_cost rc wc (accesses t3) + rc"
proof -
  note law = weight_lawsD [OF assms(1)]
  have "rt (set_username_weight (profile_substrate_weight A D)) = 25000000 + rc + 3 * wc"
    "rt (update_profile_weight (profile_substrate_weight A D)) = 30000000 + 2 * rc + 3 * wc"
    "rt (update_stats_weight (profile_substrate_weight A D)) = 20000000 + 2 * rc + wc"
    using assms(4) by (simp_all add: profile_substrate_weight_def law)
  with set_username_accesses [OF assms(2,5)] update_profile_accesses [OF assms(2,3,6)]
    update_stats_accesses [OF assms(8)] assms(7)
  show ?thesis by (simp add: db_cost_def)
qed

theorem profile_weights_miss_accesses_witness:
  "set_username_weight (profile_substrate_weight time_api (time_db 25000000 100000000)) + 25000000 =
     25000000 + db_cost 25000000 100000000
       (accesses (snd (set_username mock_config (plain_frame 3) (Some 7) [100] (fresh_ext two_names))))"
proof -
  let ?r1 = "set_username mock_config (plain_frame 3) (Some 7) [100] (fresh_ext two_names)"
  let ?r2 = "update_profile mock_config (plain_frame 3) (Some 7) (Some [100]) None None
    (fresh_ext profile_genesis)"
  let ?r3 = "update_stats (plain_frame 3) (Some (7::nat)) None None None None (fresh_ext two_names)"
  have "username_to_account two_names [100] = None" by (simp add: two_names_def demo_simps)
  then have 1: "?r1 = (Inr (), snd ?r1)"
    by (simp add: set_username_eq [OF bounded_vec_ok_plain] username_verdict_def too_long_def
        taken_by_other_def mock_config_def)
  have 2: "?r2 = (Inr (), snd ?r2)"
    by (rule update_profile_Ok) (simp add: update_verdict_def username_verdict_def too_long_def
        taken_by_other_def mock_config_def profile_genesis_def)
  have 3: "?r3 = (Inr (), snd ?r3)" by (simp add: update_stats_eq Let_def)
  show ?thesis
    using profile_weights_miss_accesses [OF weight_laws_time bounded_vec_ok_plain _ _ 1 2 _ 3,
        of 7 25000000 100000000]
    by (simp add: max_u64_def profile_genesis_def)
qed

end
