(* ===== verification/Runtime_Config.thy ===== *)
theory Runtime_Config
  imports Weights
begin

text \<open>
  The constants and the configuration of the runtime (\<open>runtime/src/lib.rs\<close>,
  \<open>runtime/src/configs/mod.rs\<close>): version, block times, currency units, the pallets with
  their indices, and the values each \<open>impl .. Config for Runtime\<close> gives.  What the
  configuration takes from other crates (block weights and lengths, the length of a second
  of reference time, the database weights) are parameters.
\<close>

section \<open>Versions, block times, units\<close>

text \<open>
  The list \<open>apis\<close> of API versions, which \<open>impl_runtime_apis!\<close> generates, is left out.
\<close>

record runtime_version =
  spec_name :: string
  impl_name :: string
  authoring_version :: u32
  spec_version :: u32
  impl_version :: u32
  transaction_version :: u32
  system_version :: u8

definition VERSION :: runtime_version where
  "VERSION = \<lparr>spec_name = ''solochain-template-runtime'', impl_name = ''solochain-template-runtime'',
     authoring_version = 1, spec_version = 100, impl_version = 1, transaction_version = 1,
     system_version = 1\<rparr>"

definition MILLI_SECS_PER_BLOCK :: u64 where
  "MILLI_SECS_PER_BLOCK = 6000"

definition SLOT_DURATION :: u64 where
  "SLOT_DURATION = MILLI_SECS_PER_BLOCK"

definition MINUTES :: u32 where
  "MINUTES = 60000 div ucast MILLI_SECS_PER_BLOCK"

definition HOURS :: u32 where
  "HOURS = MINUTES * 60"

definition DAYS :: u32 where
  "DAYS = HOURS * 24"

definition BLOCK_HASH_COUNT :: u32 where
  "BLOCK_HASH_COUNT = 2400"

definition UNIT :: u128 where
  "UNIT = 1000000000000"

definition MILLI_UNIT :: u128 where
  "MILLI_UNIT = 1000000000"

definition MICRO_UNIT :: u128 where
  "MICRO_UNIT = 1000000"

definition EXISTENTIAL_DEPOSIT :: u128 where
  "EXISTENTIAL_DEPOSIT = MILLI_UNIT"

text \<open>
  \<open>native_version\<close>: the version with what the native build can author with, by default
  nothing.
\<close>

record 'c native_version =
  native_runtime_version :: runtime_version
  can_author_with :: 'c

definition native_version :: "'c \<Rightarrow> 'c native_version" where
  "native_version default_authorship = \<lparr>native_runtime_version = VERSION, can_author_with = default_authorship\<rparr>"

section \<open>Session keys\<close>

text \<open>
  \<open>impl_opaque_keys!\<close>: a key for each of the two consensus pallets, in this order.  The raw
  public keys are listed with the key types of the pallets that own them.
\<close>

record ('aura, 'grandpa) SessionKeys =
  session_aura :: 'aura
  session_grandpa :: 'grandpa

section \<open>The pallets\<close>

datatype pallet = System | Timestamp | Aura | Grandpa | Balances | TransactionPayment | Sudo
  | Template | SimpleCounter | UserProfile

text \<open>\<open>#[runtime::pallet_index(..)]\<close>\<close>

fun pallet_index :: "pallet \<Rightarrow> nat" where
  "pallet_index System = 0"
| "pallet_index Timestamp = 1"
| "pallet_index Aura = 2"
| "pallet_index Grandpa = 3"
| "pallet_index Balances = 4"
| "pallet_index TransactionPayment = 5"
| "pallet_index Sudo = 6"
| "pallet_index Template = 7"
| "pallet_index SimpleCounter = 8"
| "pallet_index UserProfile = 9"

lemma pallet_index_inj: "pallet_index p = pallet_index q \<Longrightarrow> p = q"
  by (cases p; cases q) simp_all

text \<open>
  The pallets are ordered by their index, which is the order in which the runtime runs their
  hooks and decodes their calls.
\<close>

instantiation pallet :: linorder
begin

definition less_eq_pallet :: "pallet \<Rightarrow> pallet \<Rightarrow> bool" where
  "less_eq_pallet p q \<longleftrightarrow> pallet_index p \<le> pallet_index q"

definition less_pallet :: "pallet \<Rightarrow> pallet \<Rightarrow> bool" where
  "less_pallet p q \<longleftrightarrow> pallet_index p < pallet_index q"

instance
  by standard (auto simp: less_eq_pallet_def less_pallet_def intro: pallet_index_inj)

end

text \<open>The declared pallets are listed in that order, from 0 without a gap.\<close>

definition declared_pallets :: "pallet list" where
  "declared_pallets = [System, Timestamp, Aura, Grandpa, Balances, TransactionPayment, Sudo,
     Template, SimpleCounter, UserProfile]"

lemma declared_pallets_all: "p \<in> set declared_pallets"
  by (cases p) (simp_all add: declared_pallets_def)

lemma declared_pallets_indices: "map pallet_index declared_pallets = [0..<10]"
  by (simp add: declared_pallets_def upt_conv_Cons)

lemma declared_pallets_sorted: "sorted declared_pallets" "distinct declared_pallets"
  by (simp_all add: declared_pallets_def less_eq_pallet_def)

section \<open>Configuration of the pallets\<close>

record system_config =
  block_hash_count :: u32
  ss58_prefix :: u8
  max_consumers :: u32
  cfg_version :: runtime_version

text \<open>The constants of \<open>parameter_types!\<close>.\<close>

definition BlockHashCount :: u32 where
  [simp]: "BlockHashCount = 2400"

definition SS58Prefix :: u8 where
  [simp]: "SS58Prefix = 42"

definition system_config :: system_config where
  "system_config = \<lparr>block_hash_count = BlockHashCount, ss58_prefix = SS58Prefix, max_consumers = 16, cfg_version = VERSION\<rparr>"

record aura_config =
  aura_max_authorities :: u32
  allow_multiple_blocks_per_slot :: bool
  aura_slot_duration :: u64

text \<open>
  \<open>SlotDuration = MinimumPeriodTimesTwo<Runtime>\<close> of \<open>pallet_aura\<close>: a function of the
  timestamp pallet's minimum period, given as a parameter.
\<close>

definition timestamp_minimum_period :: u64 where
  "timestamp_minimum_period = SLOT_DURATION div 2"

definition aura_config :: "(u64 \<Rightarrow> u64) \<Rightarrow> aura_config" where
  "aura_config minimum_period_times_two = \<lparr>aura_max_authorities = 32,
     allow_multiple_blocks_per_slot = False,
     aura_slot_duration = minimum_period_times_two timestamp_minimum_period\<rparr>"

record grandpa_config =
  grandpa_max_authorities :: u32
  max_nominators :: u32
  max_set_id_session_entries :: u64

definition grandpa_config :: grandpa_config where
  "grandpa_config = \<lparr>grandpa_max_authorities = 32, max_nominators = 0, max_set_id_session_entries = 0\<rparr>"

record balances_config =
  max_locks :: u32
  existential_deposit :: u128

definition balances_config :: balances_config where
  "balances_config = \<lparr>max_locks = 50, existential_deposit = EXISTENTIAL_DEPOSIT\<rparr>"

record 'm payment_config =
  operational_fee_multiplier :: u8
  fee_multiplier :: 'm

definition payment_config :: "'m \<Rightarrow> 'm payment_config" where
  "payment_config multiplier_one = \<lparr>operational_fee_multiplier = 5, fee_multiplier = multiplier_one\<rparr>"

definition runtime_profile_config :: profile_config where
  "runtime_profile_config = \<lparr>max_username_length = 32, max_bio_length = 256\<rparr>"

text \<open>
  \<open>parameter_types!\<close>: block weights and block length, from the constructors of
  \<open>frame_system::limits\<close> and the ratio \<open>Perbill::from_percent(75)\<close>.
\<close>

record ('w, 'p, 'bw, 'bl) limits_api =
  weight_ref_time_per_second :: u64
  from_percent :: "u32 \<Rightarrow> 'p"
  with_sensible_defaults :: "'w \<Rightarrow> 'p \<Rightarrow> 'bw"
  max_with_normal_ratio :: "u32 \<Rightarrow> 'p \<Rightarrow> 'bl"

definition normal_dispatch_ratio :: "('w, 'p, 'bw, 'bl) limits_api \<Rightarrow> 'p" where
  "normal_dispatch_ratio L = from_percent L 75"

definition runtime_block_weights :: "'w weight_api \<Rightarrow> ('w, 'p, 'bw, 'bl) limits_api \<Rightarrow> 'bw" where
  "runtime_block_weights A L = with_sensible_defaults L
     (from_parts A (2 * weight_ref_time_per_second L) (- 1)) (normal_dispatch_ratio L)"

definition runtime_block_length :: "('w, 'p, 'bw, 'bl) limits_api \<Rightarrow> 'bl" where
  "runtime_block_length L = max_with_normal_ratio L (5 * 1024 * 1024) (normal_dispatch_ratio L)"

text \<open>\<open>type WeightInfo\<close> of the three local pallets, with \<open>DbWeight = RocksDbWeight\<close>.\<close>

definition runtime_template_weight :: "'w weight_api \<Rightarrow> 'w db_weight \<Rightarrow> 'w template_weight_info" where
  "runtime_template_weight A rocks = template_substrate_weight A rocks"

definition runtime_counter_weight :: "'w weight_api \<Rightarrow> 'w db_weight \<Rightarrow> 'w counter_weight_info" where
  "runtime_counter_weight A rocks = counter_substrate_weight A rocks"

definition runtime_profile_weight :: "'w weight_api \<Rightarrow> 'w db_weight \<Rightarrow> 'w profile_weight_info" where
  "runtime_profile_weight A rocks = profile_substrate_weight A rocks"

text \<open>
  Block time arithmetic: \<open>MINUTES\<close>, \<open>HOURS\<close> and \<open>DAYS\<close> blocks of \<open>MILLI_SECS_PER_BLOCK\<close>
  take exactly a minute, an hour and a day, without rounding or wrap-around; the timestamp
  pallet's minimum period halves the slot duration without loss; and the block hashes kept
  by the system pallet (the same number as \<open>BLOCK_HASH_COUNT\<close>) reach back four hours.
\<close>

lemma block_time_arithmetic:
  "unat MINUTES * unat MILLI_SECS_PER_BLOCK = 60 * 1000 \<and>
   unat HOURS * unat MILLI_SECS_PER_BLOCK = 60 * 60 * 1000 \<and>
   unat DAYS * unat MILLI_SECS_PER_BLOCK = 24 * 60 * 60 * 1000 \<and>
   2 * unat timestamp_minimum_period = unat SLOT_DURATION \<and>
   block_hash_count system_config = BLOCK_HASH_COUNT \<and>
   unat (block_hash_count system_config) = 4 * unat HOURS"
  by (simp add: MINUTES_def HOURS_def DAYS_def MILLI_SECS_PER_BLOCK_def SLOT_DURATION_def
      timestamp_minimum_period_def system_config_def BLOCK_HASH_COUNT_def)

text \<open>
  Currency units: a thousand milli-units and a million micro-units make a unit of \<open>10 ^ 12\<close>,
  and the existential deposit that the balances pallet is configured with is one milli-unit.
\<close>

lemma currency_units:
  "unat UNIT = 10 ^ 12 \<and> 1000 * unat MILLI_UNIT = unat UNIT \<and> 1000000 * unat MICRO_UNIT = unat UNIT \<and>
   1000 * unat (existential_deposit balances_config) = unat UNIT"
  by (simp add: UNIT_def MILLI_UNIT_def MICRO_UNIT_def balances_config_def EXISTENTIAL_DEPOSIT_def)

end
