(* ===== verification/Runtime_Dispatch.thy ===== *)
theory Runtime_Dispatch
  imports Runtime_Config Profile_Registry
begin

text \<open>
  The runtime as the composition of its pallets (\<open>#[frame_support::runtime]\<close> in
  \<open>runtime/src/lib.rs\<close>).  The storage of each local pallet is an item of the runtime's
  storage; a call of a pallet runs in that item, its events and errors become the runtime's
  by the pallet's variant.  The calls of the seven framework pallets are a parameter.  Most of
  them reach the local pallets only by dispatching their calls, as the sudo pallet does;
  others write raw storage, as \<open>set_storage\<close> of the system pallet does for root.  The
  condition \<open>spares_profiles\<close> tells the first from the second.
\<close>

section \<open>Runtime storage, events, errors and calls\<close>

record ('a, 'f) runtime_storage =
  template_store :: template_storage
  counter_store :: counter_storage
  profile_store :: "'a profile_storage"
  framework_store :: 'f

datatype ('a, 'fe) runtime_event =
    FrameworkEvent 'fe
  | TemplateEvent "'a template_event"
  | SimpleCounterEvent "'a counter_event"
  | UserProfileEvent "'a profile_event"

datatype 'fx runtime_error =
    FrameworkError 'fx
  | TemplateError template_error
  | SimpleCounterError counter_error
  | UserProfileError profile_error

datatype 'fc runtime_call =
    FrameworkCall 'fc
  | TemplateCall template_call
  | SimpleCounterCall counter_call
  | UserProfileCall profile_call

definition template_part :: "(('a, 'f) runtime_storage, template_storage) item" where
  "template_part = \<lparr>item_name = ''Template'', item_get = template_store, item_update = template_store_update\<rparr>"

definition counter_part :: "(('a, 'f) runtime_storage, counter_storage) item" where
  "counter_part = \<lparr>item_name = ''SimpleCounter'', item_get = counter_store, item_update = counter_store_update\<rparr>"

definition profile_part :: "(('a, 'f) runtime_storage, 'a profile_storage) item" where
  "profile_part = \<lparr>item_name = ''UserProfile'', item_get = profile_store, item_update = profile_store_update\<rparr>"

lemmas part_defs = template_part_def counter_part_def profile_part_def

interpretation template_counter_parts: independent_items template_part counter_part
  by unfold_locales (auto simp: part_defs)

interpretation template_profile_parts: independent_items template_part profile_part
  by unfold_locales (auto simp: part_defs)

interpretation counter_profile_parts: independent_items counter_part profile_part
  by unfold_locales (auto simp: part_defs)

section \<open>A pallet's call in the runtime\<close>

definition embed ::
    "('rst, 'st) item \<Rightarrow> ('ev \<Rightarrow> 'rev) \<Rightarrow> ('e \<Rightarrow> 're) \<Rightarrow> ('st, 'ev, 'd, 'e) dispatchable \<Rightarrow>
     ('rst, 'rev, 'd, 're) dispatchable" where
  "embed i to_event to_error m s = (case m (fresh_ext (item_get i (store s))) of
     (r, t) \<Rightarrow> (map_sum (map_dispatch_error id to_error) id r,
       \<lparr>store = item_update i (\<lambda>_. store t) (store s),
        deposited = deposited s @ map to_event (deposited t),
        accesses = accesses s @ accesses t\<rparr>))"

lemma embed_Ok:
  "embed i f g m s = (Inr (), t) \<longleftrightarrow> (\<exists>u. m (fresh_ext (item_get i (store s))) = (Inr (), u) \<and>
     t = \<lparr>store = item_update i (\<lambda>_. store u) (store s), deposited = deposited s @ map f (deposited u),
          accesses = accesses s @ accesses u\<rparr>)"
proof (cases "m (fresh_ext (item_get i (store s)))")
  case (Pair r u)
  then show ?thesis by (cases r) (auto simp: embed_def)
qed

lemma embed_store:
  "store (snd (embed i f g m s)) =
     item_update i (\<lambda>_. store (snd (m (fresh_ext (item_get i (store s)))))) (store s)"
  by (simp add: embed_def split: prod.split)

lemma embed_result:
  "fst (embed i f g m s) =
     map_sum (map_dispatch_error id g) id (fst (m (fresh_ext (item_get i (store s)))))"
  by (simp add: embed_def split: prod.split)

context independent_items
begin

text \<open>Calls in independent parts of the storage do not see each other.\<close>

lemma embed_keeps_other:
  "item_get i (store (snd (embed j f g n s))) = item_get i (store s)"
  "item_get j (store (snd (embed i f' g' m s))) = item_get j (store s)"
  by (simp_all add: embed_store get_other get_other')

end

section \<open>Dispatch\<close>

type_synonym ('o, 'a, 'd, 'f, 'fe, 'fx, 'fc) framework_dispatch =
  "('o, 'a, 'd) frame \<Rightarrow> 'o \<Rightarrow> 'fc \<Rightarrow>
     (('a, 'f) runtime_storage, ('a, 'fe) runtime_event, 'd, 'fx runtime_error) dispatchable"

fun runtime_dispatch ::
    "('o, 'a, 'd, 'f, 'fe, 'fx, 'fc) framework_dispatch \<Rightarrow> ('o, 'a, 'd) frame \<Rightarrow> 'o \<Rightarrow> 'fc runtime_call \<Rightarrow>
     (('a, 'f) runtime_storage, ('a, 'fe) runtime_event, 'd, 'fx runtime_error) dispatchable" where
  "runtime_dispatch FD F origin (FrameworkCall c) = FD F origin c"
| "runtime_dispatch FD F origin (TemplateCall c) =
     embed template_part TemplateEvent TemplateError (template_dispatch F origin c)"
| "runtime_dispatch FD F origin (SimpleCounterCall c) =
     embed counter_part SimpleCounterEvent SimpleCounterError (counter_dispatch F origin c)"
| "runtime_dispatch FD F origin (UserProfileCall c) =
     embed profile_part UserProfileEvent UserProfileError
       (profile_dispatch runtime_profile_config F origin c)"

text \<open>The pallet index and the call index that identify a call of a local pallet.\<close>

fun local_call_index :: "'fc runtime_call \<Rightarrow> (nat \<times> nat) option" where
  "local_call_index (FrameworkCall c) = None"
| "local_call_index (TemplateCall c) = Some (pallet_index Template, template_call_index c)"
| "local_call_index (SimpleCounterCall c) = Some (pallet_index SimpleCounter, counter_call_index c)"
| "local_call_index (UserProfileCall c) = Some (pallet_index UserProfile, profile_call_index c)"

definition runtime_genesis :: "'f \<Rightarrow> ('a, 'f) runtime_storage" where
  "runtime_genesis f = \<lparr>template_store = template_genesis, counter_store = counter_genesis,
     profile_store = profile_genesis, framework_store = f\<rparr>"

text \<open>
  A framework call that spares the profiles: a success of it leaves the profile storage as
  some sequence of profile calls, each of them committed, leaves it.
\<close>

definition spares_profiles ::
    "('o, 'a, 'd, 'f, 'fe, 'fx, 'fc) framework_dispatch \<Rightarrow> ('o, 'a, 'd) frame \<Rightarrow> 'o \<Rightarrow> 'fc \<Rightarrow> bool" where
  "spares_profiles FD F origin c \<longleftrightarrow> (\<forall>s t. FD F origin c s = (Inr (), t) \<longrightarrow>
     (\<exists>xs :: ('o, 'a, 'd) profile_extrinsic list. list_all profile_legal xs \<and>
        profile_store (store t) =
          apply_all rollback_layer (profile_apply runtime_profile_config) (profile_store (store s)) xs))"

type_synonym ('o, 'a, 'd, 'fc) runtime_extrinsic = "('o, 'a, 'd) frame \<times> 'o \<times> 'fc runtime_call"

definition runtime_apply ::
    "('o, 'a, 'd, 'f, 'fe, 'fx, 'fc) framework_dispatch \<Rightarrow> ('o, 'a, 'd, 'fc) runtime_extrinsic \<Rightarrow>
     (('a, 'f) runtime_storage, ('a, 'fe) runtime_event, 'd, 'fx runtime_error) dispatchable" where
  "runtime_apply FD x = (case x of (F, origin, c) \<Rightarrow> runtime_dispatch FD F origin c)"

text \<open>The extrinsics considered: every local call, and the framework calls that spare the profiles.\<close>

definition runtime_legal ::
    "('o, 'a, 'd, 'f, 'fe, 'fx, 'fc) framework_dispatch \<Rightarrow> ('o, 'a, 'd, 'fc) runtime_extrinsic \<Rightarrow> bool" where
  "runtime_legal FD x \<longleftrightarrow> (case x of (F, origin, c) \<Rightarrow> bounded_vec_ok F \<and>
     (case c of FrameworkCall fc \<Rightarrow> spares_profiles FD F origin fc | _ \<Rightarrow> True))"

definition runtime_inv :: "('a, 'f) runtime_storage \<Rightarrow> bool" where
  "runtime_inv st \<longleftrightarrow> profile_inv runtime_profile_config (profile_store st)"

lemma runtime_dispatch_inv:
  assumes "runtime_legal FD (F, origin, c)" "runtime_inv (store s)"
    and "runtime_dispatch FD F origin c s = (Inr (), t)"
  shows "runtime_inv (store t)"
proof (cases c)
  case (FrameworkCall fc)
  with assms(1,3) obtain xs :: "('a, 'b, 'c) profile_extrinsic list"
    where xs: "list_all profile_legal xs" "profile_store (store t) =
      apply_all rollback_layer (profile_apply runtime_profile_config) (profile_store (store s)) xs"
    unfolding runtime_legal_def spares_profiles_def by fastforce
  from profile.apply_all_inv [OF storage_layer_rollback _ xs(1)] assms(2) xs(2)
  show ?thesis by (simp add: runtime_inv_def)
next
  case (UserProfileCall pc)
  with assms(3) obtain u where u: "profile_dispatch runtime_profile_config F origin pc
      (fresh_ext (profile_store (store s))) = (Inr (), u)" "profile_store (store t) = store u"
    by (auto simp: embed_Ok part_defs)
  have "bounded_vec_ok F" using assms(1) by (simp add: runtime_legal_def)
  from profile_dispatch_inv [OF this _ u(1)] u(2) assms(2) show ?thesis by (simp add: runtime_inv_def)
qed (use assms(2,3) in \<open>auto simp: embed_Ok part_defs runtime_inv_def\<close>)

text \<open>With these extrinsics the runtime is itself a provider of the pallet contract.\<close>

interpretation runtime: pallet_contract "runtime_apply FD" "runtime_legal FD" "runtime_genesis f" runtime_inv
  for FD f
proof
  show "runtime_inv (runtime_genesis f)"
    by (simp add: runtime_inv_def runtime_genesis_def profile_genesis_inv)
next
  fix x s t
  assume "runtime_legal FD x" "runtime_inv (store s)" "runtime_apply FD x s = (Inr (), t)"
  then show "runtime_inv (store t)"
    using runtime_dispatch_inv [of FD] by (cases x) (auto simp: runtime_apply_def)
qed

end
