(* ===== verification/Runtime_Properties.thy ===== *)
theory Runtime_Properties
  imports Runtime_Dispatch
begin

text \<open>Properties of the composed runtime.\<close>

section \<open>A runtime with a framework\<close>

text \<open>
  Three calls of framework pallets: one that stores a number of its own, one with which a
  profile call is dispatched as another account (\<open>sudo_as\<close>), one that writes profile storage
  directly (\<open>set_storage\<close>).
\<close>

datatype demo_call = Note nat | Sudo_as nat profile_call | Set_storage "nat profile_storage"

definition demo_framework ::
    "(nat option, nat, 'd, nat, unit, unit, demo_call) framework_dispatch" where
  "demo_framework F origin c s = (case c of
     Note n \<Rightarrow> (Inr (), s\<lparr>store := (store s)\<lparr>framework_store := n\<rparr>\<rparr>)
   | Sudo_as who pc \<Rightarrow> embed profile_part UserProfileEvent UserProfileError
       (profile_dispatch runtime_profile_config F (Some who) pc) s
   | Set_storage st \<Rightarrow> (Inr (), s\<lparr>store := (store s)\<lparr>profile_store := st\<rparr>\<rparr>))"

lemma demo_framework_spares:
  fixes F :: "(nat option, nat, 'd) frame"
  assumes "bounded_vec_ok F"
  shows "spares_profiles demo_framework F origin (Note n)"
    "spares_profiles demo_framework F origin (Sudo_as who pc)"
proof -
  show "spares_profiles demo_framework F origin (Note n)"
    unfolding spares_profiles_def by (auto simp: demo_framework_def intro!: exI [of _ "[]"])
  show "spares_profiles demo_framework F origin (Sudo_as who pc)"
    unfolding spares_profiles_def
  proof (intro allI impI)
    fix s t assume "demo_framework F origin (Sudo_as who pc) s = (Inr (), t)"
    then obtain u where u: "profile_dispatch runtime_profile_config F (Some who) pc
        (fresh_ext (profile_store (store s))) = (Inr (), u)" "profile_store (store t) = store u"
      by (auto simp: demo_framework_def embed_Ok part_defs)
    then show "\<exists>xs :: (nat option, nat, 'd) profile_extrinsic list. list_all profile_legal xs \<and> profile_store (store t) =
        apply_all rollback_layer (profile_apply runtime_profile_config) (profile_store (store s)) xs"
      using assms
      by (intro exI [of _ "[(F, Some who, pc)]"]) (simp add: profile_legal_def profile_apply_def rollback_layer_def)
  qed
qed

text \<open>The call that writes storage directly is not one of these, and can break the invariant.\<close>

definition long_name_storage :: "nat profile_storage" where
  "long_name_storage = profile_genesis\<lparr>profiles := [7 \<mapsto>
     \<lparr>account = 7, username = replicate 33 97, avatar = None, bio = None, created_at = 0\<rparr>]\<rparr>"

lemma raw_write_not_spared: "\<not> spares_profiles demo_framework (plain_frame 1) origin (Set_storage long_name_storage)"
proof
  let ?s = "fresh_ext (runtime_genesis 0) :: ((nat, nat) runtime_storage, (nat, unit) runtime_event) ext"
  let ?x = "(plain_frame 1, origin, FrameworkCall (Set_storage long_name_storage))"
  assume "spares_profiles demo_framework (plain_frame 1) origin (Set_storage long_name_storage)"
  then have "runtime_legal demo_framework ?x" by (simp add: runtime_legal_def bounded_vec_ok_plain)
  moreover have "runtime_inv (store ?s)" using runtime.genesis_inv by simp
  moreover have "runtime_apply demo_framework ?x ?s =
      (Inr (), ?s\<lparr>store := (store ?s)\<lparr>profile_store := long_name_storage\<rparr>\<rparr>)"
    by (simp add: runtime_apply_def demo_framework_def)
  ultimately have "runtime_inv (store (?s\<lparr>store := (store ?s)\<lparr>profile_store := long_name_storage\<rparr>\<rparr>))"
    by (rule runtime.dispatch_inv)
  then show False
    by (auto simp: runtime_inv_def long_name_storage_def profiles_wf_def profile_bounded_def too_long_def
        runtime_profile_config_def dest!: profile_invD(3) spec [of _ 7])
qed

definition demo_extrinsics :: "(nat option, nat, unit, demo_call) runtime_extrinsic list" where
  "demo_extrinsics = [(plain_frame 1, Some 7, UserProfileCall (Set_username [97])),
     (plain_frame 1, Some 7, FrameworkCall (Note 5)),
     (plain_frame 1, Some 7, SimpleCounterCall Increment),
     (plain_frame 2, Some 1, FrameworkCall (Sudo_as 8 (Set_username [98])))]"

definition demo_runtime :: "(nat, nat) runtime_storage" where
  "demo_runtime = apply_all rollback_layer (runtime_apply demo_framework) (runtime_genesis 0) demo_extrinsics"

lemma demo_runtime_reachable:
  "reachable rollback_layer (runtime_apply demo_framework)
     (runtime_legal demo_framework :: (nat option, nat, unit, demo_call) runtime_extrinsic \<Rightarrow> bool)
     (runtime_genesis 0) demo_runtime"
  unfolding demo_runtime_def
  by (rule reachable_apply_all [OF reachable.at_genesis])
     (simp add: demo_extrinsics_def runtime_legal_def bounded_vec_ok_plain demo_framework_spares)

lemma demo_runtime_profiles:
  "profiles (profile_store demo_runtime) 7 =
     Some \<lparr>account = 7, username = [97], avatar = None, bio = None, created_at = 1\<rparr>"
  "profiles (profile_store demo_runtime) 8 =
     Some \<lparr>account = 8, username = [98], avatar = None, bio = None, created_at = 2\<rparr>"
  "framework_store demo_runtime = 5"
  by (simp_all add: demo_runtime_def demo_extrinsics_def runtime_apply_def rollback_layer_def embed_def
      part_defs runtime_genesis_def profile_genesis_def set_username_eq [OF bounded_vec_ok_plain]
      increment_eq username_verdict_def too_long_def taken_by_other_def runtime_profile_config_def
      named_storage_def counter_genesis_def demo_framework_def)

text \<open>
  C13. On the chain itself: in every storage that the runtime reaches by extrinsics of the local
  pallets and by framework calls that do not write profile storage themselves (they may
  dispatch profile calls, as sudo does; only the raw writes with which root can change any
  storage are left out), successful or failed, under any storage layer, non-empty usernames
  are unique and no username or avatar is longer than 32 bytes and no bio longer than 256.
\<close>

theorem runtime_profiles_safe:
  assumes "storage_layer layer"
    and "reachable layer (runtime_apply FD) (runtime_legal FD) (runtime_genesis f) st"
    and "profiles (profile_store st) a = Some p"
  shows "length (username p) \<le> 32 \<and> case_option True (\<lambda>v. length v \<le> 32) (avatar p) \<and>
    case_option True (\<lambda>v. length v \<le> 256) (bio p) \<and>
    (\<forall>b q. profiles (profile_store st) b = Some q \<and> username q = username p \<and> username p \<noteq> [] \<longrightarrow> b = a)"
proof -
  have inv: "profile_inv runtime_profile_config (profile_store st)"
    using runtime.reachable_inv [OF assms(1,2)] by (simp add: runtime_inv_def)
  have "profile_bounded runtime_profile_config p"
    using profile_invD(3) [OF inv] assms(3) by (simp add: profiles_wf_def)
  then have "length (username p) \<le> 32 \<and> case_option True (\<lambda>v. length v \<le> 32) (avatar p) \<and>
    case_option True (\<lambda>v. length v \<le> 256) (bio p)"
    by (auto simp: profile_bounded_def too_long_def runtime_profile_config_def not_less split: option.split)
  moreover have "b = a" if "profiles (profile_store st) b = Some q" "username q = username p"
    "username p \<noteq> []" for b q
    using index_iff [OF inv that(3)] that assms(3) by (metis option.inject)
  ultimately show ?thesis by blast
qed

theorem runtime_profiles_safe_witness:
  "\<exists>p. profiles (profile_store demo_runtime) 8 = Some p \<and> username p = [98] \<and>
     (\<forall>b q. profiles (profile_store demo_runtime) b = Some q \<and> username q = [98] \<longrightarrow> b = 8)"
  using runtime_profiles_safe [OF storage_layer_rollback demo_runtime_reachable demo_runtime_profiles(2)]
    demo_runtime_profiles(2)
  by auto

end
