(* ===== verification/Runtime_Outcomes.thy ===== *)
theory Runtime_Outcomes
  imports Runtime_Properties
begin

text \<open>
  What a call of a local pallet can and cannot do in the composed runtime: whose events it
  deposits, whose errors it returns, which part of the storage it writes.
\<close>

section \<open>Whose event, whose error, whose call\<close>

fun event_pallet :: "('a, 'fe) runtime_event \<Rightarrow> pallet option" where
  "event_pallet (FrameworkEvent e) = None"
| "event_pallet (TemplateEvent e) = Some Template"
| "event_pallet (SimpleCounterEvent e) = Some SimpleCounter"
| "event_pallet (UserProfileEvent e) = Some UserProfile"

fun error_pallet :: "'fx runtime_error \<Rightarrow> pallet option" where
  "error_pallet (FrameworkError e) = None"
| "error_pallet (TemplateError e) = Some Template"
| "error_pallet (SimpleCounterError e) = Some SimpleCounter"
| "error_pallet (UserProfileError e) = Some UserProfile"

fun call_pallet :: "'fc runtime_call \<Rightarrow> pallet option" where
  "call_pallet (FrameworkCall c) = None"
| "call_pallet (TemplateCall c) = Some Template"
| "call_pallet (SimpleCounterCall c) = Some SimpleCounter"
| "call_pallet (UserProfileCall c) = Some UserProfile"

section \<open>What an embedded call deposits and returns\<close>

lemma embed_deposits:
  "\<exists>evs. deposited (snd (embed i f g m s)) = deposited s @ map f evs"
  by (auto simp: embed_def split: prod.split)

lemma embed_errors:
  "fst (embed i f g m s) = Inl (Module e) \<Longrightarrow> \<exists>x. e = g x"
proof -
  assume "fst (embed i f g m s) = Inl (Module e)"
  then obtain d where "fst (m (fresh_ext (item_get i (store s)))) = Inl d" "map_dispatch_error id g d = Module e"
    by (cases "fst (m (fresh_ext (item_get i (store s))))") (auto simp: embed_result)
  then show ?thesis by (cases d) auto
qed

text \<open>Every call of a local pallet asks for a signed origin before anything else.\<close>

definition asks_signed :: "('o, 'a, 'd) frame \<Rightarrow> 'o \<Rightarrow> ('st, 'ev, 'd, 'e) dispatchable \<Rightarrow> bool" where
  "asks_signed F origin m \<longleftrightarrow> (\<forall>s. case ensure_signed F origin of
     Inl d \<Rightarrow> m s = (Inl (Framework d), s)
   | Inr a \<Rightarrow> (\<forall>d. fst (m s) \<noteq> Inl (Framework d)))"

definition module_only :: "('x, ('d, 'e) dispatch_error, 'v) action \<Rightarrow> bool" where
  "module_only m \<longleftrightarrow> (\<forall>s d. fst (m s) \<noteq> Inl (Framework d))"

named_theorems module_rules "actions whose errors are the pallet's own"

lemma module_primitives [module_rules]:
  "module_only (done_with v)" "module_only (fail_with (Module e))" "module_only (ok_or (Module e) w)"
  "module_only (ensure b (Module e))" "module_only (item_read i f)" "module_only (item_write i g)"
  "module_only (deposit_event ev)"
  by (auto simp: module_only_def action_defs item_read_def item_write_def deposit_event_def split: option.splits)

lemma module_try_then [module_rules]:
  "module_only m \<Longrightarrow> (\<And>v. module_only (f v)) \<Longrightarrow> module_only (try_then m f)"
  by (auto simp: module_only_def try_then_def split: prod.split sum.split) (metis fst_conv)+

lemma module_branches [module_rules]:
  "module_only m \<Longrightarrow> module_only n \<Longrightarrow> module_only (if b then m else n)"
  "module_only m \<Longrightarrow> (\<And>v. module_only (g v)) \<Longrightarrow> module_only (case w of None \<Rightarrow> m | Some v \<Rightarrow> g v)"
  "(\<And>x. module_only (h x)) \<Longrightarrow> module_only (let x = v in h x)"
  by (simp_all split: option.split)

lemma asks_signed_then:
  assumes "\<And>a. module_only (f a)"
  shows "asks_signed F origin (try_then (from_result (map_sum Framework id (ensure_signed F origin))) f)"
  using assms by (auto simp: asks_signed_def module_only_def try_then_def from_result_def split: sum.split)

lemmas dispatchable_defs = do_something_def cause_error_def increment_def reset_def
  set_username_def update_profile_def update_stats_def change_username_def try_bound_def

lemma local_calls_ask_signed:
  "asks_signed F origin (template_dispatch F origin tc)"
  "asks_signed F origin (counter_dispatch F origin cc)"
  "asks_signed F origin (profile_dispatch C F origin pc)"
  subgoal by (cases tc) (simp_all only: template_dispatch.simps dispatchable_defs item_ops;
    rule asks_signed_then; intro module_rules)+
  subgoal by (cases cc) (simp_all only: counter_dispatch.simps dispatchable_defs item_ops;
    rule asks_signed_then; intro module_rules)+
  subgoal by (cases pc) (simp_all only: profile_dispatch.simps dispatchable_defs item_ops;
    rule asks_signed_then; intro module_rules)+
  done

lemma embed_asks_signed:
  assumes "asks_signed F origin m"
  shows "case ensure_signed F origin of
      Inl d \<Rightarrow> fst (embed i f g m s) = Inl (Framework d) \<and>
        deposited (snd (embed i f g m s)) = deposited s \<and>
        store (snd (embed i f g m s)) = item_update i (\<lambda>_. item_get i (store s)) (store s)
    | Inr a \<Rightarrow> (\<forall>d. fst (embed i f g m s) \<noteq> Inl (Framework d))"
proof (cases "ensure_signed F origin")
  case (Inl d)
  then have "m (fresh_ext (item_get i (store s))) = (Inl (Framework d), fresh_ext (item_get i (store s)))"
    using assms by (simp add: asks_signed_def)
  with Inl show ?thesis by (simp add: embed_def)
next
  case (Inr a)
  show ?thesis
  proof (cases "fst (m (fresh_ext (item_get i (store s))))")
    case (Inl e)
    moreover have "e \<noteq> Framework d" for d
      using assms Inr Inl by (auto simp: asks_signed_def)
    ultimately show ?thesis using Inr by (cases e) (simp_all add: embed_result)
  qed (simp add: Inr embed_result)
qed

section \<open>Outcomes of the local pallets' calls\<close>

text \<open>
  The three cases of a local call, with what holds of each: the call is an embedded
  dispatchable, its part of the storage, its event and error variants.
\<close>

lemma local_outcome:
  assumes "embed i f g m s = (r, t)" "asks_signed F origin m" "storage_item i"
    and "\<And>ev. event_pallet (f ev) = Some p" "\<And>e. error_pallet (g e) = Some p"
  shows "\<exists>evs. deposited t = deposited s @ evs \<and> (\<forall>ev\<in>set evs. event_pallet ev = Some p)"
    and "r = Inl (Module e) \<Longrightarrow> error_pallet e = Some p"
    and "case ensure_signed F origin of
        Inl d \<Rightarrow> r = Inl (Framework d) \<and> store t = store s \<and> deposited t = deposited s
      | Inr a \<Rightarrow> (\<forall>d. r \<noteq> Inl (Framework d))"
    and "store t = item_update i (\<lambda>_. store (snd (m (fresh_ext (item_get i (store s)))))) (store s)"
proof -
  have rt: "r = fst (embed i f g m s)" "t = snd (embed i f g m s)" using assms(1) by simp_all
  show "\<exists>evs. deposited t = deposited s @ evs \<and> (\<forall>ev\<in>set evs. event_pallet ev = Some p)"
    using embed_deposits [of i f g m s] assms(4) rt(2) by auto
  show "error_pallet e = Some p" if "r = Inl (Module e)"
    using embed_errors [of i f g m s e] that assms(5) rt(1) by auto
  have "item_update i (\<lambda>_. item_get i (store s)) (store s) = store s"
    by (rule storage_item.update_same [OF assms(3)]) simp
  then show "case ensure_signed F origin of
      Inl d \<Rightarrow> r = Inl (Framework d) \<and> store t = store s \<and> deposited t = deposited s
    | Inr a \<Rightarrow> (\<forall>d. r \<noteq> Inl (Framework d))"
    using embed_asks_signed [OF assms(2), of i f g s] rt by (auto split: sum.splits)
  show "store t = item_update i (\<lambda>_. store (snd (m (fresh_ext (item_get i (store s)))))) (store s)"
    using embed_store [of i f g m s] rt(2) by simp
qed

text \<open>
  C14. The outcomes of a local pallet's call in the runtime are typed by its pallet: it
  deposits only events of its pallet, an error it returns is its pallet's own or the one of
  \<open>ensure_signed\<close>, which it returns exactly for an origin that is not signed, with storage and
  events as they were, and it writes no part of the storage but its pallet's.
\<close>

theorem runtime_call_outcomes:
  assumes "call_pallet c = Some p" "runtime_dispatch FD F origin c s = (r, t)"
  shows "(\<exists>evs. deposited t = deposited s @ evs \<and> (\<forall>ev\<in>set evs. event_pallet ev = Some p)) \<and>
    (\<forall>e. r = Inl (Module e) \<longrightarrow> error_pallet e = Some p) \<and>
    (case ensure_signed F origin of
       Inl d \<Rightarrow> r = Inl (Framework d) \<and> store t = store s \<and> deposited t = deposited s
     | Inr a \<Rightarrow> (\<forall>d. r \<noteq> Inl (Framework d))) \<and>
    framework_store (store t) = framework_store (store s) \<and>
    (p \<noteq> Template \<longrightarrow> template_store (store t) = template_store (store s)) \<and>
    (p \<noteq> SimpleCounter \<longrightarrow> counter_store (store t) = counter_store (store s)) \<and>
    (p \<noteq> UserProfile \<longrightarrow> profile_store (store t) = profile_store (store s))"
proof (cases c)
  case (TemplateCall tc)
  then have "embed template_part TemplateEvent TemplateError (template_dispatch F origin tc) s = (r, t)"
    using assms(2) by simp
  note out = local_outcome [OF this local_calls_ask_signed(1) template_counter_parts.a.storage_item_axioms,
      of Template]
  from out(1,2,3) out(4) TemplateCall assms(1) show ?thesis by (simp add: part_defs)
next
  case (SimpleCounterCall cc)
  then have "embed counter_part SimpleCounterEvent SimpleCounterError (counter_dispatch F origin cc) s = (r, t)"
    using assms(2) by simp
  note out = local_outcome [OF this local_calls_ask_signed(2) template_counter_parts.b.storage_item_axioms,
      of SimpleCounter]
  from out(1,2,3) out(4) SimpleCounterCall assms(1) show ?thesis by (simp add: part_defs)
next
  case (UserProfileCall pc)
  then have "embed profile_part UserProfileEvent UserProfileError
      (profile_dispatch runtime_profile_config F origin pc) s = (r, t)"
    using assms(2) by simp
  note out = local_outcome [OF this local_calls_ask_signed(3) template_profile_parts.b.storage_item_axioms,
      of UserProfile]
  from out(1,2,3) out(4) UserProfileCall assms(1) show ?thesis by (simp add: part_defs)
qed (use assms(1) in simp)

text \<open>The counter reset in a runtime with profiles, signed and unsigned.\<close>

theorem runtime_call_outcomes_witness:
  "profile_store (store (snd (runtime_dispatch demo_framework (plain_frame 3) (Some 7)
     (SimpleCounterCall Reset) (fresh_ext demo_runtime)))) = profile_store demo_runtime \<and>
   fst (runtime_dispatch demo_framework (plain_frame 3) None (SimpleCounterCall Reset)
     (fresh_ext demo_runtime)) = Inl (Framework ())"
  using runtime_call_outcomes [of "SimpleCounterCall Reset" SimpleCounter demo_framework "plain_frame 3"
      "Some (7::nat)" "fresh_ext demo_runtime", OF _ prod.collapse [symmetric]]
    runtime_call_outcomes [of "SimpleCounterCall Reset" SimpleCounter demo_framework "plain_frame 3"
      "None :: nat option" "fresh_ext demo_runtime", OF _ prod.collapse [symmetric]]
  by (simp del: runtime_dispatch.simps)

end
