(* ===== verification/Genesis.thy ===== *)
theory Genesis
  imports Runtime_Config
begin

text \<open>
  The genesis configuration presets (\<open>runtime/src/genesis_config_presets.rs\<close>).  Keyrings,
  the two preset names and the JSON serialisation belong to other crates and are parameters;
  a preset is the patch of the runtime's genesis configuration that is serialised.
\<close>

section \<open>Data\<close>

record ('au, 'gr, 'acc) genesis_patch =
  patch_balances :: "('acc \<times> u128) list"
  patch_aura_authorities :: "'au list"
  patch_grandpa_authorities :: "('gr \<times> u64) list"
  patch_sudo_key :: "'acc option"

text \<open>
  \<open>sp_keyring\<close>: the keys of the two keyrings the presets use, the order in which the sr25519
  one is iterated, and the conversions to authority and account ids.
\<close>

record ('k, 'e, 'au, 'gr, 'acc) keyring =
  sr_alice :: 'k
  sr_bob :: 'k
  sr_alice_stash :: 'k
  sr_bob_stash :: 'k
  sr_one :: 'k
  sr_two :: 'k
  sr_iter :: "'k list"
  ed_alice :: 'e
  ed_bob :: 'e
  aura_public :: "'k \<Rightarrow> 'au"
  grandpa_public :: "'e \<Rightarrow> 'gr"
  to_account_id :: "'k \<Rightarrow> 'acc"

record ('p, 'j) preset_api =
  dev_preset :: string
  local_preset :: string
  to_json :: "'p \<Rightarrow> 'j"

section \<open>The presets\<close>

definition testnet_genesis ::
    "('au \<times> 'gr) list \<Rightarrow> 'acc list \<Rightarrow> 'acc \<Rightarrow> ('au, 'gr, 'acc) genesis_patch" where
  "testnet_genesis initial_authorities endowed_accounts root = \<lparr>
     patch_balances = map (\<lambda>k. (k, push_bit 60 1)) endowed_accounts,
     patch_aura_authorities = map (\<lambda>x. fst x) initial_authorities,
     patch_grandpa_authorities = map (\<lambda>x. (snd x, 1)) initial_authorities,
     patch_sudo_key = Some root\<rparr>"

definition development_config_genesis ::
    "('k, 'e, 'au, 'gr, 'acc) keyring \<Rightarrow> ('au, 'gr, 'acc) genesis_patch" where
  "development_config_genesis K = testnet_genesis
     [(aura_public K (sr_alice K), grandpa_public K (ed_alice K))]
     [to_account_id K (sr_alice K), to_account_id K (sr_bob K),
      to_account_id K (sr_alice_stash K), to_account_id K (sr_bob_stash K)]
     (to_account_id K (sr_alice K))"

definition local_config_genesis ::
    "('k, 'e, 'au, 'gr, 'acc) keyring \<Rightarrow> ('au, 'gr, 'acc) genesis_patch" where
  "local_config_genesis K = testnet_genesis
     [(aura_public K (sr_alice K), grandpa_public K (ed_alice K)),
      (aura_public K (sr_bob K), grandpa_public K (ed_bob K))]
     (map (to_account_id K) (filter (\<lambda>v. v \<noteq> sr_one K \<and> v \<noteq> sr_two K) (sr_iter K)))
     (to_account_id K (sr_alice K))"

definition get_preset ::
    "(('au, 'gr, 'acc) genesis_patch, 'j) preset_api \<Rightarrow> ('k, 'e, 'au, 'gr, 'acc) keyring \<Rightarrow> string \<Rightarrow> 'j option" where
  "get_preset P K preset =
     (if preset = dev_preset P then Some (to_json P (development_config_genesis K))
      else if preset = local_preset P then Some (to_json P (local_config_genesis K))
      else None)"

definition preset_names :: "('p, 'j) preset_api \<Rightarrow> string list" where
  "preset_names P = [dev_preset P, local_preset P]"

section \<open>Properties\<close>

text \<open>
  What is assumed of the keyring: its iteration lists every key once, the keys named by the
  presets are different, and different keys have different accounts.
\<close>

definition keyring_ok :: "('k, 'e, 'au, 'gr, 'acc) keyring \<Rightarrow> bool" where
  "keyring_ok K \<longleftrightarrow> distinct (sr_iter K) \<and>
     distinct [sr_alice K, sr_bob K, sr_alice_stash K, sr_bob_stash K, sr_one K, sr_two K] \<and>
     {sr_alice K, sr_bob K, sr_alice_stash K, sr_bob_stash K, sr_one K, sr_two K} \<subseteq> set (sr_iter K) \<and>
     inj (to_account_id K)"

text \<open>
  A genesis patch the chain can start from: no account is endowed twice, every endowment is
  at least the existential deposit, there is an authority, the block producers and the
  finalisers are as many and every finaliser has weight 1, and the sudo key is endowed.
\<close>

definition genesis_sound :: "('au, 'gr, 'acc) genesis_patch \<Rightarrow> bool" where
  "genesis_sound g \<longleftrightarrow> distinct (map fst (patch_balances g)) \<and>
     (\<forall>(a, v) \<in> set (patch_balances g). EXISTENTIAL_DEPOSIT \<le> v) \<and>
     patch_aura_authorities g \<noteq> [] \<and>
     length (patch_aura_authorities g) = length (patch_grandpa_authorities g) \<and>
     (\<forall>(a, w) \<in> set (patch_grandpa_authorities g). w = 1) \<and>
     (\<exists>k. patch_sudo_key g = Some k \<and> k \<in> fst ` set (patch_balances g))"

lemma testnet_genesis_sound:
  assumes "distinct endowed" "auths \<noteq> []" "root \<in> set endowed"
  shows "genesis_sound (testnet_genesis auths endowed root)"
  using assms
  by (auto simp: genesis_sound_def testnet_genesis_def comp_def EXISTENTIAL_DEPOSIT_def MILLI_UNIT_def
      image_iff)

text \<open>The total issuance of a patch, on natural numbers.\<close>

definition issuance :: "('au, 'gr, 'acc) genesis_patch \<Rightarrow> nat" where
  "issuance g = sum_list (map (\<lambda>(a, v). unat v) (patch_balances g))"

lemma testnet_issuance:
  "issuance (testnet_genesis auths endowed root) = length endowed * 2 ^ 60"
  by (induction endowed) (simp_all add: issuance_def testnet_genesis_def)

text \<open>A keyring of this kind, with the keys numbered as in the iteration.\<close>

definition number_keyring :: "(nat, nat, nat, nat, nat) keyring" where
  "number_keyring = \<lparr>sr_alice = 0, sr_bob = 1, sr_alice_stash = 6, sr_bob_stash = 7, sr_one = 12, sr_two = 13,
     sr_iter = [0..<14], ed_alice = 0, ed_bob = 1, aura_public = id, grandpa_public = id, to_account_id = id\<rparr>"

lemma number_keyring_ok: "keyring_ok number_keyring"
  by (simp add: keyring_ok_def number_keyring_def)

lemma development_genesis_sound:
  assumes "keyring_ok K"
  shows "genesis_sound (development_config_genesis K)"
  unfolding development_config_genesis_def
  by (rule testnet_genesis_sound) (use assms in \<open>auto simp: keyring_ok_def dest: injD\<close>)

lemma local_genesis_sound:
  assumes "keyring_ok K"
  shows "genesis_sound (local_config_genesis K)"
  unfolding local_config_genesis_def
  by (rule testnet_genesis_sound)
     (use assms in \<open>auto simp: keyring_ok_def distinct_map intro: inj_on_subset\<close>)

text \<open>Whatever preset the runtime serves is sound.\<close>

lemma get_preset_sound:
  assumes "keyring_ok K" "preset \<in> set (preset_names P)"
  obtains patch where "get_preset P K preset = Some (to_json P patch)" "genesis_sound patch"
proof (cases "preset = dev_preset P")
  case True
  then show ?thesis using that development_genesis_sound [OF assms(1)] by (auto simp: get_preset_def)
next
  case False
  then show ?thesis using that local_genesis_sound [OF assms(1)] assms(2)
    by (auto simp: get_preset_def preset_names_def)
qed

text \<open>
  Both genesis presets are sound: no account is endowed twice, every endowment covers
  the existential deposit, authorities of both kinds are as many and weigh 1, and the sudo
  account is endowed.
\<close>

theorem presets_sound:
  assumes "keyring_ok K"
  shows "genesis_sound (development_config_genesis K) \<and> genesis_sound (local_config_genesis K)"
  using development_genesis_sound [OF assms] local_genesis_sound [OF assms] by blast

theorem presets_sound_witness:
  "genesis_sound (local_config_genesis number_keyring) \<and>
   map fst (patch_balances (local_config_genesis number_keyring)) = [0..<12]"
  using presets_sound [OF number_keyring_ok]
  by (simp add: local_config_genesis_def testnet_genesis_def number_keyring_def comp_def upt_rec)

text \<open>
  The issuance of a preset is \<open>2 ^ 60\<close> per endowed account and fits the balance type:
  four accounts in the development preset, every key but \<open>One\<close> and \<open>Two\<close> in the local one.
\<close>

theorem presets_issuance:
  assumes "keyring_ok K" "length (sr_iter K) < 2 ^ 68"
  shows "issuance (development_config_genesis K) = 4 * 2 ^ 60 \<and>
    issuance (local_config_genesis K) = (length (sr_iter K) - 2) * 2 ^ 60 \<and>
    issuance (local_config_genesis K) < 2 ^ 128"
proof -
  let ?f = "filter (\<lambda>v. v \<noteq> sr_one K \<and> v \<noteq> sr_two K) (sr_iter K)"
  have "set ?f = set (sr_iter K) - {sr_one K, sr_two K}" by auto
  then have "card (set ?f) = card (set (sr_iter K)) - 2"
    using assms(1) by (simp add: keyring_ok_def card_Diff_subset)
  then have len: "length ?f = length (sr_iter K) - 2"
    using assms(1) by (simp add: keyring_ok_def distinct_card [symmetric])
  have "(length (sr_iter K) - 2) * 2 ^ 60 < 2 ^ 68 * 2 ^ 60"
    using assms(2) by (intro mult_strict_right_mono) auto
  then have "(length (sr_iter K) - 2) * 2 ^ 60 < 2 ^ 128" by simp
  then show ?thesis
    by (simp add: development_config_genesis_def local_config_genesis_def testnet_issuance len)
qed

theorem presets_issuance_witness:
  "issuance (local_config_genesis number_keyring) = 12 * 2 ^ 60"
  using presets_issuance [OF number_keyring_ok] by (simp add: number_keyring_def)

end
