(* ===== verification/Pallet_Benchmarks.thy ===== *)
theory Pallet_Benchmarks
  imports Profile_Effects Counter_Properties Runtime_Config
begin

text \<open>
  The benchmarks of the local pallets (\<open>benchmarking.rs\<close> of each): the storage a benchmark
  prepares, the call it measures and the check it makes afterwards.  The caller's account
  (\<open>whitelisted_caller\<close>, \<open>account\<close>) is a parameter; its origin is one that \<open>ensure_signed\<close>
  gives back as the caller.
\<close>

section \<open>Benchmarks\<close>

text \<open>
  \<open>bench_setup\<close> is \<open>None\<close> when the preparation panics (an \<open>unwrap\<close> of a failed
  \<open>try_into\<close>), \<open>bench_verify\<close> is \<open>False\<close> when an assertion or an \<open>unwrap\<close> panics.
\<close>

record ('st, 'c) benchmark =
  bench_setup :: "'st \<Rightarrow> 'st option"
  bench_call :: 'c
  bench_verify :: "'st \<Rightarrow> bool"

definition execute_benchmark ::
    "('c \<Rightarrow> ('st, 'ev, 'd, 'e) dispatchable) \<Rightarrow> ('st, 'c) benchmark \<Rightarrow> 'st \<Rightarrow> bool" where
  "execute_benchmark dispatch b st = (case bench_setup b st of
     None \<Rightarrow> False
   | Some prepared \<Rightarrow> (case dispatch (bench_call b) (fresh_ext prepared) of
       (Inl e, t) \<Rightarrow> False
     | (Inr u, t) \<Rightarrow> bench_verify b (store t)))"

definition ascii :: "string \<Rightarrow> bytes" where
  "ascii s = map of_char s"

lemma length_ascii [simp]: "length (ascii s) = length s"
  by (simp add: ascii_def)

section \<open>The simple-counter pallet\<close>

definition bench_increment :: "(counter_storage, counter_call) benchmark" where
  "bench_increment = \<lparr>bench_setup = Some, bench_call = Increment,
     bench_verify = (\<lambda>st. 1 \<le> counter st)\<rparr>"

definition bench_reset :: "(counter_storage, counter_call) benchmark" where
  "bench_reset = \<lparr>bench_setup = (\<lambda>st. Some (st\<lparr>counter := 5\<rparr>)), bench_call = Reset,
     bench_verify = (\<lambda>st. counter st = 0)\<rparr>"

section \<open>The template pallet\<close>

definition bench_do_something :: "(template_storage, template_call) benchmark" where
  "bench_do_something = \<lparr>bench_setup = Some, bench_call = Do_something 100,
     bench_verify = (\<lambda>st. something st = Some 100)\<rparr>"

definition bench_cause_error :: "(template_storage, template_call) benchmark" where
  "bench_cause_error = \<lparr>bench_setup = (\<lambda>st. Some (st\<lparr>something := Some 100\<rparr>)), bench_call = Cause_error,
     bench_verify = (\<lambda>st. something st = Some 101)\<rparr>"

section \<open>The user-profile pallet\<close>

definition bench_set_username :: "'a \<Rightarrow> ('a profile_storage, profile_call) benchmark" where
  "bench_set_username caller = \<lparr>bench_setup = Some,
     bench_call = Set_username (ascii ''testuser''),
     bench_verify = (\<lambda>st. profiles st caller \<noteq> None)\<rparr>"

definition bench_update_profile ::
    "profile_config \<Rightarrow> ('o, 'a, 'd) frame \<Rightarrow> 'a \<Rightarrow> ('a profile_storage, profile_call) benchmark" where
  "bench_update_profile C F caller = \<lparr>
     bench_setup = (\<lambda>st. case bounded_try_from F (max_username_length C) (ascii ''testuser'') of
         None \<Rightarrow> None
       | Some username_bounded \<Rightarrow> Some (st\<lparr>
           profiles := (profiles st)(caller \<mapsto> \<lparr>account = caller, username = username_bounded,
             avatar = None, bio = None, created_at = 1\<rparr>),
           username_to_account := (username_to_account st)(username_bounded \<mapsto> caller)\<rparr>)),
     bench_call = Update_profile (Some (ascii ''newuser'')) None (Some (Some (ascii ''My bio''))),
     bench_verify = (\<lambda>st. case (profiles st caller, bounded_try_from F (max_username_length C) (ascii ''newuser'')) of
         (Some profile, Some expected) \<Rightarrow> username profile = expected
       | _ \<Rightarrow> False)\<rparr>"

definition bench_update_stats :: "'a \<Rightarrow> ('a profile_storage, profile_call) benchmark" where
  "bench_update_stats caller = \<lparr>
     bench_setup = (\<lambda>st. Some (st\<lparr>user_stats_map := (user_stats_map st)(caller \<mapsto> default_stats)\<rparr>)),
     bench_call = Update_stats (Some 10) (Some 5) (Some 1000) (Some 5000),
     bench_verify = (\<lambda>st. case user_stats_map st caller of
         Some stats \<Rightarrow> total_races stats = 10
       | None \<Rightarrow> False)\<rparr>"

section \<open>The runtime's list of benchmarks\<close>

text \<open>The pallets \<open>define_benchmarks!\<close> registers, by crate (\<open>runtime/src/benchmarks.rs\<close>).\<close>

definition runtime_benchmark_list :: "string list" where
  "runtime_benchmark_list = [''frame_benchmarking'', ''frame_system'', ''frame_system_extensions'',
     ''pallet_balances'', ''pallet_timestamp'', ''pallet_sudo'', ''pallet_template'']"

section \<open>Properties\<close>

lemma bench_set_username_holds:
  assumes "bounded_vec_ok F" "ensure_signed F origin = Inr caller" "8 \<le> unat (max_username_length C)"
  shows "execute_benchmark (profile_dispatch C F origin) (bench_set_username caller) profile_genesis"
  using assms
  by (simp add: execute_benchmark_def bench_set_username_def set_username_eq username_verdict_def
      too_long_def taken_by_other_def profile_genesis_def named_storage_def)

lemma update_profile_accepted:
  assumes "bounded_vec_ok F" "ensure_signed F origin = Inr who"
    "update_verdict C (store s) who u av bi = None"
  obtains t where "update_profile C F origin u av bi s = (Inr (), t)"
    "store t = updated_storage (now F) who u av bi (store s)"
proof (cases "update_profile C F origin u av bi s")
  case (Pair r t)
  show ?thesis
  proof (cases r)
    case (Inl e)
    then show ?thesis
      using wp_ErrD [OF Pair [unfolded Inl] update_profile_wp [OF assms(1)]] assms(2,3) by simp
  next
    case (Inr x)
    then have ok: "update_profile C F origin u av bi s = (Inr (), t)" using Pair by simp
    obtain who' where "ensure_signed F origin = Inr who'"
        "store t = updated_storage (now F) who' u av bi (store s)"
      using assms(1) ok by (rule update_profile_OkD)
    then show ?thesis using that ok assms(2) by simp
  qed
qed

lemma bench_update_profile_holds:
  assumes "bounded_vec_ok F" "ensure_signed F origin = Inr caller"
    and "8 \<le> unat (max_username_length C)" "6 \<le> unat (max_bio_length C)"
  shows "execute_benchmark (profile_dispatch C F origin) (bench_update_profile C F caller) profile_genesis"
proof -
  define st where "st = profile_genesis\<lparr>
    profiles := (profiles profile_genesis)(caller \<mapsto> \<lparr>account = caller, username = ascii ''testuser'',
      avatar = None, bio = None, created_at = 1\<rparr>),
    username_to_account := (username_to_account profile_genesis)(ascii ''testuser'' \<mapsto> caller)\<rparr>"
  have prepared: "bench_setup (bench_update_profile C F caller) profile_genesis = Some st"
    using assms by (simp add: bench_update_profile_def bounded_ok st_def)
  have "update_verdict C st caller (Some (ascii ''newuser'')) None (Some (Some (ascii ''My bio''))) = None"
    using assms by (simp add: update_verdict_def username_verdict_def too_long_def taken_by_other_def
        st_def profile_genesis_def)
  then obtain t where "update_profile C F origin (Some (ascii ''newuser'')) None (Some (Some (ascii ''My bio'')))
      (fresh_ext st) = (Inr (), t)"
    "store t = updated_storage (now F) caller (Some (ascii ''newuser'')) None (Some (Some (ascii ''My bio''))) st"
    using update_profile_accepted [OF assms(1,2)] by (metis fresh_ext_simps(1))
  then show ?thesis
    using assms prepared
    by (simp add: execute_benchmark_def bench_update_profile_def bounded_ok updated_storage_def
        edit_profile_def Let_def)
qed

text \<open>
  The pallets' benchmarks measure what they mean to: from the genesis storage of their
  pallet, each of the seven benchmarks prepares its storage without a panic, its call
  succeeds, and its closing check holds, for every caller and block, in the runtime's
  configuration (the template's \<open>cause_error\<close> benchmark measures a success).
\<close>

theorem benchmarks_verify:
  assumes "bounded_vec_ok F" "ensure_signed F origin = Inr caller"
  shows "execute_benchmark (counter_dispatch F origin) bench_increment counter_genesis \<and>
    execute_benchmark (counter_dispatch F origin) bench_reset counter_genesis \<and>
    execute_benchmark (template_dispatch F origin) bench_do_something template_genesis \<and>
    execute_benchmark (template_dispatch F origin) bench_cause_error template_genesis \<and>
    execute_benchmark (profile_dispatch runtime_profile_config F origin) (bench_set_username caller) profile_genesis \<and>
    execute_benchmark (profile_dispatch runtime_profile_config F origin)
      (bench_update_profile runtime_profile_config F caller) profile_genesis \<and>
    execute_benchmark (profile_dispatch runtime_profile_config F origin) (bench_update_stats caller) profile_genesis"
proof (intro conjI)
  note small = execute_benchmark_def increment_eq reset_eq do_something_eq cause_error_eq
  show "execute_benchmark (counter_dispatch F origin) bench_increment counter_genesis"
    using assms by (simp add: small bench_increment_def counter_genesis_def)
  show "execute_benchmark (counter_dispatch F origin) bench_reset counter_genesis"
    using assms by (simp add: small bench_reset_def counter_genesis_def)
  show "execute_benchmark (template_dispatch F origin) bench_do_something template_genesis"
    using assms by (simp add: small bench_do_something_def template_genesis_def)
  show "execute_benchmark (template_dispatch F origin) bench_cause_error template_genesis"
    using assms by (simp add: small bench_cause_error_def template_genesis_def)
  show "execute_benchmark (profile_dispatch runtime_profile_config F origin) (bench_set_username caller) profile_genesis"
    using assms by (intro bench_set_username_holds) (simp_all add: runtime_profile_config_def)
  show "execute_benchmark (profile_dispatch runtime_profile_config F origin)
      (bench_update_profile runtime_profile_config F caller) profile_genesis"
    using assms by (intro bench_update_profile_holds) (simp_all add: runtime_profile_config_def)
  show "execute_benchmark (profile_dispatch runtime_profile_config F origin) (bench_update_stats caller) profile_genesis"
    using assms by (simp add: execute_benchmark_def bench_update_stats_def update_stats_eq stats_storage_def
        set_stats_def Let_def)
qed

theorem benchmarks_verify_witness:
  "execute_benchmark (profile_dispatch runtime_profile_config (plain_frame 1 :: (nat option, nat, unit) frame) (Some 7))
     (bench_update_profile runtime_profile_config (plain_frame 1 :: (nat option, nat, unit) frame) 7) profile_genesis"
  using benchmarks_verify [OF bounded_vec_ok_plain [of 1], of "Some (7 :: nat)" 7] by (simp add: plain_frame_def)

end
