(* ===== verification/Runtime_Apis.thy ===== *)
theory Runtime_Apis
  imports Genesis Pallet_Benchmarks
begin

text \<open>
  The runtime APIs (\<open>impl_runtime_apis!\<close> in \<open>runtime/src/apis.rs\<close>): for each \<open>impl\<close> block a
  datatype of its methods' requests and a function that says what each is answered with.  Most
  methods hand the request to \<open>Executive\<close> or a framework pallet; those functions, with the
  state they read and change, are a parameter, as are the two macros that
  \<open>define_benchmarks!\<close> applies to each registered benchmark.
\<close>

section \<open>What the methods call\<close>

text \<open>The functions the methods hand over to.\<close>

datatype 'v runtime_function =
    Executive_execute_block 'v
  | Executive_initialize_block 'v
  | Executive_apply_extrinsic 'v
  | Executive_finalize_block
  | Executive_validate_transaction 'v 'v 'v
  | Executive_offchain_worker 'v
  | Runtime_metadata
  | Runtime_metadata_at_version u32
  | Runtime_metadata_versions
  | Runtime_execute_view_function 'v bytes
  | Create_extrinsics 'v
  | Check_extrinsics 'v 'v
  | Aura_authorities
  | Session_keys_generate "bytes option"
  | Session_keys_decode bytes
  | Grandpa_grandpa_authorities
  | Grandpa_current_set_id
  | System_account_nonce 'v
  | Payment_query_info 'v u32
  | Payment_query_fee_details 'v u32
  | Payment_query_call_info 'v u32
  | Payment_query_call_fee_details 'v u32
  | Payment_weight_to_fee 'v
  | Payment_length_to_fee u32
  | Genesis_build_state bytes

text \<open>
  \<open>Panicked\<close> is the answer of a method whose \<open>unwrap\<close> or \<open>expect\<close> fails; the state with it is
  the one at that point.
\<close>

datatype ('v, 'j) api_answer =
    Value 'v
  | Runtime_version runtime_version
  | Millis u64
  | No_value
  | Benchmark_list "(string \<times> 'v) list" 'v
  | Batches "'v + 'v list"
  | Weights 'v 'v
  | Panicked 'v
  | Preset "'j option"
  | Names "string list"

text \<open>
  \<open>delegate\<close> runs a function of the framework on the runtime's state;
  \<open>minimum_period_times_two\<close> is the configured \<open>SlotDuration\<close> of \<open>pallet_aura\<close>, and
  \<open>preset_helper\<close> the \<open>get_preset\<close> of \<open>genesis_builder_helper\<close>.  \<open>list_benchmark\<close> and
  \<open>add_benchmark\<close> are what the macros of that name do for one registered benchmark;
  \<open>try_runtime_upgrade\<close> and \<open>try_execute_block\<close> are functions of \<open>Executive\<close>, and \<open>max_block\<close>
  is the field of the configured \<open>RuntimeBlockWeights\<close>.
\<close>

record ('s, 'v, 'j) api_env =
  delegate :: "'v runtime_function \<Rightarrow> 's \<Rightarrow> 'v \<times> 's"
  minimum_period_times_two :: "u64 \<Rightarrow> u64"
  preset_helper :: "string option \<Rightarrow> (string \<Rightarrow> 'j option) \<Rightarrow> 'j option"
  list_benchmark :: "string \<Rightarrow> bool \<Rightarrow> 'v"
  storage_info :: 'v
  whitelisted_storage_keys :: 'v
  add_benchmark :: "string \<Rightarrow> 'v \<Rightarrow> 'v \<Rightarrow> 'v list \<Rightarrow> ('s, 'v, 'v list) action"
  try_runtime_upgrade :: "'v \<Rightarrow> ('s, 'v, 'v) action"
  try_execute_block :: "'v \<Rightarrow> bool \<Rightarrow> bool \<Rightarrow> 'v \<Rightarrow> ('s, 'v, 'v) action"
  max_block :: 'v

definition hand_over :: "('s, 'v, 'j) api_env \<Rightarrow> 'v runtime_function \<Rightarrow> 's \<Rightarrow> ('v, 'j) api_answer \<times> 's" where
  "hand_over R f s = (case delegate R f s of (v, t) \<Rightarrow> (Value v, t))"

section \<open>The APIs\<close>

datatype 'v core_request = Version | Execute_block 'v | Initialize_block 'v

fun serve_core :: "('s, 'v, 'j) api_env \<Rightarrow> 'v core_request \<Rightarrow> 's \<Rightarrow> ('v, 'j) api_answer \<times> 's" where
  "serve_core R Version s = (Runtime_version VERSION, s)"
| "serve_core R (Execute_block block) s = hand_over R (Executive_execute_block block) s"
| "serve_core R (Initialize_block header) s = hand_over R (Executive_initialize_block header) s"

datatype 'v metadata_request = Metadata | Metadata_at_version u32 | Metadata_versions
  | Execute_view_function 'v bytes

fun serve_metadata :: "('s, 'v, 'j) api_env \<Rightarrow> 'v metadata_request \<Rightarrow> 's \<Rightarrow> ('v, 'j) api_answer \<times> 's" where
  "serve_metadata R Metadata s = hand_over R Runtime_metadata s"
| "serve_metadata R (Metadata_at_version version) s = hand_over R (Runtime_metadata_at_version version) s"
| "serve_metadata R Metadata_versions s = hand_over R Runtime_metadata_versions s"
| "serve_metadata R (Execute_view_function view_id input) s =
     hand_over R (Runtime_execute_view_function view_id input) s"

datatype 'v block_builder_request = Apply_extrinsic 'v | Finalize_block | Inherent_extrinsics 'v
  | Check_inherents 'v 'v

fun serve_block_builder ::
    "('s, 'v, 'j) api_env \<Rightarrow> 'v block_builder_request \<Rightarrow> 's \<Rightarrow> ('v, 'j) api_answer \<times> 's" where
  "serve_block_builder R (Apply_extrinsic extrinsic) s = hand_over R (Executive_apply_extrinsic extrinsic) s"
| "serve_block_builder R Finalize_block s = hand_over R Executive_finalize_block s"
| "serve_block_builder R (Inherent_extrinsics data) s = hand_over R (Create_extrinsics data) s"
| "serve_block_builder R (Check_inherents block data) s = hand_over R (Check_extrinsics data block) s"

text \<open>\<open>TaggedTransactionQueue\<close> and \<open>OffchainWorkerApi\<close>.\<close>

datatype 'v node_request = Validate_transaction 'v 'v 'v | Offchain_worker 'v

fun serve_node :: "('s, 'v, 'j) api_env \<Rightarrow> 'v node_request \<Rightarrow> 's \<Rightarrow> ('v, 'j) api_answer \<times> 's" where
  "serve_node R (Validate_transaction source tx block_hash) s =
     hand_over R (Executive_validate_transaction source tx block_hash) s"
| "serve_node R (Offchain_worker header) s = hand_over R (Executive_offchain_worker header) s"

text \<open>\<open>AuraApi\<close> and \<open>SessionKeys\<close>.\<close>

datatype aura_request = Slot_duration | Authorities
  | Generate_session_keys "bytes option" | Decode_session_keys bytes

fun serve_aura :: "('s, 'v, 'j) api_env \<Rightarrow> aura_request \<Rightarrow> 's \<Rightarrow> ('v, 'j) api_answer \<times> 's" where
  "serve_aura R Slot_duration s =
     (Millis (aura_slot_duration (aura_config (minimum_period_times_two R))), s)"
| "serve_aura R Authorities s = hand_over R Aura_authorities s"
| "serve_aura R (Generate_session_keys seed) s = hand_over R (Session_keys_generate seed) s"
| "serve_aura R (Decode_session_keys encoded) s = hand_over R (Session_keys_decode encoded) s"

datatype 'v grandpa_request = Grandpa_authorities | Current_set_id
  | Submit_report_equivocation_unsigned_extrinsic 'v 'v
  | Generate_key_ownership_proof 'v 'v

fun serve_grandpa :: "('s, 'v, 'j) api_env \<Rightarrow> 'v grandpa_request \<Rightarrow> 's \<Rightarrow> ('v, 'j) api_answer \<times> 's" where
  "serve_grandpa R Grandpa_authorities s = hand_over R Grandpa_grandpa_authorities s"
| "serve_grandpa R Current_set_id s = hand_over R Grandpa_current_set_id s"
| "serve_grandpa R (Submit_report_equivocation_unsigned_extrinsic equivocation_proof key_owner_proof) s =
     (No_value, s)"
| "serve_grandpa R (Generate_key_ownership_proof set_id authority_id) s = (No_value, s)"

text \<open>\<open>AccountNonceApi\<close> and \<open>TransactionPaymentApi\<close>.\<close>

datatype 'v account_request = Account_nonce 'v | Query_info 'v u32 | Query_fee_details 'v u32
  | Query_weight_to_fee 'v | Query_length_to_fee u32

fun serve_account :: "('s, 'v, 'j) api_env \<Rightarrow> 'v account_request \<Rightarrow> 's \<Rightarrow> ('v, 'j) api_answer \<times> 's" where
  "serve_account R (Account_nonce acc) s = hand_over R (System_account_nonce acc) s"
| "serve_account R (Query_info uxt len) s = hand_over R (Payment_query_info uxt len) s"
| "serve_account R (Query_fee_details uxt len) s = hand_over R (Payment_query_fee_details uxt len) s"
| "serve_account R (Query_weight_to_fee weight) s = hand_over R (Payment_weight_to_fee weight) s"
| "serve_account R (Query_length_to_fee len) s = hand_over R (Payment_length_to_fee len) s"

text \<open>\<open>TransactionPaymentCallApi\<close>, the same questions about a call.\<close>

datatype 'v payment_call_request = Query_call_info 'v u32 | Query_call_fee_details 'v u32
  | Query_call_weight_to_fee 'v | Query_call_length_to_fee u32

fun serve_payment_call ::
    "('s, 'v, 'j) api_env \<Rightarrow> 'v payment_call_request \<Rightarrow> 's \<Rightarrow> ('v, 'j) api_answer \<times> 's" where
  "serve_payment_call R (Query_call_info call len) s = hand_over R (Payment_query_call_info call len) s"
| "serve_payment_call R (Query_call_fee_details call len) s =
     hand_over R (Payment_query_call_fee_details call len) s"
| "serve_payment_call R (Query_call_weight_to_fee weight) s = hand_over R (Payment_weight_to_fee weight) s"
| "serve_payment_call R (Query_call_length_to_fee len) s = hand_over R (Payment_length_to_fee len) s"

text \<open>
  \<open>Benchmark\<close> (feature \<open>runtime-benchmarks\<close>): \<open>list_benchmarks!\<close> and \<open>add_benchmarks!\<close> go
  through the registered benchmarks in order; an \<open>Err\<close> of one ends the method.
\<close>

datatype 'v benchmark_request = Benchmark_metadata bool | Dispatch_benchmark 'v

fun add_benchmarks ::
    "('s, 'v, 'j) api_env \<Rightarrow> 'v \<Rightarrow> 'v \<Rightarrow> string list \<Rightarrow> 'v list \<Rightarrow> ('s, 'v, 'v list) action" where
  "add_benchmarks R config whitelist [] batches = done_with batches"
| "add_benchmarks R config whitelist (name # names) batches =
     try_then (add_benchmark R name config whitelist batches)
       (add_benchmarks R config whitelist names)"

fun serve_benchmark :: "('s, 'v, 'j) api_env \<Rightarrow> 'v benchmark_request \<Rightarrow> 's \<Rightarrow> ('v, 'j) api_answer \<times> 's" where
  "serve_benchmark R (Benchmark_metadata extra) s =
     (Benchmark_list (map (\<lambda>name. (name, list_benchmark R name extra)) runtime_benchmark_list)
        (storage_info R), s)"
| "serve_benchmark R (Dispatch_benchmark config) s =
     (case add_benchmarks R config (whitelisted_storage_keys R) runtime_benchmark_list [] s of
        (r, t) \<Rightarrow> (Batches r, t))"

text \<open>\<open>TryRuntime\<close> (feature \<open>try-runtime\<close>): a failed check is a panic on purpose.\<close>

datatype 'v try_request = On_runtime_upgrade 'v | Try_execute_block 'v bool bool 'v

fun serve_try :: "('s, 'v, 'j) api_env \<Rightarrow> 'v try_request \<Rightarrow> 's \<Rightarrow> ('v, 'j) api_answer \<times> 's" where
  "serve_try R (On_runtime_upgrade checks) s = (case try_runtime_upgrade R checks s of
     (Inl e, t) \<Rightarrow> (Panicked e, t)
   | (Inr weight, t) \<Rightarrow> (Weights weight (max_block R), t))"
| "serve_try R (Try_execute_block block state_root_check signature_check select) s =
     (case try_execute_block R block state_root_check signature_check select s of
        (Inl e, t) \<Rightarrow> (Panicked e, t)
      | (Inr weight, t) \<Rightarrow> (Value weight, t))"

datatype genesis_request = Build_state bytes | Get_preset "string option" | Preset_names

fun serve_genesis ::
    "('s, 'v, 'j) api_env \<Rightarrow> (('au, 'gr, 'acc) genesis_patch, 'j) preset_api \<Rightarrow>
     ('k, 'e, 'au, 'gr, 'acc) keyring \<Rightarrow> genesis_request \<Rightarrow> 's \<Rightarrow> ('v, 'j) api_answer \<times> 's" where
  "serve_genesis R P K (Build_state config) s = hand_over R (Genesis_build_state config) s"
| "serve_genesis R P K (Get_preset preset_id) s = (Preset (preset_helper R preset_id (get_preset P K)), s)"
| "serve_genesis R P K Preset_names s = (Names (preset_names P), s)"

section \<open>All of them\<close>

datatype 'v api_request =
    Core_api "'v core_request"
  | Metadata_api "'v metadata_request"
  | Block_builder_api "'v block_builder_request"
  | Node_api "'v node_request"
  | Aura_api aura_request
  | Grandpa_api "'v grandpa_request"
  | Account_api "'v account_request"
  | Payment_call_api "'v payment_call_request"
  | Benchmark_api "'v benchmark_request"
  | Try_api "'v try_request"
  | Genesis_api genesis_request

fun serve ::
    "('s, 'v, 'j) api_env \<Rightarrow> (('au, 'gr, 'acc) genesis_patch, 'j) preset_api \<Rightarrow>
     ('k, 'e, 'au, 'gr, 'acc) keyring \<Rightarrow> 'v api_request \<Rightarrow> 's \<Rightarrow> ('v, 'j) api_answer \<times> 's" where
  "serve R P K (Core_api q) s = serve_core R q s"
| "serve R P K (Metadata_api q) s = serve_metadata R q s"
| "serve R P K (Block_builder_api q) s = serve_block_builder R q s"
| "serve R P K (Node_api q) s = serve_node R q s"
| "serve R P K (Aura_api q) s = serve_aura R q s"
| "serve R P K (Grandpa_api q) s = serve_grandpa R q s"
| "serve R P K (Account_api q) s = serve_account R q s"
| "serve R P K (Payment_call_api q) s = serve_payment_call R q s"
| "serve R P K (Benchmark_api q) s = serve_benchmark R q s"
| "serve R P K (Try_api q) s = serve_try R q s"
| "serve R P K (Genesis_api q) s = serve_genesis R P K q s"

section \<open>Properties\<close>

text \<open>
  Documented behaviour used: \<open>MinimumPeriodTimesTwo\<close> doubles the timestamp pallet's minimum
  period, and the preset helper looks a given name up with the function it is given.
\<close>

definition api_env_ok :: "('s, 'v, 'j) api_env \<Rightarrow> bool" where
  "api_env_ok R \<longleftrightarrow> (\<forall>p. minimum_period_times_two R p = 2 * p) \<and>
     (\<forall>name f. preset_helper R (Some name) f = f name)"

text \<open>
  What a node learns from the runtime without touching its state: the slot duration is
  the 6000 milliseconds of a block, the version is the one the node signs benchmark payloads
  with, every preset listed can be fetched and is a sound genesis, a preset not listed
  cannot, and no equivocation is ever reported.
\<close>

theorem runtime_api_answers:
  assumes "api_env_ok R" "keyring_ok K"
  shows "serve R P K (Aura_api Slot_duration) s = (Millis MILLI_SECS_PER_BLOCK, s) \<and>
    serve R P K (Core_api Version) s = (Runtime_version (cfg_version system_config), s) \<and>
    serve R P K (Grandpa_api (Submit_report_equivocation_unsigned_extrinsic p q)) s = (No_value, s) \<and>
    serve R P K (Grandpa_api (Generate_key_ownership_proof i a)) s = (No_value, s) \<and>
    (\<exists>names. serve R P K (Genesis_api Preset_names) s = (Names names, s) \<and>
       (if name \<in> set names
        then \<exists>patch. serve R P K (Genesis_api (Get_preset (Some name))) s = (Preset (Some (to_json P patch)), s) \<and>
          genesis_sound patch
        else serve R P K (Genesis_api (Get_preset (Some name))) s = (Preset None, s)))"
proof (cases "name \<in> set (preset_names P)")
  case True
  then obtain patch where "get_preset P K name = Some (to_json P patch)" "genesis_sound patch"
    using assms(2) by (elim get_preset_sound [rotated])
  with True assms(1) show ?thesis
    by (auto simp: api_env_ok_def aura_config_def timestamp_minimum_period_def SLOT_DURATION_def
        MILLI_SECS_PER_BLOCK_def system_config_def)
next
  case False
  with assms(1) show ?thesis
    by (auto simp: api_env_ok_def aura_config_def timestamp_minimum_period_def SLOT_DURATION_def
        MILLI_SECS_PER_BLOCK_def system_config_def get_preset_def preset_names_def)
qed

definition plain_api_env :: "(unit, unit, (nat, nat, nat) genesis_patch) api_env" where
  "plain_api_env = \<lparr>delegate = (\<lambda>f s. ((), s)), minimum_period_times_two = (\<lambda>p. 2 * p),
     preset_helper = (\<lambda>name f. Option.bind name f), list_benchmark = (\<lambda>_ _. ()), storage_info = (),
     whitelisted_storage_keys = (), add_benchmark = (\<lambda>_ _ _. done_with),
     try_runtime_upgrade = (\<lambda>_. done_with ()), try_execute_block = (\<lambda>_ _ _ _. done_with ()), max_block = ()\<rparr>"

theorem runtime_api_answers_witness:
  "serve plain_api_env \<lparr>dev_preset = ''development'', local_preset = ''local_testnet'', to_json = id\<rparr>
     number_keyring (Aura_api Slot_duration) () = (Millis 6000, ()) \<and>
   (\<exists>patch. serve plain_api_env \<lparr>dev_preset = ''development'', local_preset = ''local_testnet'', to_json = id\<rparr>
     number_keyring (Genesis_api (Get_preset (Some ''development''))) () = (Preset (Some patch), ()) \<and> genesis_sound patch)"
proof -
  have "api_env_ok plain_api_env" by (simp add: api_env_ok_def plain_api_env_def)
  from runtime_api_answers [OF this number_keyring_ok,
      of "\<lparr>dev_preset = ''development'', local_preset = ''local_testnet'', to_json = id\<rparr>" "()" _ _ _ _ "''development''"]
  show ?thesis by (auto simp: preset_names_def MILLI_SECS_PER_BLOCK_def)
qed

text \<open>
  Documented behaviour of \<open>add_benchmark!\<close>: it runs the benchmarks of the pallet that the
  request names, and does nothing for another.
\<close>

definition add_benchmark_ok :: "('v \<Rightarrow> string) \<Rightarrow> ('s, 'v, 'j) api_env \<Rightarrow> bool" where
  "add_benchmark_ok wanted R \<longleftrightarrow> (\<forall>name config whitelist batches.
     wanted config \<noteq> name \<longrightarrow> add_benchmark R name config whitelist batches = done_with batches)"

lemma add_benchmarks_unregistered:
  assumes "add_benchmark_ok wanted R" "wanted config \<notin> set names"
  shows "add_benchmarks R config whitelist names batches = done_with batches"
  using assms(2)
proof (induction names arbitrary: batches)
  case (Cons name names)
  then have "add_benchmark R name config whitelist batches = done_with batches"
    using assms(1) by (auto simp: add_benchmark_ok_def)
  with Cons show ?case by (auto simp: try_then_def done_with_def)
qed simp

text \<open>
  The benchmarks the node can run are the registered ones: the list the runtime gives has
  the seven registered names in order, and a request for the benchmarks of another pallet is
  answered with no batch and without touching the state.  The simple-counter and user-profile
  pallets, which define benchmarks, are among the others.
\<close>

lemma unregistered_benchmarks_missing:
  assumes "add_benchmark_ok wanted R" "wanted config \<in> {''pallet_simple_counter'', ''pallet_user_profile''}"
  shows "serve R P K (Benchmark_api (Dispatch_benchmark config)) s = (Batches (Inr []), s) \<and>
    (\<exists>infos. serve R P K (Benchmark_api (Benchmark_metadata extra)) s = (Benchmark_list infos (storage_info R), s) \<and>
       map fst infos = runtime_benchmark_list \<and> wanted config \<notin> fst ` set infos)"
proof -
  have new: "wanted config \<notin> set runtime_benchmark_list"
    using assms(2) by (auto simp: runtime_benchmark_list_def)
  from add_benchmarks_unregistered [OF assms(1) new] show ?thesis
    using new by (simp add: done_with_def comp_def image_image)
qed

definition string_api_env :: "(unit, string, unit) api_env" where
  "string_api_env = \<lparr>delegate = (\<lambda>f s. ([], s)), minimum_period_times_two = (\<lambda>p. 2 * p),
     preset_helper = Option.bind, list_benchmark = (\<lambda>_ _. []), storage_info = [],
     whitelisted_storage_keys = [],
     add_benchmark = (\<lambda>name config _ batches. done_with (if config = name then batches @ [name] else batches)),
     try_runtime_upgrade = (\<lambda>_. done_with []), try_execute_block = (\<lambda>_ _ _ _. done_with []), max_block = []\<rparr>"

lemma unregistered_benchmarks_missing_witness:
  "fst (serve string_api_env \<lparr>dev_preset = [], local_preset = [], to_json = \<lambda>_. ()\<rparr> number_keyring
     (Benchmark_api (Dispatch_benchmark ''pallet_user_profile'')) ()) = Batches (Inr []) \<and>
   fst (serve string_api_env \<lparr>dev_preset = [], local_preset = [], to_json = \<lambda>_. ()\<rparr> number_keyring
     (Benchmark_api (Dispatch_benchmark ''pallet_template'')) ()) = Batches (Inr [''pallet_template''])"
proof -
  have "add_benchmark_ok id string_api_env" by (simp add: add_benchmark_ok_def string_api_env_def)
  from unregistered_benchmarks_missing [OF this, of "''pallet_user_profile''"]
  have "fst (serve string_api_env \<lparr>dev_preset = [], local_preset = [], to_json = \<lambda>_. ()\<rparr> number_keyring
     (Benchmark_api (Dispatch_benchmark ''pallet_user_profile'')) ()) = Batches (Inr [])"
    by simp
  then show ?thesis
    by (simp add: string_api_env_def runtime_benchmark_list_def try_then_def done_with_def)
qed

end
