(* ===== verification/Codec.thy ===== *)
theory Codec
  imports Prelude
begin

text \<open>
  Byte codecs: an encoder together with a decoder that takes its bytes off the front of the
  input and hands back the rest.  The encodings of the program are made of the primitive
  encodings of the \<open>parity-scale-codec\<close> crate; these are parameters wherever a codec of the
  program is defined, with the contract of the locale \<open>codec\<close> as their documented behaviour.
  The last section gives the published SCALE format as one such set of primitives.
\<close>

section \<open>The contract of a codec\<close>

type_synonym 'a decoder = "bytes \<Rightarrow> ('a \<times> bytes) option"

text \<open>\<open>valid\<close> says which values can be encoded (a \<open>Vec\<close> must be shorter than \<open>2 ^ 32\<close>).\<close>

record 'a codec =
  encode :: "'a \<Rightarrow> bytes"
  decode :: "'a decoder"
  valid :: "'a \<Rightarrow> bool"

locale codec =
  fixes c :: "'a codec"
  assumes roundtrip: "valid c x \<Longrightarrow> decode c (encode c x @ rest) = Some (x, rest)"
begin

lemma prefix_free:
  assumes "valid c x" "valid c y" "encode c x @ r = encode c y @ s"
  shows "x = y \<and> r = s"
  using roundtrip [OF assms(1), of r, unfolded assms(3)] roundtrip [OF assms(2), of s] by simp

lemma encode_inj: "valid c x \<Longrightarrow> valid c y \<Longrightarrow> encode c x = encode c y \<Longrightarrow> x = y"
  using prefix_free [of x y "[]" "[]"] by simp

lemma decode_all: "valid c x \<Longrightarrow> decode c (encode c x) = Some (x, [])"
  using roundtrip [of x "[]"] by simp

end

named_theorems codec_rules "codecs made of codecs"

section \<open>Decoders in sequence\<close>

definition and_then :: "'a decoder \<Rightarrow> ('a \<Rightarrow> 'b decoder) \<Rightarrow> 'b decoder" where
  "and_then d f bs = (case d bs of None \<Rightarrow> None | Some (x, rest) \<Rightarrow> f x rest)"

definition give :: "'a \<Rightarrow> 'a decoder" where
  "give x bs = Some (x, bs)"

definition reject :: "'a decoder" where
  "reject bs = None"

definition next_byte :: "u8 decoder" where
  "next_byte bs = (case bs of [] \<Rightarrow> None | b # rest \<Rightarrow> Some (b, rest))"

lemma and_then_Some: "d bs = Some (x, rest) \<Longrightarrow> and_then d f bs = f x rest"
  by (simp add: and_then_def)

lemma next_byte_Cons [simp]: "and_then next_byte f (b # rest) = f b rest"
  by (simp add: and_then_def next_byte_def)

lemma give_simp [simp]: "give x bs = Some (x, bs)"
  by (simp add: give_def)

text \<open>Reading a value that a codec wrote, in the middle of a decoder.\<close>

lemma codec_step:
  "codec c \<Longrightarrow> valid c x \<Longrightarrow> and_then (decode c) f (encode c x @ rest) = f x rest"
  by (rule and_then_Some) (rule codec.roundtrip)

text \<open>\<open>Option\<close>: the byte 0, or the byte 1 and the value.\<close>

definition option_codec :: "'a codec \<Rightarrow> 'a option codec" where
  "option_codec c = \<lparr>
     encode = (\<lambda>v. case v of None \<Rightarrow> [0] | Some x \<Rightarrow> 1 # encode c x),
     decode = and_then next_byte (\<lambda>b.
       if b = 0 then give None
       else if b = 1 then and_then (decode c) (\<lambda>x. give (Some x))
       else reject),
     valid = (\<lambda>v. case v of None \<Rightarrow> True | Some x \<Rightarrow> valid c x)\<rparr>"

lemma codec_option [codec_rules]: "codec c \<Longrightarrow> codec (option_codec c)"
  by unfold_locales
     (auto simp: option_codec_def codec_step split: option.splits)

text \<open>
  \<open>BoundedVec\<close>: encoded as its elements are, and refused by the decoder when longer than the
  bound.
\<close>

definition bounded_codec :: "nat \<Rightarrow> 'a list codec \<Rightarrow> 'a list codec" where
  "bounded_codec n c = \<lparr>
     encode = encode c,
     decode = and_then (decode c) (\<lambda>v. if length v \<le> n then give v else reject),
     valid = (\<lambda>v. valid c v \<and> length v \<le> n)\<rparr>"

lemma codec_bounded [codec_rules]: "codec c \<Longrightarrow> codec (bounded_codec n c)"
  by unfold_locales (simp add: bounded_codec_def codec_step)

section \<open>The primitive codecs\<close>

record 'a scale =
  scale_u32 :: "u32 codec"
  scale_u64 :: "u64 codec"
  scale_u128 :: "u128 codec"
  scale_bytes :: "bytes codec"
  scale_account :: "'a codec"

text \<open>
  The bytes of a compact length: one, two, four or five.
\<close>

definition compact_len :: "nat \<Rightarrow> nat" where
  "compact_len n = (if n < 2 ^ 6 then 1 else if n < 2 ^ 14 then 2 else if n < 2 ^ 30 then 4 else 5)"

lemma compact_len_mono: "m \<le> n \<Longrightarrow> compact_len m \<le> compact_len n"
  by (simp add: compact_len_def)

text \<open>
  What is assumed of the primitives: they are codecs, unsigned integers take their width in
  bytes and can always be encoded, a byte vector shorter than \<open>2 ^ 32\<close> can be encoded, and
  takes its compact length and its bytes; an account id takes 32 bytes.
\<close>

locale scale =
  fixes S :: "'a scale"
  assumes u32: "codec (scale_u32 S)" "valid (scale_u32 S) n" "length (encode (scale_u32 S) n) = 4"
    and u64: "codec (scale_u64 S)" "valid (scale_u64 S) m" "length (encode (scale_u64 S) m) = 8"
    and u128: "codec (scale_u128 S)" "valid (scale_u128 S) k" "length (encode (scale_u128 S) k) = 16"
    and bytes: "codec (scale_bytes S)" "length v < 2 ^ 32 \<Longrightarrow> valid (scale_bytes S) v"
      "length v < 2 ^ 32 \<Longrightarrow> length (encode (scale_bytes S) v) = compact_len (length v) + length v"
    and account: "codec (scale_account S)" "valid (scale_account S) a" "length (encode (scale_account S) a) = 32"

section \<open>The SCALE format\<close>

text \<open>Little-endian bytes of a number.\<close>

fun le_bytes :: "nat \<Rightarrow> nat \<Rightarrow> bytes" where
  "le_bytes 0 n = []"
| "le_bytes (Suc k) n = of_nat n # le_bytes k (n div 256)"

fun le_value :: "bytes \<Rightarrow> nat" where
  "le_value [] = 0"
| "le_value (b # bs) = unat b + 256 * le_value bs"

lemma length_le_bytes [simp]: "length (le_bytes k n) = k"
  by (induction k n rule: le_bytes.induct) auto

lemma le_value_bytes [simp]: "le_value (le_bytes k n) = n mod 256 ^ k"
proof (induction k n rule: le_bytes.induct)
  case (2 k n)
  have "n mod 256 ^ Suc k = n mod 256 + 256 * (n div 256 mod 256 ^ k)"
    by (simp add: mod_mult2_eq)
  moreover have "unat (of_nat n :: u8) = n mod 256" by (simp add: unat_of_nat)
  ultimately show ?case using 2 by simp
qed simp

definition take_le :: "nat \<Rightarrow> nat decoder" where
  "take_le k bs = (if length bs < k then None else Some (le_value (take k bs), drop k bs))"

lemma take_le_bytes: "take_le k (le_bytes k n @ rest) = Some (n mod 256 ^ k, rest)"
  by (simp add: take_le_def)

lemma and_then_take_le [simp]: "and_then (take_le k) f (le_bytes k n @ rest) = f (n mod 256 ^ k) rest"
  by (rule and_then_Some) (rule take_le_bytes)

text \<open>Unsigned integers of fixed width.\<close>

definition word_codec :: "nat \<Rightarrow> 'l::len word codec" where
  "word_codec k = \<lparr>
     encode = (\<lambda>w. le_bytes k (unat w)),
     decode = and_then (take_le k) (\<lambda>n. give (of_nat n)),
     valid = (\<lambda>_. True)\<rparr>"

lemma codec_word:
  assumes "LENGTH('l::len) = 8 * k"
  shows "codec (word_codec k :: 'l word codec)"
proof
  fix x :: "'l word" and rest
  have "(256 :: nat) ^ k = 2 ^ LENGTH('l)" by (simp add: assms power_mult)
  then have "unat x mod 256 ^ k = unat x"
    using unsigned_less [of x, where 'a = nat] by simp
  then show "decode (word_codec k) (encode (word_codec k) x @ rest) = Some (x, rest)"
    by (simp add: word_codec_def)
qed

text \<open>
  Compact length prefixes: the two low bits of the first byte say whether the length is in
  one, two or four bytes, or in the four bytes that follow.
\<close>

definition compact_bytes :: "nat \<Rightarrow> bytes" where
  "compact_bytes n =
     (if n < 2 ^ 6 then le_bytes 1 (4 * n)
      else if n < 2 ^ 14 then le_bytes 2 (4 * n + 1)
      else if n < 2 ^ 30 then le_bytes 4 (4 * n + 2)
      else 3 # le_bytes 4 n)"

definition take_compact :: "nat decoder" where
  "take_compact bs = (case bs of
     [] \<Rightarrow> None
   | b # rest \<Rightarrow>
       (let mode = unat b mod 4 in
        if mode = 0 then Some (unat b div 4, rest)
        else if mode = 1 then and_then (take_le 2) (\<lambda>n. give (n div 4)) bs
        else if mode = 2 then and_then (take_le 4) (\<lambda>n. give (n div 4)) bs
        else take_le 4 rest))"

lemma le_bytes_hd:
  assumes "k > 0"
  obtains b bs where "le_bytes k n = b # bs" "unat b = n mod 256"
  using assms by (cases k) (auto simp: unat_of_nat)

lemma take_compact_le:
  assumes "k > 0" "n mod 4 = mode" "mode \<in> {1, 2}" "k = 2 * mode" "n < 256 ^ k"
  shows "take_compact (le_bytes k n @ rest) = Some (n div 4, rest)"
proof -
  obtain b bs where b: "le_bytes k n = b # bs" "unat b = n mod 256" using assms(1) by (rule le_bytes_hd)
  have "unat b mod 4 = mode" using b(2) assms(2) by (simp add: mod_mod_cancel)
  moreover have "and_then (take_le k) (\<lambda>n. give (n div 4)) (b # bs @ rest) = Some (n div 4, rest)"
    using and_then_take_le [of k "\<lambda>n. give (n div 4)" n rest] b(1) assms(5) by simp
  ultimately show ?thesis using assms(3,4) b(1) by (auto simp: take_compact_def Let_def)
qed

lemma take_compact_bytes:
  assumes "n < 2 ^ 32"
  shows "take_compact (compact_bytes n @ rest) = Some (n, rest)"
proof -
  consider "n < 2 ^ 6" | "2 ^ 6 \<le> n" "n < 2 ^ 14" | "2 ^ 14 \<le> n" "n < 2 ^ 30" | "2 ^ 30 \<le> n"
    by linarith
  then show ?thesis
  proof cases
    case 1
    obtain b bs where b: "le_bytes 1 (4 * n) = b # bs" "unat b = 4 * n mod 256"
      by (rule le_bytes_hd [of 1 "4 * n"]) simp
    then have "bs = []" using length_le_bytes [of 1 "4 * n"] by simp
    then show ?thesis using 1 b by (simp add: compact_bytes_def take_compact_def Let_def)
  next
    case 2
    have "take_compact (le_bytes 2 (4 * n + 1) @ rest) = Some ((4 * n + 1) div 4, rest)"
    proof (rule take_compact_le [where mode = 1])
      show "(4 * n + 1) mod 4 = 1" by presburger
    qed (use 2 in simp_all)
    moreover have "(4 * n + 1) div 4 = n" by presburger
    ultimately show ?thesis using 2 by (simp add: compact_bytes_def del: le_bytes.simps)
  next
    case 3
    have "take_compact (le_bytes 4 (4 * n + 2) @ rest) = Some ((4 * n + 2) div 4, rest)"
    proof (rule take_compact_le [where mode = 2])
      show "(4 * n + 2) mod 4 = 2" by presburger
    qed (use 3 in simp_all)
    moreover have "(4 * n + 2) div 4 = n" by presburger
    ultimately show ?thesis using 3 by (simp add: compact_bytes_def del: le_bytes.simps)
  next
    case 4
    then show ?thesis using assms by (simp add: compact_bytes_def take_compact_def take_le_bytes)
  qed
qed

lemma and_then_take_compact:
  "n < 2 ^ 32 \<Longrightarrow> and_then take_compact f (compact_bytes n @ rest) = f n rest"
  by (rule and_then_Some) (rule take_compact_bytes)

text \<open>A vector of bytes: its length, then the bytes.\<close>

definition bytes_codec :: "bytes codec" where
  "bytes_codec = \<lparr>
     encode = (\<lambda>v. compact_bytes (length v) @ v),
     decode = and_then take_compact (\<lambda>n bs.
       if length bs < n then None else Some (take n bs, drop n bs)),
     valid = (\<lambda>v. length v < 2 ^ 32)\<rparr>"

lemma codec_bytes: "codec bytes_codec"
  by unfold_locales (simp add: bytes_codec_def and_then_take_compact)

lemma compact_bytes_length: "length (compact_bytes n) = compact_len n"
  by (simp add: compact_bytes_def compact_len_def del: le_bytes.simps)

text \<open>An account id is 32 bytes; here it is a 256-bit word.\<close>

definition plain_scale :: "256 word scale" where
  "plain_scale = \<lparr>scale_u32 = word_codec 4, scale_u64 = word_codec 8, scale_u128 = word_codec 16,
     scale_bytes = bytes_codec, scale_account = word_codec 32\<rparr>"

lemma length_bytes_codec: "length (encode bytes_codec v) = compact_len (length v) + length v"
  by (simp add: bytes_codec_def compact_bytes_length)

lemma word_codec_simps [simp]: "valid (word_codec k) w" "length (encode (word_codec k) w) = k"
  by (simp_all add: word_codec_def)

interpretation plain_scale: scale plain_scale
  by (rule scale.intro)
     (simp_all add: plain_scale_def codec_word codec_bytes length_bytes_codec,
      simp add: bytes_codec_def)

end
