(* ===== verification/Stored_Values.thy ===== *)
theory Stored_Values
  imports Codec Profile_Registry Runtime_Config
begin

text \<open>
  The encodings of the session keys and of what the user-profile pallet stores: \<open>UserProfile\<close> and \<open>UserStats\<close> derive
  \<open>Encode\<close>, \<open>Decode\<close> and \<open>MaxEncodedLen\<close> (\<open>pallets/user-profile/src/lib.rs\<close>).  The encoding is
  the fields in order; a \<open>BoundedVec\<close> is refused by the decoder when it is longer than its
  bound; the maximal length is the sum of the fields' maxima.
\<close>

section \<open>Encodings\<close>

definition user_stats_codec :: "'a scale \<Rightarrow> user_stats codec" where
  "user_stats_codec S = \<lparr>
     encode = (\<lambda>s. encode (scale_u32 S) (total_races s) @ encode (scale_u32 S) (wins s) @
       encode (scale_u64 S) (total_distance s) @ encode (scale_u128 S) (total_rewards s)),
     decode =
       and_then (decode (scale_u32 S)) (\<lambda>r.
       and_then (decode (scale_u32 S)) (\<lambda>w.
       and_then (decode (scale_u64 S)) (\<lambda>d.
       and_then (decode (scale_u128 S)) (\<lambda>x.
       give \<lparr>total_races = r, wins = w, total_distance = d, total_rewards = x\<rparr>)))),
     valid = (\<lambda>_. True)\<rparr>"

definition username_codec :: "'a scale \<Rightarrow> profile_config \<Rightarrow> bytes codec" where
  "username_codec S C = bounded_codec (unat (max_username_length C)) (scale_bytes S)"

definition bio_codec :: "'a scale \<Rightarrow> profile_config \<Rightarrow> bytes codec" where
  "bio_codec S C = bounded_codec (unat (max_bio_length C)) (scale_bytes S)"

definition user_profile_codec :: "'a scale \<Rightarrow> profile_config \<Rightarrow> 'a user_profile codec" where
  "user_profile_codec S C = \<lparr>
     encode = (\<lambda>p. encode (scale_account S) (account p) @ encode (username_codec S C) (username p) @
       encode (option_codec (username_codec S C)) (avatar p) @
       encode (option_codec (bio_codec S C)) (bio p) @ encode (scale_u64 S) (created_at p)),
     decode =
       and_then (decode (scale_account S)) (\<lambda>a.
       and_then (decode (username_codec S C)) (\<lambda>u.
       and_then (decode (option_codec (username_codec S C))) (\<lambda>av.
       and_then (decode (option_codec (bio_codec S C))) (\<lambda>bi.
       and_then (decode (scale_u64 S)) (\<lambda>n.
       give \<lparr>account = a, username = u, avatar = av, bio = bi, created_at = n\<rparr>))))),
     valid = (\<lambda>p. valid (username_codec S C) (username p) \<and>
       valid (option_codec (username_codec S C)) (avatar p) \<and>
       valid (option_codec (bio_codec S C)) (bio p))\<rparr>"

text \<open>
  The session keys of the runtime, as \<open>impl_opaque_keys!\<close> encodes them: the keys of the two
  consensus pallets in order, each with its own encoding.
\<close>

definition session_keys_codec :: "'au codec \<Rightarrow> 'gr codec \<Rightarrow> ('au, 'gr) SessionKeys codec" where
  "session_keys_codec ca cg = \<lparr>
     encode = (\<lambda>k. encode ca (session_aura k) @ encode cg (session_grandpa k)),
     decode = and_then (decode ca) (\<lambda>a. and_then (decode cg) (\<lambda>g.
       give \<lparr>session_aura = a, session_grandpa = g\<rparr>)),
     valid = (\<lambda>k. valid ca (session_aura k) \<and> valid cg (session_grandpa k))\<rparr>"

lemma codec_session_keys [codec_rules]: "codec ca \<Longrightarrow> codec cg \<Longrightarrow> codec (session_keys_codec ca cg)"
  by unfold_locales (simp add: session_keys_codec_def codec_step)

text \<open>\<open>MaxEncodedLen\<close>: the longest encoding of each field, added up.\<close>

definition bounded_max_len :: "u32 \<Rightarrow> nat" where
  "bounded_max_len n = compact_len (unat n) + unat n"

definition profile_max_len :: "profile_config \<Rightarrow> nat" where
  "profile_max_len C = 32 + bounded_max_len (max_username_length C) +
     (1 + bounded_max_len (max_username_length C)) + (1 + bounded_max_len (max_bio_length C)) + 8"

definition stats_max_len :: nat where
  "stats_max_len = 4 + 4 + 8 + 16"

section \<open>They are codecs, of bounded length\<close>

lemma below_u32: "length v \<le> unat (n :: u32) \<Longrightarrow> length v < 2 ^ 32"
  using unsigned_less [of n, where 'a = nat] by simp

lemma bounded_len_mono: "length v \<le> unat n \<Longrightarrow> compact_len (length v) + length v \<le> bounded_max_len n"
  using compact_len_mono [of "length v" "unat n"] by (simp add: bounded_max_len_def)

context scale
begin

sublocale stats: codec "user_stats_codec S"
  by unfold_locales (simp add: user_stats_codec_def codec_step u32 u64 u128)

lemma field_codecs [codec_rules]:
  "codec (username_codec S C)" "codec (bio_codec S C)"
  "codec (option_codec (username_codec S C))" "codec (option_codec (bio_codec S C))"
  by (simp_all add: username_codec_def bio_codec_def codec_rules bytes(1))

sublocale stored_profile: codec "user_profile_codec S C" for C
  by unfold_locales (simp add: user_profile_codec_def codec_step field_codecs account u64)

lemma bounded_valid:
  "\<not> too_long n v \<Longrightarrow> valid (bounded_codec (unat n) (scale_bytes S)) v"
  using below_u32 [of v n] by (simp add: bounded_codec_def bytes(2) too_long_def)

lemma bounded_length:
  "\<not> too_long n v \<Longrightarrow> length (encode (bounded_codec (unat n) (scale_bytes S)) v) \<le> bounded_max_len n"
  using below_u32 [of v n] bounded_len_mono [of v n]
  by (simp add: bounded_codec_def bytes(3) too_long_def)

lemma option_bounded:
  assumes "\<forall>x. v = Some x \<longrightarrow> \<not> too_long n x"
  shows "valid (option_codec (bounded_codec (unat n) (scale_bytes S))) v"
    and "length (encode (option_codec (bounded_codec (unat n) (scale_bytes S))) v) \<le> 1 + bounded_max_len n"
  using assms by (auto simp: option_codec_def bounded_valid bounded_length split: option.split)

lemma profile_encodable:
  assumes "profile_bounded C p"
  shows "valid (user_profile_codec S C) p"
    and "length (encode (user_profile_codec S C) p) \<le> profile_max_len C"
  using assms option_bounded [of "avatar p" "max_username_length C"] option_bounded [of "bio p" "max_bio_length C"]
    bounded_length [of "max_username_length C" "username p"] account(3) [of "account p"] u64(3) [of "created_at p"]
  unfolding profile_bounded_def user_profile_codec_def profile_max_len_def username_codec_def bio_codec_def
  by (auto simp: bounded_valid)

lemma stats_encodable: "length (encode (user_stats_codec S) s) = stats_max_len"
  by (simp add: user_stats_codec_def u32(3) u64(3) u128(3) stats_max_len_def)

lemmas stored_codecs = stored_profile.codec_axioms stats.codec_axioms

end

lemma runtime_max_lens: "profile_max_len \<lparr>max_username_length = 32, max_bio_length = 256\<rparr> = 366" "stats_max_len = 32"
  by (simp_all add: profile_max_len_def bounded_max_len_def compact_len_def stats_max_len_def)

section \<open>What a chain stores\<close>

text \<open>
  C30. In every storage a chain of extrinsics reaches, each stored profile and each stored
  statistics value decodes to itself, and takes no more bytes than the maximal length its type
  declares: the sum of its fields' maxima, which the configured bounds of the username and the
  bio determine; statistics always take 32 bytes.  So a decoder that enforces the bounds, as
  the storage's does, never fails on what the pallet stored.
\<close>

theorem stored_values_encoding:
  assumes "scale S" "storage_layer layer"
    and "reachable layer (profile_apply C) profile_legal profile_genesis st"
  shows "(\<forall>a p rest. profiles st a = Some p \<longrightarrow>
       decode (user_profile_codec S C) (encode (user_profile_codec S C) p @ rest) = Some (p, rest) \<and>
       length (encode (user_profile_codec S C) p) \<le> profile_max_len C) \<and>
     (\<forall>a s rest. user_stats_map st a = Some s \<longrightarrow>
       decode (user_stats_codec S) (encode (user_stats_codec S) s @ rest) = Some (s, rest) \<and>
       length (encode (user_stats_codec S) s) = 32)"
proof -
  have "profile_bounded C p" if "profiles st a = Some p" for a p
    using profile_invD(3) [OF profile.reachable_inv [OF assms(2,3)]] that by (simp add: profiles_wf_def)
  note ok = scale.profile_encodable [OF assms(1) this]
  have stats: "valid (user_stats_codec S) s" for s by (simp add: user_stats_codec_def)
  show ?thesis
    using ok codec.roundtrip [OF scale.stored_codecs(1) [OF assms(1)], of C]
      codec.roundtrip [OF scale.stored_codecs(2) [OF assms(1)] stats]
      scale.stats_encodable [OF assms(1)]
    by (auto simp: stats_max_len_def)
qed

text \<open>Account 7, a 256-bit id, takes the username \<open>a\<close> in block 1.\<close>

definition wide_call :: "(256 word option, 256 word, unit) profile_extrinsic" where
  "wide_call = (plain_frame 1, Some 7, Set_username [97])"

definition wide_store :: "256 word profile_storage" where
  "wide_store = apply_all rollback_layer (profile_apply mock_config) profile_genesis [wide_call]"

lemma wide_store_reachable:
  "reachable rollback_layer (profile_apply mock_config)
     (profile_legal :: (256 word option, 256 word, unit) profile_extrinsic \<Rightarrow> bool) profile_genesis wide_store"
  unfolding wide_store_def
  by (rule reachable_apply_all [OF reachable.at_genesis])
     (simp add: wide_call_def profile_legal_def bounded_vec_ok_plain)

lemma wide_store_profile:
  "profiles wide_store 7 = Some \<lparr>account = 7, username = [97], avatar = None, bio = None, created_at = 1\<rparr>"
  by (simp add: wide_store_def wide_call_def rollback_layer_def profile_apply_def
      set_username_eq [OF bounded_vec_ok_plain] demo_simps)

theorem stored_values_encoding_witness:
  "profiles wide_store 7 = Some \<lparr>account = 7, username = [97], avatar = None, bio = None, created_at = 1\<rparr> \<and>
   length (encode (user_profile_codec plain_scale mock_config)
     \<lparr>account = 7, username = [97], avatar = None, bio = None, created_at = 1\<rparr>) \<le> 366"
  using stored_values_encoding [OF plain_scale.scale_axioms storage_layer_rollback wide_store_reachable]
    wide_store_profile runtime_max_lens(1)
  by (auto simp: mock_config_def)

end
