(* ===== verification/Unit_Tests.thy ===== *)
theory Unit_Tests
  imports Pallet_Benchmarks Profile_Registry
begin

text \<open>
  The mock runtimes and unit tests of the three pallets (\<open>mock.rs\<close> and \<open>tests.rs\<close> of each).
  A mock runtime is the system pallet and the pallet under test; its account ids are \<open>u64\<close>.  A
  test is an action on the block number and the storage of the mock's externalities, which
  fails where one of its assertions or \<open>unwrap\<close>s panics.  \<open>RuntimeOrigin::signed\<close>, the
  storage layer around a dispatchable and the framework functions are parameters.
\<close>

section \<open>Mock runtimes\<close>

text \<open>The pallets with their indices, as \<open>#[runtime::pallet_index(..)]\<close> gives them.\<close>

definition counter_mock_pallets :: "(pallet \<times> nat) list" where
  "counter_mock_pallets = [(System, 0), (SimpleCounter, 1)]"

definition template_mock_pallets :: "(pallet \<times> nat) list" where
  "template_mock_pallets = [(System, 0), (Template, 1)]"

definition profile_mock_pallets :: "(pallet \<times> nat) list" where
  "profile_mock_pallets = [(System, 0), (UserProfile, 1)]"

text \<open>\<open>type WeightInfo = ()\<close>; the bounds of the user-profile mock are \<open>mock_config\<close>.\<close>

definition counter_mock_weight :: "'w weight_api \<Rightarrow> 'w db_weight \<Rightarrow> 'w counter_weight_info" where
  "counter_mock_weight = counter_unit_weight"

definition template_mock_weight :: "'w weight_api \<Rightarrow> 'w db_weight \<Rightarrow> 'w template_weight_info" where
  "template_mock_weight = template_unit_weight"

definition profile_mock_weight :: "'w weight_api \<Rightarrow> 'w db_weight \<Rightarrow> 'w profile_weight_info" where
  "profile_mock_weight = profile_unit_weight"

text \<open>\<open>new_test_ext\<close>: the genesis storage, in block 0.\<close>

record ('st, 'ev) test_world =
  test_block :: u32
  world :: "('st, 'ev) ext"

definition new_counter_ext :: "(counter_storage, u64 counter_event) test_world" where
  "new_counter_ext = \<lparr>test_block = 0, world = fresh_ext counter_genesis\<rparr>"

definition new_template_ext :: "(template_storage, u64 template_event) test_world" where
  "new_template_ext = \<lparr>test_block = 0, world = fresh_ext template_genesis\<rparr>"

definition new_profile_ext :: "(u64 profile_storage, u64 profile_event) test_world" where
  "new_profile_ext = \<lparr>test_block = 0, world = fresh_ext profile_genesis\<rparr>"

text \<open>
  What a test uses of the framework.  Documented behaviour: \<open>ensure_signed\<close> gives the signer
  of a signed origin back, and a storage layer that is not nested too deeply gives the result
  of its body.
\<close>

record ('o, 'st, 'ev, 'd, 'e) mock =
  mock_frame :: "('o, u64, 'd) frame"
  signed :: "u64 \<Rightarrow> 'o"
  mock_layer :: "('st, 'ev, 'd, 'e) layer"

definition mock_ok :: "('o, 'st, 'ev, 'd, 'e) mock \<Rightarrow> bool" where
  "mock_ok M \<longleftrightarrow> bounded_vec_ok (mock_frame M) \<and>
     (\<forall>a. ensure_signed (mock_frame M) (signed M a) = Inr a) \<and>
     shallow_layer (mock_layer M)"

section \<open>Assertions\<close>

type_synonym ('st, 'ev, 'a) test = "(('st, 'ev) test_world, unit, 'a) action"

definition set_block_number :: "u32 \<Rightarrow> ('st, 'ev, unit) test" where
  "set_block_number n w = (Inr (), w\<lparr>test_block := n\<rparr>)"

text \<open>
  A call in the test's block; the system pallet keeps no events in block 0.
\<close>

definition run_call ::
    "('o, 'st, 'ev, 'd, 'e) mock \<Rightarrow> (('o, u64, 'd) frame \<Rightarrow> ('st, 'ev, 'd, 'e) dispatchable) \<Rightarrow>
     ('st, 'ev) test_world \<Rightarrow> (('d, 'e) dispatch_error + unit) \<times> ('st, 'ev) test_world" where
  "run_call M m w =
     (case mock_layer M (m (mock_frame M\<lparr>block_number := test_block w\<rparr>)) (world w) of (r, t) \<Rightarrow>
        (r, w\<lparr>world := if test_block w = 0 then t\<lparr>deposited := deposited (world w)\<rparr> else t\<rparr>))"

definition assert_ok ::
    "('o, 'st, 'ev, 'd, 'e) mock \<Rightarrow> (('o, u64, 'd) frame \<Rightarrow> ('st, 'ev, 'd, 'e) dispatchable) \<Rightarrow>
     ('st, 'ev, unit) test" where
  "assert_ok M m w = (case run_call M m w of (Inr u, t) \<Rightarrow> (Inr (), t) | (Inl e, t) \<Rightarrow> (Inl (), t))"

text \<open>\<open>assert_noop!\<close>: the given error, and a storage (with its events) as before.\<close>

definition assert_noop ::
    "('o, 'st, 'ev, 'd, 'e) mock \<Rightarrow> (('o, u64, 'd) frame \<Rightarrow> ('st, 'ev, 'd, 'e) dispatchable) \<Rightarrow> 'e \<Rightarrow>
     ('st, 'ev, unit) test" where
  "assert_noop M m err w = (case run_call M m w of (r, t) \<Rightarrow>
     if r = Inl (Module err) \<and> store (world t) = store (world w) \<and>
        deposited (world t) = deposited (world w)
     then (Inr (), t) else (Inl (), t))"

definition assert_eq :: "'a \<Rightarrow> 'a \<Rightarrow> ('st, 'ev, unit) test" where
  "assert_eq a b = ensure (a = b) ()"

definition assert_last_event :: "'ev \<Rightarrow> ('st, 'ev, unit) test" where
  "assert_last_event ev w =
     (if deposited (world w) \<noteq> [] \<and> last (deposited (world w)) = ev then (Inr (), w) else (Inl (), w))"

definition peek :: "('st \<Rightarrow> 'v) \<Rightarrow> ('st, 'ev, 'v) test" where
  "peek f w = (Inr (f (store (world w))), w)"

definition poke :: "('st \<Rightarrow> 'st) \<Rightarrow> ('st, 'ev, unit) test" where
  "poke f w = (Inr (), w\<lparr>world := (world w)\<lparr>store := f (store (world w))\<rparr>\<rparr>)"

definition unwrap :: "'v option \<Rightarrow> ('st, 'ev, 'v) test" where
  "unwrap v = ok_or () v"

definition passes :: "('st, 'ev, unit) test \<Rightarrow> ('st, 'ev) test_world \<Rightarrow> bool" where
  "passes t w \<longleftrightarrow> fst (t w) = Inr ()"

section \<open>Tests of the simple-counter pallet\<close>

definition increment_updates_counter_and_event ::
    "('o, counter_storage, u64 counter_event, 'd, counter_error) mock \<Rightarrow> (counter_storage, u64 counter_event, unit) test" where
  "increment_updates_counter_and_event M =
     try_then (set_block_number 1) (\<lambda>_.
     try_then (assert_ok M (\<lambda>F. increment F (signed M 1))) (\<lambda>_.
     try_then (peek counter) (\<lambda>c.
     try_then (assert_eq c 1) (\<lambda>_.
     assert_last_event (CounterIncremented 1 1)))))"

definition reset_sets_zero ::
    "('o, counter_storage, u64 counter_event, 'd, counter_error) mock \<Rightarrow> (counter_storage, u64 counter_event, unit) test" where
  "reset_sets_zero M =
     try_then (set_block_number 1) (\<lambda>_.
     try_then (assert_ok M (\<lambda>F. increment F (signed M 1))) (\<lambda>_.
     try_then (assert_ok M (\<lambda>F. reset F (signed M 2))) (\<lambda>_.
     try_then (peek counter) (\<lambda>c.
     try_then (assert_eq c 0) (\<lambda>_.
     assert_last_event (CounterReset 2))))))"

definition overflow_guard ::
    "('o, counter_storage, u64 counter_event, 'd, counter_error) mock \<Rightarrow> (counter_storage, u64 counter_event, unit) test" where
  "overflow_guard M =
     try_then (poke (counter_update (\<lambda>_. - 1))) (\<lambda>_.
     assert_noop M (\<lambda>F. increment F (signed M 1)) Overflow)"

section \<open>Tests of the template pallet\<close>

definition it_works_for_default_value ::
    "('o, template_storage, u64 template_event, 'd, template_error) mock \<Rightarrow> (template_storage, u64 template_event, unit) test" where
  "it_works_for_default_value M =
     try_then (set_block_number 1) (\<lambda>_.
     try_then (assert_ok M (\<lambda>F. do_something F (signed M 1) 42)) (\<lambda>_.
     try_then (peek something) (\<lambda>v.
     try_then (assert_eq v (Some 42)) (\<lambda>_.
     assert_last_event (SomethingStored 42 1)))))"

definition correct_error_for_none_value ::
    "('o, template_storage, u64 template_event, 'd, template_error) mock \<Rightarrow> (template_storage, u64 template_event, unit) test" where
  "correct_error_for_none_value M = assert_noop M (\<lambda>F. cause_error F (signed M 1)) NoneValue"

section \<open>Tests of the user-profile pallet\<close>

type_synonym ('o, 'd) profile_mock = "('o, u64 profile_storage, u64 profile_event, 'd, profile_error) mock"
type_synonym profile_test = "(u64 profile_storage, u64 profile_event, unit) test"

definition set_username_works :: "('o, 'd) profile_mock \<Rightarrow> profile_test" where
  "set_username_works M =
     try_then (set_block_number 1) (\<lambda>_.
     let acc = 1; name = ascii ''alice'' in
     try_then (assert_ok M (\<lambda>F. set_username mock_config F (signed M acc) name)) (\<lambda>_.
     try_then (peek (\<lambda>st. profiles st acc)) (\<lambda>p. try_then (unwrap p) (\<lambda>profile.
     try_then (assert_eq (account profile) acc) (\<lambda>_.
     try_then (assert_eq (username profile) name) (\<lambda>_.
     try_then (peek (\<lambda>st. user_stats_map st acc)) (\<lambda>q. try_then (unwrap q) (\<lambda>stats.
     try_then (assert_eq stats default_stats) (\<lambda>_.
     try_then (unwrap (bounded_try_from (mock_frame M) (max_username_length mock_config) name)) (\<lambda>bounded.
     assert_last_event (UsernameSet acc bounded)))))))))))"

definition set_username_fails_if_username_taken :: "('o, 'd) profile_mock \<Rightarrow> profile_test" where
  "set_username_fails_if_username_taken M =
     try_then (set_block_number 1) (\<lambda>_.
     let account1 = 1; account2 = 2; name = ascii ''alice'' in
     try_then (assert_ok M (\<lambda>F. set_username mock_config F (signed M account1) name)) (\<lambda>_.
     assert_noop M (\<lambda>F. set_username mock_config F (signed M account2) name) UsernameTaken))"

definition update_profile_works :: "('o, 'd) profile_mock \<Rightarrow> profile_test" where
  "update_profile_works M =
     try_then (set_block_number 1) (\<lambda>_.
     let acc = 1; new_username = ascii ''alice_new''; new_bio = ascii ''My bio'' in
     try_then (assert_ok M (\<lambda>F. update_profile mock_config F (signed M acc)
       (Some new_username) None (Some (Some new_bio)))) (\<lambda>_.
     try_then (peek (\<lambda>st. profiles st acc)) (\<lambda>p. try_then (unwrap p) (\<lambda>profile.
     try_then (assert_eq (username profile) new_username) (\<lambda>_.
     try_then (unwrap (bounded_try_from (mock_frame M) (max_bio_length mock_config) new_bio)) (\<lambda>bounded.
     assert_eq (bio profile) (Some bounded)))))))"

definition update_stats_works :: "('o, 'd) profile_mock \<Rightarrow> profile_test" where
  "update_stats_works M =
     try_then (set_block_number 1) (\<lambda>_.
     let acc = 1 in
     try_then (assert_ok M (\<lambda>F. update_stats F (signed M acc) (Some 10) (Some 5) (Some 1000) (Some 5000))) (\<lambda>_.
     try_then (peek (\<lambda>st. user_stats_map st acc)) (\<lambda>q. try_then (unwrap q) (\<lambda>stats.
     try_then (assert_eq (total_races stats) 10) (\<lambda>_.
     try_then (assert_eq (wins stats) 5) (\<lambda>_.
     try_then (assert_eq (total_distance stats) 1000) (\<lambda>_.
     assert_eq (total_rewards stats) 5000)))))))"

section \<open>Rules for running a test\<close>

definition kept_events :: "('st, 'ev) test_world \<Rightarrow> ('st, 'ev) ext \<Rightarrow> ('st, 'ev) test_world" where
  "kept_events w t = w\<lparr>world := if test_block w = 0 then t\<lparr>deposited := deposited (world w)\<rparr> else t\<rparr>"

lemma kept_events_simps [simp]:
  "test_block (kept_events w t) = test_block w"
  "store (world (kept_events w t)) = store t"
  "test_block w \<noteq> 0 \<Longrightarrow> deposited (world (kept_events w t)) = deposited t"
  by (simp_all add: kept_events_def)

lemma frame_at_simps [simp]:
  "ensure_signed (F\<lparr>block_number := n\<rparr>) = ensure_signed F"
  "bounded_try_from (F\<lparr>block_number := n\<rparr>) = bounded_try_from F"
  "bounded_vec_ok (F\<lparr>block_number := n\<rparr>) = bounded_vec_ok F"
  by (simp_all add: bounded_vec_ok_def)

lemma mock_simps:
  assumes "mock_ok M"
  shows "bounded_vec_ok (mock_frame M)" "ensure_signed (mock_frame M) (signed M a) = Inr a"
  using assms by (simp_all add: mock_ok_def)

abbreviation frame_in :: "('o, 'st, 'ev, 'd, 'e) mock \<Rightarrow> ('st, 'ev) test_world \<Rightarrow> ('o, u64, 'd) frame" where
  "frame_in M w \<equiv> mock_frame M\<lparr>block_number := test_block w\<rparr>"

lemma run_call_Ok:
  assumes "mock_ok M" "m (frame_in M w) (world w) = (Inr (), t)"
  shows "run_call M m w = (Inr (), kept_events w t)"
  using shallow_layer_Ok [of "mock_layer M" "m (frame_in M w)" "world w" t] assms
  by (simp add: mock_ok_def run_call_def kept_events_def)

lemma run_call_Err:
  assumes "mock_ok M" "fst (m (frame_in M w) (world w)) = Inl e"
  shows "\<exists>t. run_call M m w = (Inl e, t) \<and> store (world t) = store (world w) \<and>
    deposited (world t) = deposited (world w)"
proof -
  have "shallow_layer (mock_layer M)" using assms(1) by (simp add: mock_ok_def)
  from this assms(2) obtain u where "mock_layer M (m (frame_in M w)) (world w) = (Inl e, u)"
    "store u = store (world w)" "deposited u = deposited (world w)"
    by (rule shallow_layer_Err [of _ "m (frame_in M w)"])
  then show ?thesis by (simp add: run_call_def)
qed

lemma wp_assert_ok [wp_rules]:
  assumes "mock_ok M" "fst (m (frame_in M w) (world w)) = Inr ()"
  shows "wp (assert_ok M m) Q E w = Q () (kept_events w (snd (m (frame_in M w) (world w))))"
proof -
  have "m (frame_in M w) (world w) = (Inr (), snd (m (frame_in M w) (world w)))"
    using assms(2) by (metis prod.collapse)
  from run_call_Ok [of M m, OF assms(1) this] show ?thesis by (simp add: wp_def assert_ok_def)
qed

lemma wp_assert_noop [wp_rules]:
  assumes "mock_ok M" "fst (m (frame_in M w) (world w)) = Inl (Module err)"
  shows "wp (assert_noop M m err) (\<lambda>_ _. True) E w"
  using run_call_Err [of M m, OF assms] by (auto simp: wp_def assert_noop_def)

lemma wp_test_steps [wp_rules]:
  "wp (set_block_number n) Q E w = Q () (w\<lparr>test_block := n\<rparr>)"
  "wp (peek f) P E w = P (f (store (world w))) w"
  "wp (poke g) Q E w = Q () (w\<lparr>world := (world w)\<lparr>store := g (store (world w))\<rparr>\<rparr>)"
  "wp (assert_last_event ev) Q E w =
     (if deposited (world w) \<noteq> [] \<and> last (deposited (world w)) = ev then Q () w else E () w)"
  by (simp_all add: wp_def set_block_number_def peek_def poke_def assert_last_event_def)

lemmas test_steps [wp_rules] = assert_eq_def unwrap_def

lemma passes_wp: "passes t w = wp t (\<lambda>_ _. True) (\<lambda>_ _. False) w"
  by (auto simp: wp_def passes_def split: prod.splits sum.splits)

lemmas new_ext_defs = new_counter_ext_def new_template_ext_def new_profile_ext_def
  counter_genesis_def template_genesis_def profile_genesis_def

section \<open>The tests pass\<close>

lemmas test_rules = passes_wp wp_rules new_ext_defs mock_simps

lemma counter_tests_pass:
  assumes "mock_ok M"
  shows "passes (increment_updates_counter_and_event M) new_counter_ext"
    and "passes (reset_sets_zero M) new_counter_ext"
    and "passes (overflow_guard M) new_counter_ext"
  using assms
  by (simp_all add: increment_updates_counter_and_event_def reset_sets_zero_def overflow_guard_def
      increment_eq reset_eq test_rules)

lemma template_tests_pass:
  assumes "mock_ok M"
  shows "passes (it_works_for_default_value M) new_template_ext"
    and "passes (correct_error_for_none_value M) new_template_ext"
  using assms
  by (simp_all add: it_works_for_default_value_def correct_error_for_none_value_def
      do_something_eq cause_error_eq test_rules)

lemma set_username_tests_pass:
  assumes "mock_ok M"
  shows "passes (set_username_works M) new_profile_ext"
    and "passes (set_username_fails_if_username_taken M) new_profile_ext"
  using assms
  by (simp_all add: set_username_works_def set_username_fails_if_username_taken_def
      set_username_eq username_verdict_def too_long_def taken_by_other_def named_storage_def
      mock_config_def bounded_ok Let_def test_rules)

lemma update_stats_test_passes:
  "mock_ok M \<Longrightarrow> passes (update_stats_works M) new_profile_ext"
  by (simp add: update_stats_works_def update_stats_eq stats_storage_def set_stats_def Let_def test_rules)

lemma update_profile_result:
  assumes "bounded_vec_ok F" "ensure_signed F origin = Inr who"
    "update_verdict C (store s) who u av bi = None"
  shows "fst (update_profile C F origin u av bi s) = Inr ()"
    and "store (snd (update_profile C F origin u av bi s)) = updated_storage (now F) who u av bi (store s)"
  using update_profile_accepted [OF assms] by (metis fst_conv, metis snd_conv)

lemma update_profile_test_passes:
  assumes "mock_ok M"
  shows "passes (update_profile_works M) new_profile_ext"
  using assms
  by (simp add: update_profile_works_def update_profile_result [where who = 1] update_verdict_def
      username_verdict_def too_long_def taken_by_other_def updated_storage_def edit_profile_def
      mock_config_def bounded_ok Let_def test_rules)

text \<open>
  The unit tests of the three pallets pass: from the genesis of its mock runtime, every
  one of the nine tests reaches its end, each \<open>assert_ok!\<close> on a call that succeeds, each
  \<open>assert_noop!\<close> on one that fails with the given error and changes nothing, each
  \<open>assert_eq!\<close> and \<open>assert_last_event\<close> on what the calls left, and no \<open>unwrap\<close> panicking.
\<close>

theorem unit_tests_pass:
  assumes "mock_ok N" "mock_ok T" "mock_ok M"
  shows "passes (increment_updates_counter_and_event N) new_counter_ext \<and>
    passes (reset_sets_zero N) new_counter_ext \<and>
    passes (overflow_guard N) new_counter_ext \<and>
    passes (it_works_for_default_value T) new_template_ext \<and>
    passes (correct_error_for_none_value T) new_template_ext \<and>
    passes (set_username_works M) new_profile_ext \<and>
    passes (set_username_fails_if_username_taken M) new_profile_ext \<and>
    passes (update_profile_works M) new_profile_ext \<and>
    passes (update_stats_works M) new_profile_ext"
  by (intro conjI counter_tests_pass template_tests_pass set_username_tests_pass
      update_profile_test_passes update_stats_test_passes assms)

definition plain_mock :: "(u64 option, 'st, 'ev, unit, 'e) mock" where
  "plain_mock = \<lparr>mock_frame = plain_frame 0, signed = Some, mock_layer = rollback_layer\<rparr>"

lemma plain_mock_ok: "mock_ok plain_mock"
  by (simp add: mock_ok_def plain_mock_def bounded_vec_ok_plain shallow_layer_rollback)

theorem unit_tests_pass_witness:
  "passes (reset_sets_zero plain_mock) new_counter_ext \<and> passes (set_username_works plain_mock) new_profile_ext"
  using unit_tests_pass [OF plain_mock_ok plain_mock_ok plain_mock_ok] by simp

end
