(* ===== verification/Node_Chain_Spec.thy ===== *)
theory Node_Chain_Spec
  imports Genesis
begin

text \<open>
  The chain specifications the node can load (\<open>node/src/chain_spec.rs\<close> and
  \<open>SubstrateCli for Cli\<close> in \<open>node/src/command.rs\<close>).  What the builder of
  \<open>sc_service::GenericChainSpec\<close> makes of the settings it is given, and how a specification
  is read from a JSON file, are parameters, as is the embedded wasm (\<open>WASM_BINARY\<close>), which
  the build script may have left out.
\<close>

section \<open>Chain specifications\<close>

datatype chain_type = Development | Local | Live | Custom string

text \<open>What a chain of builder calls has set when \<open>build\<close> is called.\<close>

record ('w, 'x) spec_settings =
  spec_code :: 'w
  spec_extensions :: "'x option"
  spec_name :: string
  spec_id :: string
  spec_type :: chain_type
  spec_preset :: string

record ('w, 'x, 'c) spec_api =
  build_spec :: "('w, 'x) spec_settings \<Rightarrow> 'c"
  from_json_file :: "string \<Rightarrow> string + 'c"

definition wasm_binary :: "'w option \<Rightarrow> string + 'w" where
  "wasm_binary W = (case W of None \<Rightarrow> Inl ''Development wasm not available'' | Some w \<Rightarrow> Inr w)"

definition development_chain_spec ::
    "('w, 'x, 'c) spec_api \<Rightarrow> ('p, 'j) preset_api \<Rightarrow> 'w option \<Rightarrow> string + 'c" where
  "development_chain_spec B P W = (case wasm_binary W of
     Inl e \<Rightarrow> Inl e
   | Inr w \<Rightarrow> Inr (build_spec B \<lparr>spec_code = w, spec_extensions = None,
       spec_name = ''Development'', spec_id = ''dev'', spec_type = Development,
       spec_preset = dev_preset P\<rparr>))"

definition local_chain_spec ::
    "('w, 'x, 'c) spec_api \<Rightarrow> ('p, 'j) preset_api \<Rightarrow> 'w option \<Rightarrow> string + 'c" where
  "local_chain_spec B P W = (case wasm_binary W of
     Inl e \<Rightarrow> Inl e
   | Inr w \<Rightarrow> Inr (build_spec B \<lparr>spec_code = w, spec_extensions = None,
       spec_name = ''Local Testnet'', spec_id = ''local_testnet'', spec_type = Local,
       spec_preset = local_preset P\<rparr>))"

section \<open>The command line's constants and \<open>load_spec\<close>\<close>

definition impl_name :: string where
  "impl_name = ''Substrate Node''"

definition support_url :: string where
  "support_url = ''support.anonymous.an''"

definition copyright_start_year :: int where
  "copyright_start_year = 2017"

definition load_spec ::
    "('w, 'x, 'c) spec_api \<Rightarrow> ('p, 'j) preset_api \<Rightarrow> 'w option \<Rightarrow> string \<Rightarrow> string + 'c" where
  "load_spec B P W chain =
     (if chain = ''dev'' then development_chain_spec B P W
      else if chain = '''' \<or> chain = ''local'' then local_chain_spec B P W
      else from_json_file B chain)"

text \<open>The ids the node answers from its own code.\<close>

definition built_in :: "string \<Rightarrow> bool" where
  "built_in chain \<longleftrightarrow> chain \<in> {''dev'', '''', ''local''}"

lemma load_spec_built_in:
  assumes "built_in chain"
  shows "load_spec B P None chain = Inl ''Development wasm not available''"
    "\<exists>st. load_spec B P (Some w) chain = Inr (build_spec B st) \<and> spec_code st = w \<and>
       spec_preset st = (if chain = ''dev'' then dev_preset P else local_preset P)"
  using assms
  by (auto simp: built_in_def load_spec_def development_chain_spec_def local_chain_spec_def wasm_binary_def
      split: if_splits)

lemma load_spec_path: "\<not> built_in chain \<Longrightarrow> load_spec B P W chain = from_json_file B chain"
  by (simp add: load_spec_def built_in_def)

section \<open>Properties\<close>

text \<open>
  C34. The node and the runtime fit: the specification the node builds for \<open>dev\<close>, \<open>local\<close> or
  no chain at all names a genesis preset that the runtime lists and serves, and the genesis
  served is sound; without the wasm these chains are refused with the build's own message,
  and every other name is read as a file.
\<close>

theorem built_in_specs_served:
  assumes "keyring_ok K"
  shows "(if built_in chain
     then load_spec B P None chain = Inl ''Development wasm not available'' \<and>
       (\<exists>st patch. load_spec B P (Some w) chain = Inr (build_spec B st) \<and> spec_code st = w \<and>
          spec_preset st \<in> set (preset_names P) \<and>
          get_preset P K (spec_preset st) = Some (to_json P patch) \<and> genesis_sound patch)
     else load_spec B P W chain = from_json_file B chain)"
proof (cases "built_in chain")
  case True
  obtain st where st: "load_spec B P (Some w) chain = Inr (build_spec B st)" "spec_code st = w"
      "spec_preset st = (if chain = ''dev'' then dev_preset P else local_preset P)"
    using load_spec_built_in(2) [OF True, of B P w] by (elim exE conjE)
  then have listed: "spec_preset st \<in> set (preset_names P)" by (simp add: preset_names_def)
  obtain patch where "get_preset P K (spec_preset st) = Some (to_json P patch)" "genesis_sound patch"
    using assms listed by (rule get_preset_sound)
  with st listed have
    "\<exists>st patch. load_spec B P (Some w) chain = Inr (build_spec B st) \<and> spec_code st = w \<and>
       spec_preset st \<in> set (preset_names P) \<and>
       get_preset P K (spec_preset st) = Some (to_json P patch) \<and> genesis_sound patch"
    by (intro exI conjI)
  with True load_spec_built_in(1) [OF True, of B P] show ?thesis by presburger
qed (simp add: load_spec_path)

text \<open>A specification interface for the witnesses: built from settings, or a file's content.\<close>

definition plain_specs :: "(nat, unit, (nat, unit) spec_settings + string) spec_api" where
  "plain_specs = \<lparr>build_spec = Inl, from_json_file = (\<lambda>path. Inr (Inr path))\<rparr>"

definition named_presets :: "((nat, nat, nat) genesis_patch, (nat, nat, nat) genesis_patch) preset_api" where
  "named_presets = \<lparr>dev_preset = ''development'', local_preset = ''local_testnet'', to_json = id\<rparr>"

lemma plain_simps [simp]:
  "build_spec plain_specs = Inl" "from_json_file plain_specs path = Inr (Inr path)" "to_json named_presets = id"
  by (simp_all add: plain_specs_def named_presets_def)

theorem built_in_specs_served_witness:
  "load_spec plain_specs named_presets None ''local'' = Inl ''Development wasm not available'' \<and>
   (\<exists>st patch. load_spec plain_specs named_presets (Some 5) ''local'' = Inr (Inl st) \<and>
      get_preset named_presets number_keyring (spec_preset st) = Some patch \<and> genesis_sound patch)"
  using built_in_specs_served [OF number_keyring_ok, of "''local''" plain_specs named_presets 5 None]
  by (auto simp: built_in_def)

end
