(* ===== verification/Node_Rpc.thy ===== *)
theory Node_Rpc
  imports Prelude
begin

text \<open>
  The node's RPC module (\<open>node/src/rpc.rs\<close>).  \<open>RpcModule\<close> and the two APIs merged into it
  belong to other crates; the documented behaviour of \<open>merge\<close> is stated over the set of
  method names of a module.
\<close>

record ('c, 'p) full_deps =
  deps_client :: 'c
  deps_pool :: 'p

record ('c, 'p, 'm, 'api, 'e) rpc_api =
  new_module :: 'm
  merge_api :: "'m \<Rightarrow> 'api \<Rightarrow> 'e + 'm"
  system_rpc :: "'c \<Rightarrow> 'p \<Rightarrow> 'api"
  payment_rpc :: "'c \<Rightarrow> 'api"

text \<open>The module is mutated by \<open>merge\<close>: it is the state of the action.\<close>

definition merge :: "('c, 'p, 'm, 'api, 'e) rpc_api \<Rightarrow> 'api \<Rightarrow> ('m, 'e, unit) action" where
  "merge R api module = (case merge_api R module api of
     Inl e \<Rightarrow> (Inl e, module) | Inr module' \<Rightarrow> (Inr (), module'))"

lemma wp_merge [wp_rules]:
  "wp (merge R api) Q E m = (case merge_api R m api of Inl e \<Rightarrow> E e m | Inr m' \<Rightarrow> Q () m')"
  by (simp add: wp_def merge_def split: sum.splits)

definition merge_all :: "('c, 'p, 'm, 'api, 'e) rpc_api \<Rightarrow> ('c, 'p) full_deps \<Rightarrow> ('m, 'e, unit) action" where
  "merge_all R deps =
     try_then (merge R (system_rpc R (deps_client deps) (deps_pool deps))) (\<lambda>_.
     merge R (payment_rpc R (deps_client deps)))"

definition create_full :: "('c, 'p, 'm, 'api, 'e) rpc_api \<Rightarrow> ('c, 'p) full_deps \<Rightarrow> 'e + 'm" where
  "create_full R deps = (case merge_all R deps (new_module R) of
     (Inl e, m) \<Rightarrow> Inl e
   | (Inr u, m) \<Rightarrow> Inr m)"

text \<open>
  Documented behaviour of \<open>merge\<close>: it adds all methods of the other module, and fails when
  one of them is there already.
\<close>

definition merge_ok :: "('c, 'p, 'm, 'api, 'e) rpc_api \<Rightarrow> ('m \<Rightarrow> 'n set) \<Rightarrow> ('api \<Rightarrow> 'n set) \<Rightarrow> bool" where
  "merge_ok R methods names \<longleftrightarrow> methods (new_module R) = {} \<and>
     (\<forall>m api. case merge_api R m api of
        Inl e \<Rightarrow> methods m \<inter> names api \<noteq> {}
      | Inr m' \<Rightarrow> methods m \<inter> names api = {} \<and> methods m' = methods m \<union> names api)"

lemma merge_ok_cases:
  assumes "merge_ok R methods names"
  shows "case merge_api R m api of
     Inl e \<Rightarrow> methods m \<inter> names api \<noteq> {}
   | Inr m' \<Rightarrow> methods m \<inter> names api = {} \<and> methods m' = methods m \<union> names api"
  using assms by (simp add: merge_ok_def)

lemma merge_ok_Inr:
  assumes "merge_ok R methods names" "methods m \<inter> names api = {}"
  shows "\<exists>m'. merge_api R m api = Inr m' \<and> methods m' = methods m \<union> names api"
  using merge_ok_cases [OF assms(1), of m api] assms(2) by (auto split: sum.splits)

lemma merge_ok_Inl:
  assumes "merge_ok R methods names" "methods m \<inter> names api \<noteq> {}"
  shows "\<exists>e. merge_api R m api = Inl e"
  using merge_ok_cases [OF assms(1), of m api] assms(2) by (auto split: sum.splits)

text \<open>
  The RPC module of a full node serves exactly the methods of the system and the
  transaction-payment APIs; it can be built exactly when no method is in both, and
  otherwise the error of the second merge is returned.
\<close>

theorem rpc_methods_served:
  assumes "merge_ok R methods names"
  shows "if names (system_rpc R c p) \<inter> names (payment_rpc R c) = {}
     then \<exists>m. create_full R \<lparr>deps_client = c, deps_pool = p\<rparr> = Inr m \<and>
       methods m = names (system_rpc R c p) \<union> names (payment_rpc R c)
     else \<exists>m e. merge_api R (new_module R) (system_rpc R c p) = Inr m \<and>
       merge_api R m (payment_rpc R c) = Inl e \<and>
       create_full R \<lparr>deps_client = c, deps_pool = p\<rparr> = Inl e"
proof -
  have "methods (new_module R) = {}" using assms by (simp add: merge_ok_def)
  then obtain m where m: "merge_api R (new_module R) (system_rpc R c p) = Inr m"
      "methods m = names (system_rpc R c p)"
    using merge_ok_Inr [OF assms, of "new_module R" "system_rpc R c p"] by auto
  note defs = create_full_def merge_all_def merge_def try_then_def
  show ?thesis
  proof (cases "names (system_rpc R c p) \<inter> names (payment_rpc R c) = {}")
    case True
    with m merge_ok_Inr [OF assms, of m "payment_rpc R c"] show ?thesis by (auto simp: defs)
  next
    case False
    with m merge_ok_Inl [OF assms, of m "payment_rpc R c"] show ?thesis by (auto simp: defs)
  qed
qed

text \<open>Modules and APIs as lists of method names.\<close>

definition name_rpc :: "string list \<Rightarrow> string list \<Rightarrow> (unit, unit, string list, string list, unit) rpc_api" where
  "name_rpc sys pay = \<lparr>new_module = [],
     merge_api = (\<lambda>m api. if set m \<inter> set api = {} then Inr (m @ api) else Inl ()),
     system_rpc = (\<lambda>_ _. sys), payment_rpc = (\<lambda>_. pay)\<rparr>"

lemma name_rpc_ok: "merge_ok (name_rpc sys pay) set set"
  by (simp add: merge_ok_def name_rpc_def)

theorem rpc_methods_served_witness:
  "(\<exists>m. create_full (name_rpc [''system_accountNextIndex''] [''payment_queryInfo''])
      \<lparr>deps_client = (), deps_pool = ()\<rparr> = Inr m \<and>
      set m = {''system_accountNextIndex'', ''payment_queryInfo''}) \<and>
   create_full (name_rpc [''a''] [''a'']) \<lparr>deps_client = (), deps_pool = ()\<rparr> = Inl ()"
  using rpc_methods_served [OF name_rpc_ok [of "[''system_accountNextIndex'']" "[''payment_queryInfo'']"], of "()" "()"]
    rpc_methods_served [OF name_rpc_ok [of "[''a'']" "[''a'']"], of "()" "()"]
  by (auto simp: name_rpc_def)

end
