(* ===== verification/Node_Host.thy ===== *)
theory Node_Host
  imports Prelude "HOL-Library.Sublist"
begin

text \<open>
  What the node's service calls of other crates.  Every object those crates hand out (client,
  backend, task manager, queues, futures) is a value of one type \<open>'v\<close>; what a call answers and
  what it does to the world is a parameter.  The calls made are recorded with their arguments,
  so that the order and the settings of a startup can be stated; a startup that \<open>follows\<close> a
  plan makes exactly the calls of the plan, and stops at the first one that fails.
\<close>

section \<open>Objects\<close>

text \<open>The network implementation that the service is instantiated with.\<close>

datatype network_backend = Libp2p | Litep2p

text \<open>The parts of \<open>sc_service::Configuration\<close> that the node reads.\<close>

record 'v configuration =
  telemetry_endpoints :: "'v list option"
  cfg_executor :: 'v
  cfg_role :: 'v
  cfg_transaction_pool :: 'v
  prometheus_registry :: "'v option"
  cfg_network :: 'v
  cfg_network_backend :: "network_backend option"
  node_name :: 'v
  cfg_chain_spec :: 'v
  cfg_database :: 'v
  offchain_worker_enabled :: bool
  cfg_force_authoring :: bool
  disable_grandpa :: bool

text \<open>
  The closures that create inherent data providers, with the variables they capture: the one
  of the import queue captures the client, the one of block authoring the slot duration.
\<close>

datatype 'v inherents = Import_inherents 'v | Authoring_inherents 'v

text \<open>Futures that are given to the task manager.\<close>

datatype 'v future =
    Worker_run 'v
  | Offchain_workers_run 'v 'v 'v
  | Aura_worker 'v
  | Grandpa_voter 'v

record 'v task =
  task_name :: string
  task_group :: "string option"
  essential :: bool
  blocking :: bool
  task_future :: "'v future"

section \<open>Parameters of the calls\<close>

record 'v import_queue_params =
  iq_block_import :: 'v
  iq_justification_import :: "'v option"
  iq_client :: 'v
  iq_inherents :: "'v inherents"
  iq_spawner :: 'v
  iq_registry :: "'v option"
  iq_telemetry :: "'v option"

record 'v network_params =
  np_config :: "'v configuration"
  np_net_config :: 'v
  np_client :: 'v
  np_transaction_pool :: 'v
  np_spawn_handle :: 'v
  np_import_queue :: 'v
  np_block_announce_validator :: "'v option"
  np_warp_sync :: "'v option"
  np_block_relay :: "'v option"
  np_metrics :: 'v

record 'v offchain_options =
  oc_runtime_api_provider :: 'v
  oc_is_validator :: bool
  oc_keystore :: "'v option"
  oc_offchain_db :: 'v
  oc_transaction_pool :: "'v option"
  oc_network_provider :: 'v
  oc_enable_http_requests :: bool
  oc_custom_extensions :: "'v list"

record 'v spawn_tasks_params =
  st_network :: 'v
  st_client :: 'v
  st_keystore :: 'v
  st_task_manager :: 'v
  st_transaction_pool :: 'v
  st_rpc_builder :: "'v \<times> 'v"
  st_backend :: 'v
  st_system_rpc_tx :: 'v
  st_tx_handler_controller :: 'v
  st_sync_service :: 'v
  st_config :: "'v configuration"
  st_telemetry :: "'v option"

record 'v aura_params =
  au_slot_duration :: 'v
  au_client :: 'v
  au_select_chain :: 'v
  au_block_import :: 'v
  au_proposer_factory :: 'v
  au_inherents :: "'v inherents"
  au_force_authoring :: bool
  au_backoff_authoring_blocks :: "'v option"
  au_keystore :: 'v
  au_sync_oracle :: 'v
  au_justification_sync_link :: 'v
  au_block_proposal_slot_portion :: "nat \<times> nat"
  au_max_block_proposal_slot_portion :: "(nat \<times> nat) option"
  au_telemetry :: "'v option"

record 'v voter_config =
  vc_gossip_duration_millis :: nat
  vc_justification_generation_period :: u32
  vc_name :: "'v option"
  vc_observer_enabled :: bool
  vc_keystore :: "'v option"
  vc_local_role :: 'v
  vc_telemetry :: "'v option"
  vc_protocol_name :: 'v

record 'v voter_params =
  vp_config :: "'v voter_config"
  vp_link :: 'v
  vp_network :: 'v
  vp_sync :: 'v
  vp_notification_service :: 'v
  vp_prometheus_registry :: "'v option"
  vp_telemetry :: "'v option"
  vp_offchain_tx_pool_factory :: 'v

text \<open>
  Arguments of the commands: objects, the whole configuration, the closure that reverts
  GRANDPA, the extrinsic builders of the benchmarks with what they were made from, and flags.
\<close>

datatype 'v extrinsic_source = Remark_source 'v | Transfer_keep_alive_source 'v 'v u128

datatype 'v argument =
    Object 'v
  | Whole_configuration "'v configuration"
  | Grandpa_revert
  | Extrinsics "'v extrinsic_source list"
  | Digest_items "'v list"
  | Flag bool

section \<open>The calls\<close>

datatype 'v host_call =
    Telemetry_worker_new nat
  | New_telemetry 'v "'v list"
  | New_wasm_executor 'v
  | New_full_parts "'v configuration" "'v option" 'v
  | Longest_chain_new 'v
  | Build_transaction_pool 'v 'v bool 'v "'v option"
  | Grandpa_block_import 'v u32 'v 'v "'v option"
  | Aura_import_queue "'v import_queue_params"
  | Full_network_configuration network_backend 'v "'v option"
  | Register_notification_metrics network_backend "'v option"
  | Protocol_standard_name 'v 'v
  | Grandpa_peers_set_config 'v 'v 'v
  | Add_notification_protocol 'v 'v
  | Warp_proof_provider 'v 'v "'v list"
  | Build_network "'v network_params"
  | Offchain_workers_new "'v offchain_options"
  | Spawn_tasks "'v spawn_tasks_params"
  | Proposer_factory_new 'v 'v 'v "'v option" "'v option"
  | Aura_slot_duration 'v
  | Start_aura "'v aura_params"
  | Run_grandpa_voter "'v voter_params"
  | Spawn 'v "'v task"
  | Create_runner 'v
  | Command_run string "'v argument list"

fun call_name :: "'v host_call \<Rightarrow> string" where
  "call_name (Telemetry_worker_new n) = ''TelemetryWorker::new''"
| "call_name (New_telemetry h es) = ''new_telemetry''"
| "call_name (New_wasm_executor x) = ''new_wasm_executor''"
| "call_name (New_full_parts c t x) = ''new_full_parts''"
| "call_name (Longest_chain_new b) = ''LongestChain::new''"
| "call_name (Build_transaction_pool h c v p r) = ''transaction pool''"
| "call_name (Grandpa_block_import c p d s t) = ''grandpa block_import''"
| "call_name (Aura_import_queue p) = ''aura import_queue''"
| "call_name (Full_network_configuration b n r) = ''FullNetworkConfiguration::new''"
| "call_name (Register_notification_metrics b r) = ''register_notification_metrics''"
| "call_name (Protocol_standard_name h c) = ''protocol_standard_name''"
| "call_name (Grandpa_peers_set_config n m p) = ''grandpa_peers_set_config''"
| "call_name (Add_notification_protocol n p) = ''add_notification_protocol''"
| "call_name (Warp_proof_provider b s f) = ''warp_proof provider''"
| "call_name (Build_network p) = ''build_network''"
| "call_name (Offchain_workers_new p) = ''OffchainWorkers::new''"
| "call_name (Spawn_tasks p) = ''spawn_tasks''"
| "call_name (Proposer_factory_new h c p r t) = ''ProposerFactory::new''"
| "call_name (Aura_slot_duration c) = ''slot_duration''"
| "call_name (Start_aura p) = ''start_aura''"
| "call_name (Run_grandpa_voter p) = ''run_grandpa_voter''"
| "call_name (Spawn tm t) = ''spawn '' @ task_name t"
| "call_name (Create_runner c) = ''create_runner''"
| "call_name (Command_run n args) = ''run '' @ n"

text \<open>The accessors that give a handle or a part of an object.\<close>

datatype accessor =
    Worker_handle | Telemetry_handle | Keystore | Offchain_storage | Shared_authority_set
  | Peer_store_handle | Spawn_handle | Spawn_essential_handle | Offchain_pool_factory
  | Chain_spec_name | Expose_db | Expose_storage

text \<open>
  \<open>try_host\<close> answers the calls that return a \<open>Result\<close>, \<open>do_host\<close> the others; a call that
  returns a tuple answers with its components by position.  \<open>genesis_hash\<close> is
  \<open>client.block_hash(0)\<close>.
\<close>

record ('s, 'v, 'e) host =
  try_host :: "'v host_call \<Rightarrow> 's \<Rightarrow> ('e + (nat \<Rightarrow> 'v)) \<times> 's"
  do_host :: "'v host_call \<Rightarrow> 's \<Rightarrow> (nat \<Rightarrow> 'v) \<times> 's"
  access_host :: "accessor \<Rightarrow> 'v \<Rightarrow> 'v"
  is_authority :: "'v \<Rightarrow> bool"
  genesis_hash :: "'v \<Rightarrow> 's \<Rightarrow> 'e + 'v option"

record ('s, 'v) startup =
  world :: 's
  trace :: "'v host_call list"

datatype 'e failure = Service_error 'e | Panicked string

type_synonym ('s, 'v, 'e, 'a) service_action = "(('s, 'v) startup, 'e failure, 'a) action"

text \<open>A call that may fail (with \<open>?\<close>), and one that cannot.\<close>

definition attempt :: "('s, 'v, 'e) host \<Rightarrow> 'v host_call \<Rightarrow> ('s, 'v, 'e, nat \<Rightarrow> 'v) service_action" where
  "attempt H c s = (case try_host H c (world s) of
     (Inl e, w) \<Rightarrow> (Inl (Service_error e), s\<lparr>world := w, trace := trace s @ [c]\<rparr>)
   | (Inr v, w) \<Rightarrow> (Inr v, s\<lparr>world := w, trace := trace s @ [c]\<rparr>))"

definition perform :: "('s, 'v, 'e) host \<Rightarrow> 'v host_call \<Rightarrow> ('s, 'v, 'e, nat \<Rightarrow> 'v) service_action" where
  "perform H c s = (case do_host H c (world s) of
     (v, w) \<Rightarrow> (Inr v, s\<lparr>world := w, trace := trace s @ [c]\<rparr>))"

text \<open>\<open>client.block_hash(0).ok().flatten().expect("Genesis block exists; qed")\<close>\<close>

definition expect_genesis :: "('s, 'v, 'e) host \<Rightarrow> 'v \<Rightarrow> ('s, 'v, 'e, 'v) service_action" where
  "expect_genesis H client s = (case genesis_hash H client (world s) of
     Inr (Some h) \<Rightarrow> (Inr h, s)
   | _ \<Rightarrow> (Inl (Panicked ''Genesis block exists; qed''), s))"

section \<open>Plans\<close>

text \<open>
  An action follows a plan, giving a result in \<open>R\<close>, when a success has made exactly the
  calls of the plan, in its order, and a failure has made only calls of a beginning of the
  plan: the last call made is then the one that failed, or the genesis block was missing.
\<close>

definition outcome ::
    "('s, 'v, 'e) host \<Rightarrow> string list \<Rightarrow> ('a \<Rightarrow> bool) \<Rightarrow> 'e failure + 'a \<Rightarrow> 's \<Rightarrow> 'v host_call list \<Rightarrow> bool" where
  "outcome H plan R r w cs = (case r of
     Inr a \<Rightarrow> map call_name cs = plan \<and> R a
   | Inl (Service_error e) \<Rightarrow>
       cs \<noteq> [] \<and> prefix (map call_name cs) plan \<and> (\<exists>w0. try_host H (last cs) w0 = (Inl e, w))
   | Inl (Panicked msg) \<Rightarrow> prefix (map call_name cs) plan \<and> msg = ''Genesis block exists; qed'')"

definition follows ::
    "('s, 'v, 'e) host \<Rightarrow> string list \<Rightarrow> ('a \<Rightarrow> bool) \<Rightarrow> ('s, 'v, 'e, 'a) service_action \<Rightarrow> bool" where
  "follows H plan R m \<longleftrightarrow> (\<forall>s r t. m s = (r, t) \<longrightarrow>
     (\<exists>cs. trace t = trace s @ cs \<and> outcome H plan R r (world t) cs))"

text \<open>All calls an action makes satisfy a condition on their arguments.\<close>

definition calls_only :: "('v host_call \<Rightarrow> bool) \<Rightarrow> ('s, 'v, 'e, 'a) service_action \<Rightarrow> bool" where
  "calls_only P m \<longleftrightarrow> (\<forall>s r t. m s = (r, t) \<longrightarrow> (\<exists>cs. trace t = trace s @ cs \<and> list_all P cs))"

text \<open>An action that returns \<open>Ok\<close> from every state.\<close>

definition succeeds :: "('s, 'v, 'e, 'a) service_action \<Rightarrow> bool" where
  "succeeds m \<longleftrightarrow> (\<forall>s. \<exists>a t. m s = (Inr a, t))"

text \<open>A host on which no call fails and the genesis block exists.\<close>

definition willing :: "('s, 'v, 'e) host \<Rightarrow> bool" where
  "willing H \<longleftrightarrow> (\<forall>c w. \<exists>v u. try_host H c w = (Inr v, u)) \<and>
     (\<forall>client w. \<exists>h. genesis_hash H client w = Inr (Some h))"

named_theorems live_rules "actions that succeed"
named_theorems plan_rules "plans of the actions"
named_theorems call_rules "conditions on the calls of the actions"

lemma follows_attempt: "follows H [call_name c] (\<lambda>_. True) (attempt H c)"
  by (auto simp: follows_def outcome_def attempt_def split: prod.splits sum.splits)

lemma follows_perform: "follows H [call_name c] (\<lambda>_. True) (perform H c)"
  by (auto simp: follows_def outcome_def perform_def split: prod.splits)

lemma follows_genesis: "follows H [] (\<lambda>_. True) (expect_genesis H client)"
  by (auto simp: follows_def outcome_def expect_genesis_def split: sum.splits option.splits)

lemma follows_done [plan_rules]: "R a \<Longrightarrow> follows H [] R (done_with a)"
  by (simp add: follows_def outcome_def done_with_def)

lemma followsE:
  assumes "follows H p R m" "m s = (r, t)"
  obtains cs where "trace t = trace s @ cs" "outcome H p R r (world t) cs"
  using assms unfolding follows_def by blast

lemma outcome_stop: "outcome H p R (Inl g) w cs \<Longrightarrow> outcome H (p @ q) S (Inl g) w cs"
  by (auto simp: outcome_def split: failure.splits)

lemma outcome_append:
  "map call_name cs = p \<Longrightarrow> outcome H q R r w ds \<Longrightarrow> outcome H (p @ q) R r w (cs @ ds)"
  by (auto simp: outcome_def split: sum.splits failure.splits)

lemma follows_try_then:
  assumes "follows H p S m" "\<And>a. S a \<Longrightarrow> follows H q R (f a)"
  shows "follows H (p @ q) R (try_then m f)"
  unfolding follows_def
proof (intro allI impI)
  fix s r t assume run: "try_then m f s = (r, t)"
  obtain r1 t1 where m: "m s = (r1, t1)" by (cases "m s")
  obtain cs where cs: "trace t1 = trace s @ cs" "outcome H p S r1 (world t1) cs"
    using assms(1) m by (rule followsE)
  show "\<exists>cs. trace t = trace s @ cs \<and> outcome H (p @ q) R r (world t) cs"
  proof (cases r1)
    case (Inl g)
    then have "r = Inl g" "t = t1" using run m by (auto simp: try_then_def)
    with cs Inl show ?thesis by (auto intro: outcome_stop)
  next
    case (Inr a)
    then have "f a t1 = (r, t)" using run m by (simp add: try_then_def)
    moreover have p: "map call_name cs = p" "S a" using cs(2) Inr by (simp_all add: outcome_def)
    ultimately obtain ds where "trace t = trace t1 @ ds" "outcome H q R r (world t) ds"
      using followsE [OF assms(2)] by blast
    then show ?thesis using cs(1) outcome_append [OF p(1)] by fastforce
  qed
qed

text \<open>The same rules, taking one call off a given plan.\<close>

lemma follows_attempt_then [plan_rules]:
  assumes "call_name c = k" "\<And>v. follows H ks R (f v)"
  shows "follows H (k # ks) R (try_then (attempt H c) f)"
  using follows_try_then [OF follows_attempt assms(2)] assms(1) by auto

lemma follows_perform_then [plan_rules]:
  assumes "call_name c = k" "\<And>v. follows H ks R (f v)"
  shows "follows H (k # ks) R (try_then (perform H c) f)"
  using follows_try_then [OF follows_perform assms(2)] assms(1) by auto

lemma follows_genesis_then [plan_rules]:
  assumes "\<And>h. follows H ks R (f h)"
  shows "follows H ks R (try_then (expect_genesis H client) f)"
  using follows_try_then [OF follows_genesis assms] by simp

text \<open>A plan followed, read off a run from an empty trace.\<close>

lemma follows_run:
  assumes "follows H plan R m" "m s = (r, t)" "trace s = []"
  shows "outcome H plan R r (world t) (trace t)"
  using followsE [OF assms(1,2)] assms(3) by (metis append_Nil)

lemma calls_only_attempt [call_rules]: "P c \<Longrightarrow> calls_only P (attempt H c)"
  by (auto simp: calls_only_def attempt_def split: prod.splits sum.splits)

lemma calls_only_perform [call_rules]: "P c \<Longrightarrow> calls_only P (perform H c)"
  by (auto simp: calls_only_def perform_def split: prod.splits)

lemma calls_only_genesis [call_rules]: "calls_only P (expect_genesis H client)"
  by (auto simp: calls_only_def expect_genesis_def split: sum.splits option.splits)

lemma calls_only_done [call_rules]: "calls_only P (done_with a)"
  by (simp add: calls_only_def done_with_def)

lemma calls_only_try_then [call_rules]:
  assumes "calls_only P m" "\<And>a. calls_only P (f a)"
  shows "calls_only P (try_then m f)"
  unfolding calls_only_def
proof (intro allI impI)
  fix s r t assume run: "try_then m f s = (r, t)"
  obtain r1 t1 where m: "m s = (r1, t1)" by (cases "m s")
  obtain cs where cs: "trace t1 = trace s @ cs" "list_all P cs"
    using assms(1) m unfolding calls_only_def by blast
  show "\<exists>cs. trace t = trace s @ cs \<and> list_all P cs"
  proof (cases r1)
    case (Inl g)
    then show ?thesis using run m cs by (auto simp: try_then_def)
  next
    case (Inr a)
    then have "f a t1 = (r, t)" using run m by (simp add: try_then_def)
    then obtain ds where "trace t = trace t1 @ ds" "list_all P ds"
      using assms(2) [of a] unfolding calls_only_def by blast
    then show ?thesis using cs by auto
  qed
qed

lemma calls_only_if [call_rules]:
  "(c \<Longrightarrow> calls_only P m) \<Longrightarrow> (\<not> c \<Longrightarrow> calls_only P n) \<Longrightarrow> calls_only P (if c then m else n)"
  by simp

lemma calls_only_option [call_rules]:
  "calls_only P m \<Longrightarrow> (\<And>a. calls_only P (f a)) \<Longrightarrow> calls_only P (case v of None \<Rightarrow> m | Some a \<Rightarrow> f a)"
  by (cases v) simp_all

lemma succeeds_attempt [live_rules]: "willing H \<Longrightarrow> succeeds (attempt H c)"
  unfolding succeeds_def
proof
  fix s :: "('a, 'b) startup" assume "willing H"
  then obtain v u where "try_host H c (world s) = (Inr v, u)" unfolding willing_def by blast
  then show "\<exists>a t. attempt H c s = (Inr a, t)" by (simp add: attempt_def)
qed

lemma succeeds_perform [live_rules]: "succeeds (perform H c)"
  by (auto simp: succeeds_def perform_def split: prod.split)

lemma succeeds_genesis [live_rules]: "willing H \<Longrightarrow> succeeds (expect_genesis H client)"
  unfolding succeeds_def
proof
  fix s :: "('a, 'b) startup" assume "willing H"
  then obtain h where "genesis_hash H client (world s) = Inr (Some h)" unfolding willing_def by blast
  then show "\<exists>a t. expect_genesis H client s = (Inr a, t)" by (simp add: expect_genesis_def)
qed

lemma succeeds_done [live_rules]: "succeeds (done_with a)"
  by (simp add: succeeds_def done_with_def)

lemma succeeds_try_then [live_rules]:
  assumes "succeeds m" "\<And>a. succeeds (f a)"
  shows "succeeds (try_then m f)"
  unfolding succeeds_def
proof
  fix s
  obtain a t where "m s = (Inr a, t)" using assms(1) unfolding succeeds_def by blast
  moreover obtain b u where "f a t = (Inr b, u)" using assms(2) [of a] unfolding succeeds_def by blast
  ultimately show "\<exists>a t. try_then m f s = (Inr a, t)" by (simp add: try_then_def)
qed

lemma succeeds_if [live_rules]: "succeeds m \<Longrightarrow> succeeds n \<Longrightarrow> succeeds (if c then m else n)"
  by simp

lemma succeeds_option [live_rules]:
  "succeeds m \<Longrightarrow> (\<And>a. succeeds (f a)) \<Longrightarrow> succeeds (case v of None \<Rightarrow> m | Some a \<Rightarrow> f a)"
  by (cases v) simp_all

lemma calls_onlyD:
  assumes "calls_only P m" "m s = (r, t)" "trace s = []"
  shows "list_all P (trace t)"
proof -
  obtain cs where "trace t = trace s @ cs" "list_all P cs"
    using assms(1,2) unfolding calls_only_def by blast
  then show ?thesis using assms(3) by simp
qed

end
