(* ===== verification/Node_Service.thy ===== *)
theory Node_Service
  imports Node_Host
begin

text \<open>
  The node's service (\<open>node/src/service.rs\<close>): \<open>new_partial\<close> and \<open>new_full\<close>, the latter in its
  five phases (network, offchain workers, RPC and core tasks, block authoring, finality).
  Cloning a shared object is the identity; fields given a constant default (\<open>Default::default()\<close>,
  the default voting rule, the empty shared voter state) are left out.
\<close>

definition GRANDPA_JUSTIFICATION_PERIOD :: u32 where
  "GRANDPA_JUSTIFICATION_PERIOD = 512"

section \<open>Inherent data providers\<close>

text \<open>
  The clock and the slot functions the closures use.  The import queue looks the slot
  duration up at the parent block, block authoring uses the one read at startup.
\<close>

record ('v, 'e) slot_api =
  system_time :: 'v
  slot_duration_at :: "'v \<Rightarrow> 'v \<Rightarrow> 'e + 'v"
  slot_from_timestamp :: "'v \<Rightarrow> 'v \<Rightarrow> 'v"

fun provide_inherents :: "('v, 'e) slot_api \<Rightarrow> 'v inherents \<Rightarrow> 'v \<Rightarrow> 'e + 'v \<times> 'v" where
  "provide_inherents K (Import_inherents client) parent_hash =
     (case slot_duration_at K client parent_hash of
        Inl e \<Rightarrow> Inl e
      | Inr slot_duration \<Rightarrow>
          (let timestamp = system_time K; slot = slot_from_timestamp K timestamp slot_duration
           in Inr (slot, timestamp)))"
| "provide_inherents K (Authoring_inherents slot_duration) parent_hash =
     (let timestamp = system_time K; slot = slot_from_timestamp K timestamp slot_duration
      in Inr (slot, timestamp))"

section \<open>\<open>new_partial\<close>\<close>

record 'v partial_components =
  pc_client :: 'v
  pc_backend :: 'v
  pc_task_manager :: 'v
  pc_import_queue :: 'v
  pc_keystore_container :: 'v
  pc_select_chain :: 'v
  pc_transaction_pool :: 'v
  pc_block_import :: 'v
  pc_grandpa_link :: 'v
  pc_telemetry :: "'v option"

text \<open>Telemetry endpoints that are set and not empty, and the worker made for them.\<close>

definition wanted_endpoints :: "'v configuration \<Rightarrow> 'v list option" where
  "wanted_endpoints cfg = (case telemetry_endpoints cfg of
     None \<Rightarrow> None
   | Some x \<Rightarrow> if x \<noteq> [] then Some x else None)"

definition make_telemetry ::
    "('s, 'v, 'e) host \<Rightarrow> 'v configuration \<Rightarrow> ('s, 'v, 'e, ('v \<times> 'v) option) service_action" where
  "make_telemetry H cfg = (case wanted_endpoints cfg of
     None \<Rightarrow> done_with None
   | Some endpoints \<Rightarrow>
       try_then (attempt H (Telemetry_worker_new 16)) (\<lambda>worker.
       try_then (perform H (New_telemetry (access_host H Worker_handle (worker 0)) endpoints)) (\<lambda>telemetry.
       done_with (Some (worker 0, telemetry 0)))))"

definition spawn_telemetry ::
    "('s, 'v, 'e) host \<Rightarrow> 'v \<Rightarrow> ('v \<times> 'v) option \<Rightarrow> ('s, 'v, 'e, 'v option) service_action" where
  "spawn_telemetry H task_manager telemetry = (case telemetry of
     None \<Rightarrow> done_with None
   | Some worker_telemetry \<Rightarrow>
       try_then (perform H (Spawn (access_host H Spawn_handle task_manager)
         \<lparr>task_name = ''telemetry'', task_group = None, essential = False, blocking = False,
          task_future = Worker_run (fst worker_telemetry)\<rparr>)) (\<lambda>_.
       done_with (Some (snd worker_telemetry))))"

definition new_partial ::
    "('s, 'v, 'e) host \<Rightarrow> 'v configuration \<Rightarrow> ('s, 'v, 'e, 'v partial_components) service_action" where
  "new_partial H cfg =
     try_then (make_telemetry H cfg) (\<lambda>worker_telemetry.
     try_then (perform H (New_wasm_executor (cfg_executor cfg))) (\<lambda>executor.
     try_then (attempt H (New_full_parts cfg
       (map_option (\<lambda>x. access_host H Telemetry_handle (snd x)) worker_telemetry) (executor 0))) (\<lambda>parts.
     let client = parts 0; backend = parts 1; keystore_container = parts 2; task_manager = parts 3 in
     try_then (spawn_telemetry H task_manager worker_telemetry) (\<lambda>telemetry.
     try_then (perform H (Longest_chain_new backend)) (\<lambda>select_chain.
     try_then (perform H (Build_transaction_pool (access_host H Spawn_essential_handle task_manager) client
       (is_authority H (cfg_role cfg)) (cfg_transaction_pool cfg) (prometheus_registry cfg))) (\<lambda>transaction_pool.
     try_then (attempt H (Grandpa_block_import client GRANDPA_JUSTIFICATION_PERIOD client (select_chain 0)
       (map_option (access_host H Telemetry_handle) telemetry))) (\<lambda>grandpa.
     let grandpa_block_import = grandpa 0; grandpa_link = grandpa 1 in
     try_then (attempt H (Aura_import_queue \<lparr>
       iq_block_import = grandpa_block_import,
       iq_justification_import = Some grandpa_block_import,
       iq_client = client,
       iq_inherents = Import_inherents client,
       iq_spawner = access_host H Spawn_essential_handle task_manager,
       iq_registry = prometheus_registry cfg,
       iq_telemetry = map_option (access_host H Telemetry_handle) telemetry\<rparr>)) (\<lambda>import_queue.
     done_with \<lparr>
       pc_client = client,
       pc_backend = backend,
       pc_task_manager = task_manager,
       pc_import_queue = import_queue 0,
       pc_keystore_container = keystore_container,
       pc_select_chain = select_chain 0,
       pc_transaction_pool = transaction_pool 0,
       pc_block_import = grandpa_block_import,
       pc_grandpa_link = grandpa_link,
       pc_telemetry = telemetry\<rparr>))))))))"

section \<open>\<open>new_full\<close>: the network\<close>

record 'v network_parts =
  nw_network :: 'v
  nw_system_rpc_tx :: 'v
  nw_tx_handler_controller :: 'v
  nw_sync_service :: 'v
  nw_grandpa_protocol_name :: 'v
  nw_grandpa_notification_service :: 'v

definition start_network ::
    "('s, 'v, 'e) host \<Rightarrow> network_backend \<Rightarrow> 'v configuration \<Rightarrow> 'v partial_components \<Rightarrow>
     ('s, 'v, 'e, 'v network_parts) service_action" where
  "start_network H N cfg pc =
     try_then (perform H (Full_network_configuration N (cfg_network cfg) (prometheus_registry cfg))) (\<lambda>net_config.
     try_then (perform H (Register_notification_metrics N (prometheus_registry cfg))) (\<lambda>metrics.
     let peer_store_handle = access_host H Peer_store_handle (net_config 0) in
     try_then (expect_genesis H (pc_client pc)) (\<lambda>genesis.
     try_then (perform H (Protocol_standard_name genesis (cfg_chain_spec cfg))) (\<lambda>grandpa_protocol_name.
     try_then (perform H (Grandpa_peers_set_config (grandpa_protocol_name 0) (metrics 0) peer_store_handle)) (\<lambda>grandpa_protocol.
     try_then (perform H (Add_notification_protocol (net_config 0) (grandpa_protocol 0))) (\<lambda>_.
     try_then (perform H (Warp_proof_provider (pc_backend pc)
       (access_host H Shared_authority_set (pc_grandpa_link pc)) [])) (\<lambda>warp_sync.
     try_then (attempt H (Build_network \<lparr>
       np_config = cfg,
       np_net_config = net_config 0,
       np_client = pc_client pc,
       np_transaction_pool = pc_transaction_pool pc,
       np_spawn_handle = access_host H Spawn_handle (pc_task_manager pc),
       np_import_queue = pc_import_queue pc,
       np_block_announce_validator = None,
       np_warp_sync = Some (warp_sync 0),
       np_block_relay = None,
       np_metrics = metrics 0\<rparr>)) (\<lambda>nw.
     done_with \<lparr>
       nw_network = nw 0,
       nw_system_rpc_tx = nw 1,
       nw_tx_handler_controller = nw 2,
       nw_sync_service = nw 3,
       nw_grandpa_protocol_name = grandpa_protocol_name 0,
       nw_grandpa_notification_service = grandpa_protocol 1\<rparr>))))))))"

section \<open>\<open>new_full\<close>: offchain workers, RPC and core tasks\<close>

definition start_offchain_workers ::
    "('s, 'v, 'e) host \<Rightarrow> 'v configuration \<Rightarrow> 'v partial_components \<Rightarrow> 'v network_parts \<Rightarrow>
     ('s, 'v, 'e, unit) service_action" where
  "start_offchain_workers H cfg pc nw = (if offchain_worker_enabled cfg
     then
       try_then (attempt H (Offchain_workers_new \<lparr>
         oc_runtime_api_provider = pc_client pc,
         oc_is_validator = is_authority H (cfg_role cfg),
         oc_keystore = Some (access_host H Keystore (pc_keystore_container pc)),
         oc_offchain_db = access_host H Offchain_storage (pc_backend pc),
         oc_transaction_pool = Some (access_host H Offchain_pool_factory (pc_transaction_pool pc)),
         oc_network_provider = nw_network nw,
         oc_enable_http_requests = True,
         oc_custom_extensions = []\<rparr>)) (\<lambda>offchain_workers.
       try_then (perform H (Spawn (access_host H Spawn_handle (pc_task_manager pc))
         \<lparr>task_name = ''offchain-workers-runner'', task_group = Some ''offchain-worker'',
          essential = False, blocking = False,
          task_future = Offchain_workers_run (offchain_workers 0) (pc_client pc)
            (access_host H Spawn_handle (pc_task_manager pc))\<rparr>)) (\<lambda>_.
       done_with ()))
     else done_with ())"

definition start_core_tasks ::
    "('s, 'v, 'e) host \<Rightarrow> 'v configuration \<Rightarrow> 'v partial_components \<Rightarrow> 'v network_parts \<Rightarrow>
     ('s, 'v, 'e, nat \<Rightarrow> 'v) service_action" where
  "start_core_tasks H cfg pc nw = attempt H (Spawn_tasks \<lparr>
     st_network = nw_network nw,
     st_client = pc_client pc,
     st_keystore = access_host H Keystore (pc_keystore_container pc),
     st_task_manager = pc_task_manager pc,
     st_transaction_pool = pc_transaction_pool pc,
     st_rpc_builder = (pc_client pc, pc_transaction_pool pc),
     st_backend = pc_backend pc,
     st_system_rpc_tx = nw_system_rpc_tx nw,
     st_tx_handler_controller = nw_tx_handler_controller nw,
     st_sync_service = nw_sync_service nw,
     st_config = cfg,
     st_telemetry = pc_telemetry pc\<rparr>)"

section \<open>\<open>new_full\<close>: block authoring and finality\<close>

definition start_authoring ::
    "('s, 'v, 'e) host \<Rightarrow> 'v configuration \<Rightarrow> 'v partial_components \<Rightarrow> 'v network_parts \<Rightarrow>
     ('s, 'v, 'e, unit) service_action" where
  "start_authoring H cfg pc nw = (if is_authority H (cfg_role cfg)
     then
       try_then (perform H (Proposer_factory_new (access_host H Spawn_handle (pc_task_manager pc)) (pc_client pc)
         (pc_transaction_pool pc) (prometheus_registry cfg)
         (map_option (access_host H Telemetry_handle) (pc_telemetry pc)))) (\<lambda>proposer_factory.
       try_then (attempt H (Aura_slot_duration (pc_client pc))) (\<lambda>slot_duration.
       try_then (attempt H (Start_aura \<lparr>
         au_slot_duration = slot_duration 0,
         au_client = pc_client pc,
         au_select_chain = pc_select_chain pc,
         au_block_import = pc_block_import pc,
         au_proposer_factory = proposer_factory 0,
         au_inherents = Authoring_inherents (slot_duration 0),
         au_force_authoring = cfg_force_authoring cfg,
         au_backoff_authoring_blocks = None,
         au_keystore = access_host H Keystore (pc_keystore_container pc),
         au_sync_oracle = nw_sync_service nw,
         au_justification_sync_link = nw_sync_service nw,
         au_block_proposal_slot_portion = (2, 3),
         au_max_block_proposal_slot_portion = None,
         au_telemetry = map_option (access_host H Telemetry_handle) (pc_telemetry pc)\<rparr>)) (\<lambda>aura.
       try_then (perform H (Spawn (access_host H Spawn_essential_handle (pc_task_manager pc))
         \<lparr>task_name = ''aura'', task_group = Some ''block-authoring'', essential = True, blocking = True,
          task_future = Aura_worker (aura 0)\<rparr>)) (\<lambda>_.
       done_with ()))))
     else done_with ())"

definition start_grandpa ::
    "('s, 'v, 'e) host \<Rightarrow> 'v configuration \<Rightarrow> 'v partial_components \<Rightarrow> 'v network_parts \<Rightarrow>
     ('s, 'v, 'e, unit) service_action" where
  "start_grandpa H cfg pc nw = (if \<not> disable_grandpa cfg
     then
       let keystore = (if is_authority H (cfg_role cfg)
             then Some (access_host H Keystore (pc_keystore_container pc)) else None);
           grandpa_config = \<lparr>
             vc_gossip_duration_millis = 333,
             vc_justification_generation_period = GRANDPA_JUSTIFICATION_PERIOD,
             vc_name = Some (node_name cfg),
             vc_observer_enabled = False,
             vc_keystore = keystore,
             vc_local_role = cfg_role cfg,
             vc_telemetry = map_option (access_host H Telemetry_handle) (pc_telemetry pc),
             vc_protocol_name = nw_grandpa_protocol_name nw\<rparr> in
       try_then (attempt H (Run_grandpa_voter \<lparr>
         vp_config = grandpa_config,
         vp_link = pc_grandpa_link pc,
         vp_network = nw_network nw,
         vp_sync = nw_sync_service nw,
         vp_notification_service = nw_grandpa_notification_service nw,
         vp_prometheus_registry = prometheus_registry cfg,
         vp_telemetry = map_option (access_host H Telemetry_handle) (pc_telemetry pc),
         vp_offchain_tx_pool_factory = access_host H Offchain_pool_factory (pc_transaction_pool pc)\<rparr>)) (\<lambda>voter.
       try_then (perform H (Spawn (access_host H Spawn_essential_handle (pc_task_manager pc))
         \<lparr>task_name = ''grandpa-voter'', task_group = None, essential = True, blocking = True,
          task_future = Grandpa_voter (voter 0)\<rparr>)) (\<lambda>_.
       done_with ()))
     else done_with ())"

text \<open>The phases in order; the result is the task manager.\<close>

definition new_full ::
    "('s, 'v, 'e) host \<Rightarrow> network_backend \<Rightarrow> 'v configuration \<Rightarrow> ('s, 'v, 'e, 'v) service_action" where
  "new_full H N cfg =
     try_then (new_partial H cfg) (\<lambda>pc.
     try_then (start_network H N cfg pc) (\<lambda>nw.
     try_then (start_offchain_workers H cfg pc nw) (\<lambda>_.
     try_then (start_core_tasks H cfg pc nw) (\<lambda>rpc_handlers.
     try_then (start_authoring H cfg pc nw) (\<lambda>_.
     try_then (start_grandpa H cfg pc nw) (\<lambda>_.
     done_with (pc_task_manager pc)))))))"

end
