(* ===== verification/Node_Service_Properties.thy ===== *)
theory Node_Service_Properties
  imports Node_Service
begin

text \<open>
  What a startup of the node does: the plan of calls that \<open>new_partial\<close> and \<open>new_full\<close> follow
  for a configuration, and the settings of the consensus tasks.
\<close>

section \<open>The plans\<close>

definition partial_plan :: "bool \<Rightarrow> string list" where
  "partial_plan telemetry =
     (if telemetry then [''TelemetryWorker::new'', ''new_telemetry''] else []) @
     [''new_wasm_executor'', ''new_full_parts''] @
     (if telemetry then [''spawn telemetry''] else []) @
     [''LongestChain::new'', ''transaction pool'', ''grandpa block_import'', ''aura import_queue'']"

definition network_plan :: "string list" where
  "network_plan = [''FullNetworkConfiguration::new'', ''register_notification_metrics'',
     ''protocol_standard_name'', ''grandpa_peers_set_config'', ''add_notification_protocol'',
     ''warp_proof provider'', ''build_network'']"

definition startup_plan :: "bool \<Rightarrow> bool \<Rightarrow> bool \<Rightarrow> bool \<Rightarrow> string list" where
  "startup_plan telemetry offchain authority grandpa =
     partial_plan telemetry @ network_plan @
     (if offchain then [''OffchainWorkers::new'', ''spawn offchain-workers-runner''] else []) @
     [''spawn_tasks''] @
     (if authority then [''ProposerFactory::new'', ''slot_duration'', ''start_aura'', ''spawn aura''] else []) @
     (if grandpa then [''run_grandpa_voter'', ''spawn grandpa-voter''] else [])"

text \<open>The plan of a configuration.\<close>

definition plan_of :: "('s, 'v, 'e) host \<Rightarrow> 'v configuration \<Rightarrow> string list" where
  "plan_of H cfg = startup_plan (wanted_endpoints cfg \<noteq> None) (offchain_worker_enabled cfg)
     (is_authority H (cfg_role cfg)) (\<not> disable_grandpa cfg)"

lemma follows_make_telemetry:
  "follows H (if wanted_endpoints cfg = None then [] else [''TelemetryWorker::new'', ''new_telemetry''])
     (\<lambda>r. (r = None) = (wanted_endpoints cfg = None)) (make_telemetry H cfg)"
  by (cases "wanted_endpoints cfg") (auto simp: make_telemetry_def intro!: plan_rules)

lemma follows_spawn_telemetry:
  "follows H (if t = None then [] else [''spawn telemetry'']) (\<lambda>_. True) (spawn_telemetry H tm t)"
  by (cases t) (auto simp: spawn_telemetry_def intro!: plan_rules)

lemma follows_spawn_telemetry_then:
  assumes "(t = None) = n" "\<And>x. follows H ks R (f x)"
  shows "follows H ((if n then [] else [''spawn telemetry'']) @ ks) R (try_then (spawn_telemetry H tm t) f)"
  unfolding assms(1) [symmetric]
  by (rule follows_try_then, rule follows_spawn_telemetry) (rule assms(2))

lemma follows_new_partial:
  "follows H (partial_plan (wanted_endpoints cfg \<noteq> None)) (\<lambda>_. True) (new_partial H cfg)"
proof -
  let ?none = "wanted_endpoints cfg = None"
  have "follows H ((if ?none then [] else [''TelemetryWorker::new'', ''new_telemetry'']) @
     ''new_wasm_executor'' # ''new_full_parts'' # (if ?none then [] else [''spawn telemetry'']) @
     [''LongestChain::new'', ''transaction pool'', ''grandpa block_import'', ''aura import_queue''])
     (\<lambda>_. True) (new_partial H cfg)"
    unfolding new_partial_def Let_def
    by (rule follows_try_then [OF follows_make_telemetry])
       (intro plan_rules follows_spawn_telemetry_then; simp)
  then show ?thesis by (simp add: partial_plan_def split: if_splits)
qed

lemma follows_start_network: "follows H network_plan (\<lambda>_. True) (start_network H N cfg pc)"
  unfolding network_plan_def start_network_def Let_def by (intro plan_rules) simp_all

lemma follows_start_offchain_workers:
  "follows H (if offchain_worker_enabled cfg then [''OffchainWorkers::new'', ''spawn offchain-workers-runner''] else [])
     (\<lambda>_. True) (start_offchain_workers H cfg pc nw)"
  by (auto simp: start_offchain_workers_def intro!: plan_rules)

lemma follows_start_core_tasks: "follows H [''spawn_tasks''] (\<lambda>_. True) (start_core_tasks H cfg pc nw)"
  unfolding start_core_tasks_def
  using follows_attempt [of H "Spawn_tasks p" for p] by simp

lemma follows_start_authoring:
  "follows H (if is_authority H (cfg_role cfg)
     then [''ProposerFactory::new'', ''slot_duration'', ''start_aura'', ''spawn aura''] else [])
     (\<lambda>_. True) (start_authoring H cfg pc nw)"
  by (auto simp: start_authoring_def intro!: plan_rules)

lemma follows_start_grandpa:
  "follows H (if \<not> disable_grandpa cfg then [''run_grandpa_voter'', ''spawn grandpa-voter''] else [])
     (\<lambda>_. True) (start_grandpa H cfg pc nw)"
  by (auto simp: start_grandpa_def Let_def intro!: plan_rules)

lemma follows_new_full: "follows H (plan_of H cfg) (\<lambda>_. True) (new_full H N cfg)"
proof -
  have "follows H (partial_plan (wanted_endpoints cfg \<noteq> None) @ network_plan @
     (if offchain_worker_enabled cfg then [''OffchainWorkers::new'', ''spawn offchain-workers-runner''] else []) @
     [''spawn_tasks''] @
     (if is_authority H (cfg_role cfg)
        then [''ProposerFactory::new'', ''slot_duration'', ''start_aura'', ''spawn aura''] else []) @
     (if \<not> disable_grandpa cfg then [''run_grandpa_voter'', ''spawn grandpa-voter''] else []) @ [])
     (\<lambda>_. True) (new_full H N cfg)"
    unfolding new_full_def
    by (intro follows_try_then [OF follows_new_partial] follows_try_then [OF follows_start_network]
        follows_try_then [OF follows_start_offchain_workers] follows_try_then [OF follows_start_core_tasks]
        follows_try_then [OF follows_start_authoring] follows_try_then [OF follows_start_grandpa] follows_done) simp
  then show ?thesis by (simp add: plan_of_def startup_plan_def)
qed

section \<open>Settings of the calls\<close>

text \<open>
  The essential tasks are the two of consensus, both blocking; GRANDPA is given a keystore
  exactly on an authority, which is also the only node that starts Aura; justifications are
  imported and generated with one period.
\<close>

fun settings_ok :: "('s, 'v, 'e) host \<Rightarrow> 'v configuration \<Rightarrow> 'v host_call \<Rightarrow> bool" where
  "settings_ok H cfg (Spawn handle t) \<longleftrightarrow>
     (essential t \<longleftrightarrow> task_name t \<in> {''aura'', ''grandpa-voter''}) \<and> (blocking t \<longleftrightarrow> essential t)"
| "settings_ok H cfg (Start_aura p) \<longleftrightarrow>
     is_authority H (cfg_role cfg) \<and> au_force_authoring p = cfg_force_authoring cfg \<and>
     au_inherents p = Authoring_inherents (au_slot_duration p)"
| "settings_ok H cfg (Run_grandpa_voter p) \<longleftrightarrow> \<not> disable_grandpa cfg \<and>
     (vc_keystore (vp_config p) \<noteq> None \<longleftrightarrow> is_authority H (cfg_role cfg)) \<and>
     \<not> vc_observer_enabled (vp_config p) \<and>
     vc_justification_generation_period (vp_config p) = GRANDPA_JUSTIFICATION_PERIOD"
| "settings_ok H cfg (Grandpa_block_import c period d s t) \<longleftrightarrow> period = GRANDPA_JUSTIFICATION_PERIOD"
| "settings_ok H cfg (Offchain_workers_new p) \<longleftrightarrow>
     offchain_worker_enabled cfg \<and> oc_is_validator p = is_authority H (cfg_role cfg)"
| "settings_ok H cfg (New_telemetry h es) \<longleftrightarrow> es \<noteq> []"
| "settings_ok H cfg _ \<longleftrightarrow> True"

lemma wanted_endpoints_Some: "wanted_endpoints cfg = Some es \<Longrightarrow> es \<noteq> []"
  by (auto simp: wanted_endpoints_def split: option.splits if_splits)

lemma settings_new_partial: "calls_only (settings_ok H cfg) (new_partial H cfg)"
proof -
  have "calls_only (settings_ok H cfg) (make_telemetry H cfg)"
    by (cases "wanted_endpoints cfg")
       (auto simp: make_telemetry_def wanted_endpoints_Some intro!: call_rules)
  then show ?thesis
    unfolding new_partial_def spawn_telemetry_def Let_def by (intro call_rules; simp)
qed

lemma settings_phases:
  "calls_only (settings_ok H cfg) (start_network H N cfg pc)"
  "calls_only (settings_ok H cfg) (start_offchain_workers H cfg pc nw)"
  "calls_only (settings_ok H cfg) (start_core_tasks H cfg pc nw)"
  "calls_only (settings_ok H cfg) (start_authoring H cfg pc nw)"
  "calls_only (settings_ok H cfg) (start_grandpa H cfg pc nw)"
  unfolding start_network_def start_offchain_workers_def start_core_tasks_def start_authoring_def
    start_grandpa_def Let_def
  by (intro call_rules; simp)+

lemma settings_new_full: "calls_only (settings_ok H cfg) (new_full H N cfg)"
  unfolding new_full_def by (intro call_rules settings_new_partial settings_phases)

section \<open>Properties\<close>

text \<open>The tasks a run has spawned, in order.\<close>

fun spawned :: "'v host_call list \<Rightarrow> string list" where
  "spawned [] = []"
| "spawned (Spawn handle t # cs) = task_name t # spawned cs"
| "spawned (c # cs) = spawned cs"

lemma spawned_names: "filter (prefix ''spawn '') (map call_name cs) = map ((@) ''spawn '') (spawned cs)"
  by (induction cs rule: spawned.induct) simp_all

text \<open>A host on which every call succeeds, an authority's configuration and one of a full node.\<close>

definition willing_host :: "(unit, nat, nat) host" where
  "willing_host = \<lparr>try_host = (\<lambda>c u. (Inr id, u)), do_host = (\<lambda>c u. (id, u)), access_host = (\<lambda>a v. v),
     is_authority = (\<lambda>r. r = 1), genesis_hash = (\<lambda>v u. Inr (Some 0))\<rparr>"

definition no_network_host :: "(unit, nat, nat) host" where
  "no_network_host = willing_host\<lparr>try_host :=
     (\<lambda>c u. (if call_name c = ''build_network'' then Inl 9 else Inr id, u))\<rparr>"

definition node_config :: "nat \<Rightarrow> nat configuration" where
  "node_config role = \<lparr>telemetry_endpoints = Some [], cfg_executor = 0, cfg_role = role,
     cfg_transaction_pool = 0, prometheus_registry = None, cfg_network = 0, cfg_network_backend = None, node_name = 0, cfg_chain_spec = 0,
     cfg_database = 0, offchain_worker_enabled = True, cfg_force_authoring = False, disable_grandpa = False\<rparr>"

lemmas demo_node_defs = willing_host_def no_network_host_def node_config_def plan_of_def startup_plan_def
  partial_plan_def network_plan_def wanted_endpoints_def

lemma willing_host_willing: "willing willing_host"
  by (simp add: willing_def willing_host_def)

lemma succeeds_new_full: "willing H \<Longrightarrow> succeeds (new_full H N cfg)"
  unfolding new_full_def new_partial_def make_telemetry_def spawn_telemetry_def start_network_def
    start_offchain_workers_def start_core_tasks_def start_authoring_def start_grandpa_def Let_def
  by (intro live_rules)

lemma full_run:
  assumes "willing H"
  obtains tm t where "new_full H N cfg s = (Inr tm, t)"
  using succeeds_new_full [OF assms, of N cfg] unfolding succeeds_def by blast

text \<open>
  C15. Starting the node follows one plan: a successful \<open>new_full\<close> has made exactly the calls
  the configuration asks for, in their order (the telemetry calls when there are endpoints,
  the offchain workers when enabled, Aura when the node is an authority, GRANDPA unless
  disabled); a startup that returns a service error stopped at the call that failed, having
  made a beginning of the plan; the only panic is the missing genesis block; and when no
  call fails and the genesis block is there, it does succeed.
\<close>

theorem startup_follows_plan:
  assumes "new_full H N cfg \<lparr>world = w, trace = []\<rparr> = (r, t)"
  shows "(willing H \<longrightarrow> (\<exists>task_manager. r = Inr task_manager)) \<and> (case r of
     Inr task_manager \<Rightarrow> map call_name (trace t) = plan_of H cfg
   | Inl (Service_error e) \<Rightarrow> trace t \<noteq> [] \<and> prefix (map call_name (trace t)) (plan_of H cfg) \<and>
       (\<exists>w0. try_host H (last (trace t)) w0 = (Inl e, world t))
   | Inl (Panicked msg) \<Rightarrow> prefix (map call_name (trace t)) (plan_of H cfg) \<and>
       msg = ''Genesis block exists; qed'')"
proof
  show "willing H \<longrightarrow> (\<exists>task_manager. r = Inr task_manager)"
  proof
    assume "willing H"
    then obtain tm u where "new_full H N cfg \<lparr>world = w, trace = []\<rparr> = (Inr tm, u)" by (rule full_run)
    then show "\<exists>task_manager. r = Inr task_manager" using assms by simp
  qed
  show "case r of
     Inr task_manager \<Rightarrow> map call_name (trace t) = plan_of H cfg
   | Inl (Service_error e) \<Rightarrow> trace t \<noteq> [] \<and> prefix (map call_name (trace t)) (plan_of H cfg) \<and>
       (\<exists>w0. try_host H (last (trace t)) w0 = (Inl e, world t))
   | Inl (Panicked msg) \<Rightarrow> prefix (map call_name (trace t)) (plan_of H cfg) \<and>
       msg = ''Genesis block exists; qed''"
    using follows_run [OF follows_new_full assms] by (simp add: outcome_def split: sum.splits failure.splits)
qed

theorem startup_follows_plan_witness:
  "\<exists>tm t. new_full willing_host Libp2p (node_config 1) \<lparr>world = (), trace = []\<rparr> = (Inr tm, t) \<and>
     map call_name (trace t) = [''new_wasm_executor'', ''new_full_parts'', ''LongestChain::new'',
       ''transaction pool'', ''grandpa block_import'', ''aura import_queue'',
       ''FullNetworkConfiguration::new'', ''register_notification_metrics'', ''protocol_standard_name'',
       ''grandpa_peers_set_config'', ''add_notification_protocol'', ''warp_proof provider'', ''build_network'',
       ''OffchainWorkers::new'', ''spawn offchain-workers-runner'', ''spawn_tasks'', ''ProposerFactory::new'',
       ''slot_duration'', ''start_aura'', ''spawn aura'', ''run_grandpa_voter'', ''spawn grandpa-voter'']"
proof -
  obtain r t where run: "new_full willing_host Libp2p (node_config 1) \<lparr>world = (), trace = []\<rparr> = (r, t)"
    by (cases "new_full willing_host Libp2p (node_config 1) \<lparr>world = (), trace = []\<rparr>")
  note res = startup_follows_plan [OF run]
  then obtain tm where "r = Inr tm" using willing_host_willing by blast
  with res run show ?thesis by (simp add: demo_node_defs)
qed

text \<open>The tasks the node itself spawns, for a configuration.\<close>

definition own_tasks :: "('s, 'v, 'e) host \<Rightarrow> 'v configuration \<Rightarrow> string list" where
  "own_tasks H cfg =
     (if wanted_endpoints cfg \<noteq> None then [''telemetry''] else []) @
     (if offchain_worker_enabled cfg then [''offchain-workers-runner''] else []) @
     (if is_authority H (cfg_role cfg) then [''aura''] else []) @
     (if \<not> disable_grandpa cfg then [''grandpa-voter''] else [])"

lemma plan_tasks: "filter (prefix ''spawn '') (plan_of H cfg) = map ((@) ''spawn '') (own_tasks H cfg)"
  by (simp add: plan_of_def startup_plan_def partial_plan_def network_plan_def own_tasks_def)

lemma spawned_of_names:
  "map ((@) ''spawn '') ts = map ((@) ''spawn '') us \<Longrightarrow> ts = us"
  by (rule injD [OF inj_mapI]) (auto intro: injI)

lemma spawned_prefix:
  assumes "prefix (map call_name cs) (plan_of H cfg)"
  shows "prefix (spawned cs) (own_tasks H cfg)"
proof -
  have "prefix (map ((@) ''spawn '') (spawned cs)) (map ((@) ''spawn '') (own_tasks H cfg))"
    using filter_mono_prefix [OF assms, of "prefix ''spawn ''"] by (simp only: spawned_names plan_tasks)
  then obtain zs where "map ((@) ''spawn '') (own_tasks H cfg) = map ((@) ''spawn '') (spawned cs) @ zs"
    by (auto simp: prefix_def)
  then obtain us vs where "own_tasks H cfg = us @ vs"
      and us: "map ((@) ''spawn '') us = map ((@) ''spawn '') (spawned cs)"
    by (auto simp: map_eq_append_conv)
  moreover from us have "us = spawned cs" by (rule spawned_of_names)
  ultimately show ?thesis by simp
qed

text \<open>
  C26. Who produces blocks and who finalises: a node that has started runs the \<open>aura\<close> task
  exactly when it is an authority and the \<open>grandpa-voter\<close> task exactly when GRANDPA is not
  disabled, each once and after the tasks for telemetry and offchain work; a startup that
  fails has spawned a beginning of the same tasks.
\<close>

theorem consensus_tasks_spawned:
  assumes "new_full H N cfg \<lparr>world = w, trace = []\<rparr> = (r, t)"
  shows "case r of
     Inr task_manager \<Rightarrow> spawned (trace t) =
       (if wanted_endpoints cfg \<noteq> None then [''telemetry''] else []) @
       (if offchain_worker_enabled cfg then [''offchain-workers-runner''] else []) @
       (if is_authority H (cfg_role cfg) then [''aura''] else []) @
       (if \<not> disable_grandpa cfg then [''grandpa-voter''] else [])
   | Inl f \<Rightarrow> prefix (spawned (trace t)) (own_tasks H cfg)"
proof (cases r)
  case (Inr tm)
  then have "map call_name (trace t) = plan_of H cfg"
    using follows_run [OF follows_new_full assms] by (simp add: outcome_def)
  then have "map ((@) ''spawn '') (spawned (trace t)) = map ((@) ''spawn '') (own_tasks H cfg)"
    by (metis spawned_names plan_tasks)
  then have "spawned (trace t) = own_tasks H cfg" by (rule spawned_of_names)
  then show ?thesis using Inr by (simp add: own_tasks_def)
next
  case (Inl f)
  then have "prefix (map call_name (trace t)) (plan_of H cfg)"
    using follows_run [OF follows_new_full assms] by (simp add: outcome_def split: failure.splits)
  then show ?thesis using Inl spawned_prefix by simp
qed

theorem consensus_tasks_spawned_witness:
  "\<exists>tm t. new_full willing_host Litep2p (node_config 2) \<lparr>world = (), trace = []\<rparr> = (Inr tm, t) \<and>
     spawned (trace t) = [''offchain-workers-runner'', ''grandpa-voter'']"
proof -
  obtain tm t where run: "new_full willing_host Litep2p (node_config 2) \<lparr>world = (), trace = []\<rparr> = (Inr tm, t)"
    using willing_host_willing by (rule full_run)
  with consensus_tasks_spawned [OF run] show ?thesis by (simp add: demo_node_defs)
qed

text \<open>
  The consensus settings are right on every startup, failed ones included: the tasks
  \<open>aura\<close> and \<open>grandpa-voter\<close> and no others are essential, Aura is started on authorities
  only, GRANDPA gets a keystore exactly on an authority and never runs as an observer, and
  justifications are imported and generated every 512 blocks.
\<close>

theorem consensus_settings:
  assumes "new_full H N cfg \<lparr>world = w, trace = []\<rparr> = (r, t)"
  shows "list_all (settings_ok H cfg) (trace t)"
  by (rule calls_onlyD [OF settings_new_full assms]) simp

theorem consensus_settings_witness:
  "\<exists>r t. new_full no_network_host Libp2p (node_config 1) \<lparr>world = (), trace = []\<rparr> = (r, t) \<and>
     list_all (settings_ok no_network_host (node_config 1)) (trace t) \<and> \<not> willing no_network_host"
proof -
  obtain r t where run: "new_full no_network_host Libp2p (node_config 1) \<lparr>world = (), trace = []\<rparr> = (r, t)"
    by (cases "new_full no_network_host Libp2p (node_config 1) \<lparr>world = (), trace = []\<rparr>")
  have "\<not> willing no_network_host"
  proof
    assume "willing no_network_host"
    then obtain v u where "try_host no_network_host (Build_network undefined) () = (Inr v, u)"
      unfolding willing_def by blast
    then show False by (simp add: no_network_host_def)
  qed
  with run consensus_settings [OF run] show ?thesis by blast
qed

end
