(* ===== verification/Node_Sharing.thy ===== *)
theory Node_Sharing
  imports Node_Service_Properties
begin

text \<open>
  Which objects the calls of a startup share: everything the node starts works on the client,
  the backend, the keystore and the task manager that one call of \<open>new_full_parts\<close> gave.
\<close>

section \<open>Actions whose calls satisfy a condition\<close>

text \<open>\<open>calls_give P R m\<close>: the calls of \<open>m\<close> satisfy \<open>P\<close> and its result \<open>R\<close>.\<close>

definition calls_give ::
    "('v host_call \<Rightarrow> bool) \<Rightarrow> ('a \<Rightarrow> bool) \<Rightarrow> ('s, 'v, 'e, 'a) service_action \<Rightarrow> bool" where
  "calls_give P R m \<longleftrightarrow> (\<forall>s r t. m s = (r, t) \<longrightarrow>
     (\<exists>cs. trace t = trace s @ cs \<and> list_all P cs) \<and> (\<forall>a. r = Inr a \<longrightarrow> R a))"

named_theorems share_rules "calls and results of the actions"


lemma calls_giveE:
  assumes "calls_give P R m" "m s = (r, t)"
  obtains cs where "trace t = trace s @ cs" "list_all P cs" "\<And>a. r = Inr a \<Longrightarrow> R a"
  using assms(1) [unfolded calls_give_def, rule_format, OF assms(2)] that by blast


lemma calls_give_then:
  assumes "calls_give P S m" "\<And>a. S a \<Longrightarrow> calls_give P R (f a)"
  shows "calls_give P R (try_then m f)"
  unfolding calls_give_def
proof (intro allI impI)
  fix s r t assume "try_then m f s = (r, t)"
  then show "(\<exists>cs. trace t = trace s @ cs \<and> list_all P cs) \<and> (\<forall>a. r = Inr a \<longrightarrow> R a)"
  proof (cases rule: try_thenE)
    case (stopped e)
    from assms(1) stopped(1) show ?thesis by (rule calls_giveE) (use stopped(2) in auto)
  next
    case (went_on a u)
    obtain cs where cs: "trace u = trace s @ cs" "list_all P cs" "\<And>b. Inr a = Inr b \<Longrightarrow> S b"
      using assms(1) went_on(1) by (rule calls_giveE) blast
    from assms(2) [OF cs(3) [OF refl]] went_on(2) obtain ds where
      "trace t = trace u @ ds" "list_all P ds" "\<And>b. r = Inr b \<Longrightarrow> R b"
      by (rule calls_giveE) blast
    with cs(1,2) show ?thesis by auto
  qed
qed

lemma calls_give_attempt: "P c \<Longrightarrow> calls_give P (\<lambda>_. True) (attempt H c)"
  by (auto simp: calls_give_def attempt_def split: prod.splits sum.splits)

lemma calls_give_perform: "P c \<Longrightarrow> calls_give P (\<lambda>_. True) (perform H c)"
  by (auto simp: calls_give_def perform_def split: prod.splits)

lemma calls_give_genesis: "calls_give P (\<lambda>_. True) (expect_genesis H client)"
  by (auto simp: calls_give_def expect_genesis_def split: sum.splits option.splits)

lemma calls_give_single [share_rules]:
  "P c \<Longrightarrow> (\<And>v. calls_give P R (f v)) \<Longrightarrow> calls_give P R (try_then (attempt H c) f)"
  "P c \<Longrightarrow> (\<And>v. calls_give P R (f v)) \<Longrightarrow> calls_give P R (try_then (perform H c) f)"
  "(\<And>h. calls_give P R (g h)) \<Longrightarrow> calls_give P R (try_then (expect_genesis H client) g)"
  by (rule calls_give_then [OF calls_give_attempt], assumption, assumption)
     (rule calls_give_then [OF calls_give_perform], assumption, assumption,
      rule calls_give_then [OF calls_give_genesis], assumption)

lemma calls_give_if [share_rules]:
  "(b \<Longrightarrow> calls_give P R m) \<Longrightarrow> (\<not> b \<Longrightarrow> calls_give P R n) \<Longrightarrow> calls_give P R (if b then m else n)"
  by simp

lemma calls_give_option [share_rules]:
  "calls_give P R m \<Longrightarrow> (\<And>a. calls_give P R (f a)) \<Longrightarrow> calls_give P R (case v of None \<Rightarrow> m | Some a \<Rightarrow> f a)"
  by (cases v) simp_all

section \<open>The parts of the node\<close>










section \<open>One node\<close>



end
