(* ===== verification/Node_Benchmarking.thy ===== *)
theory Node_Benchmarking
  imports Runtime_Config
begin

text \<open>
  The extrinsics of the benchmark commands (\<open>node/src/benchmarking.rs\<close>): the transaction
  extension and the payload that \<open>create_benchmark_extrinsic\<close> signs, and the two
  \<open>ExtrinsicBuilder\<close>s of the node.  Signing, encoding, eras and the client belong to other
  crates and are parameters; what the runtime does with a signed extrinsic is stated from
  their documentation.
\<close>

section \<open>Transaction extensions\<close>

text \<open>The components of \<open>TxExtension\<close>, with the data each of them carries.\<close>

datatype 'era extension =
    CheckNonZeroSender
  | CheckSpecVersion
  | CheckTxVersion
  | CheckGenesis
  | CheckEra 'era
  | CheckNonce u32
  | CheckWeight
  | ChargeTransactionPayment u128
  | CheckMetadataHash bool
  | WeightReclaim

fun extension_name :: "'era extension \<Rightarrow> string" where
  "extension_name CheckNonZeroSender = ''CheckNonZeroSender''"
| "extension_name CheckSpecVersion = ''CheckSpecVersion''"
| "extension_name CheckTxVersion = ''CheckTxVersion''"
| "extension_name CheckGenesis = ''CheckGenesis''"
| "extension_name (CheckEra e) = ''CheckEra''"
| "extension_name (CheckNonce n) = ''CheckNonce''"
| "extension_name CheckWeight = ''CheckWeight''"
| "extension_name (ChargeTransactionPayment t) = ''ChargeTransactionPayment''"
| "extension_name (CheckMetadataHash m) = ''CheckMetadataHash''"
| "extension_name WeightReclaim = ''WeightReclaim''"

text \<open>The type \<open>TxExtension\<close> of the runtime: the extensions of a transaction, in order.\<close>

definition TxExtension :: "string list" where
  "TxExtension = [''CheckNonZeroSender'', ''CheckSpecVersion'', ''CheckTxVersion'', ''CheckGenesis'',
     ''CheckEra'', ''CheckNonce'', ''CheckWeight'', ''ChargeTransactionPayment'', ''CheckMetadataHash'',
     ''WeightReclaim'']"

text \<open>The implicit data of an extension: signed, but not part of the transaction.\<close>

datatype ('h, 'm) implicit = NoData | Number u32 | Hash 'h | MetadataHash "'m option"

record ('call, 'acc, 'sig, 'era) unchecked_extrinsic =
  uxt_call :: 'call
  uxt_signer :: 'acc
  uxt_signature :: 'sig
  uxt_extension :: "'era extension list"

section \<open>The client and the functions of other crates\<close>

text \<open>\<open>block_hash(0)\<close> and \<open>chain_info()\<close> of the client; \<open>block_hash\<close> may fail or find nothing.\<close>

record ('e, 'h) client =
  genesis_block_hash :: "'e + 'h option"
  best_hash :: 'h
  best_number :: u32

record ('k, 'pub, 'sig, 'acc, 'call, 'era, 'h, 'm) extrinsic_api =
  mortal :: "u64 \<Rightarrow> u64 \<Rightarrow> 'era"
  number_into_u64 :: "u32 \<Rightarrow> u64"
  public_key :: "'k \<Rightarrow> 'pub"
  account_of :: "'pub \<Rightarrow> 'acc"
  encode_payload :: "'call \<times> 'era extension list \<times> ('h, 'm) implicit list \<Rightarrow> bytes"
  sign :: "'k \<Rightarrow> bytes \<Rightarrow> 'sig"

section \<open>\<open>create_benchmark_extrinsic\<close>\<close>

text \<open>The era's period: half the power of two above \<open>BlockHashCount\<close>, or 2 when there is none.\<close>

definition benchmark_period :: u64 where
  "benchmark_period = ucast
     (case map_option (\<lambda>c. c div 2) (checked_next_power_of_two (block_hash_count system_config)) of
        None \<Rightarrow> 2 | Some c \<Rightarrow> c)"

definition create_benchmark_extrinsic ::
    "('k, 'pub, 'sig, 'acc, 'call, 'era, 'h, 'm) extrinsic_api \<Rightarrow> ('e, 'h) client \<Rightarrow> 'k \<Rightarrow> 'call \<Rightarrow> u32 \<Rightarrow>
     string + ('call, 'acc, 'sig, 'era) unchecked_extrinsic" where
  "create_benchmark_extrinsic A client sender call nonce =
     (case genesis_block_hash client of
        Inr (Some genesis_hash) \<Rightarrow>
          (let tx_ext = [
                 CheckNonZeroSender,
                 CheckSpecVersion,
                 CheckTxVersion,
                 CheckGenesis,
                 CheckEra (mortal A benchmark_period (number_into_u64 A (best_number client))),
                 CheckNonce nonce,
                 CheckWeight,
                 ChargeTransactionPayment 0,
                 CheckMetadataHash False,
                 WeightReclaim];
               raw_payload = (call, tx_ext, [
                 NoData,
                 Number (spec_version VERSION),
                 Number (transaction_version VERSION),
                 Hash genesis_hash,
                 Hash (best_hash client),
                 NoData,
                 NoData,
                 NoData,
                 MetadataHash None,
                 NoData])
           in Inr \<lparr>uxt_call = call, uxt_signer = account_of A (public_key A sender),
                uxt_signature = sign A sender (encode_payload A raw_payload), uxt_extension = tx_ext\<rparr>)
      | _ \<Rightarrow> Inl ''Genesis block exists; qed'')"

lemma create_benchmark_extrinsic_Inr:
  assumes "create_benchmark_extrinsic A cl k call nonce = Inr x"
  obtains h where "genesis_block_hash cl = Inr (Some h)" "uxt_call x = call"
    "uxt_signer x = account_of A (public_key A k)"
    "uxt_extension x = [CheckNonZeroSender, CheckSpecVersion, CheckTxVersion, CheckGenesis,
       CheckEra (mortal A benchmark_period (number_into_u64 A (best_number cl))), CheckNonce nonce,
       CheckWeight, ChargeTransactionPayment 0, CheckMetadataHash False, WeightReclaim]"
    "uxt_signature x = sign A k (encode_payload A (call, uxt_extension x,
       [NoData, Number (spec_version VERSION), Number (transaction_version VERSION), Hash h,
        Hash (best_hash cl), NoData, NoData, NoData, MetadataHash None, NoData]))"
  using assms
  by (auto simp: create_benchmark_extrinsic_def Let_def split: sum.splits option.splits)

lemma benchmark_extrinsic_type:
  "create_benchmark_extrinsic A cl k call nonce = Inr x \<Longrightarrow> map extension_name (uxt_extension x) = TxExtension"
  by (erule create_benchmark_extrinsic_Inr) (simp add: TxExtension_def)

lemma next_power_2400: "checked_next_power_of_two (2400 :: u32) = Some 4096"
  by (simp add: checked_next_power_of_two_def upt_conv_Cons)

lemma benchmark_period_2048: "benchmark_period = 2048"
  by (simp add: benchmark_period_def system_config_def next_power_2400)

section \<open>The builders\<close>

text \<open>The two calls the builders make, and the pallet and call names they are found under.\<close>

datatype 'acc node_call = Remark bytes | TransferKeepAlive 'acc u128

fun call_path :: "'acc node_call \<Rightarrow> string \<times> string" where
  "call_path (Remark r) = (''system'', ''remark'')"
| "call_path (TransferKeepAlive dest v) = (''balances'', ''transfer_keep_alive'')"

record 'x extrinsic_builder =
  builder_pallet :: string
  builder_extrinsic :: string
  build_extrinsic :: "u32 \<Rightarrow> string + 'x"

definition RemarkBuilder ::
    "('k, 'pub, 'sig, 'acc, 'acc node_call, 'era, 'h, 'm) extrinsic_api \<Rightarrow> ('e, 'h) client \<Rightarrow> 'k \<Rightarrow>
     ('acc node_call, 'acc, 'sig, 'era) unchecked_extrinsic extrinsic_builder" where
  "RemarkBuilder A client bob = \<lparr>
     builder_pallet = ''system'',
     builder_extrinsic = ''remark'',
     build_extrinsic = (\<lambda>nonce. create_benchmark_extrinsic A client bob (Remark []) nonce)\<rparr>"

definition TransferKeepAliveBuilder ::
    "('k, 'pub, 'sig, 'acc, 'acc node_call, 'era, 'h, 'm) extrinsic_api \<Rightarrow> ('e, 'h) client \<Rightarrow> 'k \<Rightarrow>
     'acc \<Rightarrow> u128 \<Rightarrow> ('acc node_call, 'acc, 'sig, 'era) unchecked_extrinsic extrinsic_builder" where
  "TransferKeepAliveBuilder A client bob dest v = \<lparr>
     builder_pallet = ''balances'',
     builder_extrinsic = ''transfer_keep_alive'',
     build_extrinsic = (\<lambda>nonce. create_benchmark_extrinsic A client bob (TransferKeepAlive dest v) nonce)\<rparr>"

definition nonce_of :: "'era extension list \<Rightarrow> u32 option" where
  "nonce_of es = (case find (\<lambda>e. extension_name e = ''CheckNonce'') es of
     Some (CheckNonce n) \<Rightarrow> Some n | _ \<Rightarrow> None)"

text \<open>
  What the benchmark commands rely on: a builder makes the call it is registered under, for
  one signer, with the nonce it is asked for.
\<close>

locale benchmark_builder =
  fixes b :: "('acc node_call, 'acc, 'sig, 'era) unchecked_extrinsic extrinsic_builder"
    and signer :: 'acc
  assumes path: "build_extrinsic b n = Inr x \<Longrightarrow> call_path (uxt_call x) = (builder_pallet b, builder_extrinsic b)"
    and nonce: "build_extrinsic b n = Inr x \<Longrightarrow> nonce_of (uxt_extension x) = Some n"
    and signer: "build_extrinsic b n = Inr x \<Longrightarrow> uxt_signer x = signer"
begin

lemma built:
  assumes "map (build_extrinsic b) ns = map Inr xs" "x \<in> set xs"
  shows "call_path (uxt_call x) = (builder_pallet b, builder_extrinsic b) \<and> uxt_signer x = signer"
proof -
  have "Inr x \<in> set (map (build_extrinsic b) ns)" using assms by simp
  then obtain n where "build_extrinsic b n = Inr x" by auto
  then show ?thesis using path signer by blast
qed

text \<open>Extrinsics for different nonces are different, so a block of them can be executed.\<close>

lemma builds_distinct:
  assumes "distinct ns" "map (build_extrinsic b) ns = map Inr xs"
  shows "distinct xs"
proof -
  have "map nonce_of (map uxt_extension xs) = map Some ns"
    using assms(2) by (intro nth_equalityI) (auto simp: list_eq_iff_nth_eq intro: nonce)
  then have "distinct (map (\<lambda>x. nonce_of (uxt_extension x)) xs)"
    using assms(1) by (simp add: comp_def distinct_map inj_on_def)
  then show ?thesis by (simp add: distinct_map)
qed

end

lemma created_nonce:
  assumes "create_benchmark_extrinsic A cl k call n = Inr x"
  shows "nonce_of (uxt_extension x) = Some n"
  using assms by (rule create_benchmark_extrinsic_Inr) (simp add: nonce_of_def)

interpretation remark: benchmark_builder "RemarkBuilder A cl bob" "account_of A (public_key A bob)" for A cl bob
  by unfold_locales
     (auto simp: RemarkBuilder_def created_nonce elim: create_benchmark_extrinsic_Inr)

interpretation transfer_keep_alive: benchmark_builder "TransferKeepAliveBuilder A cl bob dest v"
    "account_of A (public_key A bob)" for A cl bob dest v
  by unfold_locales
     (auto simp: TransferKeepAliveBuilder_def created_nonce elim: create_benchmark_extrinsic_Inr)

section \<open>Inherent data\<close>

text \<open>
  \<open>inherent_benchmark_data\<close>: the timestamp inherent of 0 milliseconds, put into empty
  inherent data; a failure is reported with its debug form.
\<close>

record ('i, 'e) inherents_api =
  new_inherent_data :: 'i
  provide_timestamp :: "u64 \<Rightarrow> 'i \<Rightarrow> 'e + 'i"
  debug_form :: "'e \<Rightarrow> string"

definition inherent_benchmark_data :: "('i, 'e) inherents_api \<Rightarrow> string + 'i" where
  "inherent_benchmark_data I = (case provide_timestamp I 0 (new_inherent_data I) of
     Inl e \<Rightarrow> Inl (''creating inherent data: '' @ debug_form I e)
   | Inr inherent_data \<Rightarrow> Inr inherent_data)"

section \<open>What the runtime makes of the extrinsic\<close>

text \<open>
  The runtime when it checks an extrinsic: the block being executed, the block hashes the
  system pallet has, the birth block of an era, the implicit data each extension asks for
  and signature verification.
\<close>

record ('sig, 'acc, 'era, 'h, 'm) checker =
  current_block :: nat
  block_hash_at :: "nat \<Rightarrow> 'h option"
  era_birth :: "'era \<Rightarrow> nat \<Rightarrow> nat"
  implicit_data :: "'era extension \<Rightarrow> string + ('h, 'm) implicit"
  verify :: "'sig \<Rightarrow> bytes \<Rightarrow> 'acc \<Rightarrow> bool"

text \<open>Documented behaviour of the extensions: the implicit data of each.\<close>

definition extensions_ok :: "('sig, 'acc, 'era, 'h, 'm) checker \<Rightarrow> bool" where
  "extensions_ok R \<longleftrightarrow>
     implicit_data R CheckNonZeroSender = Inr NoData \<and>
     implicit_data R CheckSpecVersion = Inr (Number (spec_version (cfg_version system_config))) \<and>
     implicit_data R CheckTxVersion = Inr (Number (transaction_version (cfg_version system_config))) \<and>
     implicit_data R CheckGenesis = (case block_hash_at R 0 of
        Some h \<Rightarrow> Inr (Hash h) | None \<Rightarrow> Inl ''no genesis hash'') \<and>
     (\<forall>e. implicit_data R (CheckEra e) = (case block_hash_at R (era_birth R e (current_block R)) of
        Some h \<Rightarrow> Inr (Hash h) | None \<Rightarrow> Inl ''ancient birth block'')) \<and>
     (\<forall>n. implicit_data R (CheckNonce n) = Inr NoData) \<and>
     implicit_data R CheckWeight = Inr NoData \<and>
     (\<forall>t. implicit_data R (ChargeTransactionPayment t) = Inr NoData) \<and>
     implicit_data R (CheckMetadataHash False) = Inr (MetadataHash None) \<and>
     implicit_data R WeightReclaim = Inr NoData"

text \<open>
  Documented behaviour of eras: an era whose period is a power of two between 4 and 4096
  starts at the block it was made for and is that era until the period is over.
\<close>

definition eras_ok ::
    "('k, 'pub, 'sig, 'acc, 'call, 'era, 'h, 'm) extrinsic_api \<Rightarrow> ('sig, 'acc, 'era, 'h, 'm) checker \<Rightarrow> bool" where
  "eras_ok A R \<longleftrightarrow> (\<forall>n. number_into_u64 A n = ucast n) \<and>
     (\<forall>k p n cur. p = 2 ^ k \<and> 4 \<le> unat p \<and> unat p \<le> 4096 \<and> unat n \<le> cur \<and> cur < unat n + unat p \<longrightarrow>
        era_birth R (mortal A p n) cur = unat n)"

text \<open>
  The chain the extrinsic is executed on extends the client's: the system pallet has the
  genesis hash and the hashes of the last \<open>BlockHashCount\<close> blocks.
\<close>

definition extends_client :: "('sig, 'acc, 'era, 'h, 'm) checker \<Rightarrow> ('e, 'h) client \<Rightarrow> bool" where
  "extends_client R cl \<longleftrightarrow>
     (\<exists>h. genesis_block_hash cl = Inr (Some h) \<and> block_hash_at R 0 = Some h) \<and>
     unat (best_number cl) < current_block R \<and>
     (current_block R \<le> unat (best_number cl) + unat (block_hash_count system_config) \<longrightarrow>
        block_hash_at R (unat (best_number cl)) = Some (best_hash cl))"

fun all_implicit :: "('a \<Rightarrow> string + 'i) \<Rightarrow> 'a list \<Rightarrow> string + 'i list" where
  "all_implicit f [] = Inr []"
| "all_implicit f (e # es) = (case f e of
     Inl err \<Rightarrow> Inl err
   | Inr i \<Rightarrow> (case all_implicit f es of Inl err \<Rightarrow> Inl err | Inr is \<Rightarrow> Inr (i # is)))"

text \<open>
  The check of a signed extrinsic: its extensions are those of the runtime, their implicit
  data is available, and the signer signed the payload made of both.
\<close>

definition signature_ok ::
    "('k, 'pub, 'sig, 'acc, 'call, 'era, 'h, 'm) extrinsic_api \<Rightarrow> ('sig, 'acc, 'era, 'h, 'm) checker \<Rightarrow>
     ('call, 'acc, 'sig, 'era) unchecked_extrinsic \<Rightarrow> bool" where
  "signature_ok A R x \<longleftrightarrow> map extension_name (uxt_extension x) = TxExtension \<and>
     (case all_implicit (implicit_data R) (uxt_extension x) of
        Inl _ \<Rightarrow> False
      | Inr is \<Rightarrow> verify R (uxt_signature x) (encode_payload A (uxt_call x, uxt_extension x, is)) (uxt_signer x))"

lemma benchmark_era_birth:
  assumes "eras_ok A R" "unat n \<le> current_block R" "current_block R < unat n + 2048"
  shows "era_birth R (mortal A benchmark_period (number_into_u64 A n)) (current_block R) = unat n"
proof -
  have "unat (ucast n :: u64) = unat n"
    using unsigned_less [of n, where 'a = nat]
    by (simp add: unsigned_ucast_eq take_bit_nat_eq_self_iff)
  moreover have "era_birth R (mortal A 2048 (ucast n)) (current_block R) = unat (ucast n :: u64)"
    if "unat (ucast n :: u64) \<le> current_block R" "current_block R < unat (ucast n :: u64) + 2048"
    using assms(1) that unfolding eras_ok_def
    by (elim conjE allE [where x = 11] allE [where x = 2048] allE [where x = "ucast n"]
        allE [where x = "current_block R"] impE) auto
  ultimately show ?thesis using assms by (simp add: eras_ok_def benchmark_period_2048)
qed

text \<open>
  C32. The extrinsics the node signs for benchmarks are valid: the extensions are those of the
  runtime's \<open>TxExtension\<close> in its order, and the signature verifies against the payload the
  runtime puts together, at every block less than 2048 blocks after the client's best one
  (the era's period stays below the number of block hashes the system pallet keeps).
\<close>

theorem benchmark_extrinsic_accepted:
  assumes "extensions_ok R" "eras_ok A R" "extends_client R cl"
    and "current_block R < unat (best_number cl) + 2048"
    and "\<forall>msg. verify R (sign A sender msg) msg (account_of A (public_key A sender))"
  shows "\<exists>x. create_benchmark_extrinsic A cl sender call nonce = Inr x \<and> uxt_call x = call \<and>
    uxt_signer x = account_of A (public_key A sender) \<and> nonce_of (uxt_extension x) = Some nonce \<and>
    signature_ok A R x"
proof -
  obtain h where h: "genesis_block_hash cl = Inr (Some h)" "block_hash_at R 0 = Some h"
    using assms(3) by (auto simp: extends_client_def)
  have birth: "era_birth R (mortal A benchmark_period (number_into_u64 A (best_number cl))) (current_block R) =
      unat (best_number cl)"
    using assms(2-4) by (intro benchmark_era_birth) (auto simp: extends_client_def)
  have best: "block_hash_at R (unat (best_number cl)) = Some (best_hash cl)"
    using assms(3,4) by (auto simp: extends_client_def system_config_def)
  obtain x where x: "create_benchmark_extrinsic A cl sender call nonce = Inr x"
    using h by (simp add: create_benchmark_extrinsic_def Let_def)
  then show ?thesis
  proof (rule create_benchmark_extrinsic_Inr)
    fix h' assume "genesis_block_hash cl = Inr (Some h')" and parts: "uxt_call x = call"
      "uxt_signer x = account_of A (public_key A sender)"
      "uxt_extension x = [CheckNonZeroSender, CheckSpecVersion, CheckTxVersion, CheckGenesis,
         CheckEra (mortal A benchmark_period (number_into_u64 A (best_number cl))), CheckNonce nonce,
         CheckWeight, ChargeTransactionPayment 0, CheckMetadataHash False, WeightReclaim]"
      "uxt_signature x = sign A sender (encode_payload A (call, uxt_extension x,
         [NoData, Number (spec_version VERSION), Number (transaction_version VERSION), Hash h',
          Hash (best_hash cl), NoData, NoData, NoData, MetadataHash None, NoData]))"
    then have "signature_ok A R x"
      using assms(1,5) h birth best benchmark_extrinsic_type [OF x]
      by (simp add: signature_ok_def extensions_ok_def system_config_def)
    with x parts created_nonce [OF x] show ?thesis by blast
  qed
qed

text \<open>
  A client and a checker for the witness: best block 1000, executed as block 2500; an account
  is its key, a signature the pair of key and message, and the implicit data is encoded.
\<close>

fun demo_encode :: "(nat, nat) implicit \<Rightarrow> bytes" where
  "demo_encode NoData = []"
| "demo_encode (Number n) = [ucast n]"
| "demo_encode (Hash h) = [of_nat h]"
| "demo_encode (MetadataHash m) = (case m of None \<Rightarrow> [0] | Some h \<Rightarrow> [1, of_nat h])"

definition demo_api ::
    "(nat, nat, nat \<times> bytes, nat, nat node_call, u64 \<times> u64, nat, nat) extrinsic_api" where
  "demo_api = \<lparr>mortal = Pair, number_into_u64 = ucast, public_key = id, account_of = id,
     encode_payload = (\<lambda>(c, es, is). concat (map demo_encode is)), sign = Pair\<rparr>"

definition demo_client :: "(unit, nat) client" where
  "demo_client = \<lparr>genesis_block_hash = Inr (Some 7), best_hash = 1007, best_number = 1000\<rparr>"

definition demo_checker :: "(nat \<times> bytes, nat, u64 \<times> u64, nat, nat) checker" where
  "demo_checker = \<lparr>current_block = 2500, block_hash_at = (\<lambda>n. Some (n + 7)),
     era_birth = (\<lambda>(p, n) cur. unat n),
     implicit_data = (\<lambda>e. case e of
        CheckSpecVersion \<Rightarrow> Inr (Number 100)
      | CheckTxVersion \<Rightarrow> Inr (Number 1)
      | CheckGenesis \<Rightarrow> Inr (Hash 7)
      | CheckEra (p, n) \<Rightarrow> Inr (Hash (unat n + 7))
      | CheckMetadataHash m \<Rightarrow> Inr (MetadataHash None)
      | _ \<Rightarrow> Inr NoData),
     verify = (\<lambda>sg msg a. sg = (a, msg))\<rparr>"

lemma demo_laws:
  "extensions_ok demo_checker" "eras_ok demo_api demo_checker" "extends_client demo_checker demo_client"
  "\<forall>msg. verify demo_checker (sign demo_api k msg) msg (account_of demo_api (public_key demo_api k))"
  by (auto simp: extensions_ok_def eras_ok_def extends_client_def demo_checker_def demo_api_def
      demo_client_def system_config_def VERSION_def split: prod.split)

theorem benchmark_extrinsic_accepted_witness:
  "\<exists>x. create_benchmark_extrinsic demo_api demo_client 3 (Remark []) 0 = Inr x \<and> uxt_signer x = 3 \<and>
     uxt_signature x = (3, [100, 1, 7, 239, 0]) \<and> signature_ok demo_api demo_checker x"
proof -
  have "current_block demo_checker < unat (best_number demo_client) + 2048"
    by (simp add: demo_checker_def demo_client_def)
  from benchmark_extrinsic_accepted [OF demo_laws(1,2,3) this demo_laws(4), of 3 "Remark []" 0]
  obtain x where x: "create_benchmark_extrinsic demo_api demo_client 3 (Remark []) 0 = Inr x"
      "uxt_signer x = account_of demo_api (public_key demo_api 3)" "signature_ok demo_api demo_checker x"
    by blast
  from x(1) have "uxt_signature x = (3, [100, 1, 7, 239, 0])"
    by (rule create_benchmark_extrinsic_Inr)
       (simp add: demo_api_def demo_client_def VERSION_def)
  with x show ?thesis by (auto simp: demo_api_def)
qed

text \<open>
  The two builders fill blocks with different extrinsics: for different nonces, the
  extrinsics of both builders together are pairwise different, each calls what its builder
  is registered under, and all are signed by the same account (Bob's).
\<close>

theorem builders_extrinsics_distinct:
  assumes "distinct ns"
    and "map (build_extrinsic (RemarkBuilder A cl bob)) ns = map Inr xs"
    and "map (build_extrinsic (TransferKeepAliveBuilder A cl bob dest v)) ns = map Inr ys"
  shows "distinct (xs @ ys) \<and>
    (\<forall>x \<in> set xs. call_path (uxt_call x) = (''system'', ''remark'')) \<and>
    (\<forall>y \<in> set ys. call_path (uxt_call y) = (''balances'', ''transfer_keep_alive'')) \<and>
    (\<forall>x \<in> set (xs @ ys). uxt_signer x = account_of A (public_key A bob))"
proof -
  have xs: "call_path (uxt_call x) = (''system'', ''remark'') \<and> uxt_signer x = account_of A (public_key A bob)"
    if x: "x \<in> set xs" for x
    using remark.built [OF assms(2) x] by (simp add: RemarkBuilder_def)
  have ys: "call_path (uxt_call y) = (''balances'', ''transfer_keep_alive'') \<and>
      uxt_signer y = account_of A (public_key A bob)"
    if y: "y \<in> set ys" for y
    using transfer_keep_alive.built [OF assms(3) y] by (simp add: TransferKeepAliveBuilder_def)
  have "distinct xs" "distinct ys"
    using remark.builds_distinct [OF assms(1,2)] transfer_keep_alive.builds_distinct [OF assms(1,3)] by blast+
  moreover have "set xs \<inter> set ys = {}" using xs ys by fastforce
  ultimately show ?thesis using xs ys by auto
qed

theorem builders_extrinsics_distinct_witness:
  "\<exists>xs ys. map (build_extrinsic (RemarkBuilder demo_api demo_client 3)) [0, 1] = map Inr xs \<and>
     map (build_extrinsic (TransferKeepAliveBuilder demo_api demo_client 3 4 EXISTENTIAL_DEPOSIT)) [0, 1] = map Inr ys \<and>
     distinct (xs @ ys) \<and> length (xs @ ys) = 4"
proof -
  have ok: "\<exists>x. create_benchmark_extrinsic demo_api demo_client 3 c n = Inr x" for c n
    by (simp add: create_benchmark_extrinsic_def demo_client_def Let_def)
  obtain a b where ab: "create_benchmark_extrinsic demo_api demo_client 3 (Remark []) 0 = Inr a"
      "create_benchmark_extrinsic demo_api demo_client 3 (Remark []) 1 = Inr b"
    using ok by metis
  obtain c d where cd:
      "create_benchmark_extrinsic demo_api demo_client 3 (TransferKeepAlive 4 EXISTENTIAL_DEPOSIT) 0 = Inr c"
      "create_benchmark_extrinsic demo_api demo_client 3 (TransferKeepAlive 4 EXISTENTIAL_DEPOSIT) 1 = Inr d"
    using ok by metis
  have xs: "map (build_extrinsic (RemarkBuilder demo_api demo_client 3)) [0, 1] = map Inr [a, b]"
    using ab by (simp add: RemarkBuilder_def)
  have ys: "map (build_extrinsic (TransferKeepAliveBuilder demo_api demo_client 3 4 EXISTENTIAL_DEPOSIT)) [0, 1] =
      map Inr [c, d]"
    using cd by (simp add: TransferKeepAliveBuilder_def)
  have "distinct ([a, b] @ [c, d])" using builders_extrinsics_distinct [OF _ xs ys] by simp
  with xs ys show ?thesis by (intro exI [where x = "[a, b]"] exI [where x = "[c, d]"]) simp
qed

end
