(* ===== verification/Node_Command.thy ===== *)
theory Node_Command
  imports Node_Service_Properties Node_Benchmarking
begin

text \<open>
  The command line (\<open>node/src/cli.rs\<close> and \<open>run\<close> of \<open>node/src/command.rs\<close>).  A command is an
  object of \<open>sc_cli\<close> or \<open>frame_benchmarking_cli\<close>; creating a runner for it and running it are
  host calls.  The three ways a runner runs a closure are parameters.
\<close>

section \<open>The command line\<close>

datatype 'v benchmark_cmd =
    BenchPallet 'v
  | BenchBlock 'v
  | BenchStorage 'v
  | BenchOverhead 'v
  | BenchExtrinsic 'v
  | BenchMachine 'v

datatype 'v subcommand =
    Key 'v
  | BuildSpec 'v
  | CheckBlock 'v
  | ExportBlocks 'v
  | ExportState 'v
  | ImportBlocks 'v
  | PurgeChain 'v
  | Revert 'v
  | Benchmark 'v "'v benchmark_cmd"
  | ChainInfo 'v

text \<open>\<open>Cli\<close>, with itself as the object that the key commands are given.\<close>

record 'v cli =
  subcommand :: "'v subcommand option"
  run_cmd :: 'v
  cli_object :: 'v

text \<open>
  What the commands use besides the host: the runner's methods, the build's feature flag, the
  network backend of a configuration that names none, the conversion of a message into an
  error, what \<open>inherent_benchmark_data\<close> uses, Alice's account and the reference hardware.
\<close>

record ('s, 'v, 'e, 'x) cli_env =
  sync_run :: "'v \<Rightarrow> ('v configuration \<Rightarrow> ('s, 'v, 'e, unit) service_action) \<Rightarrow> ('s, 'v, 'e, unit) service_action"
  async_run :: "'v \<Rightarrow> ('v configuration \<Rightarrow> ('s, 'v, 'e, 'v \<times> 'v) service_action) \<Rightarrow> ('s, 'v, 'e, unit) service_action"
  run_node_until_exit :: "'v \<Rightarrow> ('v configuration \<Rightarrow> ('s, 'v, 'e, 'v) service_action) \<Rightarrow> ('s, 'v, 'e, unit) service_action"
  runtime_benchmarks :: bool
  default_backend :: network_backend
  message_error :: "string \<Rightarrow> 'e"
  inherents_api :: "('v, 'x) inherents_api"
  alice_account :: 'v
  reference_hardware :: 'v

section \<open>Running a command\<close>

definition with_runner ::
    "('s, 'v, 'e) host \<Rightarrow> 'v \<Rightarrow> ('v \<Rightarrow> ('s, 'v, 'e, 'a) service_action) \<Rightarrow> ('s, 'v, 'e, 'a) service_action" where
  "with_runner H cmd body = try_then (attempt H (Create_runner cmd)) (\<lambda>runner. body (runner 0))"

text \<open>\<open>cmd.run(..)\<close> as a result, and as a future paired with the task manager.\<close>

definition run_now :: "('s, 'v, 'e) host \<Rightarrow> string \<Rightarrow> 'v argument list \<Rightarrow> ('s, 'v, 'e, unit) service_action" where
  "run_now H name args = try_then (attempt H (Command_run name args)) (\<lambda>_. done_with ())"

definition run_later ::
    "('s, 'v, 'e) host \<Rightarrow> string \<Rightarrow> 'v argument list \<Rightarrow> 'v \<Rightarrow> ('s, 'v, 'e, 'v \<times> 'v) service_action" where
  "run_later H name args task_manager =
     try_then (perform H (Command_run name args)) (\<lambda>future. done_with (future 0, task_manager))"

definition benchmark_inherents :: "('s, 'v, 'e, 'x) cli_env \<Rightarrow> ('s, 'v, 'e, 'v) service_action" where
  "benchmark_inherents E = (case inherent_benchmark_data (inherents_api E) of
     Inl message \<Rightarrow> fail_with (Service_error (message_error E message))
   | Inr inherent_data \<Rightarrow> done_with inherent_data)"

fun run_benchmark ::
    "('s, 'v, 'e, 'x) cli_env \<Rightarrow> ('s, 'v, 'e) host \<Rightarrow> 'v benchmark_cmd \<Rightarrow> 'v configuration \<Rightarrow>
     ('s, 'v, 'e, unit) service_action" where
  "run_benchmark E H (BenchPallet cmd) config =
     (if \<not> runtime_benchmarks E
      then fail_with (Service_error (message_error E
        ''Runtime benchmarking wasn't enabled when building the node. You can enable it with `--features runtime-benchmarks`.''))
      else run_now H ''benchmark pallet'' [Object cmd, Object (cfg_chain_spec config)])"
| "run_benchmark E H (BenchBlock cmd) config =
     try_then (new_partial H config) (\<lambda>pc.
     run_now H ''benchmark block'' [Object cmd, Object (pc_client pc)])"
| "run_benchmark E H (BenchStorage cmd) config =
     (if \<not> runtime_benchmarks E
      then fail_with (Service_error (message_error E
        ''Storage benchmarking can be enabled with `--features runtime-benchmarks`.''))
      else try_then (new_partial H config) (\<lambda>pc.
        let db = access_host H Expose_db (pc_backend pc); storage = access_host H Expose_storage (pc_backend pc) in
        run_now H ''benchmark storage'' [Object cmd, Whole_configuration config, Object (pc_client pc),
          Object db, Object storage]))"
| "run_benchmark E H (BenchOverhead cmd) config =
     try_then (new_partial H config) (\<lambda>pc.
     try_then (benchmark_inherents E) (\<lambda>inherent_data.
     run_now H ''benchmark overhead'' [Object cmd, Object (access_host H Chain_spec_name (cfg_chain_spec config)),
       Object (pc_client pc), Object inherent_data, Digest_items [],
       Extrinsics [Remark_source (pc_client pc)], Flag False]))"
| "run_benchmark E H (BenchExtrinsic cmd) config =
     try_then (new_partial H config) (\<lambda>pc.
     let ext_factory = [Remark_source (pc_client pc),
           Transfer_keep_alive_source (pc_client pc) (alice_account E) EXISTENTIAL_DEPOSIT] in
     try_then (benchmark_inherents E) (\<lambda>inherent_data.
     run_now H ''benchmark extrinsic'' [Object cmd, Object (pc_client pc), Object inherent_data,
       Digest_items [], Extrinsics ext_factory]))"
| "run_benchmark E H (BenchMachine cmd) config =
     run_now H ''benchmark machine'' [Object cmd, Whole_configuration config, Object (reference_hardware E)]"

fun run_subcommand ::
    "('s, 'v, 'e, 'x) cli_env \<Rightarrow> ('s, 'v, 'e) host \<Rightarrow> 'v cli \<Rightarrow> 'v subcommand \<Rightarrow> ('s, 'v, 'e, unit) service_action" where
  "run_subcommand E H c (Key cmd) = run_now H ''key'' [Object cmd, Object (cli_object c)]"
| "run_subcommand E H c (BuildSpec cmd) =
     with_runner H cmd (\<lambda>runner. sync_run E runner (\<lambda>config.
       run_now H ''build-spec'' [Object cmd, Object (cfg_chain_spec config), Object (cfg_network config)]))"
| "run_subcommand E H c (CheckBlock cmd) =
     with_runner H cmd (\<lambda>runner. async_run E runner (\<lambda>config.
       try_then (new_partial H config) (\<lambda>pc.
       run_later H ''check-block'' [Object cmd, Object (pc_client pc), Object (pc_import_queue pc)]
         (pc_task_manager pc))))"
| "run_subcommand E H c (ExportBlocks cmd) =
     with_runner H cmd (\<lambda>runner. async_run E runner (\<lambda>config.
       try_then (new_partial H config) (\<lambda>pc.
       run_later H ''export-blocks'' [Object cmd, Object (pc_client pc), Object (cfg_database config)]
         (pc_task_manager pc))))"
| "run_subcommand E H c (ExportState cmd) =
     with_runner H cmd (\<lambda>runner. async_run E runner (\<lambda>config.
       try_then (new_partial H config) (\<lambda>pc.
       run_later H ''export-state'' [Object cmd, Object (pc_client pc), Object (cfg_chain_spec config)]
         (pc_task_manager pc))))"
| "run_subcommand E H c (ImportBlocks cmd) =
     with_runner H cmd (\<lambda>runner. async_run E runner (\<lambda>config.
       try_then (new_partial H config) (\<lambda>pc.
       run_later H ''import-blocks'' [Object cmd, Object (pc_client pc), Object (pc_import_queue pc)]
         (pc_task_manager pc))))"
| "run_subcommand E H c (PurgeChain cmd) =
     with_runner H cmd (\<lambda>runner. sync_run E runner (\<lambda>config.
       run_now H ''purge-chain'' [Object cmd, Object (cfg_database config)]))"
| "run_subcommand E H c (Revert cmd) =
     with_runner H cmd (\<lambda>runner. async_run E runner (\<lambda>config.
       try_then (new_partial H config) (\<lambda>pc.
       run_later H ''revert'' [Object cmd, Object (pc_client pc), Object (pc_backend pc), Grandpa_revert]
         (pc_task_manager pc))))"
| "run_subcommand E H c (Benchmark cmd bench) =
     with_runner H cmd (\<lambda>runner. sync_run E runner (\<lambda>config. run_benchmark E H bench config))"
| "run_subcommand E H c (ChainInfo cmd) =
     with_runner H cmd (\<lambda>runner. sync_run E runner (\<lambda>config.
       run_now H ''chain-info'' [Object cmd, Whole_configuration config]))"

definition run :: "('s, 'v, 'e, 'x) cli_env \<Rightarrow> ('s, 'v, 'e) host \<Rightarrow> 'v cli \<Rightarrow> ('s, 'v, 'e, unit) service_action" where
  "run E H c = (case subcommand c of
     Some s \<Rightarrow> run_subcommand E H c s
   | None \<Rightarrow> with_runner H (run_cmd c) (\<lambda>runner. run_node_until_exit E runner (\<lambda>config.
       case (case cfg_network_backend config of None \<Rightarrow> default_backend E | Some b \<Rightarrow> b) of
         Libp2p \<Rightarrow> new_full H Libp2p config
       | Litep2p \<Rightarrow> new_full H Litep2p config)))"

end
