(* ===== verification/Node_Command_Properties.thy ===== *)
theory Node_Command_Properties
  imports Node_Command
begin

text \<open>
  What the subcommands do to the node: which of them open the client's database, that none of
  them joins the network, and what running without a subcommand starts.
\<close>

section \<open>Runners\<close>

text \<open>
  Documented behaviour of a runner: it calls its closure once, with the configuration of the
  command; a synchronous run returns what the closure returns, the other two go on to drive
  the future or the node, without further calls of the service.
\<close>

definition runner_ok :: "('s, 'v, 'e, 'x) cli_env \<Rightarrow> bool" where
  "runner_ok E \<longleftrightarrow>
     (\<forall>r f s. \<exists>cfg. sync_run E r f s = f cfg s) \<and>
     (\<forall>r f s. \<exists>cfg. trace (snd (async_run E r f s)) = trace (snd (f cfg s))) \<and>
     (\<forall>r f s. \<exists>cfg. trace (snd (run_node_until_exit E r f s)) = trace (snd (f cfg s)))"

lemma calls_onlyI:
  "(\<And>s. \<exists>cs. trace (snd (m s)) = trace s @ cs \<and> list_all P cs) \<Longrightarrow> calls_only P m"
  unfolding calls_only_def by (metis snd_conv)

lemma calls_only_run:
  assumes "calls_only P m"
  shows "\<exists>cs. trace (snd (m s)) = trace s @ cs \<and> list_all P cs"
  using assms unfolding calls_only_def by (metis prod.collapse)

lemma calls_only_sync:
  assumes "runner_ok E" "\<And>cfg. calls_only P (f cfg)"
  shows "calls_only P (sync_run E r f)"
proof (rule calls_onlyI)
  fix s obtain cfg where "sync_run E r f s = f cfg s" using assms(1) unfolding runner_ok_def by blast
  then show "\<exists>cs. trace (snd (sync_run E r f s)) = trace s @ cs \<and> list_all P cs"
    using calls_only_run [OF assms(2)] by simp
qed

lemma calls_only_async:
  assumes "runner_ok E" "\<And>cfg. calls_only P (f cfg)"
  shows "calls_only P (async_run E r f)"
proof (rule calls_onlyI)
  fix s obtain cfg where "trace (snd (async_run E r f s)) = trace (snd (f cfg s))"
    using assms(1) unfolding runner_ok_def by blast
  then show "\<exists>cs. trace (snd (async_run E r f s)) = trace s @ cs \<and> list_all P cs"
    using calls_only_run [OF assms(2)] by simp
qed

section \<open>Subcommands\<close>

fun benchmark_opens_client :: "bool \<Rightarrow> 'v benchmark_cmd \<Rightarrow> bool" where
  "benchmark_opens_client feature (BenchPallet cmd) = False"
| "benchmark_opens_client feature (BenchStorage cmd) = feature"
| "benchmark_opens_client feature (BenchMachine cmd) = False"
| "benchmark_opens_client feature b = True"

fun opens_client :: "bool \<Rightarrow> 'v subcommand \<Rightarrow> bool" where
  "opens_client feature (Key cmd) = False"
| "opens_client feature (BuildSpec cmd) = False"
| "opens_client feature (PurgeChain cmd) = False"
| "opens_client feature (ChainInfo cmd) = False"
| "opens_client feature (Benchmark cmd b) = benchmark_opens_client feature b"
| "opens_client feature c = True"

text \<open>Calls that take part in the network or in consensus, and calls of the command line itself.\<close>

definition offline :: "'v host_call \<Rightarrow> bool" where
  "offline c \<longleftrightarrow> call_name c \<notin> {''build_network'', ''spawn_tasks'', ''OffchainWorkers::new'', ''start_aura'',
     ''spawn aura'', ''run_grandpa_voter'', ''spawn grandpa-voter''}"

definition command_call :: "'v host_call \<Rightarrow> bool" where
  "command_call c \<longleftrightarrow> (case c of Create_runner cmd \<Rightarrow> True | Command_run n args \<Rightarrow> True | _ \<Rightarrow> False)"

lemma command_call_offline: "command_call c \<Longrightarrow> offline c"
  by (auto simp: command_call_def offline_def split: host_call.splits)

lemma offline_new_partial: "calls_only offline (new_partial H cfg)"
  unfolding new_partial_def make_telemetry_def spawn_telemetry_def Let_def
  by (intro call_rules; simp add: offline_def)

lemma calls_only_fail [call_rules]: "calls_only P (fail_with e)"
  by (simp add: calls_only_def fail_with_def)

lemma calls_only_inherents [call_rules]: "calls_only P (benchmark_inherents E)"
  by (auto simp: benchmark_inherents_def intro!: call_rules split: sum.split)

lemma command_run_now [call_rules]: "(\<And>c. command_call c \<Longrightarrow> P c) \<Longrightarrow> calls_only P (run_now H n args)"
  by (auto simp: run_now_def command_call_def intro!: call_rules)

lemma command_run_later [call_rules]: "(\<And>c. command_call c \<Longrightarrow> P c) \<Longrightarrow> calls_only P (run_later H n args tm)"
  by (auto simp: run_later_def command_call_def intro!: call_rules)

lemma command_with_runner:
  "(\<And>c. command_call c \<Longrightarrow> P c) \<Longrightarrow> (\<And>r. calls_only P (body r)) \<Longrightarrow> calls_only P (with_runner H cmd body)"
  by (auto simp: with_runner_def command_call_def intro!: call_rules)

lemmas command_rules = command_with_runner calls_only_sync calls_only_async call_rules offline_new_partial
  command_call_offline

lemma benchmark_offline: "calls_only offline (run_benchmark E H b cfg)"
  by (cases b; simp add: Let_def; intro conjI impI command_rules)

lemma subcommand_offline:
  assumes "runner_ok E"
  shows "calls_only offline (run_subcommand E H c sub)"
  using assms by (cases sub; simp; intro command_rules benchmark_offline)

lemma benchmark_commands:
  "\<not> benchmark_opens_client (runtime_benchmarks E) b \<Longrightarrow> calls_only command_call (run_benchmark E H b cfg)"
  by (cases b; simp; intro conjI impI call_rules)

lemma subcommand_commands:
  assumes "runner_ok E" "\<not> opens_client (runtime_benchmarks E) sub"
  shows "calls_only command_call (run_subcommand E H c sub)"
  using assms by (cases sub; simp; intro command_with_runner calls_only_sync call_rules benchmark_commands)

section \<open>Properties\<close>

text \<open>A command line whose runners just run the closure with one configuration.\<close>

definition plain_env :: "bool \<Rightarrow> nat configuration \<Rightarrow> (unit, nat, nat, unit) cli_env" where
  "plain_env feature cfg = \<lparr>
     sync_run = (\<lambda>r f. f cfg),
     async_run = (\<lambda>r f. try_then (f cfg) (\<lambda>_. done_with ())),
     run_node_until_exit = (\<lambda>r f. try_then (f cfg) (\<lambda>_. done_with ())),
     runtime_benchmarks = feature, default_backend = Libp2p, message_error = size,
     inherents_api = \<lparr>new_inherent_data = 0, provide_timestamp = (\<lambda>t i. Inr i), debug_form = (\<lambda>_. [])\<rparr>,
     alice_account = 1, reference_hardware = 2\<rparr>"

lemma snd_try_then_done: "trace (snd (try_then m (\<lambda>_. done_with ()) s)) = trace (snd (m s))"
  by (simp add: try_then_def done_with_def split: prod.split sum.split)

lemma runner_ok_plain: "runner_ok (plain_env feature cfg)"
  by (auto simp: runner_ok_def plain_env_def snd_try_then_done)

text \<open>
  C33. Only running without a subcommand makes the node part of the network: no subcommand, on
  any outcome, builds the network, starts the service's tasks, offchain workers, Aura or
  GRANDPA; and the subcommands for keys, chain specification, purging, chain information,
  pallet and machine benchmarks (and storage benchmarks without the feature) do not even
  open the client: they create their runner and run, nothing else.
\<close>

theorem subcommands_stay_offline:
  assumes "runner_ok E" "subcommand c = Some sub"
    and "run E H c \<lparr>world = w, trace = []\<rparr> = (r, t)"
  shows "list_all offline (trace t) \<and>
    (opens_client (runtime_benchmarks E) sub \<or> list_all command_call (trace t))"
proof -
  have run: "run_subcommand E H c sub \<lparr>world = w, trace = []\<rparr> = (r, t)"
    using assms(2,3) by (simp add: run_def)
  have "list_all offline (trace t)"
    by (rule calls_onlyD [OF subcommand_offline [OF assms(1)] run]) simp
  moreover have "list_all command_call (trace t)" if "\<not> opens_client (runtime_benchmarks E) sub"
    by (rule calls_onlyD [OF subcommand_commands [OF assms(1) that] run]) simp
  ultimately show ?thesis by blast
qed

theorem subcommands_stay_offline_witness:
  "\<exists>r t. run (plain_env False (node_config 1)) willing_host
        \<lparr>subcommand = Some (PurgeChain 5), run_cmd = 0, cli_object = 0\<rparr> \<lparr>world = (), trace = []\<rparr> = (r, t) \<and>
     trace t = [Create_runner 5, Command_run ''purge-chain'' [Object 5, Object 0]] \<and> list_all command_call (trace t)"
proof -
  let ?c = "\<lparr>subcommand = Some (PurgeChain 5), run_cmd = 0, cli_object = 0\<rparr> :: nat cli"
  obtain r t where run: "run (plain_env False (node_config 1)) willing_host ?c \<lparr>world = (), trace = []\<rparr> = (r, t)"
    by (cases "run (plain_env False (node_config 1)) willing_host ?c \<lparr>world = (), trace = []\<rparr>")
  then have "trace t = [Create_runner 5, Command_run ''purge-chain'' [Object 5, Object 0]]"
    by (auto simp: run_def with_runner_def run_now_def plain_env_def try_then_def done_with_def attempt_def
        willing_host_def node_config_def)
  with run subcommands_stay_offline [OF runner_ok_plain _ run] show ?thesis by simp
qed

text \<open>
  Without the \<open>runtime-benchmarks\<close> feature the pallet and storage benchmarks are refused
  before anything is opened: once the runner is created, the command returns the message as
  its error and has made no other call.
\<close>

lemma benchmarks_need_feature:
  assumes "runner_ok E" "\<not> runtime_benchmarks E"
    and "subcommand c = Some (Benchmark cmd b)" "b = BenchPallet x \<or> b = BenchStorage x"
    and "run E H c \<lparr>world = w, trace = []\<rparr> = (r, t)"
  shows "trace t = [Create_runner cmd] \<and>
    (case fst (try_host H (Create_runner cmd) w) of
       Inl e \<Rightarrow> r = Inl (Service_error e)
     | Inr _ \<Rightarrow> r = Inl (Service_error (message_error E (case b of
         BenchPallet _ \<Rightarrow> ''Runtime benchmarking wasn't enabled when building the node. You can enable it with `--features runtime-benchmarks`.''
       | _ \<Rightarrow> ''Storage benchmarking can be enabled with `--features runtime-benchmarks`.''))))"
proof -
  obtain res w1 where host: "try_host H (Create_runner cmd) w = (res, w1)"
    by (cases "try_host H (Create_runner cmd) w")
  have "\<exists>cfg. sync_run E q (\<lambda>config. run_benchmark E H b config) s = run_benchmark E H b cfg s" for q s
    using assms(1) unfolding runner_ok_def by blast
  moreover have "run_benchmark E H b cfg s = (Inl (Service_error (message_error E (case b of
         BenchPallet _ \<Rightarrow> ''Runtime benchmarking wasn't enabled when building the node. You can enable it with `--features runtime-benchmarks`.''
       | _ \<Rightarrow> ''Storage benchmarking can be enabled with `--features runtime-benchmarks`.''))), s)" for cfg s
    using assms(2,4) by (auto simp: fail_with_def)
  ultimately show ?thesis
    using assms(3,5) host
    by (cases res) (auto simp: run_def with_runner_def try_then_def attempt_def)
qed

lemma benchmarks_need_feature_witness:
  "fst (run (plain_env False (node_config 1)) willing_host
     \<lparr>subcommand = Some (Benchmark 5 (BenchStorage 6)), run_cmd = 0, cli_object = 0\<rparr> \<lparr>world = (), trace = []\<rparr>) =
   Inl (Service_error 73)"
proof -
  let ?c = "\<lparr>subcommand = Some (Benchmark 5 (BenchStorage 6)), run_cmd = 0, cli_object = 0\<rparr> :: nat cli"
  obtain r t where run: "run (plain_env False (node_config 1)) willing_host ?c \<lparr>world = (), trace = []\<rparr> = (r, t)"
    by (cases "run (plain_env False (node_config 1)) willing_host ?c \<lparr>world = (), trace = []\<rparr>")
  have "\<not> runtime_benchmarks (plain_env False (node_config 1))" by (simp add: plain_env_def)
  from benchmarks_need_feature [OF runner_ok_plain this _ _ run, of 5 "BenchStorage 6" 6] run
  show ?thesis by (simp add: willing_host_def plain_env_def)
qed

text \<open>The network implementation a call of the service is made for.\<close>

fun for_backend :: "network_backend \<Rightarrow> 'v host_call \<Rightarrow> bool" where
  "for_backend N (Full_network_configuration b n r) \<longleftrightarrow> b = N"
| "for_backend N (Register_notification_metrics b r) \<longleftrightarrow> b = N"
| "for_backend N c \<longleftrightarrow> True"

lemma backend_new_full: "calls_only (for_backend N) (new_full H N cfg)"
  unfolding new_full_def new_partial_def make_telemetry_def spawn_telemetry_def start_network_def
    start_offchain_workers_def start_core_tasks_def start_authoring_def start_grandpa_def Let_def
  by (intro call_rules; simp)

definition chosen_backend :: "('s, 'v, 'e, 'x) cli_env \<Rightarrow> 'v configuration \<Rightarrow> network_backend" where
  "chosen_backend E cfg = (case cfg_network_backend cfg of None \<Rightarrow> default_backend E | Some b \<Rightarrow> b)"

lemma run_node_full:
  "(case chosen_backend E cfg of Libp2p \<Rightarrow> new_full H Libp2p cfg | Litep2p \<Rightarrow> new_full H Litep2p cfg) =
     new_full H (chosen_backend E cfg) cfg"
  by (cases "chosen_backend E cfg") simp_all

text \<open>
  Running without a subcommand starts the full node on the configured network backend, or
  the default one: the calls made are creating the runner and then a beginning of the startup
  plan of the configuration the runner has.
\<close>

theorem no_subcommand_runs_node:
  assumes "runner_ok E" "subcommand c = None"
    and "run E H c \<lparr>world = w, trace = []\<rparr> = (r, t)"
  shows "\<exists>cfg. prefix (map call_name (trace t)) (''create_runner'' # plan_of H cfg) \<and>
    list_all (for_backend (chosen_backend E cfg)) (trace t)"
proof (cases "try_host H (Create_runner (run_cmd c)) w")
  case (Pair res w1)
  let ?s = "\<lparr>world = w1, trace = [Create_runner (run_cmd c)]\<rparr>"
  show ?thesis
  proof (cases res)
    case (Inl e)
    then have "trace t = [Create_runner (run_cmd c)]"
      using assms(2,3) Pair by (auto simp: run_def with_runner_def try_then_def attempt_def)
    then show ?thesis by simp
  next
    case (Inr v)
    have "run E H c \<lparr>world = w, trace = []\<rparr> =
        run_node_until_exit E (v 0) (\<lambda>config. new_full H (chosen_backend E config) config) ?s"
      using assms(2) Pair Inr
      by (simp add: run_def with_runner_def try_then_def attempt_def run_node_full
          flip: chosen_backend_def)
    moreover obtain cfg where "trace (snd (run_node_until_exit E (v 0)
        (\<lambda>config. new_full H (chosen_backend E config) config) ?s)) =
        trace (snd (new_full H (chosen_backend E cfg) cfg ?s))"
      using assms(1) unfolding runner_ok_def by blast
    ultimately have t: "trace t = trace (snd (new_full H (chosen_backend E cfg) cfg ?s))"
      using assms(3) by (metis snd_conv)
    obtain q u where full: "new_full H (chosen_backend E cfg) cfg ?s = (q, u)"
      by (cases "new_full H (chosen_backend E cfg) cfg ?s")
    obtain cs where "trace u = [Create_runner (run_cmd c)] @ cs" "outcome H (plan_of H cfg) (\<lambda>_. True) q (world u) cs"
      by (rule followsE [OF follows_new_full full]) simp
    moreover obtain ds where "trace u = [Create_runner (run_cmd c)] @ ds"
        "list_all (for_backend (chosen_backend E cfg)) ds"
      using calls_only_run [OF backend_new_full, of H "chosen_backend E cfg" cfg ?s] full by auto
    ultimately show ?thesis
      using t full by (intro exI [where x = cfg]) (auto simp: outcome_def split: sum.splits failure.splits)
  qed
qed

theorem no_subcommand_runs_node_witness:
  "\<exists>r t cfg. run (plain_env False (node_config 1)) willing_host
        \<lparr>subcommand = None, run_cmd = 0, cli_object = 0\<rparr> \<lparr>world = (), trace = []\<rparr> = (r, t) \<and>
     prefix (map call_name (trace t)) (''create_runner'' # plan_of willing_host cfg)"
proof -
  let ?c = "\<lparr>subcommand = None, run_cmd = 0, cli_object = 0\<rparr> :: nat cli"
  obtain r t where run: "run (plain_env False (node_config 1)) willing_host ?c \<lparr>world = (), trace = []\<rparr> = (r, t)"
    by (cases "run (plain_env False (node_config 1)) willing_host ?c \<lparr>world = (), trace = []\<rparr>")
  with no_subcommand_runs_node [OF runner_ok_plain _ run] show ?thesis by auto
qed

end
