(* ===== verification/Build_Scripts.thy ===== *)
theory Build_Scripts
  imports Node_Command
begin

text \<open>
  The entry point of the node and the build scripts (\<open>node/src/main.rs\<close>, \<open>node/build.rs\<close>,
  \<open>runtime/build.rs\<close>).  A build script is the list of calls it makes to the build crates; the
  runtime's is chosen by the features it is compiled with.
\<close>

section \<open>Entry point\<close>

text \<open>
  \<open>main\<close> is \<open>command::run\<close>; the process exits with 0 on \<open>Ok\<close>, 1 on \<open>Err\<close> and 101 on a
  panic, as the Rust standard library defines.
\<close>

definition node_main ::
    "('s, 'v, 'e, 'x) cli_env \<Rightarrow> ('s, 'v, 'e) host \<Rightarrow> 'v cli \<Rightarrow> ('s, 'v, 'e, unit) service_action" where
  "node_main E H c = run E H c"

fun exit_code :: "'e failure + unit \<Rightarrow> nat" where
  "exit_code (Inr u) = 0"
| "exit_code (Inl (Service_error e)) = 1"
| "exit_code (Inl (Panicked msg)) = 101"

text \<open>
  The strings \<open>impl_version\<close>, \<open>description\<close> and \<open>author\<close> are environment variables at build
  time (\<open>env!\<close>); the first is set by the node's build script.
\<close>

definition impl_version :: "(string \<Rightarrow> string) \<Rightarrow> string" where
  "impl_version build_env = build_env ''SUBSTRATE_CLI_IMPL_VERSION''"

definition description :: "(string \<Rightarrow> string) \<Rightarrow> string" where
  "description build_env = build_env ''CARGO_PKG_DESCRIPTION''"

definition author :: "(string \<Rightarrow> string) \<Rightarrow> string" where
  "author build_env = build_env ''CARGO_PKG_AUTHORS''"

section \<open>Build scripts\<close>

datatype build_step =
    Generate_cargo_keys
  | Rerun_if_git_head_changed
  | Wasm_init_with_defaults
  | Wasm_enable_metadata_hash string nat
  | Wasm_build
  | Wasm_build_using_defaults

definition node_build :: "build_step list" where
  "node_build = [Generate_cargo_keys, Rerun_if_git_head_changed]"

definition runtime_build :: "bool \<Rightarrow> bool \<Rightarrow> build_step list" where
  "runtime_build std metadata_hash =
     (if std \<and> metadata_hash
      then [Wasm_init_with_defaults, Wasm_enable_metadata_hash ''UNIT'' 12, Wasm_build]
      else if std \<and> \<not> metadata_hash then [Wasm_build_using_defaults]
      else [])"

text \<open>The wasm is built exactly in a native build, once.\<close>

lemma wasm_built:
  "std \<longleftrightarrow> set (runtime_build std metadata_hash) \<inter> {Wasm_build, Wasm_build_using_defaults} \<noteq> {}"
  by (cases std; cases metadata_hash) (simp_all add: runtime_build_def)

text \<open>
  The token symbol and decimals hashed into the metadata are those of the currency: \<open>UNIT\<close>
  is ten to the power of the decimals.
\<close>

lemma metadata_hash_unit:
  assumes "Wasm_enable_metadata_hash token_symbol decimals \<in> set (runtime_build std metadata_hash)"
  shows "token_symbol = ''UNIT'' \<and> unat UNIT = 10 ^ decimals"
  using assms currency_units by (auto simp: runtime_build_def split: if_splits)

end
