(* ===== verification/Js_Values.thy ===== *)
theory Js_Values
  imports Prelude
begin

text \<open>
  The part of ECMAScript and of Node's \<open>Buffer\<close> that the API under \<open>apps/api\<close> uses:
  strings as lists of UTF-16 code units, values as they come out of a JSON queue (plus
  \<open>undefined\<close>), property access with its \<open>TypeError\<close>, truthiness, and the decoding of
  hexadecimal and UTF-8.  Numbers are integers: the events carry no others.
\<close>

section \<open>Strings and values\<close>

type_synonym jstring = "16 word list"

text \<open>String literals of the source.\<close>

definition js :: "string \<Rightarrow> jstring" where
  "js s = map of_char s"

lemma js_inject [simp]: "js s = js t \<longleftrightarrow> s = t"
proof -
  have unit: "unat (of_char c :: 16 word) = of_char c" for c
  proof -
    have "(of_char c :: 16 word) = of_nat (of_char c)" by (simp only: of_nat_of_char)
    moreover have "(of_char c :: nat) < 2 ^ 16"
      by (rule less_le_trans [OF nat_of_char_less_256]) simp
    ultimately show ?thesis by (simp add: unsigned_of_nat take_bit_nat_eq_self)
  qed
  have "inj (of_char :: char \<Rightarrow> 16 word)"
    by (rule injI) (metis unit of_char_eq_iff)
  then show ?thesis by (simp add: js_def inj_map_eq_map)
qed

lemma js_length [simp]: "length (js s) = length s" "js s = [] \<longleftrightarrow> s = []"
  by (simp_all add: js_def)

datatype js_value =
    Undefined
  | Null
  | Bool bool
  | Num int
  | Str jstring
  | Arr "js_value list"
  | Obj "(jstring \<times> js_value) list"

text \<open>
  What can be thrown: a \<open>TypeError\<close> of the language, an \<open>Error\<close> of the source, the two
  HTTP exceptions of the users service (with the value their message names) and an error of
  the database driver.
\<close>

datatype js_error =
    Type_Error
  | Thrown string
  | Conflict_Exception string
  | Not_Found_Exception string js_value
  | Query_Error

type_synonym 'a js_outcome = "js_error + 'a"

text \<open>A statement after another: an exception ends the function.\<close>

definition js_then :: "'a js_outcome \<Rightarrow> ('a \<Rightarrow> 'b js_outcome) \<Rightarrow> 'b js_outcome" where
  "js_then r k = (case r of Inl e \<Rightarrow> Inl e | Inr x \<Rightarrow> k x)"

lemma js_then_simps [simp]:
  "js_then (Inl e) k = Inl e"
  "js_then (Inr x) k = k x"
  by (simp_all add: js_then_def)

fun truthy :: "js_value \<Rightarrow> bool" where
  "truthy Undefined = False"
| "truthy Null = False"
| "truthy (Bool b) = b"
| "truthy (Num n) = (n \<noteq> 0)"
| "truthy (Str s) = (s \<noteq> [])"
| "truthy (Arr xs) = True"
| "truthy (Obj kvs) = True"

text \<open>\<open>a || b\<close> for a right operand without effect.\<close>

definition js_or :: "js_value \<Rightarrow> js_value \<Rightarrow> js_value" where
  "js_or a b = (if truthy a then a else b)"

text \<open>\<open>a === b\<close>: two arrays or objects are equal only when they are the same one, and the
  two sides of a comparison in the source never are.\<close>

fun strict_equal :: "js_value \<Rightarrow> js_value \<Rightarrow> bool" where
  "strict_equal (Arr xs) b = False"
| "strict_equal (Obj kvs) b = False"
| "strict_equal a b = (a = b)"

lemma strict_equal_eq: "strict_equal a b \<Longrightarrow> a = b"
  by (cases a) auto

lemma strict_equal_Str [simp]: "strict_equal (Str s) v \<longleftrightarrow> v = Str s"
  by auto

text \<open>The decimal digits of an integer, as \<open>toString\<close> and array indices write them.\<close>

fun digits :: "nat \<Rightarrow> jstring" where
  "digits n = (if n < 10 then [48 + of_nat n] else digits (n div 10) @ [48 + of_nat (n mod 10)])"

declare digits.simps [simp del]

definition decimal :: "int \<Rightarrow> jstring" where
  "decimal n = (if n < 0 then 45 # digits (nat (- n)) else digits (nat n))"

text \<open>White space and line terminators, and \<open>s.trim()\<close>.\<close>

definition js_space :: "16 word \<Rightarrow> bool" where
  "js_space u \<longleftrightarrow> u \<in> {9, 10, 11, 12, 13, 32, 160, 5760, 8232, 8233, 8239, 8287, 12288, 65279} \<or>
     8192 \<le> u \<and> u \<le> 8202"

definition trim :: "jstring \<Rightarrow> jstring" where
  "trim s = rev (dropWhile js_space (rev (dropWhile js_space s)))"

section \<open>Property access\<close>

definition own :: "(jstring \<times> js_value) list \<Rightarrow> jstring \<Rightarrow> js_value" where
  "own kvs k = (case map_of kvs k of Some v \<Rightarrow> v | None \<Rightarrow> Undefined)"

text \<open>\<open>v.name\<close>, for names that no built-in prototype has.\<close>

fun get_prop :: "js_value \<Rightarrow> string \<Rightarrow> js_value js_outcome" where
  "get_prop Undefined k = Inl Type_Error"
| "get_prop Null k = Inl Type_Error"
| "get_prop (Obj kvs) k = Inr (own kvs (js k))"
| "get_prop v k = Inr Undefined"

text \<open>\<open>v[i]\<close>: an array's element, a string's code unit, an object's property of that name.\<close>

fun elem_at :: "js_value \<Rightarrow> nat \<Rightarrow> js_value js_outcome" where
  "elem_at Undefined i = Inl Type_Error"
| "elem_at Null i = Inl Type_Error"
| "elem_at (Arr xs) i = Inr (if i < length xs then xs ! i else Undefined)"
| "elem_at (Str s) i = Inr (if i < length s then Str [s ! i] else Undefined)"
| "elem_at (Obj kvs) i = Inr (own kvs (digits i))"
| "elem_at v i = Inr Undefined"

definition is_array :: "js_value \<Rightarrow> bool" where
  "is_array v = (case v of Arr xs \<Rightarrow> True | _ \<Rightarrow> False)"

text \<open>
  \<open>toString()\<close>.  An object with a property of that name has no such method, as no value of
  a JSON document is a function.
\<close>

fun to_text :: "js_value \<Rightarrow> jstring js_outcome"
  and to_texts :: "js_value list \<Rightarrow> jstring js_outcome" where
  "to_text Undefined = Inr (js ''undefined'')"
| "to_text Null = Inr (js ''null'')"
| "to_text (Bool b) = Inr (if b then js ''true'' else js ''false'')"
| "to_text (Num n) = Inr (decimal n)"
| "to_text (Str s) = Inr s"
| "to_text (Arr xs) = to_texts xs"
| "to_text (Obj kvs) =
     (if js ''toString'' \<in> fst ` set kvs then Inl Type_Error else Inr (js ''[object Object]''))"
| "to_texts [] = Inr []"
| "to_texts (x # xs) =
     js_then (if x = Undefined \<or> x = Null then Inr [] else to_text x) (\<lambda>s.
     js_then (to_texts xs) (\<lambda>t. Inr (if xs = [] then s else s @ js '','' @ t)))"

text \<open>\<open>v?.toString()\<close> and \<open>v?.toNumber()\<close>: no value of a JSON document has a method \<open>toNumber\<close>.\<close>

definition opt_to_string :: "js_value \<Rightarrow> js_value js_outcome" where
  "opt_to_string v = (case v of
     Undefined \<Rightarrow> Inr Undefined
   | Null \<Rightarrow> Inr Undefined
   | _ \<Rightarrow> js_then (to_text v) (\<lambda>s. Inr (Str s)))"

definition opt_to_number :: "js_value \<Rightarrow> js_value js_outcome" where
  "opt_to_number v = (case v of
     Undefined \<Rightarrow> Inr Undefined
   | Null \<Rightarrow> Inr Undefined
   | _ \<Rightarrow> Inl Type_Error)"

section \<open>Hexadecimal\<close>

definition hex_value :: "16 word \<Rightarrow> u8 option" where
  "hex_value c =
     (if 48 \<le> c \<and> c \<le> 57 then Some (ucast (c - 48))
      else if 97 \<le> c \<and> c \<le> 102 then Some (ucast (c - 87))
      else if 65 \<le> c \<and> c \<le> 70 then Some (ucast (c - 55))
      else None)"

text \<open>\<open>Buffer.from(s, 'hex')\<close>: pairs of digits up to the first that is none; a last odd
  digit is ignored.\<close>

fun hex_decode :: "jstring \<Rightarrow> bytes" where
  "hex_decode (a # b # r) = (case (hex_value a, hex_value b) of
     (Some x, Some y) \<Rightarrow> (16 * x + y) # hex_decode r
   | _ \<Rightarrow> [])"
| "hex_decode _ = []"

text \<open>The lower-case hexadecimal form, without and with the prefix.\<close>

definition hex_char :: "u8 \<Rightarrow> 16 word" where
  "hex_char x = (if x < 10 then 48 + ucast x else 87 + ucast x)"

definition hex_pair :: "u8 \<Rightarrow> jstring" where
  "hex_pair b = [hex_char (b div 16), hex_char (b mod 16)]"

definition hex_digits :: "bytes \<Rightarrow> jstring" where
  "hex_digits bs = concat (map hex_pair bs)"

definition hex_string :: "bytes \<Rightarrow> jstring" where
  "hex_string bs = js ''0x'' @ hex_digits bs"

lemma hex_chars_checked:
  "list_all (\<lambda>k. hex_value (hex_char (of_nat k)) = Some (of_nat k)) [0..<16]"
  by (simp add: upt_rec hex_char_def hex_value_def)

lemma hex_char_digit: "unat x < 16 \<Longrightarrow> hex_value (hex_char x) = Some x"
  using hex_chars_checked by (auto simp: list_all_iff dest: bspec [of _ _ "unat x"])

lemma byte_halves:
  fixes b :: u8
  shows "unat (b div 16) < 16" "unat (b mod 16) < 16" "16 * (b div 16) + b mod 16 = b"
proof -
  have "unat b < 256" using unsigned_less [of b] by simp
  then show "unat (b div 16) < 16" by (simp add: unat_div)
  show "unat (b mod 16) < 16" by (simp add: unat_mod)
  show "16 * (b div 16) + b mod 16 = b" by (metis mult.commute div_mult_mod_eq)
qed

lemma hex_decode_pair [simp]: "hex_decode (hex_pair b @ s) = b # hex_decode s"
  by (simp add: hex_pair_def hex_char_digit byte_halves)

lemma hex_roundtrip [simp]: "hex_decode (hex_digits bs) = bs"
  by (induction bs) (simp_all add: hex_digits_def)

section \<open>UTF-8\<close>

text \<open>
  \<open>buffer.toString('utf-8')\<close> follows the UTF-8 decoder of the WHATWG encoding standard: what
  is not well-formed becomes the replacement character, once per maximal beginning of a
  sequence.  \<open>Expect n lo hi c\<close>: \<open>n\<close> more bytes are needed, the next one within the bounds,
  and \<open>c\<close> is the code point read so far.
\<close>

datatype utf8_state = Ready | Expect nat nat nat nat

definition replacement :: nat where
  "replacement = 65533"

definition utf8_start :: "nat \<Rightarrow> utf8_state \<times> nat list" where
  "utf8_start b =
     (if b < 128 then (Ready, [b])
      else if 194 \<le> b \<and> b < 224 then (Expect 1 128 191 (b - 192), [])
      else if b = 224 then (Expect 2 160 191 0, [])
      else if b = 237 then (Expect 2 128 159 13, [])
      else if 224 < b \<and> b < 240 then (Expect 2 128 191 (b - 224), [])
      else if b = 240 then (Expect 3 144 191 0, [])
      else if b = 244 then (Expect 3 128 143 4, [])
      else if 240 < b \<and> b < 244 then (Expect 3 128 191 (b - 240), [])
      else (Ready, [replacement]))"

fun utf8_step :: "utf8_state \<Rightarrow> nat \<Rightarrow> utf8_state \<times> nat list" where
  "utf8_step Ready b = utf8_start b"
| "utf8_step (Expect n lo hi c) b =
     (if b < lo \<or> hi < b then (case utf8_start b of (s, cps) \<Rightarrow> (s, replacement # cps))
      else let c' = 64 * c + (b - 128) in
        if n \<le> 1 then (Ready, [c']) else (Expect (n - 1) 128 191 c', []))"

fun utf8_end :: "utf8_state \<Rightarrow> nat list" where
  "utf8_end Ready = []"
| "utf8_end (Expect n lo hi c) = [replacement]"

fun utf8_run :: "utf8_state \<Rightarrow> bytes \<Rightarrow> nat list" where
  "utf8_run s [] = utf8_end s"
| "utf8_run s (b # bs) = (case utf8_step s (unat b) of (s', cps) \<Rightarrow> cps @ utf8_run s' bs)"

text \<open>A code point as UTF-16 code units: itself, or a surrogate pair.\<close>

definition utf16_units :: "nat \<Rightarrow> jstring" where
  "utf16_units c =
     (if c < 65536 then [of_nat c]
      else [of_nat (55296 + (c - 65536) div 1024), of_nat (56320 + (c - 65536) mod 1024)])"

definition utf8_text :: "bytes \<Rightarrow> jstring" where
  "utf8_text bs = concat (map utf16_units (utf8_run Ready bs))"

text \<open>\<open>s.replace(/\0/g, '')\<close>.\<close>

definition strip_nul :: "jstring \<Rightarrow> jstring" where
  "strip_nul s = filter (\<lambda>c. c \<noteq> 0) s"

text \<open>
  The decoded text has at most one code unit per byte: a state that has begun a sequence
  owes one unit, and the byte that ends the sequence pays for a second.
\<close>

definition units_of :: "nat list \<Rightarrow> nat" where
  "units_of cps = length (concat (map utf16_units cps))"

fun owed :: "utf8_state \<Rightarrow> nat" where
  "owed Ready = 0"
| "owed (Expect n lo hi c) = 1"

lemma units_of_simps [simp]:
  "units_of [] = 0"
  "units_of (c # cps) = (if c < 65536 then 1 else 2) + units_of cps"
  "units_of (cps @ ds) = units_of cps + units_of ds"
  by (simp_all add: units_of_def utf16_units_def)

lemma utf8_start_units: "utf8_start b = (s, cps) \<Longrightarrow> units_of cps + owed s \<le> 1"
  by (auto simp: utf8_start_def replacement_def split: if_splits)

lemma utf8_step_units: "utf8_step s b = (s', cps) \<Longrightarrow> units_of cps + owed s' \<le> owed s + 1"
proof (cases s)
  case Ready
  then show "utf8_step s b = (s', cps) \<Longrightarrow> ?thesis" using utf8_start_units by simp
next
  case (Expect n lo hi c)
  then show "utf8_step s b = (s', cps) \<Longrightarrow> ?thesis"
    using utf8_start_units [of b]
    by (fastforce simp: replacement_def Let_def split: if_splits prod.splits)
qed

lemma utf8_run_units: "units_of (utf8_run s bs) \<le> owed s + length bs"
proof (induction bs arbitrary: s)
  case Nil
  then show ?case by (cases s) (simp_all add: replacement_def)
next
  case (Cons b bs)
  obtain s' cps where step: "utf8_step s (unat b) = (s', cps)" by fastforce
  from utf8_step_units [OF this] Cons.IH [of s'] show ?case by (simp add: step)
qed

lemma utf8_text_length: "length (utf8_text bs) \<le> length bs"
  using utf8_run_units [of Ready bs] by (simp add: utf8_text_def units_of_def)

lemma strip_nul_length: "length (strip_nul s) \<le> length s"
  by (simp add: strip_nul_def)

lemma strip_nul_no_nul [simp]: "0 \<notin> set (strip_nul s)"
  by (simp add: strip_nul_def)

text \<open>ASCII is read as it is, and the text determines the bytes.\<close>

definition ascii_bytes :: "bytes \<Rightarrow> bool" where
  "ascii_bytes bs \<longleftrightarrow> (\<forall>b\<in>set bs. 0 < b \<and> b < 128)"

lemma utf8_run_ascii: "ascii_bytes bs \<Longrightarrow> utf8_run Ready bs = map unat bs"
  by (induction bs) (auto simp: ascii_bytes_def utf8_start_def word_less_nat_alt)

lemma utf8_text_ascii: "ascii_bytes bs \<Longrightarrow> utf8_text bs = map ucast bs"
proof -
  assume a: "ascii_bytes bs"
  then have "utf16_units (unat b) = [ucast b]" if "b \<in> set bs" for b
    using that by (auto simp: ascii_bytes_def utf16_units_def word_less_nat_alt unsigned_ucast_eq
        simp flip: word_unat_eq_iff)
  then have "concat (map utf16_units (map unat bs)) = map ucast bs"
    by (induction bs) auto
  with a show ?thesis by (simp add: utf8_text_def utf8_run_ascii)
qed

end
