(* ===== verification/Users_Service.thy ===== *)
theory Users_Service
  imports Js_Values
begin

text \<open>
  The users service of the API (\<open>apps/api/src/users\<close>): the entity with its column
  declarations, the operations of \<open>UsersService\<close> as programs over a repository, and the
  validation rules of the two request bodies.

  The repository (TypeORM over PostgreSQL) is outside the program.  An operation is
  therefore a tree of the repository calls it makes, each with the continuation that takes
  the answer; a repository interprets the calls.  Between two calls other clients can run,
  so \<open>prog_step\<close> also runs several programs interleaved.
\<close>

section \<open>The entity\<close>

datatype column =
    Col_id
  | Col_accountId
  | Col_username
  | Col_avatar
  | Col_bio
  | Col_totalRaces
  | Col_wins
  | Col_totalDistance
  | Col_totalRewards
  | Col_createdAtBlock
  | Col_createdAt
  | Col_updatedAt

datatype column_type = Uuid_Type | Varchar nat | Text_Type | Int_Type | Bigint_Type | Date_Type

record column_spec =
  col_type :: column_type
  col_nullable :: bool
  col_unique :: bool
  col_default :: "js_value option"

definition plain_column :: "column_type \<Rightarrow> column_spec" where
  "plain_column t = \<lparr>col_type = t, col_nullable = False, col_unique = False, col_default = None\<rparr>"

fun user_column :: "column \<Rightarrow> column_spec" where
  "user_column Col_id = (plain_column Uuid_Type)\<lparr>col_unique := True\<rparr>"
| "user_column Col_accountId = (plain_column (Varchar 255))\<lparr>col_unique := True\<rparr>"
| "user_column Col_username = (plain_column (Varchar 32))\<lparr>col_nullable := True\<rparr>"
| "user_column Col_avatar = (plain_column Text_Type)\<lparr>col_nullable := True\<rparr>"
| "user_column Col_bio = (plain_column Text_Type)\<lparr>col_nullable := True\<rparr>"
| "user_column Col_totalRaces = (plain_column Int_Type)\<lparr>col_default := Some (Num 0)\<rparr>"
| "user_column Col_wins = (plain_column Int_Type)\<lparr>col_default := Some (Num 0)\<rparr>"
| "user_column Col_totalDistance = (plain_column Bigint_Type)\<lparr>col_default := Some (Num 0)\<rparr>"
| "user_column Col_totalRewards = (plain_column (Varchar 255))\<lparr>col_default := Some (Str (js ''0''))\<rparr>"
| "user_column Col_createdAtBlock = (plain_column Bigint_Type)\<lparr>col_nullable := True\<rparr>"
| "user_column Col_createdAt = plain_column Date_Type"
| "user_column Col_updatedAt = plain_column Date_Type"

declare user_column.simps [simp del]

lemmas column_specs = user_column.simps plain_column_def

text \<open>
  An entity object gives every column a value, \<open>undefined\<close> when it has no such property; a
  DTO has the properties it was written with, and one of them can be \<open>undefined\<close> too.
\<close>

type_synonym entity = "column \<Rightarrow> js_value"
type_synonym dto = "column \<rightharpoonup> js_value"

definition field :: "dto \<Rightarrow> column \<Rightarrow> js_value" where
  "field d c = (case d c of Some v \<Rightarrow> v | None \<Rightarrow> Undefined)"

text \<open>\<open>Object.assign(user, dto)\<close>.\<close>

definition assign :: "entity \<Rightarrow> dto \<Rightarrow> entity" where
  "assign u d = (\<lambda>c. case d c of Some v \<Rightarrow> v | None \<Rightarrow> u c)"

text \<open>\<open>repository.create(dto)\<close>: a new entity object with the DTO's properties.\<close>

definition new_entity :: "dto \<Rightarrow> entity" where
  "new_entity d = field d"

section \<open>Programs over a repository\<close>

datatype 'a prog =
    Done "'a js_outcome"
  | Find_One column js_value "entity option js_outcome \<Rightarrow> 'a prog"
  | Find_All column "entity list js_outcome \<Rightarrow> 'a prog"
  | Save entity "entity js_outcome \<Rightarrow> 'a prog"
  | Remove entity "entity js_outcome \<Rightarrow> 'a prog"

text \<open>\<open>await\<close> and go on, or leave with the exception.\<close>

primrec await :: "'a prog \<Rightarrow> ('a \<Rightarrow> 'b prog) \<Rightarrow> 'b prog" where
  "await (Done r) k = (case r of Inl e \<Rightarrow> Done (Inl e) | Inr x \<Rightarrow> k x)"
| "await (Find_One c v f) k = Find_One c v (\<lambda>r. await (f r) k)"
| "await (Find_All c f) k = Find_All c (\<lambda>r. await (f r) k)"
| "await (Save e f) k = Save e (\<lambda>r. await (f r) k)"
| "await (Remove e f) k = Remove e (\<lambda>r. await (f r) k)"

definition resolve :: "'a \<Rightarrow> 'a prog" where
  "resolve x = Done (Inr x)"

definition throw :: "js_error \<Rightarrow> 'a prog" where
  "throw e = Done (Inl e)"

text \<open>\<open>repository.findOne({ where: { c: v } })\<close> and the other calls.\<close>

definition find_where :: "column \<Rightarrow> js_value \<Rightarrow> entity option prog" where
  "find_where c v = Find_One c v Done"

definition find_desc :: "column \<Rightarrow> entity list prog" where
  "find_desc c = Find_All c Done"

definition save_entity :: "entity \<Rightarrow> entity prog" where
  "save_entity e = Save e Done"

definition remove_entity :: "entity \<Rightarrow> entity prog" where
  "remove_entity e = Remove e Done"

record 'db repository =
  repo_find_one :: "column \<Rightarrow> js_value \<Rightarrow> 'db \<Rightarrow> entity option js_outcome"
  repo_find_all :: "column \<Rightarrow> 'db \<Rightarrow> entity list js_outcome"
  repo_save :: "entity \<Rightarrow> 'db \<Rightarrow> entity js_outcome \<times> 'db"
  repo_remove :: "entity \<Rightarrow> 'db \<Rightarrow> entity js_outcome \<times> 'db"

text \<open>A program run alone, and one call of it.\<close>

primrec run_prog :: "'db repository \<Rightarrow> 'a prog \<Rightarrow> 'db \<Rightarrow> 'a js_outcome \<times> 'db" where
  "run_prog R (Done r) = (\<lambda>db. (r, db))"
| "run_prog R (Find_One c v f) = (\<lambda>db. run_prog R (f (repo_find_one R c v db)) db)"
| "run_prog R (Find_All c f) = (\<lambda>db. run_prog R (f (repo_find_all R c db)) db)"
| "run_prog R (Save e f) = (\<lambda>db. case repo_save R e db of (r, db') \<Rightarrow> run_prog R (f r) db')"
| "run_prog R (Remove e f) = (\<lambda>db. case repo_remove R e db of (r, db') \<Rightarrow> run_prog R (f r) db')"

inductive prog_step :: "'db repository \<Rightarrow> 'a prog \<times> 'db \<Rightarrow> 'a prog \<times> 'db \<Rightarrow> bool" for R where
  step_find: "prog_step R (Find_One c v f, db) (f (repo_find_one R c v db), db)"
| step_find_all: "prog_step R (Find_All c f, db) (f (repo_find_all R c db), db)"
| step_save: "repo_save R e db = (r, db') \<Longrightarrow> prog_step R (Save e f, db) (f r, db')"
| step_remove: "repo_remove R e db = (r, db') \<Longrightarrow> prog_step R (Remove e f, db) (f r, db')"

inductive_cases prog_stepE: "prog_step R (p, db) (q, db')"

text \<open>One of several programs on the same database makes its next call.\<close>

inductive programs_step :: "'db repository \<Rightarrow> 'a prog list \<times> 'db \<Rightarrow> 'a prog list \<times> 'db \<Rightarrow> bool" for R where
  one_steps: "i < length ps \<Longrightarrow> prog_step R (ps ! i, db) (q, db') \<Longrightarrow>
     programs_step R (ps, db) (ps[i := q], db')"

section \<open>UsersService\<close>

definition create :: "dto \<Rightarrow> entity prog" where
  "create create_user_dto =
     await (find_where Col_accountId (field create_user_dto Col_accountId)) (\<lambda>existing_user.
     if existing_user \<noteq> None
     then throw (Conflict_Exception ''User with this accountId already exists'')
     else
     await (if truthy (field create_user_dto Col_username)
       then await (find_where Col_username (field create_user_dto Col_username)) (\<lambda>existing_username.
         if existing_username \<noteq> None then throw (Conflict_Exception ''Username already taken'')
         else resolve ())
       else resolve ()) (\<lambda>_.
     let user = new_entity create_user_dto in
     save_entity user))"

definition find_all :: "entity list prog" where
  "find_all = find_desc Col_createdAt"

definition find_one :: "js_value \<Rightarrow> entity prog" where
  "find_one i = await (find_where Col_id i) (\<lambda>user.
     case user of None \<Rightarrow> throw (Not_Found_Exception ''User with ID'' i) | Some u \<Rightarrow> resolve u)"

definition find_by_account_id :: "js_value \<Rightarrow> entity option prog" where
  "find_by_account_id account_id = find_where Col_accountId account_id"

definition find_by_username :: "js_value \<Rightarrow> entity option prog" where
  "find_by_username username = find_where Col_username username"

definition update :: "js_value \<Rightarrow> dto \<Rightarrow> entity prog" where
  "update i update_user_dto =
     await (find_one i) (\<lambda>user.
     await (if truthy (field update_user_dto Col_username) \<and>
               \<not> strict_equal (field update_user_dto Col_username) (user Col_username)
       then await (find_where Col_username (field update_user_dto Col_username)) (\<lambda>existing_username.
         if existing_username \<noteq> None then throw (Conflict_Exception ''Username already taken'')
         else resolve ())
       else resolve ()) (\<lambda>_.
     save_entity (assign user update_user_dto)))"

definition update_by_account_id :: "js_value \<Rightarrow> dto \<Rightarrow> entity prog" where
  "update_by_account_id account_id update_user_dto =
     await (find_by_account_id account_id) (\<lambda>user.
     case user of
       None \<Rightarrow> throw (Not_Found_Exception ''User with accountId'' account_id)
     | Some u \<Rightarrow> update (u Col_id) update_user_dto)"

definition remove_user :: "js_value \<Rightarrow> unit prog" where
  "remove_user i = await (find_one i) (\<lambda>user. await (remove_entity user) (\<lambda>_. resolve ()))"

section \<open>Running a program\<close>

lemma run_await [simp]:
  "run_prog R (await p k) db = (case run_prog R p db of
     (Inl e, db') \<Rightarrow> (Inl e, db')
   | (Inr x, db') \<Rightarrow> run_prog R (k x) db')"
  by (induction p arbitrary: db) (auto split: sum.splits prod.splits)

lemma run_simps [simp]:
  "run_prog R (resolve x) db = (Inr x, db)"
  "run_prog R (throw e) db = (Inl e, db)"
  "run_prog R (find_where c v) db = (repo_find_one R c v db, db)"
  "run_prog R (find_desc c) db = (repo_find_all R c db, db)"
  "run_prog R (save_entity u) db = repo_save R u db"
  "run_prog R (remove_entity u) db = repo_remove R u db"
  by (simp_all add: resolve_def throw_def find_where_def find_desc_def save_entity_def
      remove_entity_def split: prod.splits)

text \<open>A program on its own is one of the interleavings of several programs.\<close>

lemma run_is_steps:
  "(prog_step R)\<^sup>*\<^sup>* (p, db) (Done (fst (run_prog R p db)), snd (run_prog R p db))"
proof (induction p arbitrary: db)
  case (Find_One c v f)
  show ?case
    using converse_rtranclp_into_rtranclp [of "prog_step R", OF step_find Find_One [OF rangeI]] by simp
next
  case (Find_All c f)
  show ?case
    using converse_rtranclp_into_rtranclp [of "prog_step R", OF step_find_all Find_All [OF rangeI]] by simp
next
  case (Save e f)
  show ?case
    using converse_rtranclp_into_rtranclp [of "prog_step R", OF step_save Save [OF rangeI]]
    by (auto split: prod.splits)
next
  case (Remove e f)
  show ?case
    using converse_rtranclp_into_rtranclp [of "prog_step R", OF step_remove Remove [OF rangeI]]
    by (auto split: prod.splits)
qed simp

end
