(* ===== verification/Utf8_Text.thy ===== *)
theory Utf8_Text
  imports Js_Values
begin

text \<open>
  Text as UTF-8: the encoder of the WHATWG encoding standard (\<open>TextEncoder\<close>), against the
  decoder in \<open>Js_Values\<close>.  Decoding what was encoded gives the text back, with U+FFFD for a
  surrogate that has no partner.
\<close>

section \<open>Surrogates\<close>

text \<open>A surrogate without its partner becomes U+FFFD when text is written as UTF-8.\<close>

definition high_surrogate :: "16 word \<Rightarrow> bool" where
  "high_surrogate u \<longleftrightarrow> 55296 \<le> u \<and> u < 56320"

definition low_surrogate :: "16 word \<Rightarrow> bool" where
  "low_surrogate u \<longleftrightarrow> 56320 \<le> u \<and> u < 57344"

definition usv_unit :: "16 word \<Rightarrow> 16 word" where
  "usv_unit u = (if high_surrogate u \<or> low_surrogate u then 65533 else u)"

fun to_usv :: "jstring \<Rightarrow> jstring" where
  "to_usv (a # b # r) =
     (if high_surrogate a \<and> low_surrogate b then a # b # to_usv r
      else usv_unit a # to_usv (b # r))"
| "to_usv [a] = [usv_unit a]"
| "to_usv [] = []"

lemma to_usv_Nil [simp]: "to_usv s = [] \<longleftrightarrow> s = []"
  by (cases s rule: to_usv.cases) auto

definition plain_text :: "jstring \<Rightarrow> bool" where
  "plain_text s \<longleftrightarrow> (\<forall>u\<in>set s. 0 < u \<and> u < 128)"

lemma plain_text_usv: "plain_text s \<Longrightarrow> to_usv s = s"
proof (induction s rule: to_usv.induct)
  case (1 a b r)
  have "\<not> 55296 \<le> u" if "u < 128" for u :: "16 word"
    using that by (simp add: word_le_nat_alt word_less_nat_alt)
  moreover have "\<not> 56320 \<le> u" if "u < 128" for u :: "16 word"
    using that by (simp add: word_le_nat_alt word_less_nat_alt)
  ultimately show ?case using 1
    by (auto simp: plain_text_def high_surrogate_def low_surrogate_def usv_unit_def)
next
  case (2 a)
  then show ?case
    by (auto simp: plain_text_def high_surrogate_def low_surrogate_def usv_unit_def
        word_le_nat_alt word_less_nat_alt)
qed simp

section \<open>Encoding\<close>

definition pair_point :: "16 word \<Rightarrow> 16 word \<Rightarrow> nat" where
  "pair_point a b = 65536 + 1024 * (unat a - 55296) + (unat b - 56320)"

fun code_points :: "jstring \<Rightarrow> nat list" where
  "code_points (a # b # r) =
     (if high_surrogate a \<and> low_surrogate b then pair_point a b # code_points r
      else unat (usv_unit a) # code_points (b # r))"
| "code_points [a] = [unat (usv_unit a)]"
| "code_points [] = []"

definition utf8_point :: "nat \<Rightarrow> bytes" where
  "utf8_point c = map of_nat
     (if c < 128 then [c]
      else if c < 2048 then [192 + c div 64, 128 + c mod 64]
      else if c < 65536 then [224 + c div 4096, 128 + c div 64 mod 64, 128 + c mod 64]
      else [240 + c div 262144, 128 + c div 4096 mod 64, 128 + c div 64 mod 64, 128 + c mod 64])"

definition utf8_encode :: "jstring \<Rightarrow> bytes" where
  "utf8_encode s = concat (map utf8_point (code_points s))"

section \<open>Decoding what was encoded\<close>

definition scalar :: "nat \<Rightarrow> bool" where
  "scalar c \<longleftrightarrow> c < 55296 \<or> 57344 \<le> c \<and> c < 1114112"

lemma byte_of_nat: "n < 256 \<Longrightarrow> unat (of_nat n :: u8) = n"
  by (simp add: unsigned_of_nat take_bit_nat_eq_self)

text \<open>The sixes of bits of a code point.\<close>

lemma sextets:
  fixes c :: nat
  obtains k p q r where "c = 262144 * k + 4096 * p + 64 * q + r" "p < 64" "q < 64" "r < 64"
    "c div 64 = 4096 * k + 64 * p + q" "c div 4096 = 64 * k + p" "c div 262144 = k"
    "c mod 64 = r" "c div 64 mod 64 = q" "c div 4096 mod 64 = p"
proof -
  have div: "c div 4096 = c div 64 div 64" "c div 262144 = c div 64 div 64 div 64"
    by (simp_all add: div_mult2_eq [symmetric])
  have parts: "c = 64 * (c div 64) + c mod 64" "c div 64 = 64 * (c div 64 div 64) + c div 64 mod 64"
    "c div 64 div 64 = 64 * (c div 64 div 64 div 64) + c div 64 div 64 mod 64"
    by (simp_all only: mult_div_mod_eq)
  show thesis
  proof (rule that)
    show "c = 262144 * (c div 262144) + 4096 * (c div 4096 mod 64) + 64 * (c div 64 mod 64) + c mod 64"
      "c div 64 = 4096 * (c div 262144) + 64 * (c div 4096 mod 64) + c div 64 mod 64"
      "c div 4096 = 64 * (c div 262144) + c div 4096 mod 64"
      using parts unfolding div by linarith+
  qed simp_all
qed

text \<open>What the decoder does at the first byte, and at each of the others.\<close>

lemma utf8_starts:
  "2 \<le> q \<Longrightarrow> q < 32 \<Longrightarrow> utf8_start (192 + q) = (Expect 1 128 191 q, [])"
  "p < 16 \<Longrightarrow> utf8_start (224 + p) =
     (Expect 2 (if p = 0 then 160 else 128) (if p = 13 then 159 else 191) p, [])"
  "k \<le> 4 \<Longrightarrow> utf8_start (240 + k) =
     (Expect 3 (if k = 0 then 144 else 128) (if k = 4 then 143 else 191) k, [])"
  by (auto simp: utf8_start_def)

lemma utf8_continues:
  assumes "lo \<le> 128 + q" "128 + q \<le> hi" "q < 64"
  shows "utf8_run (Expect n lo hi c) (of_nat (128 + q) # bs) =
    (if n \<le> 1 then (64 * c + q) # utf8_run Ready bs
     else utf8_run (Expect (n - 1) 128 191 (64 * c + q)) bs)"
proof -
  have "unat (of_nat (128 + q) :: u8) = 128 + q" using assms(3) by (intro byte_of_nat) simp
  with assms(1,2) show ?thesis by (simp add: Let_def)
qed

lemma utf8_begins:
  assumes "b < 256" "utf8_start b = (s, [])"
  shows "utf8_run Ready (of_nat b # bs) = utf8_run s bs"
  using assms by (simp add: byte_of_nat)

lemma utf8_run_point:
  assumes "scalar c"
  shows "utf8_run Ready (utf8_point c @ bs) = c # utf8_run Ready bs"
proof -
  obtain k p q r where c: "c = 262144 * k + 4096 * p + 64 * q + r" "p < 64" "q < 64" "r < 64"
    and d: "c div 64 = 4096 * k + 64 * p + q" "c div 4096 = 64 * k + p" "c div 262144 = k"
    "c mod 64 = r" "c div 64 mod 64 = q" "c div 4096 mod 64 = p"
    by (rule sextets [of c])
  have s: "c < 55296 \<or> 57344 \<le> c \<and> c < 1114112" using assms by (simp add: scalar_def)
  consider "c < 128" | "128 \<le> c" "c < 2048" | "2048 \<le> c" "c < 65536" | "65536 \<le> c" by linarith
  then show ?thesis
  proof cases
    case 1
    then show ?thesis by (simp add: utf8_point_def byte_of_nat utf8_start_def)
  next
    case 2
    then have k: "k = 0" "p = 0" using c by linarith+
    with 2 c(1,4) have q: "2 \<le> q" "q < 32" by linarith+
    have "utf8_point c = [of_nat (192 + q), of_nat (128 + r)]"
      using 2 k by (simp add: utf8_point_def d)
    then have "utf8_run Ready (utf8_point c @ bs) = (64 * q + r) # utf8_run Ready bs"
      using q c(4) by (simp add: utf8_begins [OF _ utf8_starts(1)] utf8_continues
          del: of_nat_add of_nat_numeral utf8_run.simps)
    with c(1) k show ?thesis by simp
  next
    case 3
    then have k: "k = 0" "p < 16" using c by linarith+
    have e: "p = 0 \<longrightarrow> 32 \<le> q" "p = 13 \<longrightarrow> q \<le> 31" using 3 s c k by linarith+
    have "utf8_point c = [of_nat (224 + p), of_nat (128 + q), of_nat (128 + r)]"
      using 3 k by (simp add: utf8_point_def d(2,4,5))
    then have "utf8_run Ready (utf8_point c @ bs) = (64 * (64 * p + q) + r) # utf8_run Ready bs"
      using k e c(3,4) by (simp add: utf8_begins [OF _ utf8_starts(2)] utf8_continues
          del: of_nat_add of_nat_numeral utf8_run.simps)
    with c(1) k show ?thesis by simp
  next
    case 4
    then have k: "k \<le> 4" using c s by linarith
    have e: "k = 0 \<longrightarrow> 16 \<le> p" "k = 4 \<longrightarrow> p \<le> 15" using 4 s c by linarith+
    have "utf8_point c = [of_nat (240 + k), of_nat (128 + p), of_nat (128 + q), of_nat (128 + r)]"
      using 4 by (simp add: utf8_point_def d(3-6))
    then have "utf8_run Ready (utf8_point c @ bs) =
        (64 * (64 * (64 * k + p) + q) + r) # utf8_run Ready bs"
      using k e c(2-4) by (simp add: utf8_begins [OF _ utf8_starts(3)] utf8_continues
          del: of_nat_add of_nat_numeral utf8_run.simps)
    with c(1) show ?thesis by simp
  qed
qed

lemma utf8_run_points:
  "list_all scalar cs \<Longrightarrow> utf8_run Ready (concat (map utf8_point cs)) = cs"
  by (induction cs) (simp_all add: utf8_run_point)

lemma surrogates_nat:
  "high_surrogate u \<longleftrightarrow> 55296 \<le> unat u \<and> unat u < 56320"
  "low_surrogate u \<longleftrightarrow> 56320 \<le> unat u \<and> unat u < 57344"
  by (simp_all add: high_surrogate_def low_surrogate_def word_le_nat_alt word_less_nat_alt)

lemma unit_less: "unat (u :: 16 word) < 65536"
  using unsigned_less [of u] by simp

lemma usv_unit_scalar: "scalar (unat (usv_unit u))"
  using unit_less [of u] by (auto simp: usv_unit_def scalar_def surrogates_nat)

lemma pair_point_scalar: "high_surrogate a \<Longrightarrow> low_surrogate b \<Longrightarrow> scalar (pair_point a b)"
  unfolding surrogates_nat pair_point_def scalar_def by linarith

lemma code_points_scalar: "list_all scalar (code_points s)"
  by (induction s rule: code_points.induct) (simp_all add: usv_unit_scalar pair_point_scalar)

lemma units_of_unit: "utf16_units (unat (u :: 16 word)) = [u]"
  using unit_less [of u] by (simp add: utf16_units_def)

lemma units_of_pair:
  assumes "high_surrogate a" "low_surrogate b"
  shows "utf16_units (pair_point a b) = [a, b]"
proof -
  define x where "x = unat a - 55296"
  define y where "y = unat b - 56320"
  have ab: "unat a = 55296 + x" "unat b = 56320 + y" "x < 1024" "y < 1024"
    using assms by (auto simp: surrogates_nat x_def y_def)
  have "pair_point a b = 65536 + (1024 * x + y)" by (simp add: pair_point_def x_def y_def)
  moreover have "(of_nat (unat a) :: 16 word) = a" "(of_nat (unat b) :: 16 word) = b" by simp_all
  ultimately show ?thesis using ab by (simp add: utf16_units_def)
qed

lemma units_of_points: "concat (map utf16_units (code_points s)) = to_usv s"
  by (induction s rule: code_points.induct) (simp_all add: units_of_unit units_of_pair)

theorem utf8_decode_encode: "utf8_text (utf8_encode s) = to_usv s"
  by (simp add: utf8_text_def utf8_encode_def utf8_run_points code_points_scalar units_of_points)

text \<open>Every code unit takes one to three bytes.\<close>

lemma utf8_point_length: "length (utf8_point c) = (if c < 128 then 1 else if c < 2048 then 2 else if c < 65536 then 3 else 4)"
  by (simp add: utf8_point_def)

lemma usv_unit_less: "unat (usv_unit u) < 65536"
  by (rule unit_less)

lemma utf8_encode_length: "length s \<le> length (utf8_encode s) \<and> length (utf8_encode s) \<le> 3 * length s"
  unfolding utf8_encode_def
proof (induction s rule: code_points.induct)
  case (1 a b r)
  show ?case
  proof (cases "high_surrogate a \<and> low_surrogate b")
    case True
    then have "length (utf8_point (pair_point a b)) = 4" by (simp add: utf8_point_length pair_point_def)
    with True 1(1) show ?thesis by simp
  next
    case False
    have "1 \<le> length (utf8_point (unat (usv_unit a)))" "length (utf8_point (unat (usv_unit a))) \<le> 3"
      using usv_unit_less [of a] by (auto simp: utf8_point_length)
    with False 1(2) show ?thesis by (simp only: code_points.simps if_False) simp
  qed
next
  case (2 a)
  show ?case using usv_unit_less [of a] by (auto simp: utf8_point_length)
qed simp

section \<open>Bytes that are text\<close>

text \<open>Well-formed UTF-8 without NUL: such bytes and their texts determine one another.\<close>

definition text_bytes :: "bytes \<Rightarrow> bool" where
  "text_bytes bs \<longleftrightarrow> utf8_encode (utf8_text bs) = bs \<and> 0 \<notin> set (utf8_text bs)"

definition usv_text :: "jstring \<Rightarrow> bool" where
  "usv_text s \<longleftrightarrow> to_usv s = s \<and> 0 \<notin> set s"

lemma text_bytes_encode: "usv_text s \<Longrightarrow> text_bytes (utf8_encode s)"
  by (simp add: text_bytes_def usv_text_def utf8_decode_encode)

lemma text_bytes_text: "text_bytes bs \<Longrightarrow> usv_text (utf8_text bs)"
  unfolding text_bytes_def usv_text_def by (metis utf8_decode_encode)

lemma text_bytes_inject: "text_bytes bs \<Longrightarrow> text_bytes cs \<Longrightarrow> utf8_text bs = utf8_text cs \<Longrightarrow> bs = cs"
  unfolding text_bytes_def by metis

lemma utf8_encode_Nil [simp]: "utf8_encode [] = []" "utf8_encode s = [] \<longleftrightarrow> s = []"
proof -
  show n: "utf8_encode [] = []" by (simp add: utf8_encode_def)
  have "s = []" if "utf8_encode s = []" using utf8_encode_length [of s] that by simp
  with n show "utf8_encode s = [] \<longleftrightarrow> s = []" by blast
qed

lemma text_bytes_Nil [simp]: "text_bytes []"
  by (simp add: text_bytes_def utf8_text_def)

lemma text_bytes_nonempty: "text_bytes bs \<Longrightarrow> bs \<noteq> [] \<Longrightarrow> utf8_text bs \<noteq> []"
  unfolding text_bytes_def by (metis utf8_encode_Nil(1))

lemma plain_usv_text: "plain_text s \<Longrightarrow> usv_text s"
  by (auto simp: usv_text_def plain_text_usv plain_text_def)

lemma plain_code_points: "plain_text s \<Longrightarrow> code_points s = map unat s"
proof -
  assume s: "plain_text s"
  have "code_points s = map unat (to_usv s)" if "list_all (\<lambda>u. \<not> high_surrogate u) s"
    using that by (induction s rule: code_points.induct) simp_all
  moreover have "\<not> high_surrogate u" if "u < 128" for u
    using that by (simp add: surrogates_nat word_less_nat_alt)
  ultimately show ?thesis
    using s plain_text_usv [OF s] by (simp add: list_all_iff plain_text_def)
qed

lemma utf8_encode_plain: "plain_text s \<Longrightarrow> utf8_encode s = map ucast s"
proof -
  assume s: "plain_text s"
  have point: "utf8_point (unat u) = [ucast u]" if "u < 128" for u :: "16 word"
    using that by (simp add: utf8_point_def word_less_nat_alt)
  have "concat (map (utf8_point \<circ> unat) s) = map ucast s"
    using s by (induction s) (simp_all add: plain_text_def point)
  then show ?thesis by (simp add: utf8_encode_def plain_code_points [OF s])
qed

lemma ascii_text_plain: "ascii_bytes bs \<Longrightarrow> plain_text (utf8_text bs)"
proof -
  assume a: "ascii_bytes bs"
  have "0 < (ucast b :: 16 word) \<and> (ucast b :: 16 word) < 128" if "b \<in> set bs" for b
  proof -
    have "0 < unat b" "unat b < 128"
      using that a by (auto simp: ascii_bytes_def word_less_nat_alt)
    then show ?thesis by (auto simp: word_less_nat_alt unsigned_ucast_eq take_bit_nat_eq_self)
  qed
  then show ?thesis by (auto simp: utf8_text_ascii [OF a] plain_text_def)
qed

lemma ascii_text_bytes: "ascii_bytes bs \<Longrightarrow> text_bytes bs"
proof -
  assume a: "ascii_bytes bs"
  have "ucast (ucast b :: 16 word) = b" for b :: u8
    by (rule bit_word_eqI) (simp add: bit_simps)
  then show ?thesis
    using utf8_encode_plain [OF ascii_text_plain [OF a]] ascii_text_plain [OF a]
    by (auto simp: text_bytes_def utf8_text_ascii [OF a] comp_def plain_text_def)
qed

end
