(* ===== verification/Users_Table.thy ===== *)
theory Users_Table
  imports Users_Service Utf8_Text
begin

text \<open>
  What the service relies on in its repository, as two locales: \<open>user_table\<close> (answers are
  those of a table with the entity's columns, keys and constraints; any call can fail and
  then changes nothing) and \<open>table_up\<close> (a call fails only for a reason in its arguments).
  A table held in memory provides both.
\<close>

section \<open>Values in the table\<close>

definition characters :: "jstring \<Rightarrow> nat" where
  "characters s = length (filter (\<lambda>u. \<not> low_surrogate u) s)"

text \<open>Values a column takes, and what reading it back gives: a \<open>bigint\<close> is read as text.\<close>

definition can_store :: "column_spec \<Rightarrow> js_value \<Rightarrow> bool" where
  "can_store spec v = (case v of
     Null \<Rightarrow> col_nullable spec
   | Str s \<Rightarrow> (case col_type spec of
       Varchar n \<Rightarrow> 0 \<notin> set s \<and> characters (to_usv s) \<le> n
     | Text_Type \<Rightarrow> 0 \<notin> set s
     | _ \<Rightarrow> False)
   | Num k \<Rightarrow> (case col_type spec of
       Int_Type \<Rightarrow> - (2 ^ 31) \<le> k \<and> k < 2 ^ 31
     | Bigint_Type \<Rightarrow> - (2 ^ 63) \<le> k \<and> k < 2 ^ 63
     | _ \<Rightarrow> False)
   | _ \<Rightarrow> False)"

definition converted :: "column_spec \<Rightarrow> js_value \<Rightarrow> js_value" where
  "converted spec v = (case v of
     Str s \<Rightarrow> Str (to_usv s)
   | Num k \<Rightarrow> if col_type spec = Bigint_Type then Str (decimal k) else v
   | _ \<Rightarrow> v)"

text \<open>A value of another shape is coerced or refused in ways that are not relied on.\<close>

definition text_type :: "column_type \<Rightarrow> bool" where
  "text_type t \<longleftrightarrow> (case t of Varchar n \<Rightarrow> True | Text_Type \<Rightarrow> True | _ \<Rightarrow> False)"

definition has_shape :: "column_spec \<Rightarrow> js_value \<Rightarrow> bool" where
  "has_shape spec v = (case v of
     Null \<Rightarrow> True
   | Str s \<Rightarrow> text_type (col_type spec)
   | Num k \<Rightarrow> col_type spec = Int_Type \<or> col_type spec = Bigint_Type
   | _ \<Rightarrow> False)"

definition stored_as :: "column \<Rightarrow> js_value \<Rightarrow> js_value \<Rightarrow> bool" where
  "stored_as c v w \<longleftrightarrow> (has_shape (user_column c) v \<longrightarrow> w = converted (user_column c) v)"

lemma can_store_shape: "can_store spec v \<Longrightarrow> has_shape spec v"
  by (auto simp: can_store_def has_shape_def text_type_def split: js_value.splits column_type.splits)

definition generated :: "column \<Rightarrow> bool" where
  "generated c \<longleftrightarrow> c \<in> {Col_id, Col_createdAt, Col_updatedAt}"

definition with_default :: "column \<Rightarrow> js_value \<Rightarrow> js_value" where
  "with_default c v = (if v = Undefined
     then (case col_default (user_column c) of Some d \<Rightarrow> d | None \<Rightarrow> Null) else v)"

section \<open>Tables\<close>

type_synonym user_rows = "jstring \<rightharpoonup> entity"

text \<open>The constraints of the declared columns, and ids that are plain text, as UUIDs are.\<close>

definition unique_column :: "column \<Rightarrow> user_rows \<Rightarrow> bool" where
  "unique_column c m \<longleftrightarrow> (\<forall>i j r q. m i = Some r \<longrightarrow> m j = Some q \<longrightarrow> r c = q c \<longrightarrow> i = j)"

definition rows_ok :: "user_rows \<Rightarrow> bool" where
  "rows_ok m \<longleftrightarrow>
     (\<forall>i r. m i = Some r \<longrightarrow> plain_text i \<and> r Col_id = Str i \<and> (\<exists>s. r Col_accountId = Str s)) \<and>
     (\<forall>c. col_unique (user_column c) \<longrightarrow> unique_column c m)"

text \<open>
  \<open>save\<close>: an entity whose id is in the table updates the columns that differ from the row
  and are not \<open>undefined\<close>; any other entity becomes a new row.
\<close>

definition updates :: "entity \<Rightarrow> entity \<Rightarrow> entity \<Rightarrow> bool" where
  "updates r e r' \<longleftrightarrow> r' Col_id = r Col_id \<and>
     (\<forall>c. c \<noteq> Col_id \<and> c \<noteq> Col_updatedAt \<longrightarrow>
       (if e c = Undefined \<or> e c = r c then r' c = r c else stored_as c (e c) (r' c)))"

definition inserts :: "entity \<Rightarrow> entity \<Rightarrow> bool" where
  "inserts e r' \<longleftrightarrow> (\<forall>c. \<not> generated c \<longrightarrow> stored_as c (with_default c (e c)) (r' c))"

definition saves :: "user_rows \<Rightarrow> entity \<Rightarrow> user_rows \<Rightarrow> bool" where
  "saves m e m' \<longleftrightarrow>
     (\<exists>i r. e Col_id = Str i \<and> m i = Some r \<and> (\<exists>r'. updates r e r' \<and> m' = m(i \<mapsto> r'))) \<or>
     ((\<nexists>i. e Col_id = Str i \<and> m i \<noteq> None) \<and>
      (\<exists>i r'. m i = None \<and> inserts e r' \<and> m' = m(i \<mapsto> r')))"

definition may_update :: "entity \<Rightarrow> entity \<Rightarrow> bool" where
  "may_update r e \<longleftrightarrow> (\<forall>c. c \<noteq> Col_id \<and> e c \<noteq> Undefined \<and> e c \<noteq> r c \<longrightarrow>
     \<not> generated c \<and> can_store (user_column c) (e c))"

definition may_insert :: "entity \<Rightarrow> bool" where
  "may_insert e \<longleftrightarrow> e Col_id = Undefined \<and> e Col_createdAt = Undefined \<and> e Col_updatedAt = Undefined \<and>
     (\<forall>c. \<not> generated c \<longrightarrow> can_store (user_column c) (with_default c (e c)))"

definition account_free :: "user_rows \<Rightarrow> entity \<Rightarrow> bool" where
  "account_free m e \<longleftrightarrow> (\<forall>i r s. m i = Some r \<longrightarrow> e Col_id \<noteq> Str i \<longrightarrow> e Col_accountId = Str s \<longrightarrow>
     r Col_accountId \<noteq> Str (to_usv s))"

definition may_save :: "user_rows \<Rightarrow> entity \<Rightarrow> bool" where
  "may_save m e \<longleftrightarrow> account_free m e \<and>
     (may_insert e \<or> (\<exists>i r. e Col_id = Str i \<and> m i = Some r \<and> may_update r e))"

locale user_table =
  fixes R :: "'db repository"
    and rows :: "'db \<Rightarrow> user_rows"
    and valid :: "'db \<Rightarrow> bool"
  assumes rows_ok: "valid db \<Longrightarrow> rows_ok (rows db)"
    and found: "valid db \<Longrightarrow> repo_find_one R c (Str s) db = Inr (Some e) \<Longrightarrow>
      \<exists>i. rows db i = Some e \<and> e c = Str (to_usv s)"
    and found_row: "valid db \<Longrightarrow> repo_find_one R c v db = Inr (Some e) \<Longrightarrow> \<exists>i. rows db i = Some e"
    and not_found: "valid db \<Longrightarrow> repo_find_one R c (Str s) db = Inr None \<Longrightarrow> rows db i = Some r \<Longrightarrow>
      r c \<noteq> Str (to_usv s)"
    and listed: "valid db \<Longrightarrow> repo_find_all R c db = Inr es \<Longrightarrow> set es = ran (rows db)"
    and saved: "valid db \<Longrightarrow> repo_save R e db = (Inr e', db') \<Longrightarrow> saves (rows db) e (rows db')"
    and save_failed: "valid db \<Longrightarrow> repo_save R e db = (Inl x, db') \<Longrightarrow> rows db' = rows db"
    and save_valid: "valid db \<Longrightarrow> repo_save R e db = (y, db') \<Longrightarrow> valid db'"
    and removed: "valid db \<Longrightarrow> repo_remove R e db = (Inr e', db') \<Longrightarrow> e Col_id = Str i \<Longrightarrow>
      rows db' = (rows db)(i := None)"
    and remove_failed: "valid db \<Longrightarrow> repo_remove R e db = (Inl x, db') \<Longrightarrow> rows db' = rows db"
    and remove_valid: "valid db \<Longrightarrow> repo_remove R e db = (z, db') \<Longrightarrow> valid db'"

locale table_up = user_table +
  assumes find_up: "valid db \<Longrightarrow> rows db i \<noteq> None \<Longrightarrow> \<exists>u. repo_find_one R Col_id (Str i) db = Inr u"
    and find_text_up: "valid db \<Longrightarrow> 0 \<notin> set s \<Longrightarrow> c = Col_accountId \<or> c = Col_username \<Longrightarrow>
      \<exists>u. repo_find_one R c (Str s) db = Inr u"
    and save_up: "valid db \<Longrightarrow> may_save (rows db) e \<Longrightarrow> \<exists>e' db'. repo_save R e db = (Inr e', db')"
    and list_up: "valid db \<Longrightarrow> \<exists>us. repo_find_all R c db = Inr us"

section \<open>A table in memory\<close>

lemma column_all:
  "(\<forall>c. P c) \<longleftrightarrow> P Col_id \<and> P Col_accountId \<and> P Col_username \<and> P Col_avatar \<and> P Col_bio \<and>
     P Col_totalRaces \<and> P Col_wins \<and> P Col_totalDistance \<and> P Col_totalRewards \<and>
     P Col_createdAtBlock \<and> P Col_createdAt \<and> P Col_updatedAt"
proof
  assume r: "P Col_id \<and> P Col_accountId \<and> P Col_username \<and> P Col_avatar \<and> P Col_bio \<and>
     P Col_totalRaces \<and> P Col_wins \<and> P Col_totalDistance \<and> P Col_totalRewards \<and>
     P Col_createdAtBlock \<and> P Col_createdAt \<and> P Col_updatedAt"
  show "\<forall>c. P c"
  proof
    fix c show "P c" using r by (cases c) simp_all
  qed
qed blast

text \<open>
  The rows with the number of ids given out; the number is the time as well.  An entity
  whose row is gone is refused.
\<close>

type_synonym memory_table = "user_rows \<times> nat"

definition user_id :: "nat \<Rightarrow> jstring" where
  "user_id k = replicate (Suc k) 49"

lemma user_id_inject [simp]: "user_id j = user_id k \<longleftrightarrow> j = k"
  by (auto simp: user_id_def dest: arg_cong [where f = length])

lemma user_id_plain: "plain_text (user_id k)"
  by (simp add: user_id_def plain_text_def)

fun first_row :: "user_rows \<Rightarrow> (entity \<Rightarrow> bool) \<Rightarrow> nat list \<Rightarrow> entity option" where
  "first_row m P [] = None"
| "first_row m P (k # ks) = (case m (user_id k) of
     Some r \<Rightarrow> if P r then Some r else first_row m P ks
   | None \<Rightarrow> first_row m P ks)"

definition memory_find :: "column \<Rightarrow> js_value \<Rightarrow> memory_table \<Rightarrow> entity option js_outcome" where
  "memory_find c v t = (case v of
     Str s \<Rightarrow> Inr (first_row (fst t) (\<lambda>r. r c = Str (to_usv s)) [0..<snd t])
   | _ \<Rightarrow> Inl Query_Error)"

definition memory_all :: "column \<Rightarrow> memory_table \<Rightarrow> entity list js_outcome" where
  "memory_all c t = Inr (rev (List.map_filter (\<lambda>k. fst t (user_id k)) [0..<snd t]))"

definition updated_row :: "entity \<Rightarrow> entity \<Rightarrow> entity" where
  "updated_row r e = (\<lambda>c. if c = Col_id \<or> e c = Undefined \<or> e c = r c then r c
     else converted (user_column c) (e c))"

definition inserted_row :: "nat \<Rightarrow> entity \<Rightarrow> entity" where
  "inserted_row k e = (\<lambda>c. if c = Col_id then Str (user_id k)
     else if generated c then Num (int k)
     else converted (user_column c) (with_default c (e c)))"

definition account_taken :: "user_rows \<Rightarrow> entity \<Rightarrow> nat list \<Rightarrow> bool" where
  "account_taken m e ks \<longleftrightarrow> (case e Col_accountId of
     Str s \<Rightarrow> first_row m (\<lambda>r. r Col_accountId = Str (to_usv s) \<and> r Col_id \<noteq> e Col_id) ks \<noteq> None
   | _ \<Rightarrow> False)"

definition memory_save :: "entity \<Rightarrow> memory_table \<Rightarrow> entity js_outcome \<times> memory_table" where
  "memory_save e t = (case t of (m, n) \<Rightarrow>
     if account_taken m e [0..<n] then (Inl Query_Error, t)
     else (case e Col_id of
       Str i \<Rightarrow> (case m i of
         Some r \<Rightarrow> if may_update r e then (Inr e, (m(i \<mapsto> updated_row r e), n)) else (Inl Query_Error, t)
       | None \<Rightarrow> (Inl Query_Error, t))
     | Undefined \<Rightarrow>
         if may_insert e then (Inr (e(Col_id := Str (user_id n))), (m(user_id n \<mapsto> inserted_row n e), Suc n))
         else (Inl Query_Error, t)
     | _ \<Rightarrow> (Inl Query_Error, t)))"

definition memory_remove :: "entity \<Rightarrow> memory_table \<Rightarrow> entity js_outcome \<times> memory_table" where
  "memory_remove e t = (case t of (m, n) \<Rightarrow> (case e Col_id of
     Str i \<Rightarrow> (Inr e, (m(i := None), n))
   | _ \<Rightarrow> (Inl Query_Error, t)))"

definition memory_repository :: "memory_table repository" where
  "memory_repository = \<lparr>repo_find_one = memory_find, repo_find_all = memory_all,
     repo_save = memory_save, repo_remove = memory_remove\<rparr>"

definition memory_valid :: "memory_table \<Rightarrow> bool" where
  "memory_valid t \<longleftrightarrow> rows_ok (fst t) \<and> dom (fst t) \<subseteq> user_id ` {..<snd t}"

definition empty_table :: memory_table where
  "empty_table = (Map.empty, 0)"

lemma empty_table_valid: "memory_valid empty_table"
  by (simp add: memory_valid_def empty_table_def rows_ok_def unique_column_def)

lemma first_row_Some: "first_row m P ks = Some r \<Longrightarrow> \<exists>k\<in>set ks. m (user_id k) = Some r \<and> P r"
  by (induction ks) (auto split: option.splits if_splits)

lemma first_row_None: "first_row m P ks = None \<Longrightarrow> k \<in> set ks \<Longrightarrow> m (user_id k) = Some r \<Longrightarrow> \<not> P r"
  by (induction ks) (auto split: option.splits if_splits)

lemma memory_row:
  "memory_valid (m, n) \<Longrightarrow> m i = Some r \<Longrightarrow> \<exists>k<n. i = user_id k"
  by (force simp: memory_valid_def)

lemma rows_okD:
  assumes "rows_ok m" "m i = Some r"
  shows "r Col_id = Str i" "plain_text i" "\<exists>s. r Col_accountId = Str s"
  using assms by (auto simp: rows_ok_def)

text \<open>Of the unique columns only the account needs a proof: the id is the row's key.\<close>

lemma unique_id:
  assumes "\<And>i r. m i = Some r \<Longrightarrow> r Col_id = Str i"
  shows "unique_column Col_id m"
  unfolding unique_column_def
proof (intro allI impI)
  fix i j r q assume "m i = Some r" "m j = Some q" "r Col_id = q Col_id"
  then show "i = j" using assms by (metis js_value.inject(3))
qed

lemma rows_ok_iff:
  "rows_ok m \<longleftrightarrow>
     (\<forall>i r. m i = Some r \<longrightarrow> plain_text i \<and> r Col_id = Str i \<and> (\<exists>s. r Col_accountId = Str s)) \<and>
     unique_column Col_accountId m"
  using unique_id [of m]
  by (subst rows_ok_def, subst column_all) (auto simp: column_specs)

lemma unique_columnD:
  "unique_column c m \<Longrightarrow> m i = Some r \<Longrightarrow> m j = Some q \<Longrightarrow> r c = q c \<Longrightarrow> i = j"
  unfolding unique_column_def by blast

lemma unique_column_upd:
  assumes "unique_column c m" "\<And>j q. m j = Some q \<Longrightarrow> j \<noteq> i \<Longrightarrow> q c \<noteq> r c"
  shows "unique_column c (m(i \<mapsto> r))"
  unfolding unique_column_def
proof (intro allI impI)
  fix j k q u
  assume j: "(m(i \<mapsto> r)) j = Some q" and k: "(m(i \<mapsto> r)) k = Some u" and eq: "q c = u c"
  consider "j = i" "k = i" | "j = i" "k \<noteq> i" | "j \<noteq> i" "k = i" | "j \<noteq> i" "k \<noteq> i" by blast
  then show "j = k"
    by cases (use j k eq assms(2) unique_columnD [OF assms(1)] in auto)
qed

text \<open>A row that keeps its id and has an account no other row has keeps the constraints.\<close>

lemma rows_ok_insert:
  assumes ok: "rows_ok m" and r: "r Col_id = Str i" "plain_text i" "r Col_accountId = Str s"
    and free: "\<And>j q. m j = Some q \<Longrightarrow> j \<noteq> i \<Longrightarrow> q Col_accountId \<noteq> Str s"
  shows "rows_ok (m(i \<mapsto> r))"
  using ok r unique_column_upd [of Col_accountId m i r] free
  by (auto simp: rows_ok_iff)

lemma unique_column_remove: "unique_column c m \<Longrightarrow> unique_column c (m(i := None))"
  unfolding unique_column_def by (auto split: if_splits)

lemma rows_ok_remove: "rows_ok m \<Longrightarrow> rows_ok (m(i := None))"
  by (auto simp: rows_ok_iff intro: unique_column_remove)

lemma account_taken_iff:
  assumes "memory_valid (m, n)"
  shows "account_taken m e [0..<n] \<longleftrightarrow> \<not> account_free m e"
proof (cases "e Col_accountId")
  case (Str s)
  let ?P = "\<lambda>r :: entity. r Col_accountId = Str (to_usv s) \<and> r Col_id \<noteq> e Col_id"
  have "first_row m ?P [0..<n] \<noteq> None \<longleftrightarrow> (\<exists>i r. m i = Some r \<and> ?P r)"
  proof
    assume "first_row m ?P [0..<n] \<noteq> None"
    then show "\<exists>i r. m i = Some r \<and> ?P r" using first_row_Some by blast
  next
    assume "\<exists>i r. m i = Some r \<and> ?P r"
    then obtain i r where r: "m i = Some r" "?P r" by blast
    moreover obtain k where "k < n" "i = user_id k" using memory_row [OF assms r(1)] by blast
    ultimately show "first_row m ?P [0..<n] \<noteq> None"
      using first_row_None [of m ?P "[0..<n]" k r] by auto
  qed
  with Str assms show ?thesis
    by (fastforce simp: account_taken_def account_free_def memory_valid_def dest: rows_okD(1))
qed (simp_all add: account_taken_def account_free_def)

lemma memory_find_text: "memory_find c (Str s) t = Inr (first_row (fst t) (\<lambda>r. r c = Str (to_usv s)) [0..<snd t])"
  by (simp add: memory_find_def)

lemma memory_found:
  "memory_find c (Str s) t = Inr (Some e) \<Longrightarrow> \<exists>i. fst t i = Some e \<and> e c = Str (to_usv s)"
  by (auto simp: memory_find_text dest!: first_row_Some)

lemma memory_not_found:
  assumes "memory_valid t" "memory_find c (Str s) t = Inr None" "fst t i = Some r"
  shows "r c \<noteq> Str (to_usv s)"
proof -
  obtain k where "k < snd t" "i = user_id k"
    using memory_row [of "fst t" "snd t" i r] assms by auto
  with assms(2,3) show ?thesis
    using first_row_None [of "fst t" _ "[0..<snd t]" k r] by (auto simp: memory_find_text)
qed

lemma memory_listed: "memory_valid t \<Longrightarrow> memory_all c t = Inr es \<Longrightarrow> set es = ran (fst t)"
  using memory_row [of "fst t" "snd t"]
  by (force simp: memory_all_def map_filter_def ran_def)

lemma updated_row_id [simp]: "updated_row r e Col_id = r Col_id"
  by (simp add: updated_row_def)

lemma updated_row_updates:
  "may_update r e \<Longrightarrow> updates r e (updated_row r e)"
  by (auto simp: updates_def updated_row_def stored_as_def)

lemma inserted_row_inserts: "inserts e (inserted_row k e)"
  by (auto simp: inserts_def inserted_row_def stored_as_def generated_def)

lemma can_store_account: "can_store (user_column Col_accountId) v \<Longrightarrow> \<exists>s. v = Str s"
  by (auto simp: can_store_def column_specs split: js_value.splits)

lemma updated_row_account:
  assumes "may_update r e" "r Col_accountId = Str s"
  shows "updated_row r e Col_accountId = r Col_accountId \<or>
     (\<exists>u. e Col_accountId = Str u \<and> updated_row r e Col_accountId = Str (to_usv u))"
proof (cases "e Col_accountId = Undefined \<or> e Col_accountId = r Col_accountId")
  case False
  with assms(1) have "can_store (user_column Col_accountId) (e Col_accountId)"
    by (auto simp: may_update_def)
  with False show ?thesis
    by (auto dest!: can_store_account simp: updated_row_def converted_def)
qed (auto simp: updated_row_def)

lemma inserted_row_account:
  assumes "may_insert e"
  shows "\<exists>u. e Col_accountId = Str u \<and> inserted_row k e Col_accountId = Str (to_usv u)"
proof -
  have "can_store (user_column Col_accountId) (with_default Col_accountId (e Col_accountId))"
    using assms by (simp add: may_insert_def generated_def)
  then obtain u where u: "with_default Col_accountId (e Col_accountId) = Str u"
    using can_store_account by blast
  then have "e Col_accountId = Str u"
    by (auto simp: with_default_def column_specs split: if_splits)
  with u show ?thesis by (auto simp: inserted_row_def generated_def converted_def)
qed

lemma memory_save_cases:
  assumes "memory_save e (m, n) = (y, t')" "memory_valid (m, n)"
  obtains (refused) x where "y = Inl x" "t' = (m, n)" "\<not> may_save m e"
  | (updated) i r where "y = Inr e" "account_free m e" "e Col_id = Str i" "m i = Some r" "may_update r e"
      "t' = (m(i \<mapsto> updated_row r e), n)"
  | (inserted) "y = Inr (e(Col_id := Str (user_id n)))" "account_free m e" "may_insert e"
      "t' = (m(user_id n \<mapsto> inserted_row n e), Suc n)"
  using assms account_taken_iff [OF assms(2), of e]
  by (auto simp: memory_save_def may_save_def may_insert_def split: if_splits js_value.splits option.splits)

lemma memory_next_free: "memory_valid (m, n) \<Longrightarrow> m (user_id n) = None"
  by (auto simp: memory_valid_def dom_def)

lemma memory_save_valid:
  assumes v: "memory_valid (m, n)" and "memory_save e (m, n) = (y, t')"
  shows "memory_valid t'"
  using assms(2) v
proof (cases rule: memory_save_cases)
  case refused
  with v show ?thesis by simp
next
  case (updated i r)
  note ok = v [unfolded memory_valid_def, THEN conjunct1, simplified]
  obtain s where s: "r Col_accountId = Str s" using rows_okD(3) [OF ok updated(4)] by blast
  have "rows_ok (m(i \<mapsto> updated_row r e))"
    using updated_row_account [OF updated(5) s]
  proof
    assume "updated_row r e Col_accountId = r Col_accountId"
    then show ?thesis
      by (intro rows_ok_insert [OF ok, where s = s])
         (use rows_okD [OF ok updated(4)] s ok updated(4) in
           \<open>auto simp: rows_ok_iff dest: unique_columnD\<close>)
  next
    assume "\<exists>u. e Col_accountId = Str u \<and> updated_row r e Col_accountId = Str (to_usv u)"
    then obtain u where "e Col_accountId = Str u" "updated_row r e Col_accountId = Str (to_usv u)" by blast
    then show ?thesis
      by (intro rows_ok_insert [OF ok, where s = "to_usv u"])
         (use rows_okD [OF ok updated(4)] updated(2,3) in \<open>auto simp: account_free_def\<close>)
  qed
  with updated v show ?thesis by (auto simp: memory_valid_def)
next
  case inserted
  note ok = v [unfolded memory_valid_def, THEN conjunct1, simplified]
  obtain u where u: "e Col_accountId = Str u" "inserted_row n e Col_accountId = Str (to_usv u)"
    using inserted_row_account [OF inserted(3)] by blast
  have "rows_ok (m(user_id n \<mapsto> inserted_row n e))"
    by (intro rows_ok_insert [OF ok, where s = "to_usv u"])
       (use u inserted(2,3) user_id_plain in
         \<open>auto simp: account_free_def inserted_row_def may_insert_def\<close>)
  with inserted v show ?thesis by (auto simp: memory_valid_def less_Suc_eq)
qed

lemma memory_saved:
  assumes v: "memory_valid (m, n)" and "memory_save e (m, n) = (Inr e', t')"
  shows "saves m e (fst t')"
  using assms(2) v
proof (cases rule: memory_save_cases)
  case (updated i r)
  then show ?thesis by (auto simp: saves_def intro: updated_row_updates)
next
  case inserted
  then show ?thesis
    by (auto simp: saves_def may_insert_def memory_next_free [OF v] intro!: exI [of _ "user_id n"]
        inserted_row_inserts)
qed simp

lemma memory_remove_valid:
  assumes "memory_valid (m, n)" "memory_remove e (m, n) = (z, t')"
  shows "memory_valid t'"
proof -
  have "memory_valid (m(i := None), n)" for i
    using assms(1) by (simp add: memory_valid_def rows_ok_remove) blast
  with assms show ?thesis
    by (auto simp: memory_remove_def split: js_value.splits)
qed

lemma memory_repository_simps [simp]:
  "repo_find_one memory_repository = memory_find"
  "repo_find_all memory_repository = memory_all"
  "repo_save memory_repository = memory_save"
  "repo_remove memory_repository = memory_remove"
  by (simp_all add: memory_repository_def)

interpretation memory: table_up memory_repository fst memory_valid
proof
  fix t :: memory_table and e e' :: entity and x :: js_error and y z :: "entity js_outcome"
    and t' :: memory_table and c :: column and s i :: jstring and es :: "entity list" and r :: entity
  note split = prod.collapse [of t, symmetric]
  show "memory_valid t \<Longrightarrow> rows_ok (fst t)" by (simp add: memory_valid_def)
  show "repo_find_one memory_repository c (Str s) t = Inr (Some e) \<Longrightarrow>
      \<exists>i. fst t i = Some e \<and> e c = Str (to_usv s)" using memory_found [of c s t e] by simp
  show "repo_find_one memory_repository c v t = Inr (Some e) \<Longrightarrow> \<exists>i. fst t i = Some e" for v
    by (auto simp: memory_find_def split: js_value.splits dest!: first_row_Some)
  show "memory_valid t \<Longrightarrow> repo_find_one memory_repository c (Str s) t = Inr None \<Longrightarrow> fst t i = Some r \<Longrightarrow>
      r c \<noteq> Str (to_usv s)" by (simp add: memory_not_found)
  show "memory_valid t \<Longrightarrow> repo_find_all memory_repository c t = Inr es \<Longrightarrow> set es = ran (fst t)"
    by (simp add: memory_listed)
  show "memory_valid t \<Longrightarrow> repo_save memory_repository e t = (Inr e', t') \<Longrightarrow> saves (fst t) e (fst t')"
    using memory_saved [of "fst t" "snd t"] by simp
  show "memory_valid t \<Longrightarrow> repo_save memory_repository e t = (Inl x, t') \<Longrightarrow> fst t' = fst t"
    using memory_save_cases [of e "fst t" "snd t" "Inl x" t'] by fastforce
  show "memory_valid t \<Longrightarrow> repo_save memory_repository e t = (y, t') \<Longrightarrow> memory_valid t'"
    using memory_save_valid [of "fst t" "snd t"] by simp
  show "repo_remove memory_repository e t = (Inr e', t') \<Longrightarrow> e Col_id = Str i \<Longrightarrow> fst t' = (fst t)(i := None)"
    by (auto simp: memory_remove_def split: prod.splits)
  show "repo_remove memory_repository e t = (Inl x, t') \<Longrightarrow> fst t' = fst t"
    by (auto simp: memory_remove_def split: prod.splits js_value.splits)
  show "memory_valid t \<Longrightarrow> repo_remove memory_repository e t = (z, t') \<Longrightarrow> memory_valid t'"
    using memory_remove_valid [of "fst t" "snd t"] by simp
  show "\<exists>u. repo_find_one memory_repository Col_id (Str i) t = Inr u"
    by (simp add: memory_find_text)
  show "\<exists>u. repo_find_one memory_repository c (Str s) t = Inr u"
    by (simp add: memory_find_text)
  show "\<exists>e' t'. repo_save memory_repository e t = (Inr e', t')"
    if "memory_valid t" "may_save (fst t) e"
  proof -
    obtain y u where "memory_save e (fst t, snd t) = (y, u)" by (meson prod.exhaust)
    with that show ?thesis
      using memory_save_cases [of e "fst t" "snd t" y u] by fastforce
  qed
  show "\<exists>us. repo_find_all memory_repository c t = Inr us" by (simp add: memory_all_def)
qed

lemmas memory_simps = memory_find_def memory_all_def memory_save_def memory_remove_def
  account_taken_def may_update_def may_insert_def column_all updated_row_def inserted_row_def
  generated_def can_store_def converted_def with_default_def column_specs field_def assign_def
  new_entity_def empty_table_def characters_def high_surrogate_def low_surrogate_def usv_unit_def

end
