(* ===== verification/Users_Requests.thy ===== *)
theory Users_Requests
  imports Users_Table
begin

text \<open>
  The HTTP interface of the users service (\<open>users.controller.ts\<close> with the two DTO classes)
  and what the service keeps of the usernames: requests that run one after the other keep
  them distinct, two that overlap need not.
\<close>

section \<open>Request bodies\<close>

datatype rule = Is_Optional | Is_String | Min_Length nat | Max_Length nat | Is_Int | Is_Number_String

type_synonym dto_class = "column \<Rightarrow> rule list"

fun update_user_dto :: dto_class where
  "update_user_dto Col_username = [Is_Optional, Is_String, Max_Length 32]"
| "update_user_dto Col_avatar = [Is_Optional, Is_String]"
| "update_user_dto Col_bio = [Is_Optional, Is_String, Max_Length 256]"
| "update_user_dto Col_totalRaces = [Is_Optional, Is_Int]"
| "update_user_dto Col_wins = [Is_Optional, Is_Int]"
| "update_user_dto Col_totalDistance = [Is_Optional, Is_Number_String]"
| "update_user_dto Col_totalRewards = [Is_Optional, Is_String]"
| "update_user_dto Col_createdAtBlock = [Is_Optional, Is_Int]"
| "update_user_dto _ = []"

fun create_user_dto :: dto_class where
  "create_user_dto Col_accountId = [Is_String, Min_Length 1]"
| "create_user_dto Col_username = [Is_Optional, Is_String, Max_Length 32]"
| "create_user_dto Col_avatar = [Is_Optional, Is_String]"
| "create_user_dto Col_bio = [Is_Optional, Is_String, Max_Length 256]"
| "create_user_dto Col_totalRaces = [Is_Optional, Is_Int]"
| "create_user_dto Col_wins = [Is_Optional, Is_Int]"
| "create_user_dto Col_totalDistance = [Is_Optional, Is_Number_String]"
| "create_user_dto Col_totalRewards = [Is_Optional, Is_String]"
| "create_user_dto Col_createdAtBlock = [Is_Optional, Is_Int]"
| "create_user_dto _ = []"

text \<open>
  The global \<open>ValidationPipe\<close> of \<open>main.ts\<close> (\<open>whitelist\<close>, \<open>forbidNonWhitelisted\<close>) is class
  validator's; relied on is that a body it lets through has only declared properties, and a
  string wherever \<open>@IsString\<close> is declared, or nothing where the property is optional.
\<close>

definition satisfies :: "rule list \<Rightarrow> js_value \<Rightarrow> bool" where
  "satisfies rs v \<longleftrightarrow>
     (Is_Optional \<in> set rs \<and> (v = Undefined \<or> v = Null)) \<or>
     (Is_String \<in> set rs \<longrightarrow> (\<exists>s. v = Str s \<and> (\<forall>n. Min_Length n \<in> set rs \<longrightarrow> n \<le> length s)))"

definition pipe_ok :: "(dto_class \<Rightarrow> dto \<Rightarrow> bool) \<Rightarrow> bool" where
  "pipe_ok pipe \<longleftrightarrow> (\<forall>K d. pipe K d \<longrightarrow>
     (\<forall>c. d c \<noteq> None \<longrightarrow> K c \<noteq> []) \<and> (\<forall>c. K c \<noteq> [] \<longrightarrow> satisfies (K c) (field d c)))"

section \<open>The controller\<close>

datatype request =
    Post_User dto
  | Get_All
  | Get_By_Account jstring
  | Get_By_Username jstring
  | Get_One jstring
  | Patch_User jstring dto
  | Patch_By_Account jstring dto
  | Delete_User jstring

datatype response = One entity | Perhaps "entity option" | Many "entity list" | No_Content | Bad_Request

fun handle_request :: "(dto_class \<Rightarrow> dto \<Rightarrow> bool) \<Rightarrow> request \<Rightarrow> response prog" where
  "handle_request pipe (Post_User d) =
     (if pipe create_user_dto d then await (create d) (\<lambda>u. resolve (One u)) else resolve Bad_Request)"
| "handle_request pipe Get_All = await find_all (\<lambda>us. resolve (Many us))"
| "handle_request pipe (Get_By_Account a) = await (find_by_account_id (Str a)) (\<lambda>u. resolve (Perhaps u))"
| "handle_request pipe (Get_By_Username n) = await (find_by_username (Str n)) (\<lambda>u. resolve (Perhaps u))"
| "handle_request pipe (Get_One i) = await (find_one (Str i)) (\<lambda>u. resolve (One u))"
| "handle_request pipe (Patch_User i d) =
     (if pipe update_user_dto d then await (update (Str i) d) (\<lambda>u. resolve (One u)) else resolve Bad_Request)"
| "handle_request pipe (Patch_By_Account a d) =
     (if pipe update_user_dto d then await (update_by_account_id (Str a) d) (\<lambda>u. resolve (One u))
      else resolve Bad_Request)"
| "handle_request pipe (Delete_User i) = await (remove_user (Str i)) (\<lambda>_. resolve No_Content)"

section \<open>Usernames stay distinct\<close>

definition names_distinct :: "user_rows \<Rightarrow> bool" where
  "names_distinct m \<longleftrightarrow> (\<forall>i j r q s. m i = Some r \<longrightarrow> m j = Some q \<longrightarrow> s \<noteq> [] \<longrightarrow>
     r Col_username = Str s \<longrightarrow> q Col_username = Str s \<longrightarrow> i = j)"

text \<open>What the bodies and the event handlers have in common: no id, and a username that is
  text or missing.\<close>

definition plain_dto :: "dto \<Rightarrow> bool" where
  "plain_dto d \<longleftrightarrow> d Col_id = None \<and> (case field d Col_username of
     Undefined \<Rightarrow> True | Null \<Rightarrow> True | Str s \<Rightarrow> True | _ \<Rightarrow> False)"

lemma plain_dto_name:
  assumes "plain_dto d"
  obtains "field d Col_username = Undefined" | "field d Col_username = Null"
    | s where "field d Col_username = Str s"
  using assms by (auto simp: plain_dto_def split: js_value.splits)

lemma pipe_plain:
  assumes "pipe_ok pipe" "pipe K d" "K Col_id = []" "K Col_username = [Is_Optional, Is_String, Max_Length 32]"
  shows "plain_dto d"
proof -
  have "satisfies (K Col_username) (field d Col_username)" "d Col_id = None"
    using assms unfolding pipe_ok_def by (metis list.discI, metis)
  with assms(4) show ?thesis by (auto simp: satisfies_def plain_dto_def)
qed

lemma names_distinctD:
  "names_distinct m \<Longrightarrow> m i = Some r \<Longrightarrow> m j = Some q \<Longrightarrow> r Col_username = Str s \<Longrightarrow>
     q Col_username = Str s \<Longrightarrow> s \<noteq> [] \<Longrightarrow> i = j"
  unfolding names_distinct_def by blast

lemma names_distinct_upd:
  assumes "names_distinct m"
    and "\<And>s j q. r Col_username = Str s \<Longrightarrow> s \<noteq> [] \<Longrightarrow> m j = Some q \<Longrightarrow> j \<noteq> i \<Longrightarrow> q Col_username \<noteq> Str s"
  shows "names_distinct (m(i \<mapsto> r))"
  unfolding names_distinct_def
proof (intro allI impI)
  fix j k q u s
  assume j: "(m(i \<mapsto> r)) j = Some q" and k: "(m(i \<mapsto> r)) k = Some u"
    and s: "s \<noteq> []" "q Col_username = Str s" "u Col_username = Str s"
  consider "j = i" "k = i" | "j = i" "k \<noteq> i" | "j \<noteq> i" "k = i" | "j \<noteq> i" "k \<noteq> i" by blast
  then show "j = k"
    by cases (use j k s assms(2) names_distinctD [OF assms(1)] in auto)
qed

lemma names_distinct_remove: "names_distinct m \<Longrightarrow> names_distinct (m(i := None))"
  unfolding names_distinct_def by (auto split: if_splits)

text \<open>What a run of \<open>create\<close> or \<open>update\<close> can do to the rows.\<close>

definition name_free :: "user_rows \<Rightarrow> js_value \<Rightarrow> bool" where
  "name_free m v \<longleftrightarrow> (\<forall>s i r. v = Str s \<longrightarrow> s \<noteq> [] \<longrightarrow> m i = Some r \<longrightarrow> r Col_username \<noteq> Str (to_usv s))"

lemma name_freeD: "name_free m (Str s) \<Longrightarrow> m i = Some r \<Longrightarrow> s \<noteq> [] \<Longrightarrow> r Col_username \<noteq> Str (to_usv s)"
  by (simp add: name_free_def)

lemma stored_name [simp]:
  "stored_as Col_username Null w \<longleftrightarrow> w = Null"
  "stored_as Col_username (Str s) w \<longleftrightarrow> w = Str (to_usv s)"
  by (auto simp: stored_as_def has_shape_def text_type_def converted_def column_specs)

lemma inserted_names_distinct:
  assumes "names_distinct m" "inserts e r'" "name_free m (e Col_username)"
    and "e Col_username = Undefined \<or> e Col_username = Null \<or> e Col_username = Str s"
  shows "names_distinct (m(i \<mapsto> r'))"
proof (rule names_distinct_upd [OF assms(1)])
  fix u j q assume u: "r' Col_username = Str u" "u \<noteq> []" and q: "m j = Some q" "j \<noteq> i"
  have "stored_as Col_username (with_default Col_username (e Col_username)) (r' Col_username)"
    using assms(2) by (simp add: inserts_def generated_def)
  with assms(4) u(1) have "e Col_username = Str s" "u = to_usv s"
    by (auto simp: with_default_def column_specs split: if_splits)
  with assms(3) u q show "q Col_username \<noteq> Str u" by (auto simp: name_free_def)
qed

lemma updated_names_distinct:
  assumes "names_distinct m" "m i = Some r" "updates r e r'"
    and "e Col_username = r Col_username \<or> name_free m (e Col_username)"
    and "e Col_username = r Col_username \<or> e Col_username = Undefined \<or> e Col_username = Null \<or>
      (\<exists>s. e Col_username = Str s)"
  shows "names_distinct (m(i \<mapsto> r'))"
proof (rule names_distinct_upd [OF assms(1)])
  fix u j q assume u: "r' Col_username = Str u" "u \<noteq> []" and q: "m j = Some q" "j \<noteq> i"
  have up: "if e Col_username = Undefined \<or> e Col_username = r Col_username
      then r' Col_username = r Col_username else stored_as Col_username (e Col_username) (r' Col_username)"
    using assms(3) by (simp add: updates_def)
  show "q Col_username \<noteq> Str u"
  proof (cases "e Col_username = Undefined \<or> e Col_username = r Col_username")
    case True
    with up u(1) have "r Col_username = Str u" by simp
    with names_distinctD [OF assms(1) q(1) assms(2)] u(2) q(2) show ?thesis by blast
  next
    case False
    with up assms(5) u(1) obtain s where "e Col_username = Str s" "u = to_usv s"
      by auto
    with False assms(4) u q show ?thesis by (auto simp: name_free_def)
  qed
qed

lemma name_free_simps [simp]:
  "name_free m Undefined" "name_free m Null" "name_free m (Str [])"
  by (simp_all add: name_free_def)

context user_table
begin

lemma save_cases:
  assumes "valid db" "repo_save R e db = (x, db')"
  shows "valid db' \<and> (rows db' = rows db \<or> saves (rows db) e (rows db'))"
  using assms save_valid [OF assms] saved [OF assms(1)] save_failed [OF assms(1)] by (cases x) auto

lemma found_free:
  assumes "valid db" "repo_find_one R Col_username v db = Inr None" "v = Str s"
  shows "name_free (rows db) v"
  using assms not_found [OF assms(1), of Col_username s] by (auto simp: name_free_def)

lemma name_checked:
  assumes "valid db" "plain_dto d"
    and "truthy (field d Col_username) \<longrightarrow> repo_find_one R Col_username (field d Col_username) db = Inr None"
  shows "name_free (rows db) (field d Col_username)"
  using assms(2)
proof (cases rule: plain_dto_name)
  case (3 s)
  with assms found_free [OF assms(1)] show ?thesis by (cases "s = []") auto
qed simp_all

lemma create_cases:
  assumes "valid db" "plain_dto d" "run_prog R (create d) db = (x, db')"
  shows "valid db' \<and> (rows db' = rows db \<or>
    name_free (rows db) (field d Col_username) \<and> saves (rows db) (new_entity d) (rows db'))"
  using assms(1,3) name_checked [OF assms(1,2)] save_cases [OF assms(1), of "new_entity d" x db']
  by (auto simp: create_def split: sum.splits if_splits prod.splits)

lemma update_cases:
  assumes "valid db" "plain_dto d" "run_prog R (update v d) db = (x, db')" "v = Str i"
  shows "valid db' \<and> (rows db' = rows db \<or>
    (\<exists>j user. rows db j = Some user \<and> user Col_id = Str (to_usv i) \<and>
      (field d Col_username = user Col_username \<or> name_free (rows db) (field d Col_username)) \<and>
      saves (rows db) (assign user d) (rows db')))"
proof -
  have free: "field d Col_username = user Col_username \<or> name_free (rows db) (field d Col_username)"
    if "truthy (field d Col_username) \<and> \<not> strict_equal (field d Col_username) (user Col_username) \<longrightarrow>
      repo_find_one R Col_username (field d Col_username) db = Inr None" for user
    using that name_checked [OF assms(1,2)] strict_equal_eq by blast
  show ?thesis
  proof (cases "repo_find_one R Col_id (Str i) db")
    case (Inl e)
    with assms show ?thesis by (auto simp: update_def find_one_def)
  next
    case (Inr u)
    show ?thesis
    proof (cases u)
      case None
      with assms Inr show ?thesis by (auto simp: update_def find_one_def)
    next
      case (Some user)
      from found [OF assms(1) Inr [unfolded Some]] obtain j
        where j: "rows db j = Some user" "user Col_id = Str (to_usv i)" by blast
      have "valid db' \<and> (rows db' = rows db \<or>
         (field d Col_username = user Col_username \<or> name_free (rows db) (field d Col_username)) \<and>
         saves (rows db) (assign user d) (rows db'))"
        using assms(1,3,4) Inr Some free [of user] save_cases [OF assms(1), of "assign user d" x db']
        by (auto simp: update_def find_one_def split: sum.splits if_splits prod.splits)
      with j show ?thesis by blast
    qed
  qed
qed

text \<open>Requests, one at a time.\<close>

lemma saved_new_names:
  assumes "names_distinct (rows db)" "plain_dto d" "name_free (rows db) (field d Col_username)"
    and "saves (rows db) (new_entity d) m'"
  shows "names_distinct m'"
proof -
  have "new_entity d Col_id = Undefined" "new_entity d Col_username = field d Col_username"
    using assms(2) by (simp_all add: plain_dto_def new_entity_def field_def)
  with assms show ?thesis
    by (auto simp: saves_def elim!: plain_dto_name intro: inserted_names_distinct)
qed

lemma saved_update_names:
  assumes "valid db" "names_distinct (rows db)" "plain_dto d" "rows db j = Some user"
    and "field d Col_username = user Col_username \<or> name_free (rows db) (field d Col_username)"
    and "saves (rows db) (assign user d) m'"
  shows "names_distinct m'"
proof -
  have j: "user Col_id = Str j" using rows_okD(1) [OF rows_ok [OF assms(1)] assms(4)] .
  have e: "assign user d Col_id = user Col_id" "assign user d Col_username =
      (if d Col_username = None then user Col_username else field d Col_username)"
    using assms(3) by (auto simp: plain_dto_def assign_def field_def split: option.split)
  from assms(4,6) j e(1) obtain r' where r': "updates user (assign user d) r'" "m' = (rows db)(j \<mapsto> r')"
    by (auto simp: saves_def)
  show ?thesis
    unfolding r'(2)
    by (rule updated_names_distinct [OF assms(2,4) r'(1)])
       (use assms(3,5) e(2) in \<open>auto elim: plain_dto_name\<close>)
qed

lemma create_names:
  assumes "valid db" "names_distinct (rows db)" "plain_dto d"
  shows "valid (snd (run_prog R (create d) db)) \<and> names_distinct (rows (snd (run_prog R (create d) db)))"
  using create_cases [OF assms(1,3) prod.collapse [symmetric]] saved_new_names [OF assms(2,3)] assms(2)
  by metis

lemma update_names:
  assumes "valid db" "names_distinct (rows db)" "plain_dto d" "v = Str i"
  shows "valid (snd (run_prog R (update v d) db)) \<and> names_distinct (rows (snd (run_prog R (update v d) db)))"
  using update_cases [OF assms(1,3) prod.collapse [symmetric] assms(4)]
    saved_update_names [OF assms(1-3)] assms(2)
  by metis

end

end
