(* ===== verification/Event_Processor.thy ===== *)
theory Event_Processor
  imports Users_Requests
begin

text \<open>
  The blockchain side of the API (\<open>apps/api/src/blockchain\<close>): \<open>blockchain.service.ts\<close>
  turns the events of every new block into jobs, \<open>event-processor.ts\<close> applies a job to the
  users table.  Log output is left out.
\<close>

section \<open>Jobs\<close>

record job =
  job_block :: int
  job_hash :: jstring
  job_pallet :: jstring
  job_method :: jstring
  job_data :: js_value

record job_options =
  attempts :: nat
  backoff_type :: string
  backoff_delay :: nat

record 'd event_record =
  section_name :: jstring
  method_name :: jstring
  event_data :: 'd

definition event_options :: job_options where
  "event_options = \<lparr>attempts = 3, backoff_type = ''exponential'', backoff_delay = 2000\<rparr>"

definition event_job :: "int \<Rightarrow> jstring \<Rightarrow> 'd event_record \<Rightarrow> js_value \<Rightarrow> job" where
  "event_job n h event json = \<lparr>job_block = n, job_hash = h, job_pallet = section_name event,
     job_method = method_name event, job_data = json\<rparr>"

text \<open>
  The chain's API (\<open>polkadot.js\<close>) and the queue (Bull) are given: \<open>to_json\<close> is the data's
  \<open>toJSON()\<close>, \<open>add\<close> the queue's; both can throw.
\<close>

primrec process_block_events ::
    "('d \<Rightarrow> js_value js_outcome) \<Rightarrow> (string \<Rightarrow> job \<Rightarrow> job_options \<Rightarrow> 'q \<Rightarrow> unit js_outcome \<times> 'q) \<Rightarrow>
     int \<Rightarrow> jstring \<Rightarrow> 'd event_record list \<Rightarrow> 'q \<Rightarrow> unit js_outcome \<times> 'q" where
  "process_block_events to_json add n h [] q = (Inr (), q)"
| "process_block_events to_json add n h (event # events) q = (case to_json (event_data event) of
     Inl e \<Rightarrow> (Inl e, q)
   | Inr data_json \<Rightarrow>
       if section_name event = js ''userProfile''
       then (case add ''userProfile-event'' (event_job n h event data_json) event_options q of
           (Inl e, q') \<Rightarrow> (Inl e, q')
         | (Inr _, q') \<Rightarrow> process_block_events to_json add n h events q')
       else process_block_events to_json add n h events q)"

record 'd chain_api =
  get_block :: "jstring \<Rightarrow> unit js_outcome"
  events_at :: "jstring \<Rightarrow> 'd event_record list js_outcome"

text \<open>The callback on a new head; an error in it is logged and the block is done with.\<close>

definition on_new_head ::
    "'d chain_api \<Rightarrow> ('d \<Rightarrow> js_value js_outcome) \<Rightarrow>
     (string \<Rightarrow> job \<Rightarrow> job_options \<Rightarrow> 'q \<Rightarrow> unit js_outcome \<times> 'q) \<Rightarrow> int \<Rightarrow> jstring \<Rightarrow> 'q \<Rightarrow> 'q" where
  "on_new_head api to_json add n h q = (case get_block api h of
     Inl e \<Rightarrow> q
   | Inr _ \<Rightarrow> (case events_at api h of
       Inl e \<Rightarrow> q
     | Inr events \<Rightarrow> snd (process_block_events to_json add n h events q)))"

section \<open>Decoding\<close>

text \<open>
  \<open>Buffer.from(array)\<close> converts every element to a number modulo 256; \<open>number_of\<close> is the
  integer part of what ECMAScript reads a string as.
\<close>

definition byte_of :: "(jstring \<Rightarrow> int) \<Rightarrow> js_value \<Rightarrow> u8 js_outcome" where
  "byte_of number_of v = (case v of
     Undefined \<Rightarrow> Inr 0
   | Null \<Rightarrow> Inr 0
   | Bool b \<Rightarrow> Inr (if b then 1 else 0)
   | Num n \<Rightarrow> Inr (word_of_int n)
   | _ \<Rightarrow> js_then (to_text v) (\<lambda>s. Inr (word_of_int (number_of s))))"

fun buffer_from :: "(jstring \<Rightarrow> int) \<Rightarrow> js_value list \<Rightarrow> bytes js_outcome" where
  "buffer_from number_of [] = Inr []"
| "buffer_from number_of (v # vs) =
     js_then (byte_of number_of v) (\<lambda>b. js_then (buffer_from number_of vs) (\<lambda>bs. Inr (b # bs)))"

text \<open>
  The part the two decoding functions share.  A value out of a JSON document has no method
  \<open>toU8a\<close>, so everything that is neither text nor an array stays \<open>null\<close>.
\<close>

definition decode_payload :: "(jstring \<Rightarrow> int) \<Rightarrow> js_value \<Rightarrow> jstring option js_outcome" where
  "decode_payload number_of v = (case v of
     Str s \<Rightarrow> Inr (Some (if take 2 s = js ''0x''
       then strip_nul (utf8_text (hex_decode (drop 2 s))) else s))
   | Arr vs \<Rightarrow> js_then (buffer_from number_of vs) (\<lambda>bs. Inr (Some (strip_nul (utf8_text bs))))
   | _ \<Rightarrow> Inr None)"

definition decode_and_truncate :: "(jstring \<Rightarrow> int) \<Rightarrow> js_value \<Rightarrow> nat \<Rightarrow> jstring option js_outcome" where
  "decode_and_truncate number_of v max_length =
     (if \<not> truthy v then Inr None
      else js_then (decode_payload number_of v) (\<lambda>decoded. Inr (case decoded of
          Some s \<Rightarrow> if s \<noteq> [] \<and> max_length < length s then Some (take max_length s) else Some s
        | None \<Rightarrow> None)))"

definition decode_bytes :: "(jstring \<Rightarrow> int) \<Rightarrow> js_value \<Rightarrow> nat option \<Rightarrow> jstring option js_outcome" where
  "decode_bytes number_of v max_length =
     (if \<not> truthy v then Inr None
      else js_then (decode_payload number_of v) (\<lambda>decoded. Inr (case (decoded, max_length) of
          (Some s, Some n) \<Rightarrow> if s \<noteq> [] \<and> n \<noteq> 0 \<and> n < length s then Some (take n s) else Some s
        | (d, _) \<Rightarrow> d)))"

text \<open>\<open>value || undefined\<close> for a decoded text.\<close>

definition or_undefined :: "jstring option \<Rightarrow> js_value" where
  "or_undefined v = (case v of Some s \<Rightarrow> if s = [] then Undefined else Str s | None \<Rightarrow> Undefined)"

section \<open>Handlers\<close>

text \<open>The account and the username in the data of a \<open>UsernameSet\<close> event.\<close>

definition username_set_fields :: "js_value \<Rightarrow> (js_value \<times> js_value) js_outcome" where
  "username_set_fields d =
     js_then (get_prop d ''account'') (\<lambda>account0.
     js_then (get_prop d ''username'') (\<lambda>username0.
     js_then (if \<not> truthy account0 \<and> is_array d
       then js_then (elem_at d 0) (\<lambda>a. js_then (elem_at d 1) (\<lambda>u. Inr (a, u)))
       else Inr (account0, username0)) (\<lambda>(account1, username1).
     js_then (if \<not> truthy account1 then elem_at d 0 else Inr account1) (\<lambda>account.
     js_then (if \<not> truthy username1
       then js_then (elem_at d 1) (\<lambda>u. Inr (if u \<noteq> Undefined then u else username1))
       else Inr username1) (\<lambda>username. Inr (account, username))))))"

definition handle_username_set :: "(jstring \<Rightarrow> int) \<Rightarrow> js_value \<Rightarrow> int \<Rightarrow> unit prog" where
  "handle_username_set number_of d n =
     await (Done (username_set_fields d)) (\<lambda>(account_id, username_bytes).
     await (Done (decode_and_truncate number_of username_bytes 32)) (\<lambda>username.
     if \<not> truthy account_id then throw (Thrown ''AccountId not found in UsernameSet event'')
     else
     await (find_by_account_id account_id) (\<lambda>user.
     await (case user of
         Some u \<Rightarrow> update (u Col_id)
           [Col_username \<mapsto> or_undefined username, Col_createdAtBlock \<mapsto> Num n]
       | None \<Rightarrow> create
           [Col_accountId \<mapsto> account_id, Col_username \<mapsto> or_undefined username]) (\<lambda>_.
     resolve ()))))"

text \<open>\<open>data.name || data[i]\<close>.\<close>

definition named_or_at :: "js_value \<Rightarrow> string \<Rightarrow> nat \<Rightarrow> js_value js_outcome" where
  "named_or_at d name i =
     js_then (get_prop d name) (\<lambda>v. if truthy v then Inr v else elem_at d i)"

definition handle_profile_updated :: "(jstring \<Rightarrow> int) \<Rightarrow> js_value \<Rightarrow> int \<Rightarrow> unit prog" where
  "handle_profile_updated number_of d n =
     await (Done (named_or_at d ''account'' 0)) (\<lambda>account_id.
     await (Done (named_or_at d ''username'' 1)) (\<lambda>username_bytes.
     await (Done (named_or_at d ''avatar'' 2)) (\<lambda>avatar_bytes.
     await (Done (named_or_at d ''bio'' 3)) (\<lambda>bio_bytes.
     await (Done (decode_bytes number_of username_bytes (Some 32))) (\<lambda>username.
     await (Done (decode_bytes number_of avatar_bytes None)) (\<lambda>avatar.
     await (Done (decode_bytes number_of bio_bytes None)) (\<lambda>bio.
     if \<not> truthy account_id then throw (Thrown ''AccountId not found in ProfileUpdated event'')
     else
     await (find_by_account_id account_id) (\<lambda>user.
     await (case user of
         Some u \<Rightarrow> update (u Col_id)
           [Col_username \<mapsto> or_undefined username, Col_avatar \<mapsto> or_undefined avatar,
            Col_bio \<mapsto> or_undefined bio]
       | None \<Rightarrow> create
           [Col_accountId \<mapsto> account_id, Col_username \<mapsto> or_undefined username,
            Col_avatar \<mapsto> or_undefined avatar, Col_bio \<mapsto> or_undefined bio]) (\<lambda>_.
     resolve ())))))))))"

text \<open>\<open>data.name?.toString() || data[i]?.toString()\<close>, and the same with \<open>toNumber\<close>.\<close>

definition either_called ::
    "(js_value \<Rightarrow> js_value js_outcome) \<Rightarrow> js_value \<Rightarrow> string \<Rightarrow> nat \<Rightarrow> js_value js_outcome" where
  "either_called call d name i =
     js_then (get_prop d name) (\<lambda>v.
     js_then (call v) (\<lambda>r.
     if truthy r then Inr r else js_then (elem_at d i) call))"

definition handle_stats_updated :: "js_value \<Rightarrow> int \<Rightarrow> unit prog" where
  "handle_stats_updated d n =
     await (Done (either_called opt_to_string d ''account'' 0)) (\<lambda>account_id.
     await (Done (either_called opt_to_number d ''totalRaces'' 1)) (\<lambda>total_races.
     await (Done (either_called opt_to_number d ''wins'' 2)) (\<lambda>wins.
     await (Done (either_called opt_to_string d ''totalDistance'' 3)) (\<lambda>total_distance.
     await (Done (either_called opt_to_string d ''totalRewards'' 4)) (\<lambda>total_rewards.
     if \<not> truthy account_id then throw (Thrown ''AccountId not found in StatsUpdated event'')
     else
     await (find_by_account_id account_id) (\<lambda>user.
     await (case user of
         Some u \<Rightarrow> update (u Col_id)
           [Col_totalRaces \<mapsto> total_races, Col_wins \<mapsto> wins,
            Col_totalDistance \<mapsto> total_distance, Col_totalRewards \<mapsto> total_rewards]
       | None \<Rightarrow> create
           [Col_accountId \<mapsto> account_id, Col_totalRaces \<mapsto> total_races, Col_wins \<mapsto> wins,
            Col_totalDistance \<mapsto> total_distance, Col_totalRewards \<mapsto> total_rewards]) (\<lambda>_.
     resolve ())))))))"

text \<open>The processor of a job; what it throws is thrown again after it is logged.\<close>

definition handle_user_profile_event :: "(jstring \<Rightarrow> int) \<Rightarrow> job \<Rightarrow> unit prog" where
  "handle_user_profile_event number_of j =
     (if job_method j = js ''UsernameSet'' then handle_username_set number_of (job_data j) (job_block j)
      else if job_method j = js ''ProfileUpdated'' then handle_profile_updated number_of (job_data j) (job_block j)
      else if job_method j = js ''StatsUpdated'' then handle_stats_updated (job_data j) (job_block j)
      else resolve ())"

text \<open>The definitions a concrete run unfolds.\<close>

lemmas handler_simps = handle_user_profile_event_def handle_username_set_def username_set_fields_def
  handle_profile_updated_def named_or_at_def decode_bytes_def is_array_def decode_and_truncate_def
  decode_payload_def or_undefined_def find_by_account_id_def create_def update_def find_one_def own_def

lemmas text_simps = js_def hex_value_def utf8_text_def utf8_start_def utf16_units_def strip_nul_def

text \<open>The job of a \<open>UsernameSet\<close> event, for concrete runs.\<close>

definition name_job :: "string \<Rightarrow> string \<Rightarrow> int \<Rightarrow> job" where
  "name_job acc hex n = \<lparr>job_block = n, job_hash = js ''0x00'', job_pallet = js ''userProfile'',
     job_method = js ''UsernameSet'', job_data = Arr [Str (js acc), Str (js hex)]\<rparr>"

end
