(* ===== verification/Index_Sync.thy ===== *)
theory Index_Sync
  imports Event_Processor
begin

text \<open>
  What the handlers do to the table: the fields they read from an event's data in either of
  its two shapes, and the effect of their common tail (find the account, then update its
  row or create one) on a table that is up.
\<close>

section \<open>Shapes of the data\<close>

text \<open>An event's fields arrive as an array, or as an object with the fields' names.\<close>

definition shaped :: "string list \<Rightarrow> js_value list \<Rightarrow> js_value \<Rightarrow> bool" where
  "shaped names vs d \<longleftrightarrow> d = Arr vs \<or> d = Obj (zip (map js names) vs)"

lemma shapedE:
  assumes "shaped names vs d"
  obtains "d = Arr vs" | "d = Obj (zip (map js names) vs)"
  using assms by (auto simp: shaped_def)

text \<open>An index is no field name.\<close>

lemma digits_small: "n < 10 \<Longrightarrow> digits n = [48 + of_nat n]"
  by (simp add: digits.simps)

lemma not_index: "n < 10 \<Longrightarrow> 1 < length s \<Longrightarrow> js s \<noteq> digits n \<and> digits n \<noteq> js s"
  by (auto simp: digits_small dest: arg_cong [where f = length])

lemma username_set_fields_shaped:
  assumes "shaped [''account'', ''username''] [Str acc, v] d" "acc \<noteq> []" "v \<noteq> Undefined"
  shows "username_set_fields d = Inr (Str acc, v)"
  using assms(1)
  by (cases rule: shapedE)
     (use assms(2,3) in \<open>auto simp: username_set_fields_def is_array_def own_def not_index\<close>)

lemma named_or_at_arr:
  "i < length vs \<Longrightarrow> named_or_at (Arr vs) name i = Inr (vs ! i)"
  by (simp add: named_or_at_def)

text \<open>In an object a field that is not there, or falsy, leaves \<open>undefined\<close> or the value.\<close>

definition field_or_none :: "js_value \<Rightarrow> js_value \<Rightarrow> bool" where
  "field_or_none v w \<longleftrightarrow> w = v \<or> \<not> truthy v \<and> w = Undefined"

lemma profile_fields_shaped:
  assumes "shaped [''account'', ''username'', ''avatar'', ''bio''] [Str acc, u, av, bi] d" "acc \<noteq> []"
  shows "named_or_at d ''account'' 0 = Inr (Str acc)"
    "\<exists>w. named_or_at d ''username'' 1 = Inr w \<and> field_or_none u w"
    "\<exists>w. named_or_at d ''avatar'' 2 = Inr w \<and> field_or_none av w"
    "\<exists>w. named_or_at d ''bio'' 3 = Inr w \<and> field_or_none bi w"
  using assms(1)
  by (cases rule: shapedE;
      use assms(2) in \<open>auto simp: named_or_at_def own_def field_or_none_def not_index\<close>)+

lemma decode_falsy [simp]: "\<not> truthy v \<Longrightarrow> decode_bytes num v n = Inr None"
  by (simp add: decode_bytes_def)

lemma decode_field_or_none: "field_or_none v w \<Longrightarrow> decode_bytes num w n = decode_bytes num v n"
  by (auto simp: field_or_none_def)

section \<open>Decoding what the chain sends\<close>

definition shown_text :: "bytes \<Rightarrow> jstring" where
  "shown_text bs = strip_nul (utf8_text bs)"

lemma shown_text_length: "length (shown_text bs) \<le> length bs"
  using strip_nul_length [of "utf8_text bs"] utf8_text_length [of bs] by (simp add: shown_text_def)

lemma hex_string_prefix: "take 2 (hex_string bs) = js ''0x'' \<and> drop 2 (hex_string bs) = hex_digits bs"
  by (simp add: hex_string_def js_def)

lemma hex_string_nonempty [simp]: "hex_string bs \<noteq> []"
  by (simp add: hex_string_def js_def)

lemma decode_hex [simp]: "decode_payload num (Str (hex_string bs)) = Inr (Some (shown_text bs))"
  by (simp add: decode_payload_def hex_string_prefix shown_text_def)

lemma decode_and_truncate_hex:
  "length bs \<le> n \<Longrightarrow> decode_and_truncate num (Str (hex_string bs)) n = Inr (Some (shown_text bs))"
  using shown_text_length [of bs] by (auto simp: decode_and_truncate_def)

lemma decode_bytes_hex:
  "(\<forall>k. n = Some k \<longrightarrow> length bs \<le> k) \<Longrightarrow>
     decode_bytes num (Str (hex_string bs)) n = Inr (Some (shown_text bs))"
  using shown_text_length [of bs] by (auto simp: decode_bytes_def split: option.split)

text \<open>An optional field of the event: \<open>null\<close>, or the bytes in hexadecimal.\<close>

definition bytes_json :: "bytes option \<Rightarrow> js_value" where
  "bytes_json v = (case v of Some b \<Rightarrow> Str (hex_string b) | None \<Rightarrow> Null)"

lemma decode_bytes_json:
  "(\<forall>k b. n = Some k \<longrightarrow> v = Some b \<longrightarrow> length b \<le> k) \<Longrightarrow>
     decode_bytes num (bytes_json v) n = Inr (map_option shown_text v)"
  by (cases v) (auto simp: bytes_json_def decode_bytes_hex)

lemma text_shown: "text_bytes bs \<Longrightarrow> shown_text bs = utf8_text bs"
  by (auto simp: shown_text_def strip_nul_def text_bytes_def filter_id_conv)

lemma text_shown_usv: "text_bytes bs \<Longrightarrow> usv_text (shown_text bs)"
  by (simp add: text_shown text_bytes_text)

lemma text_shown_inject:
  "text_bytes bs \<Longrightarrow> text_bytes cs \<Longrightarrow> shown_text bs = shown_text cs \<Longrightarrow> bs = cs"
  by (simp add: text_shown text_bytes_inject)

lemma text_shown_nonempty: "text_bytes bs \<Longrightarrow> bs \<noteq> [] \<Longrightarrow> shown_text bs \<noteq> []"
  by (simp add: text_shown text_bytes_nonempty)

text \<open>What a text is encoded to is shown as that text.\<close>

lemma shown_encoded: "usv_text s \<Longrightarrow> shown_text (utf8_encode s) = s"
  by (simp add: text_shown text_bytes_encode utf8_decode_encode) (simp add: usv_text_def)

text \<open>What a column can store of a text, and of a property that is missing.\<close>

lemma characters_length: "characters s \<le> length s"
  by (simp add: characters_def)

lemma store_default:
  "c \<in> {Col_username, Col_avatar, Col_bio, Col_totalRaces, Col_wins, Col_totalDistance, Col_totalRewards,
     Col_createdAtBlock} \<Longrightarrow> can_store (user_column c) (with_default c Undefined)"
  by (auto simp: can_store_def with_default_def column_specs js_def characters_def low_surrogate_def
      usv_unit_def high_surrogate_def)

lemma with_default_given: "v \<noteq> Undefined \<Longrightarrow> with_default c v = v"
  by (simp add: with_default_def)

section \<open>The common tail of the handlers\<close>

definition sync_user :: "js_value \<Rightarrow> dto \<Rightarrow> dto \<Rightarrow> unit prog" where
  "sync_user account_id changed new =
     await (find_by_account_id account_id) (\<lambda>user.
     await (case user of Some u \<Rightarrow> update (u Col_id) changed | None \<Rightarrow> create new) (\<lambda>_. resolve ()))"

lemma username_set_sync:
  assumes "shaped [''account'', ''username''] [Str acc, Str (hex_string name)] d" "acc \<noteq> []" "length name \<le> 32"
  shows "handle_username_set num d n = sync_user (Str acc)
    [Col_username \<mapsto> or_undefined (Some (shown_text name)), Col_createdAtBlock \<mapsto> Num n]
    [Col_accountId \<mapsto> Str acc, Col_username \<mapsto> or_undefined (Some (shown_text name))]"
  using username_set_fields_shaped [OF assms(1,2)] assms(2,3)
  by (simp add: handle_username_set_def sync_user_def decode_and_truncate_hex)

lemma profile_updated_sync:
  assumes "shaped [''account'', ''username'', ''avatar'', ''bio''] [Str acc, bytes_json u, bytes_json av, bytes_json bi] d"
    and "acc \<noteq> []" "\<And>name. u = Some name \<Longrightarrow> length name \<le> 32"
  shows "handle_profile_updated num d n = sync_user (Str acc)
    [Col_username \<mapsto> or_undefined (map_option shown_text u), Col_avatar \<mapsto> or_undefined (map_option shown_text av),
     Col_bio \<mapsto> or_undefined (map_option shown_text bi)]
    [Col_accountId \<mapsto> Str acc, Col_username \<mapsto> or_undefined (map_option shown_text u),
     Col_avatar \<mapsto> or_undefined (map_option shown_text av), Col_bio \<mapsto> or_undefined (map_option shown_text bi)]"
proof -
  note f = profile_fields_shaped [OF assms(1,2)]
  obtain wu wa wb where w:
    "named_or_at d ''username'' 1 = Inr wu" "field_or_none (bytes_json u) wu"
    "named_or_at d ''avatar'' 2 = Inr wa" "field_or_none (bytes_json av) wa"
    "named_or_at d ''bio'' 3 = Inr wb" "field_or_none (bytes_json bi) wb"
    using f(2-4) by blast
  have "decode_bytes num wu (Some 32) = Inr (map_option shown_text u)"
    "decode_bytes num wa None = Inr (map_option shown_text av)"
    "decode_bytes num wb None = Inr (map_option shown_text bi)"
    using w assms(3) by (simp_all add: decode_field_or_none [where v = "bytes_json _"] decode_bytes_json)
  with f(1) w(1,3,5) assms(2) show ?thesis
    by (simp add: handle_profile_updated_def sync_user_def)
qed

text \<open>
  On a table that is up the tail succeeds when no row of another account has the name: one
  row, the account's, is changed or added, and has the name unless none was given.
\<close>

definition synced :: "user_rows \<Rightarrow> jstring \<Rightarrow> js_value \<Rightarrow> user_rows \<Rightarrow> bool" where
  "synced m acc v m' \<longleftrightarrow> (\<exists>i r'. m' = m(i \<mapsto> r') \<and>
     (\<forall>j q. m j = Some q \<longrightarrow> (q Col_accountId = Str acc \<longleftrightarrow> j = i)) \<and>
     r' Col_accountId = Str acc \<and>
     r' Col_username = (if v \<noteq> Undefined then v
       else case m i of Some r \<Rightarrow> r Col_username | None \<Rightarrow> Null))"

lemma syncedI:
  assumes "m' = m(i \<mapsto> r')" "\<And>j q. m j = Some q \<Longrightarrow> q Col_accountId = Str acc \<longleftrightarrow> j = i"
    and "r' Col_accountId = Str acc"
    and "r' Col_username = (if v \<noteq> Undefined then v
       else case m i of Some r \<Rightarrow> r Col_username | None \<Rightarrow> Null)"
  shows "synced m acc v m'"
  using assms unfolding synced_def by blast

definition sync_dtos :: "jstring \<Rightarrow> js_value \<Rightarrow> dto \<Rightarrow> dto \<Rightarrow> bool" where
  "sync_dtos acc v changed new \<longleftrightarrow>
     changed Col_username = Some v \<and> new Col_username = Some v \<and> new Col_accountId = Some (Str acc) \<and>
     (\<forall>c x. changed c = Some x \<longrightarrow> \<not> generated c \<and> c \<noteq> Col_accountId \<and>
        (x \<noteq> Undefined \<longrightarrow> can_store (user_column c) x)) \<and>
     may_insert (new_entity new) \<and> plain_text acc"

definition text_name :: "js_value \<Rightarrow> bool" where
  "text_name v \<longleftrightarrow> v = Undefined \<or> (\<exists>s. v = Str s \<and> s \<noteq> [] \<and> usv_text s)"

lemma usv_textD: "usv_text s \<Longrightarrow> 0 \<notin> set s" "usv_text s \<Longrightarrow> to_usv s = s"
  by (simp_all add: usv_text_def)

lemma text_nameE:
  assumes "text_name v"
  obtains "v = Undefined" | s where "v = Str s" "s \<noteq> []" "usv_text s"
  using assms by (auto simp: text_name_def)

context table_up
begin

lemma lookup:
  assumes "valid db" "usv_text s" "c = Col_accountId \<or> c = Col_username"
  obtains (absent) "repo_find_one R c (Str s) db = Inr None" "\<And>i r. rows db i = Some r \<Longrightarrow> r c \<noteq> Str s"
  | (present) i r where "repo_find_one R c (Str s) db = Inr (Some r)" "rows db i = Some r" "r c = Str s"
proof -
  obtain u where u: "repo_find_one R c (Str s) db = Inr u"
    using find_text_up [OF assms(1) usv_textD(1) [OF assms(2)] assms(3)] by blast
  note usv = usv_textD(2) [OF assms(2)]
  show thesis
  proof (cases u)
    case None
    show thesis
    proof (rule absent)
      show "repo_find_one R c (Str s) db = Inr None" using u None by simp
      then show "r c \<noteq> Str s" if "rows db i = Some r" for i r
        using not_found [OF assms(1) _ that, of c s] usv by simp
    qed
  next
    case (Some r)
    with u found [OF assms(1), of c s r] usv show thesis by (auto intro: present)
  qed
qed

lemmas lookup_account = lookup [OF _ _ disjI1 [OF refl], consumes 2, case_names absent present]
lemmas lookup_name = lookup [OF _ _ disjI2 [OF refl], consumes 2, case_names absent present]

lemma lookup_id:
  assumes "valid db" "rows db i = Some r"
  shows "repo_find_one R Col_id (Str i) db = Inr (Some r)"
proof -
  note ok = rows_ok [OF assms(1)]
  have usv: "to_usv i = i" and id: "r Col_id = Str i"
    using rows_okD [OF ok assms(2)] plain_text_usv by auto
  obtain u where u: "repo_find_one R Col_id (Str i) db = Inr u"
    using find_up [OF assms(1)] assms(2) by blast
  have "u \<noteq> None" using not_found [OF assms(1) _ assms(2), of Col_id i] u usv id by auto
  then obtain q where q: "u = Some q" by blast
  obtain j where "rows db j = Some q" "q Col_id = Str i"
    using found [OF assms(1), of Col_id i q] u q usv by auto
  with rows_okD(1) [OF ok this(1)] assms(2) u q show ?thesis by simp
qed

lemma one_row:
  assumes "valid db" "rows db i = Some r" "rows db j = Some q" "r Col_accountId = q Col_accountId"
  shows "i = j"
  using rows_ok [OF assms(1)] assms(2-4) by (auto simp: rows_ok_iff dest: unique_columnD)

text \<open>The check of a name that no other account's row has lets it pass.\<close>

lemma name_check_passes:
  assumes "valid db" "text_name v"
    and "\<And>i r. rows db i = Some r \<Longrightarrow> v \<noteq> Undefined \<Longrightarrow> r Col_username = v \<Longrightarrow> w = v"
  shows "truthy v \<and> \<not> strict_equal v w \<longrightarrow> repo_find_one R Col_username v db = Inr None"
proof
  assume t: "truthy v \<and> \<not> strict_equal v w"
  with assms(2) obtain s where s: "v = Str s" "usv_text s" by (auto simp: text_name_def)
  show "repo_find_one R Col_username v db = Inr None"
    using assms(1) s(2)
  proof (cases rule: lookup_name)
    case absent
    with s show ?thesis by simp
  next
    case (present i r)
    with s assms(3) [OF present(2)] t show ?thesis by simp
  qed
qed

lemma update_synced:
  assumes db: "valid db" and r: "rows db i = Some r" "r Col_accountId = Str acc"
    and d: "sync_dtos acc v changed new" "text_name v"
    and free: "\<And>j q. rows db j = Some q \<Longrightarrow> v \<noteq> Undefined \<Longrightarrow> q Col_username = v \<Longrightarrow> j = i"
  shows "\<exists>e db'. run_prog R (update (r Col_id) changed) db = (Inr e, db') \<and> valid db' \<and>
    synced (rows db) acc v (rows db')"
proof -
  let ?e = "assign r changed"
  have id: "r Col_id = Str i" using rows_okD(1) [OF rows_ok [OF db] r(1)] .
  have e: "?e Col_id = Str i" "?e Col_accountId = Str acc" "?e Col_username = v"
    using d(1) id r(2) unfolding sync_dtos_def assign_def
    by (auto simp: generated_def split: option.split)
  have "account_free (rows db) ?e"
    using plain_text_usv one_row [OF db r(1)] r(2) d(1) e(1,2)
    by (auto simp: account_free_def sync_dtos_def)
  moreover have "may_update r ?e"
    using d(1) by (auto simp: may_update_def assign_def sync_dtos_def split: option.splits)
  ultimately have "may_save (rows db) ?e" using e(1) r(1) by (auto simp: may_save_def)
  then obtain e' db' where save: "repo_save R ?e db = (Inr e', db')" using save_up [OF db] by blast
  from saved [OF db save] e(1) r(1) obtain r'
    where r': "updates r ?e r'" "rows db' = (rows db)(i \<mapsto> r')" by (auto simp: saves_def)
  have "r' Col_accountId = Str acc" using r'(1) e(2) r(2) by (simp add: updates_def)
  moreover have "r' Col_username = (if v \<noteq> Undefined then v else r Col_username)"
    using r'(1) e(3) d(2) usv_textD(2) by (auto simp: updates_def text_name_def split: if_splits)
  moreover have "q Col_accountId = Str acc \<longleftrightarrow> j = i" if "rows db j = Some q" for j q
    using one_row [OF db r(1) that] r that by auto
  ultimately have "synced (rows db) acc v (rows db')"
    using r(1) by (intro syncedI [OF r'(2)]) simp_all
  moreover have "field changed Col_username = v" using d(1) by (simp add: sync_dtos_def field_def)
  moreover have "truthy v \<and> \<not> strict_equal v (r Col_username) \<longrightarrow> repo_find_one R Col_username v db = Inr None"
    using free r(1) by (intro name_check_passes [OF db d(2)]) fastforce
  ultimately show ?thesis
    using save save_valid [OF db save] lookup_id [OF db r(1)] id
    by (auto simp: update_def find_one_def)
qed

text \<open>A new entity whose account has no row becomes a row with its values.\<close>

lemma new_row:
  assumes db: "valid db" and ins: "may_insert (new_entity d)"
    and a: "field d Col_accountId = Str a" "to_usv a = a" "\<And>i r. rows db i = Some r \<Longrightarrow> r Col_accountId \<noteq> Str a"
  shows "\<exists>e db' i r. repo_save R (new_entity d) db = (Inr e, db') \<and> valid db' \<and> rows db i = None \<and>
    rows db' = (rows db)(i \<mapsto> r) \<and> r Col_accountId = Str a \<and>
    (\<forall>c. \<not> generated c \<longrightarrow> r c = converted (user_column c) (with_default c (field d c)))"
proof -
  have "account_free (rows db) (new_entity d)"
    using a by (auto simp: account_free_def new_entity_def)
  with ins obtain e db' where save: "repo_save R (new_entity d) db = (Inr e, db')"
    using save_up [OF db, of "new_entity d"] by (auto simp: may_save_def)
  from saved [OF db save] ins obtain i r
    where r: "rows db i = None" "inserts (new_entity d) r" "rows db' = (rows db)(i \<mapsto> r)"
    by (auto simp: saves_def may_insert_def)
  have c: "r c = converted (user_column c) (with_default c (field d c))" if "\<not> generated c" for c
    using r(2) ins that can_store_shape by (auto simp: inserts_def may_insert_def stored_as_def new_entity_def)
  then have "r Col_accountId = Str a"
    using a(1,2) by (simp add: generated_def converted_def with_default_def column_specs)
  with save save_valid [OF db save] r(1,3) c show ?thesis by blast
qed

lemma create_synced:
  assumes db: "valid db" and none: "\<And>i r. rows db i = Some r \<Longrightarrow> r Col_accountId \<noteq> Str acc"
    and d: "sync_dtos acc v changed new" "text_name v"
    and free: "\<And>j q. rows db j = Some q \<Longrightarrow> v \<noteq> Undefined \<Longrightarrow> q Col_username \<noteq> v"
  shows "\<exists>e db'. run_prog R (create new) db = (Inr e, db') \<and> valid db' \<and>
    synced (rows db) acc v (rows db')"
proof -
  have acc: "plain_text acc" and ins: "may_insert (new_entity new)" using d(1) by (simp_all add: sync_dtos_def)
  have new: "field new Col_accountId = Str acc" "field new Col_username = v"
    using d(1) by (simp_all add: sync_dtos_def field_def)
  obtain e' db' i r' where save: "repo_save R (new_entity new) db = (Inr e', db')"
    and r': "rows db i = None" "rows db' = (rows db)(i \<mapsto> r')" "r' Col_accountId = Str acc"
    and c: "\<And>c. \<not> generated c \<Longrightarrow> r' c = converted (user_column c) (with_default c (field new c))"
    using new_row [OF db ins new(1) plain_text_usv [OF acc]] none by blast
  have "r' Col_username = (if v \<noteq> Undefined then v else Null)"
    using c [of Col_username] new(2) d(2) usv_textD(2)
    by (auto simp: generated_def converted_def with_default_def column_specs text_name_def)
  moreover have "q Col_accountId = Str acc \<longleftrightarrow> j = i" if "rows db j = Some q" for j q
    using none [OF that] r'(1) that by auto
  ultimately have "synced (rows db) acc v (rows db')"
    using r'(1,3) by (intro syncedI [OF r'(2)]) simp_all
  moreover have "truthy v \<and> \<not> strict_equal v Undefined \<longrightarrow> repo_find_one R Col_username v db = Inr None"
    using free by (intro name_check_passes [OF db d(2)]) blast
  moreover have "repo_find_one R Col_accountId (Str acc) db = Inr None"
    using db plain_usv_text [OF acc]
    by (cases rule: lookup_account) (use none in auto)
  ultimately show ?thesis
    using save save_valid [OF db save] d(2) new
    by (auto simp: create_def text_name_def)
qed

lemma sync_user_synced:
  assumes db: "valid db" and d: "sync_dtos acc v changed new" "text_name v"
    and free: "\<And>j q. rows db j = Some q \<Longrightarrow> v \<noteq> Undefined \<Longrightarrow> q Col_username = v \<Longrightarrow>
      q Col_accountId = Str acc"
  shows "\<exists>db'. run_prog R (sync_user (Str acc) changed new) db = (Inr (), db') \<and> valid db' \<and>
    synced (rows db) acc v (rows db')"
proof -
  have acc: "plain_text acc" using d(1) by (simp add: sync_dtos_def)
  show ?thesis
    using db plain_usv_text [OF acc]
  proof (cases rule: lookup_account)
    case absent
    have "\<exists>e db'. run_prog R (create new) db = (Inr e, db') \<and> valid db' \<and>
        synced (rows db) acc v (rows db')"
      by (rule create_synced [OF db _ d]) (use absent(2) free in blast)+
    with absent(1) show ?thesis by (auto simp: sync_user_def find_by_account_id_def)
  next
    case (present i r)
    have "\<exists>e db'. run_prog R (update (r Col_id) changed) db = (Inr e, db') \<and> valid db' \<and>
        synced (rows db) acc v (rows db')"
    proof (rule update_synced [OF db present(2,3) d])
      fix j q assume "rows db j = Some q" "v \<noteq> Undefined" "q Col_username = v"
      with one_row [OF db _ present(2), of j q] free [of j q] present(3) show "j = i" by simp
    qed
    with present(1) show ?thesis
      by (auto simp: sync_user_def find_by_account_id_def)
  qed
qed

end

end
