(* ===== verification/Index_Names.thy ===== *)
theory Index_Names
  imports Index_Sync
begin

text \<open>
  The usernames of the table under everything the API does: requests and jobs that run one
  after the other keep them distinct.  Schedules of the calls of several programs, for
  operations that overlap.
\<close>

section \<open>One operation at a time\<close>

datatype operation = Http request | Job job

definition operate :: "(dto_class \<Rightarrow> dto \<Rightarrow> bool) \<Rightarrow> (jstring \<Rightarrow> int) \<Rightarrow> operation \<Rightarrow> unit prog" where
  "operate pipe num op = (case op of
     Http q \<Rightarrow> await (handle_request pipe q) (\<lambda>_. resolve ())
   | Job j \<Rightarrow> handle_user_profile_event num j)"

inductive operated ::
    "'db repository \<Rightarrow> (dto_class \<Rightarrow> dto \<Rightarrow> bool) \<Rightarrow> (jstring \<Rightarrow> int) \<Rightarrow> 'db \<Rightarrow> 'db \<Rightarrow> bool"
  for R pipe num db0 where
  operated_start: "operated R pipe num db0 db0"
| operated_next: "operated R pipe num db0 db \<Longrightarrow>
     operated R pipe num db0 (snd (run_prog R (operate pipe num op) db))"

lemma field_upd [simp]: "field (d(c \<mapsto> v)) c' = (if c' = c then v else field d c')"
  by (simp add: field_def)

lemma field_empty [simp]: "field Map.empty c = Undefined"
  by (simp add: field_def)

lemma plain_handler_dto [simp]:
  "plain_dto [Col_username \<mapsto> or_undefined u, Col_createdAtBlock \<mapsto> n]"
  "plain_dto [Col_accountId \<mapsto> a, Col_username \<mapsto> or_undefined u]"
  "plain_dto [Col_username \<mapsto> or_undefined u, Col_avatar \<mapsto> v, Col_bio \<mapsto> w]"
  "plain_dto [Col_accountId \<mapsto> a, Col_username \<mapsto> or_undefined u, Col_avatar \<mapsto> v, Col_bio \<mapsto> w]"
  "plain_dto [Col_totalRaces \<mapsto> r, Col_wins \<mapsto> x, Col_totalDistance \<mapsto> y, Col_totalRewards \<mapsto> z]"
  "plain_dto [Col_accountId \<mapsto> a, Col_totalRaces \<mapsto> r, Col_wins \<mapsto> x, Col_totalDistance \<mapsto> y,
     Col_totalRewards \<mapsto> z]"
  by (auto simp: plain_dto_def or_undefined_def split: option.split)

lemma await_assoc: "await (await p k) h = await p (\<lambda>x. await (k x) h)"
  by (induction p) (auto split: sum.split)

lemma await_resolve [simp]: "await (resolve x) k = k x" "await (throw e) k = throw e"
  by (simp_all add: resolve_def throw_def)

context user_table
begin

definition keeps_names :: "'a prog \<Rightarrow> bool" where
  "keeps_names p \<longleftrightarrow> (\<forall>db. valid db \<longrightarrow> names_distinct (rows db) \<longrightarrow>
     valid (snd (run_prog R p db)) \<and> names_distinct (rows (snd (run_prog R p db))))"

lemma keeps_await [intro]: "keeps_names p \<Longrightarrow> (\<And>x. keeps_names (k x)) \<Longrightarrow> keeps_names (await p k)"
  by (fastforce simp: keeps_names_def split: prod.splits sum.splits)

lemma keeps_reading [simp]:
  "keeps_names (Done r)" "keeps_names (resolve x)" "keeps_names (throw e)"
  "keeps_names (find_where c v)" "keeps_names (find_desc c)"
  by (simp_all add: keeps_names_def)

lemma keeps_create: "plain_dto d \<Longrightarrow> keeps_names (create d)"
  by (simp add: keeps_names_def create_names)

lemma keeps_update: "plain_dto d \<Longrightarrow> keeps_names (update (Str i) d)"
  by (simp add: keeps_names_def update_names)

text \<open>What follows a lookup runs on a row of the table.\<close>

lemma keeps_lookup:
  assumes "keeps_names (k None)" "\<And>db i u. valid db \<Longrightarrow> rows db i = Some u \<Longrightarrow> keeps_names (k (Some u))"
  shows "keeps_names (await (find_where c v) k)"
  unfolding keeps_names_def
proof (intro allI impI)
  fix db assume db: "valid db" "names_distinct (rows db)"
  show "valid (snd (run_prog R (await (find_where c v) k) db)) \<and>
    names_distinct (rows (snd (run_prog R (await (find_where c v) k) db)))"
  proof (cases "repo_find_one R c v db")
    case (Inr u)
    then have "keeps_names (k u)"
      using assms found_row [OF db(1)] db(1) by (cases u) blast+
    with db Inr show ?thesis by (simp add: keeps_names_def)
  qed (simp add: db)
qed

lemma row_id: "valid db \<Longrightarrow> rows db i = Some u \<Longrightarrow> u Col_id = Str i"
  using rows_okD(1) [OF rows_ok] .

lemma keeps_sync: "plain_dto d \<Longrightarrow> plain_dto d' \<Longrightarrow> keeps_names (sync_user v d d')"
  unfolding sync_user_def find_by_account_id_def
  by (rule keeps_lookup) (auto simp: row_id keeps_create keeps_update)

lemma keeps_remove: "keeps_names (remove_user v)"
proof -
  have "keeps_names (remove_entity u)" if "valid db" "rows db i = Some u" for db i u
    unfolding keeps_names_def
  proof (intro allI impI)
    fix db' assume db': "valid db'" "names_distinct (rows db')"
    obtain z db2 where z: "repo_remove R u db' = (z, db2)" by fastforce
    have "rows db2 = rows db' \<or> rows db2 = (rows db')(i := None)"
      using z removed [OF db'(1)] remove_failed [OF db'(1)] row_id [OF that] by (cases z) auto
    then show "valid (snd (run_prog R (remove_entity u) db')) \<and>
      names_distinct (rows (snd (run_prog R (remove_entity u) db')))"
      using z remove_valid [OF db'(1) z] db'(2) names_distinct_remove by auto
  qed
  then show ?thesis
    unfolding remove_user_def find_one_def await_assoc
    by (intro keeps_lookup) (auto intro: keeps_await)
qed

lemma keeps_update_by_account: "plain_dto d \<Longrightarrow> keeps_names (update_by_account_id v d)"
  unfolding update_by_account_id_def find_by_account_id_def
  by (rule keeps_lookup) (auto simp: row_id keeps_update)

lemma keeps_request:
  assumes "pipe_ok pipe"
  shows "keeps_names (handle_request pipe q)"
proof (cases q)
  case (Get_One i)
  then show ?thesis
    by (auto simp: find_one_def await_assoc intro!: keeps_await split: option.split)
qed (use pipe_plain [OF assms] in \<open>auto intro!: keeps_create keeps_update keeps_update_by_account keeps_remove
    simp: find_all_def find_by_account_id_def find_by_username_def\<close>)

lemma keeps_event: "keeps_names (handle_user_profile_event num j)"
proof -
  have "keeps_names (handle_username_set num d n)" for d n
    unfolding handle_username_set_def sync_user_def [symmetric]
    by (auto intro!: keeps_sync split: sum.split)
  moreover have "keeps_names (handle_profile_updated num d n)" for d n
    unfolding handle_profile_updated_def sync_user_def [symmetric]
    by (auto intro!: keeps_sync split: sum.split)
  moreover have "keeps_names (handle_stats_updated d n)" for d n
    unfolding handle_stats_updated_def sync_user_def [symmetric]
    by (auto intro!: keeps_sync split: sum.split)
  ultimately show ?thesis by (simp add: handle_user_profile_event_def)
qed

lemma operated_names:
  assumes "pipe_ok pipe" "operated R pipe num db0 db" "valid db0" "names_distinct (rows db0)"
  shows "valid db \<and> names_distinct (rows db)"
  using assms(2)
proof induction
  case operated_start
  with assms(3,4) show ?case by simp
next
  case (operated_next db op)
  have "keeps_names (operate pipe num op)"
    by (cases op) (auto simp: operate_def intro: keeps_request [OF assms(1)] keeps_event)
  with operated_next show ?case by (simp add: keeps_names_def)
qed

end

text \<open>A pipe that checks the rules.\<close>

definition rule_holds :: "rule \<Rightarrow> js_value \<Rightarrow> bool" where
  "rule_holds r v = (case r of
     Is_Optional \<Rightarrow> True
   | Is_String \<Rightarrow> (case v of Str s \<Rightarrow> True | _ \<Rightarrow> False)
   | Min_Length n \<Rightarrow> (case v of Str s \<Rightarrow> n \<le> length s | _ \<Rightarrow> False)
   | Max_Length n \<Rightarrow> (case v of Str s \<Rightarrow> length s \<le> n | _ \<Rightarrow> False)
   | Is_Int \<Rightarrow> (case v of Num k \<Rightarrow> True | _ \<Rightarrow> False)
   | Is_Number_String \<Rightarrow> (case v of Str s \<Rightarrow> s \<noteq> [] \<and> list_all (\<lambda>u. 48 \<le> u \<and> u \<le> 57) s | _ \<Rightarrow> False))"

definition strict_pipe :: "dto_class \<Rightarrow> dto \<Rightarrow> bool" where
  "strict_pipe K d \<longleftrightarrow> (\<forall>c. (K c = [] \<longrightarrow> d c = None) \<and>
     (Is_Optional \<in> set (K c) \<and> field d c \<in> {Undefined, Null} \<or>
      list_all (\<lambda>r. rule_holds r (field d c)) (K c)))"

lemma rules_pass:
  assumes "list_all (\<lambda>r. rule_holds r v) rs"
  shows "satisfies rs v"
proof -
  have "rule_holds r v" if "r \<in> set rs" for r using assms that by (auto simp: list_all_iff)
  from this [of Is_String] this [of "Min_Length _"] show ?thesis
    by (cases v) (auto simp: satisfies_def rule_holds_def)
qed

lemma strict_pipe_ok: "pipe_ok strict_pipe"
  unfolding pipe_ok_def
proof (intro allI impI conjI)
  fix K d c assume "strict_pipe K d"
  then have c: "K c = [] \<longrightarrow> d c = None" "Is_Optional \<in> set (K c) \<and> field d c \<in> {Undefined, Null} \<or>
      list_all (\<lambda>r. rule_holds r (field d c)) (K c)"
    by (auto simp: strict_pipe_def)
  show "K c \<noteq> []" if "d c \<noteq> None" using c(1) that by blast
  show "satisfies (K c) (field d c)" using c(2) rules_pass by (auto simp: satisfies_def)
qed

text \<open>A run of two jobs and its table.\<close>

definition two_users :: memory_table where
  "two_users = snd (run_prog memory_repository
     (operate strict_pipe (\<lambda>s. 0) (Job (name_job ''5Bob'' ''0x62'' 2)))
     (snd (run_prog memory_repository
       (operate strict_pipe (\<lambda>s. 0) (Job (name_job ''5Alice'' ''0x61'' 1))) empty_table)))"

lemma two_users_operated: "operated memory_repository strict_pipe (\<lambda>s. 0) empty_table two_users"
  unfolding two_users_def by (intro operated_next operated_start)

lemma two_users_rows:
  "\<exists>r. fst two_users (user_id 0) = Some r \<and> r Col_accountId = Str (js ''5Alice'') \<and> r Col_username = Str (js ''a'')"
  "\<exists>r. fst two_users (user_id 1) = Some r \<and> r Col_accountId = Str (js ''5Bob'') \<and> r Col_username = Str (js ''b'')"
  by (simp_all add: two_users_def operate_def name_job_def memory_simps handler_simps text_simps)

text \<open>
  C8. Whatever HTTP requests the validation pipe lets through and whatever jobs are applied,
  one after the other and with the database failing at any call, two rows of the users table
  never have the same non-empty username, and never the same account.
\<close>

theorem index_usernames_distinct:
  assumes "user_table R rows valid" "pipe_ok pipe"
    and "valid db0" "names_distinct (rows db0)" "operated R pipe num db0 db"
    and "rows db i = Some r" "rows db j = Some q" "i \<noteq> j"
  shows "r Col_accountId \<noteq> q Col_accountId \<and>
    (\<forall>s. r Col_username = Str s \<longrightarrow> s \<noteq> [] \<longrightarrow> q Col_username \<noteq> Str s)"
proof -
  note db = user_table.operated_names [OF assms(1,2,5,3,4)]
  then have "rows_ok (rows db)" using user_table.rows_ok [OF assms(1)] by blast
  with db assms(6-8) names_distinctD show ?thesis
    by (auto simp: rows_ok_iff dest: unique_columnD)
qed

theorem index_usernames_distinct_witness:
  "\<exists>r q. fst two_users (user_id 0) = Some r \<and> fst two_users (user_id 1) = Some q \<and>
     r Col_username = Str (js ''a'') \<and> q Col_username \<noteq> Str (js ''a'')"
proof -
  obtain r where r: "fst two_users (user_id 0) = Some r" "r Col_username = Str (js ''a'')"
    using two_users_rows(1) by blast
  obtain q where q: "fst two_users (user_id 1) = Some q" using two_users_rows(2) by blast
  have "names_distinct (fst empty_table)" by (simp add: names_distinct_def empty_table_def)
  from index_usernames_distinct [OF memory.user_table_axioms strict_pipe_ok empty_table_valid this
      two_users_operated r(1) q] r q
  show ?thesis by (auto simp: js_def)
qed

section \<open>Two operations at once\<close>

text \<open>The next call of the \<open>i\<close>-th of several programs, and a schedule of such calls.\<close>

fun next_call :: "'db repository \<Rightarrow> 'a prog \<times> 'db \<Rightarrow> 'a prog \<times> 'db" where
  "next_call R (Done r, db) = (Done r, db)"
| "next_call R (Find_One c v f, db) = (f (repo_find_one R c v db), db)"
| "next_call R (Find_All c f, db) = (f (repo_find_all R c db), db)"
| "next_call R (Save e f, db) = (case repo_save R e db of (r, db') \<Rightarrow> (f r, db'))"
| "next_call R (Remove e f, db) = (case repo_remove R e db of (r, db') \<Rightarrow> (f r, db'))"

definition call_of :: "'db repository \<Rightarrow> 'a prog list \<times> 'db \<Rightarrow> nat \<Rightarrow> 'a prog list \<times> 'db" where
  "call_of R s i = (if i < length (fst s)
     then case next_call R (fst s ! i, snd s) of (q, db') \<Rightarrow> ((fst s)[i := q], db') else s)"

lemma next_call_step: "prog_step R s (next_call R s) \<or> next_call R s = s"
proof (cases "(R, s)" rule: next_call.cases)
  case (4 R e f db)
  then show ?thesis by (cases "repo_save R e db") (simp add: step_save)
next
  case (5 R e f db)
  then show ?thesis by (cases "repo_remove R e db") (simp add: step_remove)
qed (auto simp: step_find step_find_all)

lemma call_of_step: "(programs_step R)\<^sup>*\<^sup>* s (call_of R s i)"
proof (cases "i < length (fst s)")
  case True
  obtain ps db where s: "s = (ps, db)" by fastforce
  obtain q db' where q: "next_call R (ps ! i, db) = (q, db')" by fastforce
  show ?thesis
    using next_call_step [of R "(ps ! i, db)"] True one_steps [of i ps R db q db']
    by (auto simp: s q call_of_def)
qed (simp add: call_of_def)

lemma schedule_steps: "(programs_step R)\<^sup>*\<^sup>* s (foldl (call_of R) s is)"
proof (induction "is" arbitrary: s)
  case (Cons i "is")
  show ?case using rtranclp_trans [OF call_of_step Cons.IH] by simp
qed simp

text \<open>The definitions that turn a program into its calls.\<close>

lemmas call_simps = operate_def find_where_def find_desc_def save_entity_def remove_entity_def
  resolve_def throw_def name_job_def

end
