(* ===== verification/Index_Registry.thy ===== *)
theory Index_Registry
  imports Index_Names Profile_Events
begin

text \<open>
  The chain and its index together: the events the user-profile pallet deposits, as
  \<open>polkadot.js\<close> hands them to the API, go through the handlers one job after the other.  For
  usernames that are text (UTF-8 without NUL) the table then names the accounts as the pallet's registry does.
\<close>

section \<open>Events as the API receives them\<close>

fun event_method :: "'a profile_event \<Rightarrow> string" where
  "event_method (UsernameSet a name) = ''UsernameSet''"
| "event_method (ProfileUpdated a u av bi) = ''ProfileUpdated''"
| "event_method (StatsUpdated a r w d x) = ''StatsUpdated''"

text \<open>
  \<open>toJSON()\<close> of an event's data: an address for an account, hexadecimal for bytes, \<open>null\<close>
  for \<open>None\<close> (at either level of a nested option), a number for a \<open>u32\<close>.  Whether the fields
  come in an array or under their names is left open.
\<close>

definition event_json_ok :: "('a \<Rightarrow> jstring) \<Rightarrow> ('a profile_event \<Rightarrow> js_value) \<Rightarrow> bool" where
  "event_json_ok ss58 to_json \<longleftrightarrow>
     (\<forall>a name. shaped [''account'', ''username''] [Str (ss58 a), Str (hex_string name)]
        (to_json (UsernameSet a name))) \<and>
     (\<forall>a u av bi. shaped [''account'', ''username'', ''avatar'', ''bio'']
        [Str (ss58 a), bytes_json u, bytes_json (Option.bind av id), bytes_json (Option.bind bi id)]
        (to_json (ProfileUpdated a u av bi))) \<and>
     (\<forall>a r w d x. \<exists>dj xj. shaped [''account'', ''totalRaces'', ''wins'', ''totalDistance'', ''totalRewards'']
        [Str (ss58 a), Num (uint r), Num (uint w), dj, xj] (to_json (StatsUpdated a r w d x)))"

text \<open>Addresses are plain text that fits its column and tell the accounts apart.\<close>

definition addresses_ok :: "('a \<Rightarrow> jstring) \<Rightarrow> bool" where
  "addresses_ok ss58 \<longleftrightarrow> inj ss58 \<and>
     (\<forall>a. ss58 a \<noteq> [] \<and> length (ss58 a) \<le> 255 \<and> plain_text (ss58 a))"

text \<open>An event with the number and the hash of its block, and its job.\<close>

type_synonym 'a placed_event = "int \<times> jstring \<times> 'a profile_event"

definition placed_ok :: "'a placed_event \<Rightarrow> bool" where
  "placed_ok x \<longleftrightarrow> 0 \<le> fst x \<and> fst x < 2 ^ 63"

definition profile_job :: "('a profile_event \<Rightarrow> js_value) \<Rightarrow> 'a placed_event \<Rightarrow> job" where
  "profile_job to_json x = (case x of (n, h, e) \<Rightarrow>
     \<lparr>job_block = n, job_hash = h, job_pallet = js ''userProfile'', job_method = js (event_method e),
      job_data = to_json e\<rparr>)"

definition index_event ::
    "'db repository \<Rightarrow> (jstring \<Rightarrow> int) \<Rightarrow> ('a profile_event \<Rightarrow> js_value) \<Rightarrow> 'a placed_event \<Rightarrow> 'db \<Rightarrow> 'db" where
  "index_event R num to_json x db =
     snd (run_prog R (handle_user_profile_event num (profile_job to_json x)) db)"

definition index_result ::
    "'db repository \<Rightarrow> (jstring \<Rightarrow> int) \<Rightarrow> ('a profile_event \<Rightarrow> js_value) \<Rightarrow> 'a placed_event \<Rightarrow> 'db \<Rightarrow> unit js_outcome" where
  "index_result R num to_json x db =
     fst (run_prog R (handle_user_profile_event num (profile_job to_json x)) db)"

definition index_all ::
    "'db repository \<Rightarrow> (jstring \<Rightarrow> int) \<Rightarrow> ('a profile_event \<Rightarrow> js_value) \<Rightarrow> 'a placed_event list \<Rightarrow> 'db \<Rightarrow> 'db" where
  "index_all R num to_json xs db = fold (index_event R num to_json) xs db"

lemma index_all_simps [simp]:
  "index_all R num f [] db = db"
  "index_all R num f (xs @ [x]) db = index_event R num f x (index_all R num f xs db)"
  by (simp_all add: index_all_def)

text \<open>Usernames that are text: not empty, well-formed UTF-8, without NUL.\<close>

definition username_bytes :: "bytes \<Rightarrow> bool" where
  "username_bytes name \<longleftrightarrow> name \<noteq> [] \<and> text_bytes name"

fun text_event :: "'a profile_event \<Rightarrow> bool" where
  "text_event (UsernameSet a name) = username_bytes name"
| "text_event (ProfileUpdated a u av bi) = (case u of Some name \<Rightarrow> username_bytes name | None \<Rightarrow> True)"
| "text_event (StatsUpdated a r w d x) = True"

section \<open>The table mirrors the profiles\<close>

definition shown_name :: "bytes \<Rightarrow> js_value" where
  "shown_name name = (if name = [] then Null else Str (shown_text name))"

definition mirrors :: "('a \<Rightarrow> jstring) \<Rightarrow> 'a profile_storage \<Rightarrow> user_rows \<Rightarrow> bool" where
  "mirrors ss58 st m \<longleftrightarrow>
     (\<forall>a p. profiles st a = Some p \<longrightarrow> text_bytes (username p) \<and>
        (\<exists>i r. m i = Some r \<and> r Col_accountId = Str (ss58 a) \<and> r Col_username = shown_name (username p))) \<and>
     (\<forall>i r. m i = Some r \<longrightarrow> (\<exists>a p. profiles st a = Some p \<and> r Col_accountId = Str (ss58 a)))"

lemma mirrors_profile:
  assumes "mirrors ss58 st m" "profiles st a = Some p"
  obtains i r where "text_bytes (username p)" "m i = Some r" "r Col_accountId = Str (ss58 a)"
    "r Col_username = shown_name (username p)"
  using assms unfolding mirrors_def by blast

lemma mirrors_row:
  assumes "mirrors ss58 st m" "m i = Some r"
  obtains a p where "profiles st a = Some p" "r Col_accountId = Str (ss58 a)"
  using assms unfolding mirrors_def by blast

text \<open>A row and the profile of its account agree on the name.\<close>

lemma mirrors_agree:
  assumes "mirrors ss58 st m" "inj ss58" "rows_ok m" "m i = Some r" "r Col_accountId = Str (ss58 a)"
  obtains p where "profiles st a = Some p" "text_bytes (username p)" "r Col_username = shown_name (username p)"
proof -
  obtain b p where b: "profiles st b = Some p" "r Col_accountId = Str (ss58 b)"
    using mirrors_row [OF assms(1,4)] by blast
  with assms(2,5) have "b = a" by (simp add: inj_eq)
  obtain j q where q: "text_bytes (username p)" "m j = Some q" "q Col_accountId = Str (ss58 b)"
    "q Col_username = shown_name (username p)"
    using mirrors_profile [OF assms(1) b(1)] by blast
  have "j = i"
    using assms(3,4) q b(2) by (auto simp: rows_ok_iff dest: unique_columnD)
  with that [of p] b q assms(4) \<open>b = a\<close> show thesis by simp
qed

text \<open>One profile changes and the table is synchronised for its account.\<close>

lemma mirrors_synced:
  assumes m: "mirrors ss58 st m" "inj ss58" "rows_ok m"
    and s: "synced m (ss58 who) v m'"
    and st': "profiles st' = (profiles st)(who \<mapsto> p')" "text_bytes (username p')"
    and v: "v = Undefined \<and> username p' = username (base_profile t who st) \<or>
      v \<noteq> Undefined \<and> v = shown_name (username p')"
  shows "mirrors ss58 st' m'"
proof -
  from s obtain i r' where i: "m' = m(i \<mapsto> r')"
    "\<And>j q. m j = Some q \<Longrightarrow> q Col_accountId = Str (ss58 who) \<longleftrightarrow> j = i"
    "r' Col_accountId = Str (ss58 who)"
    "r' Col_username = (if v \<noteq> Undefined then v else case m i of Some r \<Rightarrow> r Col_username | None \<Rightarrow> Null)"
    unfolding synced_def by blast
  have name: "r' Col_username = shown_name (username p')"
  proof (cases "v = Undefined")
    case False
    with i(4) v show ?thesis by simp
  next
    case True
    show ?thesis
    proof (cases "m i")
      case None
      have "profiles st who = None"
      proof (rule ccontr)
        assume "profiles st who \<noteq> None"
        then obtain p where "profiles st who = Some p" by blast
        then obtain j q where "m j = Some q" "q Col_accountId = Str (ss58 who)"
          using mirrors_profile [OF m(1)] by blast
        with i(2) None show False by auto
      qed
      with True v None i(4) show ?thesis by (simp add: base_profile_def shown_name_def)
    next
      case (Some r)
      with i(2) have "r Col_accountId = Str (ss58 who)" by blast
      then obtain p where "profiles st who = Some p" "r Col_username = shown_name (username p)"
        using mirrors_agree [OF m Some] by blast
      with True v Some i(4) show ?thesis by (simp add: base_profile_def)
    qed
  qed
  show ?thesis
    unfolding mirrors_def
  proof (intro conjI allI impI)
    fix a p assume p: "profiles st' a = Some p"
    show "text_bytes (username p)"
      using p st' m(1) by (auto simp: mirrors_def split: if_splits)
    show "\<exists>j q. m' j = Some q \<and> q Col_accountId = Str (ss58 a) \<and> q Col_username = shown_name (username p)"
    proof (cases "a = who")
      case True
      with p st'(1) name i(1,3) show ?thesis by auto
    next
      case False
      with p st'(1) have "profiles st a = Some p" by simp
      then obtain j q where q: "m j = Some q" "q Col_accountId = Str (ss58 a)"
        "q Col_username = shown_name (username p)"
        using mirrors_profile [OF m(1)] by blast
      with i(2) [OF q(1)] False m(2) have "j \<noteq> i" by (simp add: inj_eq)
      with q i(1) show ?thesis by auto
    qed
  next
    fix j q assume q: "m' j = Some q"
    show "\<exists>a p. profiles st' a = Some p \<and> q Col_accountId = Str (ss58 a)"
    proof (cases "j = i")
      case True
      with q i(1,3) st'(1) show ?thesis by auto
    next
      case False
      with q i(1) have "m j = Some q" by simp
      from mirrors_row [OF m(1) this] obtain a p
        where "profiles st a = Some p" "q Col_accountId = Str (ss58 a)" by blast
      then show ?thesis using st'(1) by auto
    qed
  qed
qed

section \<open>What the handlers store\<close>

lemma store_name:
  assumes "username_bytes name" "length name \<le> 32"
  shows "can_store (user_column Col_username) (Str (shown_text name))"
proof -
  have p: "usv_text (shown_text name)" using assms(1) text_shown_usv by (simp add: username_bytes_def)
  have "characters (to_usv (shown_text name)) \<le> 32"
    using characters_length [of "shown_text name"] shown_text_length [of name] assms(2) usv_textD(2) [OF p]
    by simp
  with usv_textD(1) [OF p] show ?thesis by (simp add: can_store_def column_specs)
qed

lemma store_account:
  assumes "addresses_ok ss58"
  shows "can_store (user_column Col_accountId) (Str (ss58 a))"
proof -
  have p: "plain_text (ss58 a)" "length (ss58 a) \<le> 255" using assms by (simp_all add: addresses_ok_def)
  have "characters (to_usv (ss58 a)) \<le> 255"
    using characters_length [of "ss58 a"] plain_text_usv [OF p(1)] p(2) by simp
  with usv_textD(1) [OF plain_usv_text [OF p(1)]] show ?thesis by (simp add: can_store_def column_specs)
qed

lemma shown_no_nul [simp]: "0 \<notin> set (shown_text b)"
  by (simp add: shown_text_def)

lemma store_text:
  "c = Col_avatar \<or> c = Col_bio \<Longrightarrow> or_undefined (map_option shown_text v) \<noteq> Undefined \<Longrightarrow>
     can_store (user_column c) (or_undefined (map_option shown_text v))"
  by (auto simp: or_undefined_def can_store_def column_specs split: option.splits if_splits)

lemma store_block: "0 \<le> n \<Longrightarrow> n < 2 ^ 63 \<Longrightarrow> can_store (user_column Col_createdAtBlock) (Num n)"
  by (simp add: can_store_def column_specs)

text \<open>The name a handler is given, as the value it stores.\<close>

lemma plain_shown:
  "username_bytes name \<Longrightarrow> or_undefined (Some (shown_text name)) = shown_name name"
  "username_bytes name \<Longrightarrow> shown_name name = Str (shown_text name)"
  by (auto simp: or_undefined_def shown_name_def username_bytes_def text_shown_nonempty)

lemma text_name_shown: "username_bytes name \<Longrightarrow> text_name (shown_name name)"
  by (simp add: plain_shown text_name_def)
     (simp add: username_bytes_def text_shown_nonempty text_shown_usv)

lemma username_set_dtos:
  assumes "addresses_ok ss58" "username_bytes name" "length name \<le> 32" "0 \<le> n" "n < 2 ^ 63"
  shows "sync_dtos (ss58 a) (shown_name name)
     [Col_username \<mapsto> shown_name name, Col_createdAtBlock \<mapsto> Num n]
     [Col_accountId \<mapsto> Str (ss58 a), Col_username \<mapsto> shown_name name]"
  using assms store_account [OF assms(1), of a] store_name [OF assms(2,3)] store_block [OF assms(4,5)]
  by (auto simp: sync_dtos_def may_insert_def column_all new_entity_def generated_def plain_shown
      addresses_ok_def store_default with_default_def [of _ "Str _"] split: if_splits)

definition claimed_value :: "bytes option \<Rightarrow> js_value" where
  "claimed_value u = or_undefined (map_option shown_text u)"

lemma profile_updated_dtos:
  assumes "addresses_ok ss58" "\<And>name. u = Some name \<Longrightarrow> username_bytes name \<and> length name \<le> 32"
  shows "sync_dtos (ss58 a) (claimed_value u)
     [Col_username \<mapsto> claimed_value u, Col_avatar \<mapsto> or_undefined (map_option shown_text av),
      Col_bio \<mapsto> or_undefined (map_option shown_text bi)]
     [Col_accountId \<mapsto> Str (ss58 a), Col_username \<mapsto> claimed_value u,
      Col_avatar \<mapsto> or_undefined (map_option shown_text av),
      Col_bio \<mapsto> or_undefined (map_option shown_text bi)]"
proof -
  have u: "claimed_value u \<noteq> Undefined \<Longrightarrow> can_store (user_column Col_username) (claimed_value u)"
    using assms(2) store_name
    by (cases u) (auto simp: claimed_value_def plain_shown or_undefined_def)
  have store: "can_store (user_column c) (with_default c v)"
    if "c \<in> {Col_username, Col_avatar, Col_bio}" "v \<noteq> Undefined \<Longrightarrow> can_store (user_column c) v" for c v
    using that store_default [of c] by (cases "v = Undefined") (auto simp: with_default_given)
  show ?thesis
    using assms(1) store_account [OF assms(1), of a] u store_text [of Col_avatar av]
      store_text [of Col_bio bi] store [of Col_username] store [of Col_avatar] store [of Col_bio]
    by (auto simp: sync_dtos_def may_insert_def column_all new_entity_def generated_def
        addresses_ok_def store_default with_default_given split: if_splits)
qed

section \<open>One event\<close>

text \<open>A claimed name that the pallet accepts is on no other account's row.\<close>

lemma claimed_free:
  assumes m: "mirrors ss58 st m" "addresses_ok ss58" "rows_ok m" and inv: "profile_inv C st"
    and name: "username_bytes name" "username_verdict C st who name = None"
    and q: "m j = Some q" "q Col_username = shown_name name"
  shows "q Col_accountId = Str (ss58 who)"
proof -
  have inj: "inj ss58" using m(2) by (simp add: addresses_ok_def)
  obtain b p where b: "profiles st b = Some p" "q Col_accountId = Str (ss58 b)"
    using mirrors_row [OF m(1) q(1)] by blast
  obtain p' where p': "profiles st b = Some p'" "text_bytes (username p')"
    "q Col_username = shown_name (username p')"
    using mirrors_agree [OF m(1) inj m(3) q(1) b(2)] by blast
  have "username p' = name"
    using p' q(2) name(1) text_shown_inject
    by (auto simp: shown_name_def username_bytes_def split: if_splits)
  then have "username_to_account st name = Some b"
    using index_iff [OF inv, of name b] p'(1) name(1) by (auto simp: username_bytes_def)
  with name(2) have "b = who" by (simp add: username_verdict_None taken_by_other_def)
  with b(2) show ?thesis by simp
qed

lemma verdict_length: "username_verdict C st who name = None \<Longrightarrow> unat (max_username_length C) \<le> 32 \<Longrightarrow>
    length name \<le> 32"
  by (auto simp: username_verdict_None too_long_def)

lemma profile_job_simps [simp]:
  "job_method (profile_job f (n, h, e)) = js (event_method e)"
  "job_data (profile_job f (n, h, e)) = f e"
  "job_block (profile_job f (n, h, e)) = n"
  by (simp_all add: profile_job_def)

lemma index_username_set:
  assumes T: "table_up R rows valid" and f: "event_json_ok ss58 f" "addresses_ok ss58"
    and inv: "profile_inv C st" "unat (max_username_length C) \<le> 32"
    and db: "valid db" "mirrors ss58 st (rows db)"
    and name: "username_bytes name" "username_verdict C st who name = None" and n: "0 \<le> n" "n < 2 ^ 63"
  shows "index_result R num f (n, h, UsernameSet who name) db = Inr () \<and>
    valid (index_event R num f (n, h, UsernameSet who name) db) \<and>
    mirrors ss58 (named_storage t who name st) (rows (index_event R num f (n, h, UsernameSet who name) db))"
proof -
  note len = verdict_length [OF name(2) inv(2)]
  have ok: "rows_ok (rows db)" using user_table.rows_ok [OF table_up.axioms(1) [OF T] db(1)] .
  have handler: "handle_user_profile_event num (profile_job f (n, h, UsernameSet who name)) =
     sync_user (Str (ss58 who)) [Col_username \<mapsto> shown_name name, Col_createdAtBlock \<mapsto> Num n]
       [Col_accountId \<mapsto> Str (ss58 who), Col_username \<mapsto> shown_name name]"
    using username_set_sync [of "ss58 who" name "f (UsernameSet who name)"] f len name(1)
    by (simp add: handle_user_profile_event_def event_json_ok_def addresses_ok_def plain_shown(1))
  obtain db' where run: "run_prog R (sync_user (Str (ss58 who))
       [Col_username \<mapsto> shown_name name, Col_createdAtBlock \<mapsto> Num n]
       [Col_accountId \<mapsto> Str (ss58 who), Col_username \<mapsto> shown_name name]) db = (Inr (), db')"
    "valid db'" "synced (rows db) (ss58 who) (shown_name name) (rows db')"
    using table_up.sync_user_synced [OF T db(1) username_set_dtos [OF f(2) name(1) len n, of who]
        text_name_shown [OF name(1)]] claimed_free [OF db(2) f(2) ok inv(1) name] by blast
  have "mirrors ss58 (named_storage t who name st) (rows db')"
    by (rule mirrors_synced [OF db(2) _ ok run(3) named_storage_move(1)])
       (use f(2) name(1) in \<open>auto simp: addresses_ok_def username_bytes_def plain_shown(2)\<close>)
  with run(1,2) show ?thesis by (simp add: index_event_def index_result_def handler)
qed

lemma index_profile_updated:
  assumes T: "table_up R rows valid" and f: "event_json_ok ss58 f" "addresses_ok ss58"
    and inv: "profile_inv C st" "unat (max_username_length C) \<le> 32"
    and db: "valid db" "mirrors ss58 st (rows db)"
    and name: "text_event (ProfileUpdated who u av bi)" "update_verdict C st who u av bi = None"
  shows "index_result R num f (n, h, ProfileUpdated who u av bi) db = Inr () \<and>
    valid (index_event R num f (n, h, ProfileUpdated who u av bi) db) \<and>
    mirrors ss58 (updated_storage t who u av bi st)
      (rows (index_event R num f (n, h, ProfileUpdated who u av bi) db))"
proof -
  have u: "username_bytes name" "username_verdict C st who name = None" "length name \<le> 32" if "u = Some name" for name
    using name that verdict_length [OF _ inv(2)]
    by (auto simp: update_verdict_def split: option.splits)
  have ok: "rows_ok (rows db)" using user_table.rows_ok [OF table_up.axioms(1) [OF T] db(1)] .
  let ?av = "or_undefined (map_option shown_text (Option.bind av id))"
  let ?bi = "or_undefined (map_option shown_text (Option.bind bi id))"
  let ?changed = "[Col_username \<mapsto> claimed_value u, Col_avatar \<mapsto> ?av, Col_bio \<mapsto> ?bi]"
  let ?new = "[Col_accountId \<mapsto> Str (ss58 who), Col_username \<mapsto> claimed_value u, Col_avatar \<mapsto> ?av, Col_bio \<mapsto> ?bi]"
  have handler: "handle_user_profile_event num (profile_job f (n, h, ProfileUpdated who u av bi)) =
     sync_user (Str (ss58 who)) ?changed ?new"
    using profile_updated_sync [of "ss58 who" u "Option.bind av id" "Option.bind bi id"] f u(3)
    by (simp add: handle_user_profile_event_def event_json_ok_def addresses_ok_def claimed_value_def)
  have v: "claimed_value u = (case u of Some name \<Rightarrow> shown_name name | None \<Rightarrow> Undefined)"
    using u(1) by (cases u) (simp_all add: claimed_value_def plain_shown(1), simp add: or_undefined_def)
  have free: "q Col_accountId = Str (ss58 who)"
    if "rows db j = Some q" "claimed_value u \<noteq> Undefined" "q Col_username = claimed_value u" for j q
    using that v claimed_free [OF db(2) f(2) ok inv(1) u(1,2) that(1)] by (auto split: option.splits)
  have "text_name (claimed_value u)"
    using u(1) v text_name_shown by (cases u) (auto simp: text_name_def)
  moreover have "sync_dtos (ss58 who) (claimed_value u) ?changed ?new"
    using u(1,3) by (intro profile_updated_dtos [OF f(2)]) blast
  ultimately have "\<exists>db'. run_prog R (sync_user (Str (ss58 who)) ?changed ?new) db = (Inr (), db') \<and>
      valid db' \<and> synced (rows db) (ss58 who) (claimed_value u) (rows db')"
    using free by (intro table_up.sync_user_synced [OF T db(1)])
  then obtain db' where run: "run_prog R (sync_user (Str (ss58 who)) ?changed ?new) db = (Inr (), db')"
    "valid db'" "synced (rows db) (ss58 who) (claimed_value u) (rows db')"
    by blast
  have base: "text_bytes (username (base_profile t who st))"
    using db(2) by (auto simp: base_profile_def mirrors_def split: option.split)
  have "mirrors ss58 (updated_storage t who u av bi st) (rows db')"
    by (rule mirrors_synced [OF db(2) _ ok run(3) updated_profiles, where t = t])
       (use f(2) u(1) v base in \<open>auto simp: addresses_ok_def edit_profile_def plain_shown(2)
          username_bytes_def split: option.splits\<close>)
  with run(1,2) show ?thesis by (simp add: index_event_def index_result_def handler)
qed

text \<open>The handler of \<open>StatsUpdated\<close> never gets past the second field.\<close>

lemma stats_handler_fails:
  assumes "shaped [''account'', ''totalRaces'', ''wins'', ''totalDistance'', ''totalRewards'']
     [Str acc, Num r, w, dj, xj] d"
  shows "handle_stats_updated d n = Done (Inl Type_Error)"
  using assms
  by (cases rule: shapedE)
     (auto simp: handle_stats_updated_def either_called_def opt_to_string_def opt_to_number_def
        own_def not_index)

end
