(* ===== verification/Event_Queue.thy ===== *)
theory Event_Queue
  imports Event_Processor
begin

text \<open>
  The queue between the chain's events and their processor.  Bull is outside the program:
  what is relied on of adding a job is the locale \<open>job_queue\<close>, and \<open>bull_step\<close> is its
  documented way with a job (attempts in the given number, a delay between them), which a
  queue may follow in any way of its own (\<open>bull_ok\<close>).
\<close>

section \<open>Adding jobs\<close>

type_synonym added_job = "string \<times> job \<times> job_options"

locale job_queue =
  fixes add :: "string \<Rightarrow> job \<Rightarrow> job_options \<Rightarrow> 'q \<Rightarrow> unit js_outcome \<times> 'q"
    and contents :: "'q \<Rightarrow> added_job list"
  assumes added: "add name j opts q = (Inr u, q') \<Longrightarrow> contents q' = contents q @ [(name, j, opts)]"
    and add_failed: "add name j opts q = (Inl e, q') \<Longrightarrow> contents q' = contents q"

text \<open>The jobs of a block: one per event of the pallet, in the order of the events.\<close>

definition block_jobs :: "('d \<Rightarrow> js_value) \<Rightarrow> int \<Rightarrow> jstring \<Rightarrow> 'd event_record list \<Rightarrow> added_job list" where
  "block_jobs to_json n h events =
     map (\<lambda>e. (''userProfile-event'', event_job n h e (to_json (event_data e)), event_options))
       (filter (\<lambda>e. section_name e = js ''userProfile'') events)"

lemma block_jobs_simps [simp]:
  "block_jobs f n h [] = []"
  "block_jobs f n h (e # es) = (if section_name e = js ''userProfile''
     then [(''userProfile-event'', event_job n h e (f (event_data e)), event_options)] else []) @ block_jobs f n h es"
  by (simp_all add: block_jobs_def)

context job_queue
begin

lemma process_block_events_queued:
  "process_block_events (\<lambda>d. Inr (f d)) add n h events q = (r, q') \<Longrightarrow>
     (\<exists>k. contents q' = contents q @ take k (block_jobs f n h events)) \<and>
     (r = Inr () \<longrightarrow> contents q' = contents q @ block_jobs f n h events)"
proof (induction events arbitrary: q)
  case (Cons e es)
  let ?j = "event_job n h e (f (event_data e))"
  show ?case
  proof (cases "section_name e = js ''userProfile''")
    case False
    with Cons show ?thesis by simp
  next
    case True
    obtain x q1 where a: "add ''userProfile-event'' ?j event_options q = (x, q1)" by fastforce
    show ?thesis
    proof (cases x)
      case (Inl err)
      with Cons.prems True a add_failed [OF a [unfolded Inl]] show ?thesis
        by (auto intro: exI [of _ 0])
    next
      case (Inr u)
      with Cons.prems True a have "process_block_events (\<lambda>d. Inr (f d)) add n h es q1 = (r, q')" by simp
      note ih = Cons.IH [OF this]
      from ih obtain k where "contents q' = contents q1 @ take k (block_jobs f n h es)" by blast
      then have "contents q' = contents q @ take (Suc k) (block_jobs f n h (e # es))"
        using added [OF a [unfolded Inr]] True by simp
      moreover have "r = Inr () \<longrightarrow> contents q' = contents q @ block_jobs f n h (e # es)"
        using ih added [OF a [unfolded Inr]] True by simp
      ultimately show ?thesis by blast
    qed
  qed
qed simp

end

section \<open>Working off the jobs\<close>

datatype job_state = Waiting | Delayed | Completed | Failed

record entry =
  entry_job :: job
  entry_options :: job_options
  made :: nat
  entry_state :: job_state

definition new_entry :: "job \<Rightarrow> job_options \<Rightarrow> entry" where
  "new_entry j opts = \<lparr>entry_job = j, entry_options = opts, made = 0, entry_state = Waiting\<rparr>"

definition bull_add :: "string \<Rightarrow> job \<Rightarrow> job_options \<Rightarrow> (string \<times> entry) list \<Rightarrow> unit js_outcome \<times> (string \<times> entry) list" where
  "bull_add name j opts q = (Inr (), q @ [(name, new_entry j opts)])"

interpretation bull: job_queue bull_add "map (\<lambda>(name, e). (name, entry_job e, entry_options e))"
  by unfold_locales (auto simp: bull_add_def new_entry_def)

text \<open>What an attempt makes of its job, and the end of a delay.\<close>

definition after_attempt :: "unit js_outcome \<Rightarrow> entry \<Rightarrow> entry" where
  "after_attempt r e = e\<lparr>made := made e + 1, entry_state := (case r of
     Inr _ \<Rightarrow> Completed
   | Inl _ \<Rightarrow> if made e + 1 < attempts (entry_options e) then Delayed else Failed)\<rparr>"

definition delay_over :: "entry \<Rightarrow> entry" where
  "delay_over e = e\<lparr>entry_state := Waiting\<rparr>"

text \<open>
  One job at a time is processed, by \<open>process\<close>; a job that has not been tried yet comes in
  the order of the queue, a repeated one at any time.  Between two attempts other clients
  may have changed the database (\<open>others\<close>).
\<close>

inductive bull_step ::
    "(job \<Rightarrow> 'db \<Rightarrow> unit js_outcome \<times> 'db) \<Rightarrow> ('db \<Rightarrow> 'db \<Rightarrow> bool) \<Rightarrow> entry list \<times> 'db \<Rightarrow> entry list \<times> 'db \<Rightarrow> bool"
  for process others where
  attempt: "i < length q \<Longrightarrow> entry_state (q ! i) = Waiting \<Longrightarrow>
     made (q ! i) \<noteq> 0 \<or> (\<forall>j<i. \<not> (entry_state (q ! j) = Waiting \<and> made (q ! j) = 0)) \<Longrightarrow>
     others db db1 \<Longrightarrow> process (entry_job (q ! i)) db1 = (r, db2) \<Longrightarrow>
     bull_step process others (q, db) (q[i := after_attempt r (q ! i)], db2)"
| promote: "i < length q \<Longrightarrow> entry_state (q ! i) = Delayed \<Longrightarrow>
     bull_step process others (q, db) (q[i := delay_over (q ! i)], db)"

lemma bull_stepE:
  assumes "bull_step process others (q, db) (q', db')"
  obtains (attempt) i db1 r where "i < length q" "entry_state (q ! i) = Waiting"
      "made (q ! i) \<noteq> 0 \<or> (\<forall>j<i. \<not> (entry_state (q ! j) = Waiting \<and> made (q ! j) = 0))"
      "others db db1" "process (entry_job (q ! i)) db1 = (r, db')" "q' = q[i := after_attempt r (q ! i)]"
  | (promote) i where "i < length q" "entry_state (q ! i) = Delayed" "q' = q[i := delay_over (q ! i)]" "db' = db"
  using assms by (cases rule: bull_step.cases) blast+

definition unfinished :: "entry \<Rightarrow> bool" where
  "unfinished e \<longleftrightarrow> entry_state e = Waiting \<or> entry_state e = Delayed"

text \<open>A queue does what Bull documents, and goes on while a job is unfinished.\<close>

definition bull_ok ::
    "(job \<Rightarrow> 'db \<Rightarrow> unit js_outcome \<times> 'db) \<Rightarrow> ('db \<Rightarrow> 'db \<Rightarrow> bool) \<Rightarrow>
     (entry list \<times> 'db \<Rightarrow> entry list \<times> 'db \<Rightarrow> bool) \<Rightarrow> bool" where
  "bull_ok process others Q \<longleftrightarrow> (\<forall>s t. Q s t \<longrightarrow> bull_step process others s t) \<and>
     (\<forall>q db. (\<exists>e\<in>set q. unfinished e) \<longrightarrow> (\<exists>t. Q (q, db) t))"

section \<open>Every job comes to an end\<close>

definition entry_ok :: "entry \<Rightarrow> bool" where
  "entry_ok e \<longleftrightarrow> (case entry_state e of
     Waiting \<Rightarrow> made e < attempts (entry_options e)
   | Delayed \<Rightarrow> 0 < made e \<and> made e < attempts (entry_options e)
   | Completed \<Rightarrow> 0 < made e \<and> made e \<le> attempts (entry_options e)
   | Failed \<Rightarrow> made e = attempts (entry_options e))"

text \<open>The steps an entry can still take part in.\<close>

definition steps_left :: "entry \<Rightarrow> nat" where
  "steps_left e = (case entry_state e of
     Waiting \<Rightarrow> 2 * (attempts (entry_options e) - made e) - 1
   | Delayed \<Rightarrow> 2 * (attempts (entry_options e) - made e)
   | _ \<Rightarrow> 0)"

definition queue_left :: "entry list \<Rightarrow> nat" where
  "queue_left q = sum_list (map steps_left q)"

lemma after_attempt_ok: "entry_ok e \<Longrightarrow> entry_state e = Waiting \<Longrightarrow> entry_ok (after_attempt r e)"
  by (auto simp: entry_ok_def after_attempt_def split: sum.split)

lemma after_attempt_left:
  "entry_ok e \<Longrightarrow> entry_state e = Waiting \<Longrightarrow> steps_left (after_attempt r e) < steps_left e"
  by (auto simp: entry_ok_def after_attempt_def steps_left_def split: sum.split)

lemma delay_over_ok: "entry_ok e \<Longrightarrow> entry_state e = Delayed \<Longrightarrow> entry_ok (delay_over e)"
  by (auto simp: entry_ok_def delay_over_def)

lemma delay_over_left:
  "entry_ok e \<Longrightarrow> entry_state e = Delayed \<Longrightarrow> steps_left (delay_over e) < steps_left e"
  by (auto simp: entry_ok_def delay_over_def steps_left_def)

lemma sum_list_update_less:
  "i < length q \<Longrightarrow> f (x :: 'e) < (f (q ! i) :: nat) \<Longrightarrow> sum_list (map f (q[i := x])) < sum_list (map f q)"
proof (induction q arbitrary: i)
  case (Cons a q)
  then show ?case by (cases i) auto
qed simp

lemma list_all_update: "list_all P q \<Longrightarrow> P x \<Longrightarrow> list_all P (q[i := x])"
  by (auto simp: list_all_iff dest: set_update_subset_insert [THEN subsetD])

lemma bull_step_ok:
  assumes "bull_step process others (q, db) (q', db')" "list_all entry_ok q"
  shows "list_all entry_ok q' \<and> queue_left q' < queue_left q \<and> length q' = length q"
  using assms(1)
proof (cases rule: bull_stepE)
  case (attempt i db1 r)
  then have "entry_ok (q ! i)" using assms(2) by (simp add: list_all_length)
  with attempt assms(2) show ?thesis
    by (simp add: queue_left_def list_all_update after_attempt_ok sum_list_update_less after_attempt_left)
next
  case (promote i)
  then have "entry_ok (q ! i)" using assms(2) by (simp add: list_all_length)
  with promote assms(2) show ?thesis
    by (simp add: queue_left_def list_all_update delay_over_ok sum_list_update_less delay_over_left)
qed

lemma bull_steps_ok:
  assumes "bull_ok process others Q" "(Q ^^ n) (q0, db0) (q, db)" "list_all entry_ok q0"
  shows "list_all entry_ok q \<and> n + queue_left q \<le> queue_left q0 \<and> length q = length q0"
  using assms(2)
proof (induction n arbitrary: q db)
  case 0
  with assms(3) show ?case by simp
next
  case (Suc n)
  then obtain q1 db1 where s: "(Q ^^ n) (q0, db0) (q1, db1)" "Q (q1, db1) (q, db)" by auto
  then have "bull_step process others (q1, db1) (q, db)" using assms(1) by (simp add: bull_ok_def)
  from bull_step_ok [OF this] Suc.IH [OF s(1)] show ?case by auto
qed

definition fresh_queue :: "job list \<Rightarrow> entry list" where
  "fresh_queue jobs = map (\<lambda>j. new_entry j event_options) jobs"

lemma fresh_queue_length [simp]: "length (fresh_queue jobs) = length jobs"
  by (simp add: fresh_queue_def)

lemma fresh_queue_ok: "list_all entry_ok (fresh_queue jobs)" "queue_left (fresh_queue jobs) = 5 * length jobs"
  by (induction jobs)
     (simp_all add: fresh_queue_def entry_ok_def new_entry_def event_options_def queue_left_def steps_left_def)

text \<open>An entry keeps its job and its options.\<close>

definition orders :: "entry list \<Rightarrow> (job \<times> job_options) list" where
  "orders q = map (\<lambda>e. (entry_job e, entry_options e)) q"

lemma orders_update:
  assumes "i < length q" "entry_job e = entry_job (q ! i)" "entry_options e = entry_options (q ! i)"
  shows "orders (q[i := e]) = orders q"
  using assms by (simp add: orders_def map_update list_update_same_conv)

lemma bull_step_orders: "bull_step process others (q, db) (q', db') \<Longrightarrow> orders q' = orders q"
  by (erule bull_stepE) (auto intro!: orders_update simp: after_attempt_def delay_over_def)

lemma bull_steps_orders:
  assumes "bull_ok process others Q"
  shows "(Q ^^ n) (q0, db0) (q, db) \<Longrightarrow> orders q = orders q0"
proof (induction n arbitrary: q db)
  case (Suc n)
  then obtain q1 db1 where "orders q1 = orders q0" "Q (q1, db1) (q, db)" by auto
  then show ?case using assms bull_step_orders by (fastforce simp: bull_ok_def)
qed simp

lemma orders_fresh:
  assumes "orders q = orders (fresh_queue jobs)" "i < length jobs"
  shows "i < length q" "entry_job (q ! i) = jobs ! i" "entry_options (q ! i) = event_options"
proof -
  show i: "i < length q" using arg_cong [where f = length, OF assms(1)] assms(2) by (simp add: orders_def)
  have "orders q ! i = orders (fresh_queue jobs) ! i" by (simp add: assms(1))
  with i assms(2) show "entry_job (q ! i) = jobs ! i" "entry_options (q ! i) = event_options"
    by (simp_all add: orders_def fresh_queue_def new_entry_def)
qed

lemma finished:
  assumes "bull_ok process others Q" "\<nexists>t. Q (q, db) t" "i < length q"
  shows "\<not> unfinished (q ! i)"
  using assms unfolding bull_ok_def by (metis nth_mem)

text \<open>The documented steps are a queue of their own.\<close>

lemma bull_step_bull_ok:
  assumes "\<And>db. others db db"
  shows "bull_ok process others (bull_step process others)"
proof -
  have "\<exists>t. bull_step process others (q, db) t" if e: "e \<in> set q" "unfinished e" for q db e
  proof -
    obtain i where i: "i < length q" "q ! i = e" using e(1) by (auto simp: in_set_conv_nth)
    show ?thesis
    proof (cases "entry_state e = Delayed")
      case True
      with i bull_step.promote [of i q process others db] show ?thesis by auto
    next
      case False
      with e(2) have w: "entry_state (q ! i) = Waiting" using i by (simp add: unfinished_def)
      define k where "k = (LEAST k. k < length q \<and> entry_state (q ! k) = Waiting)"
      have k: "k < length q \<and> entry_state (q ! k) = Waiting"
        unfolding k_def by (rule LeastI [of _ i]) (use i w in simp)
      have "\<not> (entry_state (q ! j) = Waiting \<and> made (q ! j) = 0)" if "j < k" for j
        using not_less_Least [of j "\<lambda>k. k < length q \<and> entry_state (q ! k) = Waiting"] that k
        by (auto simp: k_def)
      with k have first: "made (q ! k) \<noteq> 0 \<or> (\<forall>j<k. \<not> (entry_state (q ! j) = Waiting \<and> made (q ! j) = 0))"
        by blast
      obtain r db2 where "process (entry_job (q ! k)) db = (r, db2)" by fastforce
      with bull_step.attempt [of k q others db db process r db2] k first assms show ?thesis by auto
    qed
  qed
  then show ?thesis unfolding bull_ok_def by blast
qed

section \<open>Jobs applied in order\<close>

text \<open>
  When no one else writes, and every job either succeeds at once or is \<open>silent\<close> (throws and
  writes nothing), a queue has the effect of its jobs one after the other.
\<close>

definition silent :: "(job \<Rightarrow> 'db \<Rightarrow> unit js_outcome \<times> 'db) \<Rightarrow> job \<Rightarrow> bool" where
  "silent process j \<longleftrightarrow> (\<forall>db. \<exists>e. process j db = (Inl e, db))"

definition apply_jobs :: "(job \<Rightarrow> 'db \<Rightarrow> unit js_outcome \<times> 'db) \<Rightarrow> job list \<Rightarrow> 'db \<Rightarrow> 'db" where
  "apply_jobs process jobs db = fold (\<lambda>j db. snd (process j db)) jobs db"

definition smooth :: "(job \<Rightarrow> 'db \<Rightarrow> unit js_outcome \<times> 'db) \<Rightarrow> job list \<Rightarrow> 'db \<Rightarrow> bool" where
  "smooth process jobs db0 \<longleftrightarrow> (\<forall>k<length jobs. silent process (jobs ! k) \<or>
     fst (process (jobs ! k) (apply_jobs process (take k jobs) db0)) = Inr ())"

lemma apply_jobs_next:
  "k < length jobs \<Longrightarrow> apply_jobs process (take (Suc k) jobs) db0 =
     snd (process (jobs ! k) (apply_jobs process (take k jobs) db0))"
  by (simp add: apply_jobs_def take_Suc_conv_app_nth)

text \<open>The first \<open>k\<close> jobs have been tried and have had their effect, the others are as added.\<close>

definition tried_entry :: "(job \<Rightarrow> 'db \<Rightarrow> unit js_outcome \<times> 'db) \<Rightarrow> job \<Rightarrow> entry \<Rightarrow> bool" where
  "tried_entry process j e \<longleftrightarrow> entry_job e = j \<and> made e \<noteq> 0 \<and>
     (if silent process j then entry_state e \<noteq> Completed else entry_state e = Completed)"

definition tried :: "(job \<Rightarrow> 'db \<Rightarrow> unit js_outcome \<times> 'db) \<Rightarrow> job list \<Rightarrow> 'db \<Rightarrow> nat \<Rightarrow> entry list \<times> 'db \<Rightarrow> bool" where
  "tried process jobs db0 k s \<longleftrightarrow> k \<le> length jobs \<and> length (fst s) = length jobs \<and>
     snd s = apply_jobs process (take k jobs) db0 \<and>
     (\<forall>i<k. tried_entry process (jobs ! i) (fst s ! i)) \<and>
     (\<forall>i<length jobs. k \<le> i \<longrightarrow> fst s ! i = new_entry (jobs ! i) event_options)"

lemma tried_update:
  assumes "tried process jobs db0 k (q, db)" "i < k" "tried_entry process (jobs ! i) e"
  shows "tried process jobs db0 k (q[i := e], db)"
  using assms by (auto simp: tried_def nth_list_update)

lemma tried_next:
  assumes "tried process jobs db0 k (q, db)" "k < length jobs" "tried_entry process (jobs ! k) e"
    and "db' = snd (process (jobs ! k) db)"
  shows "tried process jobs db0 (Suc k) (q[k := e], db')"
  using assms by (auto simp: tried_def nth_list_update apply_jobs_next less_Suc_eq)

lemma tried_waiting:
  assumes "tried process jobs db0 k (q, db)" "i < length q" "unfinished (q ! i)" "i < k"
  shows "silent process (jobs ! i)" "entry_job (q ! i) = jobs ! i"
  using assms by (auto simp: tried_def tried_entry_def unfinished_def split: if_splits)

lemma tried_step:
  assumes "tried process jobs db0 k (q, db)" "smooth process jobs db0" "bull_step process (=) (q, db) (q', db')"
  shows "\<exists>k'. tried process jobs db0 k' (q', db')"
  using assms(3)
proof (cases rule: bull_stepE)
  case (attempt i db1 r)
  have len: "length q = length jobs" using assms(1) by (simp add: tried_def)
  show ?thesis
  proof (cases "i < k")
    case True
    note w = tried_waiting [OF assms(1) attempt(1) _ True]
    have s: "silent process (jobs ! i)" "entry_job (q ! i) = jobs ! i"
      using w attempt(2) by (simp_all add: unfinished_def)
    have "db1 = db" using attempt(4) by simp
    with s attempt(5) obtain e where e: "r = Inl e" "db' = db"
      unfolding silent_def by (metis prod.inject)
    have "made (q ! i) \<noteq> 0" using assms(1) True by (simp add: tried_def tried_entry_def)
    with s e attempt(6) tried_update [OF assms(1) True, of "after_attempt r (q ! i)"] show ?thesis
      by (auto simp: tried_entry_def after_attempt_def)
  next
    case False
    with assms(1) attempt(1) have new: "q ! i = new_entry (jobs ! i) event_options"
      by (simp add: tried_def)
    have "i = k"
    proof (rule ccontr)
      assume "i \<noteq> k"
      with False have "k < i" by simp
      with assms(1) attempt(1) len have "q ! k = new_entry (jobs ! k) event_options" by (simp add: tried_def)
      with attempt(3) new \<open>k < i\<close> show False by (auto simp: new_entry_def)
    qed
    have db: "db = apply_jobs process (take k jobs) db0" using assms(1) by (simp add: tried_def)
    have p: "process (jobs ! k) db = (r, db')" using attempt new \<open>i = k\<close> by (simp add: new_entry_def)
    have "tried_entry process (jobs ! k) (after_attempt r (q ! k))"
    proof (cases "silent process (jobs ! k)")
      case True
      with p obtain e where "r = Inl e" unfolding silent_def by (metis prod.inject)
      with True new \<open>i = k\<close> show ?thesis by (auto simp: tried_entry_def after_attempt_def new_entry_def)
    next
      case s: False
      with assms(2) attempt(1) len \<open>i = k\<close> have "fst (process (jobs ! k) db) = Inr ()"
        by (auto simp: smooth_def db)
      with p s new \<open>i = k\<close> show ?thesis by (simp add: tried_entry_def after_attempt_def new_entry_def)
    qed
    from tried_next [OF assms(1) _ this, of db'] attempt p len \<open>i = k\<close> show ?thesis by auto
  qed
next
  case (promote i)
  have "i < k"
    using assms(1) promote by (auto simp: tried_def new_entry_def not_less [symmetric])
  have "silent process (jobs ! i)" "entry_job (q ! i) = jobs ! i"
    using tried_waiting [OF assms(1) promote(1) _ \<open>i < k\<close>] promote by (simp_all add: unfinished_def)
  moreover have "made (q ! i) \<noteq> 0" using assms(1) \<open>i < k\<close> by (auto simp: tried_def tried_entry_def)
  ultimately show ?thesis
    using promote tried_update [OF assms(1) \<open>i < k\<close>, of "delay_over (q ! i)"]
    by (auto simp: tried_entry_def delay_over_def)
qed

lemma tried_steps:
  assumes "bull_ok process (=) Q" "smooth process jobs db0"
  shows "(Q ^^ n) (fresh_queue jobs, db0) (q, db) \<Longrightarrow> \<exists>k. tried process jobs db0 k (q, db)"
proof (induction n arbitrary: q db)
  case 0
  then show ?case by (auto simp: tried_def fresh_queue_def apply_jobs_def intro!: exI [of _ 0])
next
  case (Suc n)
  then obtain q1 db1 where s: "(Q ^^ n) (fresh_queue jobs, db0) (q1, db1)" "Q (q1, db1) (q, db)" by auto
  from Suc.IH [OF s(1)] obtain k where k: "tried process jobs db0 k (q1, db1)" by blast
  have "bull_step process (=) (q1, db1) (q, db)" using assms(1) s(2) by (simp add: bull_ok_def)
  from tried_step [OF k assms(2) this] show ?case .
qed

lemma queue_applies_in_order:
  assumes "bull_ok process (=) Q" "smooth process jobs db0"
    and "(Q ^^ n) (fresh_queue jobs, db0) (q, db)" "\<nexists>t. Q (q, db) t"
  shows "db = apply_jobs process jobs db0 \<and> (\<forall>i<length jobs.
    entry_state (q ! i) = (if silent process (jobs ! i) then Failed else Completed))"
proof -
  obtain k where k: "tried process jobs db0 k (q, db)" using tried_steps [OF assms(1-3)] by blast
  have all: "k = length jobs"
  proof (rule ccontr)
    assume "k \<noteq> length jobs"
    with k have "k < length q" "unfinished (q ! k)"
      by (auto simp: tried_def unfinished_def new_entry_def)
    with finished [OF assms(1,4)] show False by blast
  qed
  have "entry_state (q ! i) = (if silent process (jobs ! i) then Failed else Completed)" if "i < length jobs" for i
  proof -
    have "tried_entry process (jobs ! i) (q ! i)" "\<not> unfinished (q ! i)"
      using k all that finished [OF assms(1,4), of i] by (auto simp: tried_def)
    then show ?thesis
      by (cases "entry_state (q ! i)") (auto simp: tried_entry_def unfinished_def split: if_splits)
  qed
  with k all show ?thesis by (simp add: tried_def)
qed

text \<open>Whatever others write, a silent job is never completed.\<close>

definition not_silently_done :: "(job \<Rightarrow> 'db \<Rightarrow> unit js_outcome \<times> 'db) \<Rightarrow> entry \<Rightarrow> bool" where
  "not_silently_done process e \<longleftrightarrow> silent process (entry_job e) \<longrightarrow> entry_state e \<noteq> Completed"

lemma not_silently_done_step:
  assumes "bull_step process others (q, db) (q', db')" "list_all (not_silently_done process) q"
  shows "list_all (not_silently_done process) q'"
  using assms(1)
proof (cases rule: bull_stepE)
  case (attempt i db1 r)
  have "not_silently_done process (after_attempt r (q ! i))"
    unfolding not_silently_done_def
  proof
    assume "silent process (entry_job (after_attempt r (q ! i)))"
    then have "\<exists>e. process (entry_job (q ! i)) db1 = (Inl e, db1)" by (simp add: silent_def after_attempt_def)
    with attempt(5) obtain e where "r = Inl e" by auto
    then show "entry_state (after_attempt r (q ! i)) \<noteq> Completed" by (simp add: after_attempt_def)
  qed
  with attempt(6) assms(2) show ?thesis by (simp add: list_all_update)
next
  case (promote i)
  have "not_silently_done process (delay_over (q ! i))" by (simp add: not_silently_done_def delay_over_def)
  with promote assms(2) show ?thesis by (simp add: list_all_update)
qed

lemma not_silently_done_steps:
  assumes "bull_ok process others Q"
  shows "(Q ^^ n) (fresh_queue jobs, db0) (q, db) \<Longrightarrow> list_all (not_silently_done process) q"
proof (induction n arbitrary: q db)
  case 0
  then show ?case by (auto simp: fresh_queue_def list_all_iff not_silently_done_def new_entry_def)
next
  case (Suc n)
  then obtain q1 db1 where s: "(Q ^^ n) (fresh_queue jobs, db0) (q1, db1)" "Q (q1, db1) (q, db)" by auto
  have "bull_step process others (q1, db1) (q, db)" using assms s(2) by (simp add: bull_ok_def)
  from not_silently_done_step [OF this Suc.IH [OF s(1)]] show ?case .
qed

section \<open>The end of every job\<close>

lemma queue_end:
  assumes "bull_ok process others Q" "(Q ^^ n) (fresh_queue jobs, db0) (q, db)"
    and "\<nexists>t. Q (q, db) t" "i < length jobs"
  shows "entry_job (q ! i) = jobs ! i"
    "entry_state (q ! i) = Completed \<and> made (q ! i) \<in> {1..3} \<or> entry_state (q ! i) = Failed \<and> made (q ! i) = 3"
proof -
  note o = orders_fresh [OF bull_steps_orders [OF assms(1,2)] assms(4)]
  have "entry_ok (q ! i)"
    using bull_steps_ok [OF assms(1,2) fresh_queue_ok(1)] o(1) by (simp add: list_all_length)
  with finished [OF assms(1,3) o(1)] o(3)
  show "entry_state (q ! i) = Completed \<and> made (q ! i) \<in> {1..3} \<or> entry_state (q ! i) = Failed \<and> made (q ! i) = 3"
    by (cases "entry_state (q ! i)") (auto simp: unfinished_def entry_ok_def event_options_def)
  show "entry_job (q ! i) = jobs ! i" by (rule o(2))
qed

lemma silent_fails:
  assumes "bull_ok process others Q" "(Q ^^ n) (fresh_queue jobs, db0) (q, db)"
    and "\<nexists>t. Q (q, db) t" "i < length jobs" "silent process (jobs ! i)"
  shows "entry_state (q ! i) = Failed \<and> made (q ! i) = 3"
proof -
  have "i < length q" by (rule orders_fresh(1) [OF bull_steps_orders [OF assms(1,2)] assms(4)])
  with not_silently_done_steps [OF assms(1,2)] have "not_silently_done process (q ! i)"
    by (simp add: list_all_length)
  with queue_end [OF assms(1-4)] assms(5) show ?thesis by (auto simp: not_silently_done_def)
qed

text \<open>
  Every job comes to an end: however the processor answers and whatever other clients
  do to the database, the jobs of a queue take at most five steps each (three attempts and
  the two delays between them), and when the queue has no step left, every job is completed
  after one to three attempts or failed after exactly three.
\<close>

theorem queue_comes_to_an_end:
  assumes "bull_ok process others Q" "(Q ^^ n) (fresh_queue jobs, db0) (q, db)"
  shows "n \<le> 5 * length jobs \<and> length q = length jobs \<and>
    ((\<nexists>t. Q (q, db) t) \<longrightarrow> (\<forall>i<length jobs. entry_job (q ! i) = jobs ! i \<and>
       (entry_state (q ! i) = Completed \<and> made (q ! i) \<in> {1..3} \<or>
        entry_state (q ! i) = Failed \<and> made (q ! i) = 3)))"
proof -
  have "n \<le> 5 * length jobs" "length q = length jobs"
    using bull_steps_ok [OF assms fresh_queue_ok(1)] by (simp_all add: fresh_queue_ok(2))
  with queue_end [OF assms] show ?thesis by blast
qed

text \<open>A queue of one job whose processor always throws, until no step is left.\<close>

definition trial_entry :: "job \<Rightarrow> nat \<Rightarrow> job_state \<Rightarrow> entry" where
  "trial_entry j n s = \<lparr>entry_job = j, entry_options = event_options, made = n, entry_state = s\<rparr>"

lemma trial_entry_simps [simp]:
  "entry_job (trial_entry j n s) = j" "made (trial_entry j n s) = n" "entry_state (trial_entry j n s) = s"
  "fresh_queue [j] = [trial_entry j 0 Waiting]"
  by (simp_all add: trial_entry_def fresh_queue_def new_entry_def)

lemma silent_attempt:
  assumes "silent process j"
  shows "bull_step process (=) ([trial_entry j n Waiting], db)
     ([trial_entry j (Suc n) (if Suc n < 3 then Delayed else Failed)], db)"
proof -
  obtain e where "process j db = (Inl e, db)" using assms by (auto simp: silent_def)
  then show ?thesis
    using bull_step.attempt [of 0 "[trial_entry j n Waiting]" "(=)" db db process "Inl e" db]
    by (simp add: trial_entry_def after_attempt_def event_options_def)
qed

lemma trial_promote:
  "bull_step process (=) ([trial_entry j n Delayed], db) ([trial_entry j n Waiting], db)"
  using bull_step.promote [of 0 "[trial_entry j n Delayed]" process "(=)" db]
  by (simp add: trial_entry_def delay_over_def)

lemma trial_end: "\<nexists>t. bull_step process (=) ([trial_entry j n Failed], db) t"
  by (auto elim!: bull_step.cases)

lemma silent_run:
  assumes "silent process j"
  shows "(bull_step process (=) ^^ Suc (Suc (Suc (Suc (Suc 0)))))
     (fresh_queue [j], db) ([trial_entry j 3 Failed], db)"
  using silent_attempt [OF assms, of 0] silent_attempt [OF assms, of 1] silent_attempt [OF assms, of 2]
    trial_promote [of process j 1] trial_promote [of process j 2]
  by (intro relpowp_Suc_I2 [where P = "bull_step process (=)"]) (auto simp: numeral_eq_Suc)

definition throwing :: "job \<Rightarrow> nat \<Rightarrow> unit js_outcome \<times> nat" where
  "throwing j db = (Inl Type_Error, db)"

theorem queue_comes_to_an_end_witness:
  "\<not> 5 * length [name_job ''5Alice'' ''0x61'' 1] < 5 \<and>
   made (trial_entry (name_job ''5Alice'' ''0x61'' 1) 3 Failed) = 3"
proof -
  have "bull_ok throwing (=) (bull_step throwing (=))" by (rule bull_step_bull_ok) simp
  moreover have "silent throwing (name_job ''5Alice'' ''0x61'' 1)" by (simp add: silent_def throwing_def)
  ultimately show ?thesis
    using queue_comes_to_an_end [OF _ silent_run [of throwing "name_job ''5Alice'' ''0x61'' 1" 0]] trial_end
    by fastforce
qed

end
