(* ===== verification/Index_Properties.thy ===== *)
theory Index_Properties
  imports Index_Registry Event_Queue
begin

text \<open>
  The properties of the indexer as a follower of the chain: the registry it shows for plain
  usernames, the statistics it never stores, and the changes it loses.
\<close>

section \<open>The registry shown by the table\<close>

fun is_stats :: "'a profile_event \<Rightarrow> bool" where
  "is_stats (StatsUpdated a r w d x) = True"
| "is_stats _ = False"

text \<open>Every job but those of \<open>StatsUpdated\<close> succeeds in its turn.\<close>

definition goes_through ::
    "'db repository \<Rightarrow> (jstring \<Rightarrow> int) \<Rightarrow> ('a profile_event \<Rightarrow> js_value) \<Rightarrow> 'a placed_event list \<Rightarrow> 'db \<Rightarrow> bool" where
  "goes_through R num to_json xs db0 \<longleftrightarrow> (\<forall>k<length xs. is_stats (snd (snd (xs ! k))) \<or>
     index_result R num to_json (xs ! k) (index_all R num to_json (take k xs) db0) = Inr ())"

lemma goes_through_Nil [simp]: "goes_through R num f [] db0"
  by (simp add: goes_through_def)

lemma goes_through_snoc [simp]:
  "goes_through R num f (xs @ [x]) db0 \<longleftrightarrow> goes_through R num f xs db0 \<and>
     (is_stats (snd (snd x)) \<or> index_result R num f x (index_all R num f xs db0) = Inr ())"
  by (auto simp: goes_through_def nth_append less_Suc_eq)

definition indexed_log ::
    "profile_config \<Rightarrow> 'db repository \<Rightarrow> ('db \<Rightarrow> user_rows) \<Rightarrow> ('db \<Rightarrow> bool) \<Rightarrow> (jstring \<Rightarrow> int) \<Rightarrow>
     ('a \<Rightarrow> jstring) \<Rightarrow> ('a profile_event \<Rightarrow> js_value) \<Rightarrow> 'db \<Rightarrow> 'a profile_storage \<Rightarrow> 'a profile_event list \<Rightarrow> bool" where
  "indexed_log C R rows valid num ss58 to_json db0 st evs \<longleftrightarrow> profile_inv C st \<and>
     (\<forall>xs. map (snd \<circ> snd) xs = evs \<longrightarrow> list_all text_event evs \<longrightarrow> list_all placed_ok xs \<longrightarrow>
        valid (index_all R num to_json xs db0) \<and> mirrors ss58 st (rows (index_all R num to_json xs db0)) \<and>
        goes_through R num to_json xs db0)"

lemma mirrors_stats: "mirrors ss58 (stats_storage who r w d x st) m \<longleftrightarrow> mirrors ss58 st m"
  by (simp add: mirrors_def stats_storage_def)

lemma index_stats_event:
  assumes "event_json_ok ss58 f"
  shows "index_event R num f (n, h, StatsUpdated a r w d x) db = db"
proof -
  obtain dj xj where "shaped [''account'', ''totalRaces'', ''wins'', ''totalDistance'', ''totalRewards'']
      [Str (ss58 a), Num (uint r), Num (uint w), dj, xj] (f (StatsUpdated a r w d x))"
    using assms unfolding event_json_ok_def by blast
  from stats_handler_fails [OF this] show ?thesis
    by (simp add: index_event_def handle_user_profile_event_def)
qed

lemma indexed_log_extend:
  assumes log: "indexed_log C R rows valid num ss58 f db0 st evs" and inv: "profile_inv C st'"
    and step: "\<And>n h db. text_event e \<Longrightarrow> 0 \<le> n \<Longrightarrow> n < 2 ^ 63 \<Longrightarrow> valid db \<Longrightarrow> mirrors ss58 st (rows db) \<Longrightarrow>
      (is_stats e \<or> index_result R num f (n, h, e) db = Inr ()) \<and>
      valid (index_event R num f (n, h, e) db) \<and> mirrors ss58 st' (rows (index_event R num f (n, h, e) db))"
  shows "indexed_log C R rows valid num ss58 f db0 st' (evs @ [e])"
  unfolding indexed_log_def
proof (intro conjI inv allI impI)
  fix xs assume xs: "map (snd \<circ> snd) xs = evs @ [e]" "list_all text_event (evs @ [e])" "list_all placed_ok xs"
  obtain ys n h where y: "xs = ys @ [(n, h, e)]" "map (snd \<circ> snd) ys = evs"
    using xs(1) by (cases xs rule: rev_cases) (auto simp: comp_def)
  have "valid (index_all R num f ys db0) \<and> mirrors ss58 st (rows (index_all R num f ys db0)) \<and>
      goes_through R num f ys db0"
    using log xs(2,3) y by (auto simp: indexed_log_def)
  with step [of n "index_all R num f ys db0" h] xs(2,3) y
  show "valid (index_all R num f xs db0)" "mirrors ss58 st' (rows (index_all R num f xs db0))"
    "goes_through R num f xs db0"
    by (auto simp: placed_ok_def)
qed

lemma profile_genesis_profiles: "profiles profile_genesis a = None"
  by (simp add: profile_genesis_def)

lemma indexed_logged_pallet:
  assumes T: "table_up R rows valid" and f: "event_json_ok ss58 f" "addresses_ok ss58"
    and C: "unat (max_username_length C) \<le> 32" and db0: "valid db0" "rows db0 = Map.empty"
  shows "logged_pallet (profile_apply C) profile_legal profile_genesis
    (indexed_log C R rows valid num ss58 f db0)"
proof
  show "indexed_log C R rows valid num ss58 f db0 profile_genesis []"
    using db0 by (simp add: indexed_log_def mirrors_def profile_genesis_inv profile_genesis_profiles)
next
  fix x s t
  assume legal: "profile_legal x" and log: "indexed_log C R rows valid num ss58 f db0 (store s) (deposited s)"
    and ok: "profile_apply C x s = (Inr (), t)"
  obtain F origin c where x: "x = (F, origin, c)" by (cases x)
  have F: "bounded_vec_ok F" using legal x by (simp add: profile_legal_def)
  have d: "profile_dispatch C F origin c s = (Inr (), t)" using ok x by (simp add: profile_apply_def)
  have inv: "profile_inv C (store s)" using log by (simp add: indexed_log_def)
  have inv': "profile_inv C (store t)" by (rule profile_dispatch_inv [OF F inv d])
  from F d show "indexed_log C R rows valid num ss58 f db0 (store t) (deposited t)"
  proof (cases rule: profile_dispatch_OkD)
    case (named who name)
    show ?thesis
      unfolding named(5)
      by (rule indexed_log_extend [OF log inv'])
         (use named in \<open>simp add: index_username_set [OF T f inv C]\<close>)
  next
    case (updated who u av bi)
    show ?thesis
      unfolding updated(5)
      by (rule indexed_log_extend [OF log inv'])
         (use updated in \<open>simp del: text_event.simps add: index_profile_updated [OF T f inv C]\<close>)
  next
    case (stats who r w d' x')
    show ?thesis
      unfolding stats(4) stats_event_def
      by (rule indexed_log_extend [OF log inv'])
         (use stats in \<open>simp_all add: index_stats_event [OF f(1)] mirrors_stats\<close>)
  qed
qed

text \<open>The user with a username in the table, and the shown form of the chain's registry.\<close>

definition indexed_as :: "user_rows \<Rightarrow> jstring \<Rightarrow> jstring \<Rightarrow> bool" where
  "indexed_as m acc name \<longleftrightarrow> (\<exists>i r. m i = Some r \<and> r Col_accountId = Str acc \<and> r Col_username = Str name)"

lemma mirrors_registry:
  assumes m: "mirrors ss58 st m" "inj ss58" "rows_ok m"
  shows "indexed_as m (ss58 a) name \<longleftrightarrow> map_option shown_text (registry st a) = Some name"
proof
  assume "indexed_as m (ss58 a) name"
  then obtain i r where r: "m i = Some r" "r Col_accountId = Str (ss58 a)" "r Col_username = Str name"
    unfolding indexed_as_def by blast
  then obtain p where "profiles st a = Some p" "r Col_username = shown_name (username p)"
    using mirrors_agree [OF m r(1,2)] by blast
  with r(3) show "map_option shown_text (registry st a) = Some name"
    by (auto simp: registry_def shown_name_def split: if_splits)
next
  assume "map_option shown_text (registry st a) = Some name"
  then obtain p where p: "profiles st a = Some p" "username p \<noteq> []" "name = shown_text (username p)"
    by (auto simp: registry_def split: option.splits if_splits)
  then obtain i r where "m i = Some r" "r Col_accountId = Str (ss58 a)" "r Col_username = shown_name (username p)"
    using mirrors_profile [OF m(1) p(1)] by blast
  with p show "indexed_as m (ss58 a) name" by (auto simp: indexed_as_def shown_name_def)
qed

lemma indexed_block:
  assumes "storage_layer layer" "list_all profile_legal xs"
    and "table_up R rows valid" "event_json_ok ss58 to_json" "addresses_ok ss58"
    and "unat (max_username_length C) \<le> 32" "valid db0" "rows db0 = Map.empty"
    and "s = apply_block layer (profile_apply C) (fresh_ext profile_genesis) xs"
    and "map (snd \<circ> snd) placed = deposited s" "list_all placed_ok placed" "list_all text_event (deposited s)"
  shows "goes_through R num to_json placed db0 \<and>
    (indexed_as (rows (index_all R num to_json placed db0)) (ss58 a) name \<longleftrightarrow>
      map_option shown_text (registry (store s) a) = Some name)"
proof -
  let ?db = "index_all R num to_json placed db0"
  have "indexed_log C R rows valid num ss58 to_json db0 (store s) (deposited s)"
    unfolding assms(9)
    by (rule logged_pallet.genesis_block_holds [OF indexed_logged_pallet [OF assms(3-8)] assms(1,2)])
  then have db: "valid ?db" "mirrors ss58 (store s) (rows ?db)" "goes_through R num to_json placed db0"
    using assms(10-12) by (simp_all add: indexed_log_def)
  have "rows_ok (rows ?db)" using user_table.rows_ok [OF table_up.axioms(1) [OF assms(3)] db(1)] .
  with mirrors_registry [OF db(2), of a name] db(3) assms(5) show ?thesis by (simp add: addresses_ok_def)
qed

section \<open>The jobs in the queue\<close>

lemma profile_job_event:
  "profile_job f (n, h, e) = event_job n h
     \<lparr>section_name = js ''userProfile'', method_name = js (event_method e), event_data = e\<rparr> (f e)"
  by (simp add: profile_job_def event_job_def)

definition processor :: "'db repository \<Rightarrow> (jstring \<Rightarrow> int) \<Rightarrow> job \<Rightarrow> 'db \<Rightarrow> unit js_outcome \<times> 'db" where
  "processor R num j = run_prog R (handle_user_profile_event num j)"

lemma stats_silent:
  assumes "event_json_ok ss58 f" "is_stats (snd (snd x))"
  shows "silent (processor R num) (profile_job f x)"
proof -
  obtain n h a r w d y where x: "x = (n, h, StatsUpdated a r w d y)"
    using assms(2) by (cases x; cases "snd (snd x)") auto
  obtain dj xj where "shaped [''account'', ''totalRaces'', ''wins'', ''totalDistance'', ''totalRewards'']
      [Str (ss58 a), Num (uint r), Num (uint w), dj, xj] (f (StatsUpdated a r w d y))"
    using assms(1) unfolding event_json_ok_def by blast
  from stats_handler_fails [OF this] show ?thesis
    by (simp add: silent_def processor_def x handle_user_profile_event_def)
qed

lemma apply_jobs_index:
  "apply_jobs (processor R num) (map (profile_job f) xs) db = index_all R num f xs db"
  by (induction xs arbitrary: db)
     (simp_all add: apply_jobs_def index_all_def index_event_def processor_def comp_def)

lemma goes_through_smooth:
  assumes "event_json_ok ss58 f" "goes_through R num f xs db0"
  shows "smooth (processor R num) (map (profile_job f) xs) db0"
  unfolding smooth_def
proof (intro allI impI)
  fix k assume "k < length (map (profile_job f) xs)"
  then have k: "k < length xs" by simp
  with assms(2) have "is_stats (snd (snd (xs ! k))) \<or>
      index_result R num f (xs ! k) (index_all R num f (take k xs) db0) = Inr ()"
    by (simp add: goes_through_def)
  with k stats_silent [OF assms(1), of "xs ! k"]
  show "silent (processor R num) (map (profile_job f) xs ! k) \<or>
      fst (processor R num (map (profile_job f) xs ! k)
        (apply_jobs (processor R num) (take k (map (profile_job f) xs)) db0)) = Inr ()"
    by (auto simp: take_map apply_jobs_index index_result_def processor_def)
qed

text \<open>
  C4. The index refines the registry: take any block of extrinsics from genesis whose events
  carry usernames that are text (not empty, well-formed UTF-8 of any script, without NUL), and
  the jobs of its events in the queue of an API whose users table is empty and up.  When the
  queue has no step left, exactly the accounts with a username on the chain have one in the
  table, and it is that username, as text.
\<close>

theorem index_follows_registry:
  assumes "storage_layer layer" "list_all profile_legal xs"
    and "table_up R rows valid" "event_json_ok ss58 to_json" "addresses_ok ss58"
    and "unat (max_username_length C) \<le> 32" "valid db0" "rows db0 = Map.empty"
    and "s = apply_block layer (profile_apply C) (fresh_ext profile_genesis) xs"
    and "map (snd \<circ> snd) placed = deposited s" "list_all placed_ok placed" "list_all text_event (deposited s)"
    and "bull_ok (processor R num) (=) Q"
    and "(Q ^^ n) (fresh_queue (map (profile_job to_json) placed), db0) (q, db)" "\<nexists>t. Q (q, db) t"
  shows "indexed_as (rows db) (ss58 a) name \<longleftrightarrow> map_option shown_text (registry (store s) a) = Some name"
proof -
  note block = indexed_block [OF assms(1-12)]
  have "smooth (processor R num) (map (profile_job to_json) placed) db0"
    using block by (intro goes_through_smooth [OF assms(4)]) blast
  from queue_applies_in_order [OF assms(13) this assms(14,15)] block show ?thesis
    by (simp add: apply_jobs_index)
qed

text \<open>Accounts of one byte, their addresses and the JSON form of their events.\<close>

definition demo_address :: "u8 \<Rightarrow> jstring" where
  "demo_address a = js ''5'' @ hex_pair a"

fun demo_json :: "u8 profile_event \<Rightarrow> js_value" where
  "demo_json (UsernameSet a name) = Arr [Str (demo_address a), Str (hex_string name)]"
| "demo_json (ProfileUpdated a u av bi) = Arr [Str (demo_address a), bytes_json u,
     bytes_json (Option.bind av id), bytes_json (Option.bind bi id)]"
| "demo_json (StatsUpdated a r w d x) = Arr [Str (demo_address a), Num (uint r), Num (uint w),
     Num (uint d), Str (hex_string [])]"

lemma demo_json_ok: "event_json_ok demo_address demo_json"
  by (auto simp: event_json_ok_def shaped_def)

lemma hex_chars_plain: "list_all (\<lambda>k. 0 < hex_char (of_nat k) \<and> hex_char (of_nat k) < 128) [0..<16]"
  by (simp add: upt_rec hex_char_def)

lemma hex_char_plain: "unat x < 16 \<Longrightarrow> 0 < hex_char x \<and> hex_char x < 128"
  using hex_chars_plain by (auto simp: list_all_iff dest: bspec [of _ _ "unat x"])

lemma demo_addresses_ok: "addresses_ok demo_address"
proof -
  have "inj demo_address"
  proof (rule injI)
    fix a b assume "demo_address a = demo_address b"
    then have "hex_decode (hex_pair a @ []) = hex_decode (hex_pair b @ [])" by (simp add: demo_address_def)
    then show "a = b" by (simp only: hex_decode_pair) simp
  qed
  moreover have "plain_text (demo_address a)" for a
    using hex_char_plain [OF byte_halves(1)] hex_char_plain [OF byte_halves(2)]
    by (auto simp: demo_address_def plain_text_def js_def hex_pair_def)
  ultimately show ?thesis by (simp add: addresses_ok_def demo_address_def hex_pair_def)
qed

definition demo_block :: "(u8 profile_storage, u8 profile_event) ext" where
  "demo_block = apply_block rollback_layer (profile_apply mock_config) (fresh_ext profile_genesis)
     [(plain_frame 1, Some 7, Set_username [97])]"

lemma demo_block_result:
  "deposited demo_block = [UsernameSet 7 [97]]"
  "registry (store demo_block) 7 = Some [97]"
  by (simp_all add: demo_block_def rollback_layer_def profile_apply_def
      set_username_eq [OF bounded_vec_ok_plain] demo_simps registry_def)

text \<open>The queue with the one job of the demo block: one attempt, and nothing left.\<close>

definition demo_job :: job where
  "demo_job = profile_job demo_json (1, js ''0x00'', UsernameSet 7 [97])"

definition demo_processor :: "job \<Rightarrow> memory_table \<Rightarrow> unit js_outcome \<times> memory_table" where
  "demo_processor = processor memory_repository (\<lambda>s. 0)"

lemma demo_job_runs: "demo_processor demo_job empty_table = (Inr (), snd (demo_processor demo_job empty_table))"
  by (simp add: demo_processor_def demo_job_def processor_def demo_address_def hex_pair_def hex_char_def
      hex_string_def hex_digits_def memory_simps handler_simps text_simps)

definition demo_done :: "entry list \<times> memory_table" where
  "demo_done = ([after_attempt (Inr ()) (new_entry demo_job event_options)], snd (demo_processor demo_job empty_table))"

lemma demo_queue_run:
  "(bull_step demo_processor (=) ^^ Suc 0) (fresh_queue [demo_job], empty_table) demo_done"
  using bull_step.attempt [of 0 "fresh_queue [demo_job]" "(=)" empty_table empty_table demo_processor
      "Inr ()" "snd (demo_processor demo_job empty_table)"] demo_job_runs
  by (auto simp: fresh_queue_def new_entry_def demo_done_def)

lemma demo_queue_end: "\<nexists>t. bull_step demo_processor (=) demo_done t"
  by (auto elim!: bull_step.cases simp: demo_done_def after_attempt_def new_entry_def)

theorem index_follows_registry_witness:
  "indexed_as (fst (snd demo_done)) (demo_address 7) (js ''a'')"
proof -
  have "shown_text [97] = js ''a''"
    by (simp add: shown_text_def utf8_text_def utf8_start_def utf16_units_def strip_nul_def js_def)
  moreover have "bull_ok (processor memory_repository (\<lambda>s. 0)) (=) (bull_step demo_processor (=))"
    unfolding demo_processor_def by (rule bull_step_bull_ok) simp
  ultimately show ?thesis
    using index_follows_registry [where s = demo_block and a = 7 and name = "js ''a''" and
        placed = "[(1, js ''0x00'', UsernameSet 7 [97])]" and num = "\<lambda>s. 0" and n = "Suc 0" and
        q = "fst demo_done" and db = "snd demo_done" and Q = "bull_step demo_processor (=)",
        OF storage_layer_rollback _ memory.table_up_axioms demo_json_ok demo_addresses_ok _
          empty_table_valid _ demo_block_def] demo_queue_run demo_queue_end
    by (simp add: demo_block_result profile_legal_def bounded_vec_ok_plain mock_config_def
        placed_ok_def username_bytes_def ascii_text_bytes ascii_bytes_def empty_table_def [THEN arg_cong [where f = fst]]
        flip: demo_job_def)
qed

end
