(* ===== verification/Index_Limits.thy ===== *)
theory Index_Limits
  imports Index_Properties
begin

text \<open>
  Single jobs: what reaches the queue and the decoder, and where the index falls short of
  the chain (statistics, names the table already holds, cleared fields, the block of
  creation).
\<close>

section \<open>From the block to the queue\<close>

lemma process_block_events_succeeds:
  assumes "\<And>name j opts q. \<exists>q'. add name j opts q = (Inr (), q')"
  shows "\<exists>q'. process_block_events (\<lambda>d. Inr (f d)) add n h events q = (Inr (), q')"
proof (induction events arbitrary: q)
  case (Cons e es)
  obtain q1 where "add ''userProfile-event'' (event_job n h e (f (event_data e))) event_options q = (Inr (), q1)"
    using assms by blast
  with Cons.IH show ?case by auto
qed simp

text \<open>
  C35. A new block adds to the queue a beginning of the jobs of its \<open>userProfile\<close> events, in
  order; all of them when the queue takes every job.  What an error cuts off is not added
  later.
\<close>

theorem block_events_queued:
  assumes "job_queue add contents" "get_block api h = Inr ()" "events_at api h = Inr events"
  shows "(\<exists>k. contents (on_new_head api (\<lambda>d. Inr (f d)) add n h q) =
      contents q @ take k (block_jobs f n h events)) \<and>
    ((\<forall>name j opts q. \<exists>q'. add name j opts q = (Inr (), q')) \<longrightarrow>
      contents (on_new_head api (\<lambda>d. Inr (f d)) add n h q) = contents q @ block_jobs f n h events)"
proof -
  obtain r q' where p: "process_block_events (\<lambda>d. Inr (f d)) add n h events q = (r, q')" by fastforce
  have head: "on_new_head api (\<lambda>d. Inr (f d)) add n h q = q'"
    using assms(2,3) p by (simp add: on_new_head_def)
  have "r = Inr ()" if "\<forall>name j opts q. \<exists>q'. add name j opts q = (Inr (), q')"
    using process_block_events_succeeds [of add f n h events q] that p by auto
  with job_queue.process_block_events_queued [OF assms(1) p] head show ?thesis by auto
qed

definition demo_events :: "u8 profile_event event_record list" where
  "demo_events =
     [\<lparr>section_name = js ''system'', method_name = js ''NewAccount'', event_data = UsernameSet 1 []\<rparr>,
      \<lparr>section_name = js ''userProfile'', method_name = js ''UsernameSet'', event_data = UsernameSet 7 [97]\<rparr>]"

definition demo_chain_api :: "u8 profile_event chain_api" where
  "demo_chain_api = \<lparr>get_block = \<lambda>h. Inr (), events_at = \<lambda>h. Inr demo_events\<rparr>"

theorem block_events_queued_witness:
  "map (\<lambda>(name, e). (name, entry_job e, entry_options e))
     (on_new_head demo_chain_api (\<lambda>d. Inr (demo_json d)) bull_add 1 (js ''0x00'') []) =
   [(''userProfile-event'', demo_job, event_options)]"
proof -
  have "\<forall>name j opts q. \<exists>q'. bull_add name j opts q = (Inr (), q')" by (simp add: bull_add_def)
  moreover have "block_jobs demo_json 1 (js ''0x00'') demo_events = [(''userProfile-event'', demo_job, event_options)]"
    by (simp add: demo_job_def profile_job_event demo_events_def)
  ultimately show ?thesis
    using block_events_queued [where api = demo_chain_api and h = "js ''0x00''" and events = demo_events and n = 1
        and f = demo_json and q = "[]", OF bull.job_queue_axioms]
    by (simp add: demo_chain_api_def)
qed

section \<open>Decoding\<close>

text \<open>
  C19. The text decoded for a username never exceeds the given length, whatever the payload,
  and the chain's hexadecimal of the UTF-8 of any text is decoded to that text (without its
  NUL characters, and U+FFFD for a surrogate alone) when the bytes are within the length.
\<close>

theorem usernames_decoded:
  assumes "length (utf8_encode t) \<le> n"
  shows "decode_and_truncate num (Str (hex_string (utf8_encode t))) n = Inr (Some (strip_nul (to_usv t))) \<and>
    decode_bytes num (Str (hex_string (utf8_encode t))) (Some n) = Inr (Some (strip_nul (to_usv t))) \<and>
    (\<forall>v s. decode_and_truncate num v n = Inr (Some s) \<longrightarrow> length s \<le> n)"
proof -
  have "length s \<le> n" if "decode_and_truncate num v n = Inr (Some s)" for v s
    using that
    by (cases "decode_payload num v") (auto simp: decode_and_truncate_def split: if_splits option.splits)
  with assms show ?thesis
    by (simp add: decode_and_truncate_hex decode_bytes_hex shown_text_def utf8_decode_encode)
qed

text \<open>Latin, Greek and a character beyond the basic plane.\<close>

theorem usernames_decoded_witness:
  "decode_and_truncate (\<lambda>s. 0) (Str (hex_string [97, 206, 187, 240, 159, 154, 178])) 32 =
     Inr (Some [97, 955, 55357, 57010])"
proof -
  have "utf8_encode [97, 955, 55357, 57010] = [97, 206, 187, 240, 159, 154, 178]"
    by (simp add: utf8_encode_def utf8_point_def pair_point_def usv_unit_def high_surrogate_def low_surrogate_def)
  with usernames_decoded [of "[97, 955, 55357, 57010]" 32 "\<lambda>s. 0"] show ?thesis
    by (simp add: strip_nul_def usv_unit_def high_surrogate_def low_surrogate_def)
qed

section \<open>Statistics\<close>

text \<open>
  C17. The indexer never stores statistics: the job of a \<open>StatsUpdated\<close> event throws a
  \<open>TypeError\<close> in every state of the database and leaves it as it is, so the queue gives it up
  after its third attempt.
\<close>

theorem stats_updates_fail:
  assumes "event_json_ok ss58 to_json" "bull_ok (processor R num) others Q"
    and "(Q ^^ k) (fresh_queue jobs, db0) (q, db)" "\<nexists>t. Q (q, db) t"
    and "i < length jobs" "jobs ! i = profile_job to_json (n, h, StatsUpdated a r w d x)"
  shows "entry_state (q ! i) = Failed \<and> made (q ! i) = 3 \<and>
    (\<forall>db. processor R num (jobs ! i) db = (Inl Type_Error, db))"
proof -
  obtain dj xj where "shaped [''account'', ''totalRaces'', ''wins'', ''totalDistance'', ''totalRewards'']
      [Str (ss58 a), Num (uint r), Num (uint w), dj, xj] (to_json (StatsUpdated a r w d x))"
    using assms(1) unfolding event_json_ok_def by blast
  from stats_handler_fails [OF this]
  have p: "processor R num (jobs ! i) db = (Inl Type_Error, db)" for db
    by (simp add: assms(6) processor_def handle_user_profile_event_def)
  then have "silent (processor R num) (jobs ! i)" by (auto simp: silent_def)
  from silent_fails [OF assms(2-5) this] p show ?thesis by blast
qed

theorem stats_updates_fail_witness:
  "entry_state (trial_entry (profile_job demo_json (1, js ''0x00'', StatsUpdated 7 5 2 100 9)) 3 Failed) = Failed \<and>
   demo_processor (profile_job demo_json (1, js ''0x00'', StatsUpdated 7 5 2 100 9)) two_users = (Inl Type_Error, two_users)"
proof -
  let ?j = "profile_job demo_json (1, js ''0x00'', StatsUpdated 7 5 2 100 9)"
  have b: "bull_ok (processor memory_repository (\<lambda>s. 0)) (=) (bull_step (processor memory_repository (\<lambda>s. 0)) (=))"
    by (rule bull_step_bull_ok) simp
  have s: "silent (processor memory_repository (\<lambda>s. 0)) ?j"
    by (rule stats_silent [OF demo_json_ok]) simp
  show ?thesis
    using stats_updates_fail [where i = 0 and n = 1 and h = "js ''0x00''" and a = 7 and r = 5 and w = 2 and
        d = 100 and x = 9, OF demo_json_ok b silent_run [OF s, of empty_table] trial_end]
    by (simp add: demo_processor_def del: split_paired_All)
qed

section \<open>Usernames the table already holds\<close>

text \<open>The job of a \<open>UsernameSet\<close> event as the common tail of the handlers.\<close>

lemma username_set_processed:
  assumes "event_json_ok ss58 f" "addresses_ok ss58" "length name \<le> 32"
  shows "processor R num (profile_job f (n, h, UsernameSet a name)) = run_prog R (sync_user (Str (ss58 a))
    [Col_username \<mapsto> or_undefined (Some (shown_text name)), Col_createdAtBlock \<mapsto> Num n]
    [Col_accountId \<mapsto> Str (ss58 a), Col_username \<mapsto> or_undefined (Some (shown_text name))])"
  using username_set_sync [of "ss58 a" name "f (UsernameSet a name)"] assms
  by (simp add: processor_def handle_user_profile_event_def event_json_ok_def addresses_ok_def fun_eq_iff)

text \<open>
  C18. A username that another account's row holds is refused: the job of the \<open>UsernameSet\<close>
  event ends in a conflict and changes nothing.  The chain compares bytes and the table the
  decoded text, so this also happens to a username the chain has accepted, when the two
  differ in a NUL byte only or when the row is of an account that no longer has the name.
\<close>

theorem held_name_refused:
  assumes "table_up R rows valid" "event_json_ok ss58 to_json" "addresses_ok ss58"
    and "valid db" "names_distinct (rows db)"
    and "length name \<le> 32" "shown_text name \<noteq> []" "usv_text (shown_text name)"
    and "rows db j = Some q" "q Col_username = Str (shown_text name)" "q Col_accountId \<noteq> Str (ss58 a)"
  shows "processor R num (profile_job to_json (n, h, UsernameSet a name)) db =
    (Inl (Conflict_Exception ''Username already taken''), db)"
proof -
  note T = assms(1)
  have acc: "plain_text (ss58 a)" using assms(3) by (simp add: addresses_ok_def)
  obtain r where taken: "repo_find_one R Col_username (Str (shown_text name)) db = Inr (Some r)"
    using assms(4,8)
    by (cases rule: table_up.lookup_name [OF T, consumes 2]) (use assms(9,10) in auto)
  show ?thesis
    using assms(4) plain_usv_text [OF acc]
  proof (cases rule: table_up.lookup_account [OF T, consumes 2, case_names absent present])
    case absent
    with taken assms(7) show ?thesis
      by (simp add: username_set_processed [OF assms(2,3,6)] sync_user_def find_by_account_id_def
          create_def field_def or_undefined_def)
  next
    case (present i u)
    have "u Col_username \<noteq> Str (shown_text name)"
      using names_distinctD [OF assms(5) present(2) assms(9) _ assms(10) assms(7)] present(2,3) assms(9,11)
      by auto
    moreover have "u Col_id = Str i"
      using rows_okD(1) [OF user_table.rows_ok [OF table_up.axioms(1) [OF T] assms(4)] present(2)] .
    ultimately show ?thesis
      using present(1) taken assms(7) table_up.lookup_id [OF T assms(4) present(2)]
      by (simp add: username_set_processed [OF assms(2,3,6)] sync_user_def find_by_account_id_def
          update_def find_one_def field_def or_undefined_def)
  qed
qed

text \<open>Account 7 holds the text of \<open>[97]\<close>; account 8 sets \<open>[97, 0]\<close>.\<close>

lemma demo_done_row:
  "\<exists>q. fst (snd demo_done) (user_id 0) = Some q \<and> q Col_username = Str (js ''a'') \<and>
     q Col_accountId = Str (demo_address 7) \<and> (\<forall>k. k \<noteq> user_id 0 \<longrightarrow> fst (snd demo_done) k = None)"
  by (simp add: demo_done_def demo_processor_def demo_job_def processor_def demo_address_def hex_pair_def
      hex_char_def hex_string_def hex_digits_def memory_simps handler_simps text_simps)

lemma demo_done_valid: "memory_valid (snd demo_done)"
proof -
  have "memory_valid (snd (run_prog memory_repository (handle_user_profile_event (\<lambda>s. 0) demo_job) empty_table))"
    using memory.keeps_event [of "\<lambda>s. 0" demo_job] empty_table_valid
    unfolding memory.keeps_names_def by (simp add: names_distinct_def empty_table_def)
  then show ?thesis by (simp add: demo_done_def demo_processor_def processor_def)
qed

theorem held_name_refused_witness:
  "demo_processor (profile_job demo_json (2, js ''0x01'', UsernameSet 8 [97, 0])) (snd demo_done) =
     (Inl (Conflict_Exception ''Username already taken''), snd demo_done)"
proof -
  obtain q where q: "fst (snd demo_done) (user_id 0) = Some q" "q Col_username = Str (js ''a'')"
    "q Col_accountId = Str (demo_address 7)" "\<And>k. k \<noteq> user_id 0 \<Longrightarrow> fst (snd demo_done) k = None"
    using demo_done_row by blast
  have same: "shown_text [97, 0] = js ''a''"
    by (simp add: shown_text_def utf8_text_def utf8_start_def utf16_units_def strip_nul_def js_def)
  have "names_distinct (fst (snd demo_done))"
    using q(4) unfolding names_distinct_def by (metis option.distinct(1))
  moreover have "demo_address 7 \<noteq> demo_address 8" by (simp add: demo_address_def hex_pair_def hex_char_def)
  ultimately show ?thesis
    unfolding demo_processor_def
    using held_name_refused [OF memory.table_up_axioms demo_json_ok demo_addresses_ok demo_done_valid _ _ _ _ q(1),
        of "[97, 0]" 8 "\<lambda>s. 0" 2 "js ''0x01''"] q(2,3)
    by (simp add: same js_def usv_text_def usv_unit_def high_surrogate_def low_surrogate_def)
qed

section \<open>What the row of an account keeps\<close>

context user_table
begin

lemma create_success:
  assumes "valid db" "run_prog R (create d) db = (Inr e, db')"
  shows "saves (rows db) (new_entity d) (rows db')"
  using assms saved [OF assms(1)]
  by (auto simp: create_def split: sum.splits if_splits prod.splits)

lemma update_success:
  assumes "valid db" "rows db i = Some r" "run_prog R (update (Str i) d) db = (Inr e, db')"
  shows "saves (rows db) (assign r d) (rows db')"
proof -
  obtain u where u: "repo_find_one R Col_id (Str i) db = Inr (Some u)" "saves (rows db) (assign u d) (rows db')"
    using assms saved [OF assms(1)]
    by (auto simp: update_def find_one_def split: sum.splits if_splits prod.splits option.splits)
  obtain j where "rows db j = Some u" "u Col_id = Str (to_usv i)" using found [OF assms(1) u(1)] by blast
  moreover have "to_usv i = i" using rows_okD(2) [OF rows_ok [OF assms(1)] assms(2)] by (rule plain_text_usv)
  ultimately have "u = r" using rows_okD(1) [OF rows_ok [OF assms(1)], of j u] assms(2) by auto
  with u(2) show ?thesis by simp
qed

text \<open>The two rows an account's successful event can leave.\<close>

lemma sync_user_success:
  assumes db: "valid db" and acc: "plain_text acc"
    and run: "run_prog R (sync_user (Str acc) changed new) db = (Inr (), db')"
    and r: "rows db' i = Some r" "r Col_accountId = Str acc"
    and changed: "changed Col_id = None" "changed Col_accountId = None" and new: "new Col_id = None"
  shows "(\<exists>q. rows db i = Some q \<and> q Col_accountId = Str acc \<and> updates q (assign q changed) r) \<or>
    ((\<nexists>j q. rows db j = Some q \<and> q Col_accountId = Str acc) \<and> inserts (new_entity new) r)"
proof (cases "repo_find_one R Col_accountId (Str acc) db")
  case (Inl e)
  with run show ?thesis by (simp add: sync_user_def find_by_account_id_def)
next
  case (Inr u)
  note usv = plain_text_usv [OF acc]
  show ?thesis
  proof (cases u)
    case None
    have none: "q Col_accountId \<noteq> Str acc" if "rows db j = Some q" for j q
      using not_found [OF db Inr [unfolded None] that] usv by simp
    obtain e where "run_prog R (create new) db = (Inr e, db')"
      using run Inr None by (auto simp: sync_user_def find_by_account_id_def split: prod.splits sum.splits)
    from create_success [OF db this] new obtain j r' where
      "inserts (new_entity new) r'" "rows db' = (rows db)(j \<mapsto> r')"
      by (auto simp: saves_def new_entity_def field_def)
    with r none show ?thesis by (auto split: if_splits)
  next
    case (Some q)
    with found [OF db Inr [unfolded Some]] usv obtain j where q: "rows db j = Some q" "q Col_accountId = Str acc"
      by auto
    have id: "q Col_id = Str j" using rows_okD(1) [OF rows_ok [OF db] q(1)] .
    obtain e where "run_prog R (update (Str j) changed) db = (Inr e, db')"
      using run Inr Some id
      by (auto simp: sync_user_def find_by_account_id_def split: prod.splits sum.splits)
    from update_success [OF db q(1) this] changed id q(1) obtain r' where
      r': "updates q (assign q changed) r'" "rows db' = (rows db)(j \<mapsto> r')"
      by (auto simp: saves_def assign_def)
    have "i = j"
    proof (rule ccontr)
      assume "i \<noteq> j"
      with r r'(2) have "rows db i = Some r" by simp
      with q r(2) \<open>i \<noteq> j\<close> rows_ok [OF db] show False by (auto simp: rows_ok_iff dest: unique_columnD)
    qed
    with q r(1) r' show ?thesis by auto
  qed
qed

end

definition reads_as_block :: "js_value \<Rightarrow> int \<Rightarrow> bool" where
  "reads_as_block v n \<longleftrightarrow> v = Num n \<or> v = Str (decimal n)"

text \<open>
  C36. \<open>createdAtBlock\<close> is not the block in which a profile was created: the event that
  creates the row leaves it \<open>null\<close>, and every later \<open>UsernameSet\<close> event of the account sets
  it to its own block.
\<close>

theorem created_at_block_moves:
  assumes "user_table R rows valid" "event_json_ok ss58 to_json" "addresses_ok ss58"
    and "valid db" "length name \<le> 32" "0 \<le> n" "n < 2 ^ 63"
    and "processor R num (profile_job to_json (n, h, UsernameSet a name)) db = (Inr (), db')"
    and "rows db' i = Some r" "r Col_accountId = Str (ss58 a)"
  shows "if \<exists>j q. rows db j = Some q \<and> q Col_accountId = Str (ss58 a)
    then reads_as_block (r Col_createdAtBlock) n else r Col_createdAtBlock = Null"
proof -
  have acc: "plain_text (ss58 a)" using assms(3) by (simp add: addresses_ok_def)
  let ?v = "or_undefined (Some (shown_text name))"
  note run = assms(8) [unfolded username_set_processed [OF assms(2,3,5)]]
  have "(\<exists>q. rows db i = Some q \<and> q Col_accountId = Str (ss58 a) \<and>
      updates q (assign q [Col_username \<mapsto> ?v, Col_createdAtBlock \<mapsto> Num n]) r) \<or>
    ((\<nexists>j q. rows db j = Some q \<and> q Col_accountId = Str (ss58 a)) \<and>
      inserts (new_entity [Col_accountId \<mapsto> Str (ss58 a), Col_username \<mapsto> ?v]) r)"
    by (rule user_table.sync_user_success [OF assms(1,4) acc run assms(9,10)]) simp_all
  then show ?thesis
  proof
    assume "\<exists>q. rows db i = Some q \<and> q Col_accountId = Str (ss58 a) \<and>
      updates q (assign q [Col_username \<mapsto> ?v, Col_createdAtBlock \<mapsto> Num n]) r"
    then obtain q where q: "rows db i = Some q" "q Col_accountId = Str (ss58 a)"
      "updates q (assign q [Col_username \<mapsto> ?v, Col_createdAtBlock \<mapsto> Num n]) r" by blast
    have "if Num n = q Col_createdAtBlock then r Col_createdAtBlock = q Col_createdAtBlock
        else stored_as Col_createdAtBlock (Num n) (r Col_createdAtBlock)"
      using q(3) by (auto simp: updates_def assign_def dest: spec [of _ Col_createdAtBlock])
    then have "reads_as_block (r Col_createdAtBlock) n"
      by (auto simp: reads_as_block_def stored_as_def has_shape_def converted_def column_specs split: if_splits)
    with q(1,2) show ?thesis by auto
  next
    assume r: "(\<nexists>j q. rows db j = Some q \<and> q Col_accountId = Str (ss58 a)) \<and>
      inserts (new_entity [Col_accountId \<mapsto> Str (ss58 a), Col_username \<mapsto> ?v]) r"
    then have "stored_as Col_createdAtBlock Null (r Col_createdAtBlock)"
      by (auto simp: inserts_def generated_def new_entity_def field_def with_default_def column_specs
          dest: spec [of _ Col_createdAtBlock])
    with r show ?thesis
      by (auto simp: stored_as_def has_shape_def converted_def column_specs)
  qed
qed

theorem created_at_block_moves_witness:
  "\<exists>q. fst (snd demo_done) (user_id 0) = Some q \<and> q Col_createdAtBlock = Null"
proof -
  obtain q where q: "fst (snd demo_done) (user_id 0) = Some q" "q Col_accountId = Str (demo_address 7)"
    using demo_done_row by blast
  have "processor memory_repository (\<lambda>s. 0) (profile_job demo_json (1, js ''0x00'', UsernameSet 7 [97])) empty_table =
      (Inr (), snd demo_done)"
    using demo_job_runs by (simp add: demo_done_def demo_processor_def demo_job_def)
  from created_at_block_moves [OF memory.user_table_axioms demo_json_ok demo_addresses_ok empty_table_valid
      _ _ _ this q] q(1) show ?thesis
    by (simp add: empty_table_def)
qed

text \<open>
  The index does not follow fields that are cleared: a \<open>ProfileUpdated\<close> event that
  clears avatar and bio is processed exactly as one that leaves them alone, while on the
  chain the first removes them.
\<close>

theorem cleared_fields_not_followed:
  assumes "event_json_ok ss58 to_json" "addresses_ok ss58" "length (case_option [] id u) \<le> 32"
  shows "processor R num (profile_job to_json (n, h, ProfileUpdated a u (Some None) (Some None))) =
      processor R num (profile_job to_json (n, h, ProfileUpdated a u None None)) \<and>
    avatar (edit_profile u (Some None) (Some None) p) = None \<and> bio (edit_profile u (Some None) (Some None) p) = None \<and>
    avatar (edit_profile u None None p) = avatar p \<and> bio (edit_profile u None None p) = bio p"
proof -
  have "handle_profile_updated num (to_json (ProfileUpdated a u av bi)) n = sync_user (Str (ss58 a))
    [Col_username \<mapsto> or_undefined (map_option shown_text u), Col_avatar \<mapsto> Undefined, Col_bio \<mapsto> Undefined]
    [Col_accountId \<mapsto> Str (ss58 a), Col_username \<mapsto> or_undefined (map_option shown_text u),
     Col_avatar \<mapsto> Undefined, Col_bio \<mapsto> Undefined]"
    if "av = None \<or> av = Some None" "bi = None \<or> bi = Some None" for av bi
  proof -
    have "shaped [''account'', ''username'', ''avatar'', ''bio'']
        [Str (ss58 a), bytes_json u, bytes_json (Option.bind av id), bytes_json (Option.bind bi id)]
        (to_json (ProfileUpdated a u av bi))"
      using assms(1) unfolding event_json_ok_def by blast
    moreover have "Option.bind av id = None" "Option.bind bi id = None" using that by auto
    ultimately have sh: "shaped [''account'', ''username'', ''avatar'', ''bio'']
        [Str (ss58 a), bytes_json u, bytes_json None, bytes_json None] (to_json (ProfileUpdated a u av bi))"
      by simp
    have "ss58 a \<noteq> []" using assms(2) by (simp add: addresses_ok_def)
    moreover have "length name \<le> 32" if "u = Some name" for name using assms(3) that by simp
    ultimately show ?thesis
      using profile_updated_sync [OF sh, of num n] by (simp add: or_undefined_def)
  qed
  then show ?thesis
    by (simp add: processor_def fun_eq_iff handle_user_profile_event_def edit_profile_def)
qed

theorem cleared_fields_not_followed_witness:
  "demo_processor (profile_job demo_json (1, js ''0x00'', ProfileUpdated 7 None (Some None) (Some None))) =
     demo_processor (profile_job demo_json (1, js ''0x00'', ProfileUpdated 7 None None None))"
  unfolding demo_processor_def
  using cleared_fields_not_followed [where u = None and a = 7 and n = 1 and h = "js ''0x00''" and
      R = memory_repository and num = "\<lambda>s. 0", OF demo_json_ok demo_addresses_ok, THEN conjunct1] by simp

end
