(* ===== verification/Index_Overlap.thy ===== *)
theory Index_Overlap
  imports Index_Properties
begin

text \<open>
  Operations that overlap: the check for a taken username and the insertion are separate
  calls, so two operations that both check first can give two users one name.
\<close>

context table_up
begin

text \<open>A username that a row has, or no row has, and an account that has no row.\<close>

lemma name_held:
  assumes "valid db" "usv_text s" "rows db i = Some r" "r Col_username = Str s"
  shows "\<exists>u. repo_find_one R Col_username (Str s) db = Inr (Some u)"
  using assms(1,2) by (cases rule: lookup_name) (use assms(3,4) in auto)

lemma none_held:
  assumes "valid db" "usv_text s" "c = Col_accountId \<or> c = Col_username" "\<And>i r. rows db i = Some r \<Longrightarrow> r c \<noteq> Str s"
  shows "repo_find_one R c (Str s) db = Inr None"
  using assms(1-3) by (cases rule: lookup) (use assms(4) in auto)

end

text \<open>The two operations: the job of a \<open>UsernameSet\<close> event, and a user posted with a username.\<close>

definition user_body :: "jstring \<Rightarrow> jstring \<Rightarrow> dto" where
  "user_body x s = [Col_accountId \<mapsto> Str x, Col_username \<mapsto> Str s]"

lemma user_body_simps [simp]:
  "field (user_body x s) Col_accountId = Str x" "field (user_body x s) Col_username = Str s"
  by (simp_all add: user_body_def)

lemma user_body_insert:
  assumes "usv_text x" "length x \<le> 255" "usv_text s" "length s \<le> 32"
  shows "may_insert (new_entity (user_body x s))"
proof -
  have "can_store (user_column Col_accountId) (Str x)" "can_store (user_column Col_username) (Str s)"
    using assms characters_length [of x] characters_length [of s]
    by (auto simp: can_store_def column_specs usv_text_def)
  then show ?thesis
    by (auto simp: may_insert_def column_all new_entity_def user_body_def field_def generated_def store_default
        with_default_given)
qed

lemma username_job:
  assumes "event_json_ok ss58 to_json" "addresses_ok ss58" "username_bytes name" "length name \<le> 32"
  shows "operate pipe num (Job (profile_job to_json (n, h, UsernameSet a name))) =
    sync_user (Str (ss58 a)) [Col_username \<mapsto> Str (shown_text name), Col_createdAtBlock \<mapsto> Num n]
      (user_body (ss58 a) (shown_text name))"
  using username_set_sync [of "ss58 a" name "to_json (UsernameSet a name)"] assms
  by (simp add: operate_def handle_user_profile_event_def event_json_ok_def addresses_ok_def plain_shown(1)
      user_body_def shown_name_def username_bytes_def)

lemma username_post:
  assumes "pipe create_user_dto (user_body x s)"
  shows "operate pipe num (Http (Post_User (user_body x s))) = await (create (user_body x s)) (\<lambda>_. resolve ())"
  using assms by (simp add: operate_def await_assoc)

text \<open>
  A schedule: the job finds no row of its account and makes both checks of \<open>create\<close>, the post
  is handled, and the job inserts its row.
\<close>

definition overlap :: "nat list" where
  "overlap = [0, 0, 0, 1, 1, 1, 0]"

definition two_named :: "user_rows \<Rightarrow> jstring \<Rightarrow> jstring \<Rightarrow> jstring \<Rightarrow> bool" where
  "two_named m x y s \<longleftrightarrow> (\<exists>i j r q. i \<noteq> j \<and> m i = Some r \<and> m j = Some q \<and>
     r Col_accountId = Str x \<and> q Col_accountId = Str y \<and> r Col_username = Str s \<and> q Col_username = Str s)"

lemma user_body_row:
  assumes T: "table_up R rows valid" and db: "valid db"
    and x: "usv_text x" "length x \<le> 255" "\<And>i r. rows db i = Some r \<Longrightarrow> r Col_accountId \<noteq> Str x"
    and s: "usv_text s" "length s \<le> 32"
  shows "\<exists>e db' i r. repo_save R (new_entity (user_body x s)) db = (Inr e, db') \<and> valid db' \<and> rows db i = None \<and>
    rows db' = (rows db)(i \<mapsto> r) \<and> r Col_accountId = Str x \<and> r Col_username = Str s"
proof -
  obtain e db' i r where save: "repo_save R (new_entity (user_body x s)) db = (Inr e, db')" "valid db'"
    "rows db i = None" "rows db' = (rows db)(i \<mapsto> r)" "r Col_accountId = Str x"
    and c: "\<And>c. \<not> generated c \<Longrightarrow> r c = converted (user_column c) (with_default c (field (user_body x s) c))"
    using table_up.new_row [OF T db user_body_insert [OF x(1,2) s] user_body_simps(1) usv_textD(2) [OF x(1)]] x(3)
    by blast
  have "r Col_username = Str s"
    using c [of Col_username] usv_textD(2) [OF s(1)]
    by (simp add: generated_def converted_def with_default_def column_specs)
  with save show ?thesis by blast
qed

lemma overlap_runs:
  assumes T: "table_up R rows valid" and db: "valid db" and s: "usv_text s" "s \<noteq> []" "length s \<le> 32"
    and x: "usv_text x" "length x \<le> 255" and y: "usv_text y" "length y \<le> 255" "x \<noteq> y"
    and free: "\<And>i r. rows db i = Some r \<Longrightarrow>
      r Col_accountId \<noteq> Str x \<and> r Col_accountId \<noteq> Str y \<and> r Col_username \<noteq> Str s"
  shows "\<exists>db'. foldl (call_of R) ([sync_user (Str x) changed (user_body x s),
      await (create (user_body y s)) (\<lambda>_. resolve ())], db) overlap = ([resolve (), resolve ()], db') \<and>
    two_named (rows db') x y s"
proof -
  have found: "repo_find_one R Col_accountId (Str x) db = Inr None" "repo_find_one R Col_username (Str s) db = Inr None"
    "repo_find_one R Col_accountId (Str y) db = Inr None"
    using table_up.none_held [OF T db] s(1) x(1) y(1) free by blast+
  obtain e db1 j q where q: "repo_save R (new_entity (user_body y s)) db = (Inr e, db1)" "valid db1"
    "rows db j = None" "rows db1 = (rows db)(j \<mapsto> q)" "q Col_accountId = Str y" "q Col_username = Str s"
    using user_body_row [OF T db y(1,2) _ s(1,3)] free by blast
  have none: "r Col_accountId \<noteq> Str x" if "rows db1 i = Some r" for i r
    using that q(4,5) y(3) free by (auto split: if_splits)
  obtain u db2 i r where r: "repo_save R (new_entity (user_body x s)) db1 = (Inr u, db2)" "rows db1 i = None"
    "rows db2 = (rows db1)(i \<mapsto> r)" "r Col_accountId = Str x" "r Col_username = Str s"
    using user_body_row [OF T q(2) x _ s(1,3)] none by blast
  have "two_named (rows db2) x y s"
    unfolding two_named_def
    by (rule exI [of _ i], rule exI [of _ j]) (use q r in \<open>auto split: if_splits\<close>)
  moreover have "foldl (call_of R) ([sync_user (Str x) changed (user_body x s),
      await (create (user_body y s)) (\<lambda>_. resolve ())], db) overlap = ([resolve (), resolve ()], db2)"
    using s(2) found q(1) r(1)
    by (simp add: overlap_def call_of_def sync_user_def find_by_account_id_def create_def call_simps)
  ultimately show ?thesis by blast
qed

text \<open>In turn, the second of the two is refused.\<close>

lemma create_refused:
  assumes T: "table_up R rows valid" and db: "valid db" and x: "usv_text x" "x \<noteq> []" and s: "usv_text s" "s \<noteq> []"
    and none: "\<And>i r. rows db i = Some r \<Longrightarrow> r Col_accountId \<noteq> Str x"
    and held: "rows db i = Some r" "r Col_username = Str s"
  shows "fst (run_prog R (await (create (user_body x s)) (\<lambda>_. resolve ())) db) =
      Inl (Conflict_Exception ''Username already taken'')"
    "fst (run_prog R (sync_user (Str x) changed (user_body x s)) db) =
      Inl (Conflict_Exception ''Username already taken'')"
proof -
  have "repo_find_one R Col_accountId (Str x) db = Inr None"
    using table_up.none_held [OF T db x(1)] none by blast
  moreover obtain u where "repo_find_one R Col_username (Str s) db = Inr (Some u)"
    using table_up.name_held [OF T db s(1) held] by blast
  ultimately show "fst (run_prog R (await (create (user_body x s)) (\<lambda>_. resolve ())) db) =
      Inl (Conflict_Exception ''Username already taken'')"
    "fst (run_prog R (sync_user (Str x) changed (user_body x s)) db) =
      Inl (Conflict_Exception ''Username already taken'')"
    using s(2) by (simp_all add: create_def sync_user_def find_by_account_id_def)
qed

lemma in_turn_refused:
  fixes changed :: dto
  assumes T: "table_up R rows valid" and db: "valid db" and s: "usv_text s" "s \<noteq> []" "length s \<le> 32"
    and x: "usv_text x" "x \<noteq> []" "length x \<le> 255" and y: "usv_text y" "y \<noteq> []" "length y \<le> 255" "x \<noteq> y"
    and free: "\<And>i r. rows db i = Some r \<Longrightarrow>
      r Col_accountId \<noteq> Str x \<and> r Col_accountId \<noteq> Str y \<and> r Col_username \<noteq> Str s"
  defines "job \<equiv> sync_user (Str x) changed (user_body x s)"
    and "post \<equiv> await (create (user_body y s)) (\<lambda>_. resolve ())"
  shows "fst (run_prog R post (snd (run_prog R job db))) = Inl (Conflict_Exception ''Username already taken'')"
    "fst (run_prog R job (snd (run_prog R post db))) = Inl (Conflict_Exception ''Username already taken'')"
proof -
  have found: "repo_find_one R Col_accountId (Str x) db = Inr None" "repo_find_one R Col_username (Str s) db = Inr None"
    "repo_find_one R Col_accountId (Str y) db = Inr None"
    using table_up.none_held [OF T db] s(1) x(1) y(1) free by blast+
  obtain e db1 j q where q: "repo_save R (new_entity (user_body x s)) db = (Inr e, db1)" "valid db1"
    "rows db j = None" "rows db1 = (rows db)(j \<mapsto> q)" "q Col_accountId = Str x" "q Col_username = Str s"
    using user_body_row [OF T db x(1,3) _ s(1,3)] free by blast
  obtain u db2 i r where r: "repo_save R (new_entity (user_body y s)) db = (Inr u, db2)" "valid db2"
    "rows db i = None" "rows db2 = (rows db)(i \<mapsto> r)" "r Col_accountId = Str y" "r Col_username = Str s"
    using user_body_row [OF T db y(1,3) _ s(1,3)] free by blast
  have "snd (run_prog R job db) = db1" "snd (run_prog R post db) = db2"
    using s(2) found q(1) r(1)
    by (simp_all add: job_def post_def sync_user_def find_by_account_id_def create_def)
  moreover have "fst (run_prog R post db1) = Inl (Conflict_Exception ''Username already taken'')"
    unfolding post_def
    by (rule create_refused(1) [OF T q(2) y(1,2) s(1,2), of j q]) (use q(4-6) y(4) free in \<open>auto split: if_splits\<close>)
  moreover have "fst (run_prog R job db2) = Inl (Conflict_Exception ''Username already taken'')"
    unfolding job_def
    by (rule create_refused(2) [OF T r(2) x(1,2) s(1,2), of i r]) (use r(4-6) y(4) free in \<open>auto split: if_splits\<close>)
  ultimately show "fst (run_prog R post (snd (run_prog R job db))) = Inl (Conflict_Exception ''Username already taken'')"
    "fst (run_prog R job (snd (run_prog R post db))) = Inl (Conflict_Exception ''Username already taken'')"
    by simp_all
qed

text \<open>
  C37. The check for a taken username and the insertion are separate calls.  Take any table that is
  up, two accounts without a row and a username that no row has: the job of a \<open>UsernameSet\<close>
  event of the one and a \<open>POST /users\<close> for the other with this username have an interleaving
  of their calls in which both succeed, and the two users have the name; in turn, whichever
  of them comes first, the other is refused.
\<close>

theorem overlapping_operations_share_name:
  assumes "table_up R rows valid" "valid db" "event_json_ok ss58 to_json" "addresses_ok ss58"
    and "username_bytes name" "length name \<le> 32" "s = shown_text name"
    and "usv_text y" "y \<noteq> []" "length y \<le> 255" "ss58 a \<noteq> y" "pipe create_user_dto (user_body y s)"
    and "\<And>i r. rows db i = Some r \<Longrightarrow>
      r Col_accountId \<noteq> Str (ss58 a) \<and> r Col_accountId \<noteq> Str y \<and> r Col_username \<noteq> Str s"
    and "job = operate pipe num (Job (profile_job to_json (n, h, UsernameSet a name)))"
    and "post = operate pipe num (Http (Post_User (user_body y s)))"
  shows "(\<exists>db'. (programs_step R)\<^sup>*\<^sup>* ([job, post], db) ([resolve (), resolve ()], db') \<and>
      two_named (rows db') (ss58 a) y s) \<and>
    fst (run_prog R post (snd (run_prog R job db))) = Inl (Conflict_Exception ''Username already taken'') \<and>
    fst (run_prog R job (snd (run_prog R post db))) = Inl (Conflict_Exception ''Username already taken'')"
proof -
  have s: "usv_text s" "s \<noteq> []" "length s \<le> 32"
    using assms(5-7) shown_text_length [of name]
    by (auto simp: username_bytes_def text_shown_usv text_shown_nonempty)
  have x: "usv_text (ss58 a)" "ss58 a \<noteq> []" "length (ss58 a) \<le> 255"
    using assms(4) by (simp_all add: addresses_ok_def plain_usv_text)
  note progs = assms(14) [unfolded username_job [OF assms(3-6)] assms(7) [symmetric]]
    assms(15) [unfolded username_post [where pipe = pipe and num = num and x = y and s = s, OF assms(12)]]
  have "\<exists>db'. foldl (call_of R) ([job, post], db) overlap = ([resolve (), resolve ()], db') \<and>
      two_named (rows db') (ss58 a) y s"
    unfolding progs by (rule overlap_runs [OF assms(1,2) s x(1,3) assms(8,10,11)]) (rule assms(13))
  then have "\<exists>db'. (programs_step R)\<^sup>*\<^sup>* ([job, post], db) ([resolve (), resolve ()], db') \<and>
      two_named (rows db') (ss58 a) y s"
    using schedule_steps [of R "([job, post], db)" overlap] by auto
  moreover have "fst (run_prog R post (snd (run_prog R job db))) = Inl (Conflict_Exception ''Username already taken'')"
    "fst (run_prog R job (snd (run_prog R post db))) = Inl (Conflict_Exception ''Username already taken'')"
    unfolding progs
    by (rule in_turn_refused(1) [OF assms(1,2) s x assms(8-11)], erule assms(13))
       (rule in_turn_refused(2) [OF assms(1,2) s x assms(8-11)], erule assms(13))
  ultimately show ?thesis by blast
qed

theorem overlapping_operations_share_name_witness:
  "\<exists>db. (programs_step memory_repository)\<^sup>*\<^sup>*
      ([operate strict_pipe (\<lambda>s. 0) (Job (profile_job demo_json (1, js ''0x00'', UsernameSet 7 [97]))),
        operate strict_pipe (\<lambda>s. 0) (Http (Post_User (user_body (js ''5Eve'') (shown_text [97]))))], empty_table)
      ([resolve (), resolve ()], db) \<and> two_named (fst db) (demo_address 7) (js ''5Eve'') (shown_text [97])"
proof -
  have "username_bytes [97]" "usv_text (js ''5Eve'')" "demo_address 7 \<noteq> js ''5Eve''"
    by (simp_all add: username_bytes_def ascii_text_bytes ascii_bytes_def plain_usv_text plain_text_def js_def demo_address_def hex_pair_def hex_char_def)
  moreover have "strict_pipe create_user_dto (user_body (js ''5Eve'') (shown_text [97]))"
    using shown_text_length [of "[97]"]
    by (auto simp: strict_pipe_def user_body_def column_all rule_holds_def field_def js_def)
  ultimately show ?thesis
    using overlapping_operations_share_name [OF memory.table_up_axioms empty_table_valid demo_json_ok demo_addresses_ok
        _ _ refl _ _ _ _ _ _ refl refl, of "[97]" "js ''5Eve''" 7 strict_pipe "\<lambda>s. 0" 1 "js ''0x00''"]
    by (simp add: empty_table_def)
qed

end
