(* ===== verification/Api_Startup.thy ===== *)
theory Api_Startup
  imports Js_Values
begin

text \<open>
  Startup of the API: the environment variables it insists on (\<open>main.ts\<close>,
  \<open>database.module.ts\<close>, \<open>BlockchainService.onModuleInit\<close>) and the life of the connection to
  the chain.  The frameworks that listen, connect and subscribe are parameters.
\<close>

type_synonym environment = "string \<Rightarrow> jstring option"

text \<open>\<open>configService.get\<close> with the check that follows it: missing and empty are one case.\<close>

definition required :: "environment \<Rightarrow> string \<Rightarrow> jstring js_outcome" where
  "required env name = (case env name of
     Some s \<Rightarrow> if s = [] then Inl (Thrown (name @ '' environment variable is required'')) else Inr s
   | None \<Rightarrow> Inl (Thrown (name @ '' environment variable is required'')))"

text \<open>\<open>parseInt(s, 10)\<close>: white space, a sign, and the digits that follow; no digit is \<open>NaN\<close>.\<close>

definition is_digit :: "16 word \<Rightarrow> bool" where
  "is_digit u \<longleftrightarrow> 48 \<le> u \<and> u \<le> 57"

definition digits_value :: "jstring \<Rightarrow> int" where
  "digits_value s = foldl (\<lambda>n u. 10 * n + (uint u - 48)) 0 s"

definition parse_int :: "jstring \<Rightarrow> int option" where
  "parse_int s =
     (let t = dropWhile js_space s;
          negative = (t \<noteq> [] \<and> hd t = 45);
          ds = takeWhile is_digit (if t \<noteq> [] \<and> (hd t = 45 \<or> hd t = 43) then tl t else t)
      in if ds = [] then None else Some (if negative then - digits_value ds else digits_value ds))"

record database_options =
  db_host :: jstring
  db_port :: "int option"
  db_username :: jstring
  db_password :: jstring
  db_database :: jstring
  db_synchronize :: bool
  db_logging :: bool

definition database_options_of :: "environment \<Rightarrow> database_options js_outcome" where
  "database_options_of env =
     js_then (required env ''DATABASE_HOST'') (\<lambda>host.
     js_then (required env ''DATABASE_PORT'') (\<lambda>port.
     js_then (required env ''DATABASE_USER'') (\<lambda>user.
     js_then (required env ''DATABASE_PASSWORD'') (\<lambda>password.
     js_then (required env ''DATABASE_NAME'') (\<lambda>name.
     js_then (required env ''NODE_ENV'') (\<lambda>node_env.
     Inr \<lparr>db_host = host, db_port = parse_int port, db_username = user, db_password = password,
          db_database = name, db_synchronize = (node_env \<noteq> js ''production''),
          db_logging = (node_env = js ''development'')\<rparr>))))))"

text \<open>\<open>bootstrap\<close>: the origin that CORS allows and the port listened on.\<close>

record listening =
  cors_origin :: jstring
  listen_port :: "int option"

definition bootstrap :: "environment \<Rightarrow> listening js_outcome" where
  "bootstrap env =
     (let port = env ''PORT''; frontend_url = env ''FRONTEND_URL'' in
      if port = None \<or> port = Some [] then Inl (Thrown ''PORT environment variable is required'')
      else if frontend_url = None \<or> frontend_url = Some []
      then Inl (Thrown ''FRONTEND_URL environment variable is required'')
      else Inr \<lparr>cors_origin = the frontend_url, listen_port = parse_int (the port)\<rparr>)"

section \<open>The connection to the chain\<close>

text \<open>The fields \<open>api\<close> and \<open>unsubscribe\<close>; \<open>connect\<close> and \<open>subscribe\<close> are \<open>polkadot.js\<close>'s.\<close>

record 'api blockchain_service =
  service_api :: "'api option"
  subscribed :: bool

definition fresh_service :: "'api blockchain_service" where
  "fresh_service = \<lparr>service_api = None, subscribed = False\<rparr>"

definition subscribe_to_blocks ::
    "('api \<Rightarrow> unit js_outcome) \<Rightarrow> 'api blockchain_service \<Rightarrow> unit js_outcome \<times> 'api blockchain_service" where
  "subscribe_to_blocks subscribe s = (case service_api s of
     None \<Rightarrow> (Inl (Thrown ''API not initialized''), s)
   | Some api \<Rightarrow> (case subscribe api of
       Inl e \<Rightarrow> (Inl e, s)
     | Inr _ \<Rightarrow> (Inr (), s\<lparr>subscribed := True\<rparr>)))"

definition on_module_init ::
    "environment \<Rightarrow> (jstring \<Rightarrow> 'api js_outcome) \<Rightarrow> ('api \<Rightarrow> unit js_outcome) \<Rightarrow>
     'api blockchain_service \<Rightarrow> unit js_outcome \<times> 'api blockchain_service" where
  "on_module_init env connect subscribe s = (case required env ''SUBSTRATE_WS_URL'' of
     Inl e \<Rightarrow> (Inl e, s)
   | Inr url \<Rightarrow> (case connect url of
       Inl e \<Rightarrow> (Inl e, s)
     | Inr api \<Rightarrow> subscribe_to_blocks subscribe (s\<lparr>service_api := Some api\<rparr>)))"

definition on_module_destroy ::
    "('api \<Rightarrow> unit js_outcome) \<Rightarrow> 'api blockchain_service \<Rightarrow> unit js_outcome \<times> 'api blockchain_service" where
  "on_module_destroy disconnect s =
     (let s1 = s\<lparr>subscribed := False\<rparr> in (case service_api s1 of
        None \<Rightarrow> (Inr (), s1)
      | Some api \<Rightarrow> (case disconnect api of
          Inl e \<Rightarrow> (Inl e, s1)
        | Inr _ \<Rightarrow> (Inr (), s1\<lparr>service_api := None\<rparr>))))"

definition get_api :: "'api blockchain_service \<Rightarrow> 'api js_outcome" where
  "get_api s = (case service_api s of
     None \<Rightarrow> Inl (Thrown ''API not initialized'')
   | Some api \<Rightarrow> Inr api)"

section \<open>The routes outside the users service\<close>

definition get_hello :: jstring where
  "get_hello = js ''Hello World!''"

record health =
  health_connected :: bool
  health_chain :: jstring
  health_node_name :: jstring
  health_node_version :: jstring

text \<open>
  \<open>GET /blockchain/health\<close>: three calls of the node at once, as text.  When several fail,
  \<open>Promise.all\<close> is rejected with the one that failed first, which \<open>soonest\<close> picks.
\<close>

definition get_health ::
    "('api \<Rightarrow> jstring js_outcome) \<Rightarrow> ('api \<Rightarrow> jstring js_outcome) \<Rightarrow> ('api \<Rightarrow> jstring js_outcome) \<Rightarrow>
     (js_error list \<Rightarrow> js_error) \<Rightarrow> 'api blockchain_service \<Rightarrow> health js_outcome" where
  "get_health system_chain system_name system_version soonest s =
     js_then (get_api s) (\<lambda>api.
     case (system_chain api, system_name api, system_version api) of
       (Inr chain, Inr node_name, Inr node_version) \<Rightarrow>
         Inr \<lparr>health_connected = True, health_chain = chain, health_node_name = node_name,
           health_node_version = node_version\<rparr>
     | (x, y, z) \<Rightarrow> Inl (soonest [e. Inl e \<leftarrow> [x, y, z]]))"

section \<open>What startup guarantees\<close>

lemma required_Inr: "required env name = Inr s \<longleftrightarrow> env name = Some s \<and> s \<noteq> []"
  by (auto simp: required_def split: option.split)

lemma js_then_Inr: "js_then r k = Inr y \<longleftrightarrow> (\<exists>x. r = Inr x \<and> k x = Inr y)"
  by (cases r) auto

lemma database_options_exist:
  "(\<exists>opts. database_options_of env = Inr opts) \<longleftrightarrow>
     (\<forall>name\<in>{''DATABASE_HOST'', ''DATABASE_PORT'', ''DATABASE_USER'', ''DATABASE_PASSWORD'', ''DATABASE_NAME'',
       ''NODE_ENV''}. \<exists>s. env name = Some s \<and> s \<noteq> [])"
  by (auto simp: database_options_of_def js_then_Inr required_Inr)

lemma schema_kept_in_production:
  "database_options_of env = Inr opts \<Longrightarrow> db_synchronize opts \<longleftrightarrow> env ''NODE_ENV'' \<noteq> Some (js ''production'')"
  by (auto simp: database_options_of_def js_then_Inr required_Inr)

lemma parse_int_digits: "s \<noteq> [] \<Longrightarrow> list_all is_digit s \<Longrightarrow> parse_int s = Some (digits_value s)"
proof -
  assume s: "s \<noteq> []" "list_all is_digit s"
  then have "is_digit (hd s)" by (cases s) simp_all
  then have "\<not> js_space (hd s)" "hd s \<noteq> 45" "hd s \<noteq> 43"
    by (auto simp: is_digit_def js_space_def word_le_nat_alt)
  then have spaces: "dropWhile js_space s = s" using s(1) by (cases s) simp_all
  have ds: "takeWhile is_digit s = s" using s(2) by (simp add: takeWhile_eq_all_conv list_all_iff)
  show ?thesis
    using s(1) \<open>hd s \<noteq> 45\<close> \<open>hd s \<noteq> 43\<close> by (simp add: parse_int_def Let_def spaces ds)
qed

text \<open>After a successful start the connection is there and subscribed, until it is destroyed.\<close>

lemma started_service:
  assumes "on_module_init env connect subscribe fresh_service = (Inr (), s)"
  shows "\<exists>url api. env ''SUBSTRATE_WS_URL'' = Some url \<and> connect url = Inr api \<and> get_api s = Inr api \<and> subscribed s"
  using assms
  by (auto simp: on_module_init_def subscribe_to_blocks_def get_api_def required_Inr fresh_service_def
      split: sum.splits option.splits)

lemma failed_start_connects_nothing:
  assumes "on_module_init env connect subscribe fresh_service = (Inl e, s)"
  shows "\<not> subscribed s"
  using assms
  by (auto simp: on_module_init_def subscribe_to_blocks_def fresh_service_def
      split: sum.splits option.splits)

lemma destroyed_service:
  "on_module_destroy disconnect s = (Inr (), t) \<Longrightarrow> t = fresh_service"
  by (auto simp: on_module_destroy_def fresh_service_def Let_def split: option.splits sum.splits)

text \<open>
  The health route answers only on a connection, and then with what the node said; before a
  start and after the end of the service it fails.
\<close>

lemma health_answer:
  assumes "get_health chain name version soonest s = Inr h"
  shows "health_connected h \<and> (\<exists>api. get_api s = Inr api \<and> chain api = Inr (health_chain h) \<and>
    name api = Inr (health_node_name h) \<and> version api = Inr (health_node_version h))"
proof -
  from assms obtain api where api: "get_api s = Inr api" by (auto simp: get_health_def js_then_Inr)
  with assms show ?thesis
    by (cases "chain api"; cases "name api"; cases "version api"; auto simp: get_health_def)
qed

lemma health_without_connection:
  "get_health chain name version soonest fresh_service = Inl (Thrown ''API not initialized'')"
  by (simp add: get_health_def get_api_def fresh_service_def)

end
