(* ===== verification/Web_Events.thy ===== *)
theory Web_Events
  imports Js_Values
begin

text \<open>
  How a page of the web application runs: the browser calls one handler at a time, and a
  handler runs to its end or to its next \<open>await\<close>.  A page is therefore a start state, the
  events that are possible in a state (what the user can press, what is awaited) and the
  effect of an event.  The locale \<open>page_contract\<close> is what the two pages' invariants share.
\<close>

inductive reached :: "'s \<Rightarrow> ('s \<Rightarrow> 'e \<Rightarrow> bool) \<Rightarrow> ('s \<Rightarrow> 'e \<Rightarrow> 's) \<Rightarrow> 's \<Rightarrow> bool"
  for start possible step where
  reached_start: "reached start possible step start"
| reached_next: "reached start possible step s \<Longrightarrow> possible s e \<Longrightarrow>
     reached start possible step (step s e)"

text \<open>A sequence of events, as long as each is possible.\<close>

fun after_events :: "('s \<Rightarrow> 'e \<Rightarrow> bool) \<Rightarrow> ('s \<Rightarrow> 'e \<Rightarrow> 's) \<Rightarrow> 'e list \<Rightarrow> 's \<Rightarrow> 's option" where
  "after_events possible step [] s = Some s"
| "after_events possible step (e # es) s =
     (if possible s e then after_events possible step es (step s e) else None)"

lemma after_events_reached:
  "after_events possible step es s = Some t \<Longrightarrow> reached start possible step s \<Longrightarrow>
     reached start possible step t"
  by (induction es arbitrary: s) (auto split: if_splits intro: reached_next)

text \<open>What is awaited: the value, or the message of the \<open>Error\<close> it is rejected with.\<close>

type_synonym 'r awaited = "jstring + 'r"

locale page_contract =
  fixes start :: 's
    and possible :: "'s \<Rightarrow> 'e \<Rightarrow> bool"
    and step :: "'s \<Rightarrow> 'e \<Rightarrow> 's"
    and inv :: "'s \<Rightarrow> bool"
  assumes inv_start: "inv start"
    and inv_step: "inv s \<Longrightarrow> possible s e \<Longrightarrow> inv (step s e)"
begin

lemma reached_inv: "reached start possible step s \<Longrightarrow> inv s"
  by (induction rule: reached.induct) (auto intro: inv_start inv_step)

lemma stays_inv: "inv s \<Longrightarrow> after_events possible step es s = Some t \<Longrightarrow> inv t"
  by (induction es arbitrary: s) (auto split: if_splits intro: inv_step)

end

text \<open>How many of the tasks that wait are of a kind, and one of them resumed.\<close>

definition waiting :: "('t \<Rightarrow> bool) \<Rightarrow> 't list \<Rightarrow> nat" where
  "waiting P ts = length (filter P ts)"

lemma waiting_simps [simp]:
  "waiting P [] = 0"
  "waiting P (t # ts) = (if P t then Suc (waiting P ts) else waiting P ts)"
  "waiting P (ts @ us) = waiting P ts + waiting P us"
  by (simp_all add: waiting_def)

lemma waiting_resumed:
  "t \<in> set ts \<Longrightarrow> P t \<Longrightarrow> Suc (waiting P (remove1 t ts)) = waiting P ts"
  "\<not> P t \<Longrightarrow> waiting P (remove1 t ts) = waiting P ts"
  by (induction ts) auto

lemma waiting_0: "waiting P ts = 0 \<longleftrightarrow> (\<forall>t\<in>set ts. \<not> P t)"
  by (induction ts) auto

end
