(* ===== verification/Web_Wallet.thy ===== *)
theory Web_Wallet
  imports Web_Events
begin

text \<open>
  The hook \<open>usePolkadot\<close> of the web application (\<open>apps/web/app/hooks/usePolkadot.ts\<close>): its
  state, the connection to a node made when a page is mounted, the connection to a browser
  wallet and the signing of extrinsics.  Each asynchronous function is split at its
  \<open>await\<close>s; the extension module and the node are outside the program, and what they answer
  is an argument.
\<close>

section \<open>State\<close>

record wallet_account =
  acc_address :: jstring
  acc_name :: "jstring option"
  acc_source :: jstring

text \<open>The three module variables: whether they have been assigned.\<close>

record extension_module =
  web3_accounts :: bool
  web3_enable :: bool
  web3_from_address :: bool

definition extension_unloaded :: extension_module where
  "extension_unloaded = \<lparr>web3_accounts = False, web3_enable = False, web3_from_address = False\<rparr>"

definition extension_loaded :: extension_module where
  "extension_loaded = \<lparr>web3_accounts = True, web3_enable = True, web3_from_address = True\<rparr>"

record 'api wallet =
  accounts :: "wallet_account list"
  selected_account :: "wallet_account option"
  wallet_api :: "'api option"
  is_connecting :: bool
  wallet_error :: "jstring option"

definition fresh_wallet :: "'api wallet" where
  "fresh_wallet = \<lparr>accounts = [], selected_account = None, wallet_api = None, is_connecting = False,
     wallet_error = None\<rparr>"

definition is_connected :: "'api wallet \<Rightarrow> bool" where
  "is_connected w \<longleftrightarrow> accounts w \<noteq> []"

definition ws_url :: "jstring option \<Rightarrow> jstring" where
  "ws_url variable = (case variable of
     Some s \<Rightarrow> if s = [] then js ''ws://localhost:9944'' else s
   | None \<Rightarrow> js ''ws://localhost:9944'')"

section \<open>The effect that connects to the node\<close>

definition api_created :: "'api awaited \<Rightarrow> 'api wallet \<Rightarrow> 'api wallet" where
  "api_created r w = (case r of
     Inr a \<Rightarrow> w\<lparr>wallet_api := Some a\<rparr>
   | Inl m \<Rightarrow> w\<lparr>wallet_error := Some (js ''Failed to connect to Substrate node: '' @ m)\<rparr>)"

text \<open>
  The clean-up of the effect is a closure over the state of the render that ran the effect;
  it returns the connection it closes.
\<close>

definition effect_cleanup :: "'api wallet \<Rightarrow> 'api option" where
  "effect_cleanup rendered = wallet_api rendered"

section \<open>Connecting a wallet\<close>

text \<open>Where \<open>connectWallet\<close> waits.\<close>

datatype connect_point = Importing | Enabling | Listing

definition connect_wallet ::
    "bool \<Rightarrow> extension_module \<Rightarrow> 'api wallet \<Rightarrow> connect_point option \<times> 'api wallet" where
  "connect_wallet in_browser ext w =
     (if \<not> in_browser
      then (None, w\<lparr>wallet_error := Some (js ''Wallet connection is only available in browser'')\<rparr>)
      else (Some (if web3_enable ext then Enabling else Importing),
        w\<lparr>is_connecting := True, wallet_error := None\<rparr>))"

text \<open>The \<open>catch\<close> and \<open>finally\<close> blocks.\<close>

definition connect_caught :: "jstring \<Rightarrow> 'api wallet \<Rightarrow> 'api wallet" where
  "connect_caught m w = w\<lparr>wallet_error := Some (if m = [] then js ''Failed to connect wallet'' else m),
     is_connecting := False\<rparr>"

definition connect_imported ::
    "unit awaited \<Rightarrow> extension_module \<Rightarrow> 'api wallet \<Rightarrow> connect_point option \<times> extension_module \<times> 'api wallet" where
  "connect_imported r ext w = (case r of
     Inr _ \<Rightarrow> (Some Enabling, extension_loaded, w)
   | Inl m \<Rightarrow> (None, ext, connect_caught m w))"

text \<open>The answer of \<open>web3Enable\<close>, by its length; calling what is not assigned throws.\<close>

definition connect_enabled ::
    "nat awaited \<Rightarrow> extension_module \<Rightarrow> 'api wallet \<Rightarrow> connect_point option \<times> 'api wallet" where
  "connect_enabled r ext w = (case r of
     Inl m \<Rightarrow> (None, connect_caught m w)
   | Inr n \<Rightarrow>
       if n = 0
       then (None, connect_caught (js ''No Polkadot extension found. Please install Polkadot.js extension.'') w)
       else if \<not> web3_accounts ext then (None, connect_caught (js ''web3Accounts is not a function'') w)
       else (Some Listing, w))"

definition connect_listed :: "wallet_account list awaited \<Rightarrow> 'api wallet \<Rightarrow> 'api wallet" where
  "connect_listed r w = (case r of
     Inl m \<Rightarrow> connect_caught m w
   | Inr all_accounts \<Rightarrow>
       w\<lparr>accounts := all_accounts,
         selected_account := (if all_accounts = [] then selected_account w else Some (hd all_accounts)),
         is_connecting := False\<rparr>)"

section \<open>Signing\<close>

text \<open>Where \<open>signAndSend\<close> waits; \<open>Inl\<close> is the message of the error it throws.\<close>

datatype send_point = Importing_Signer | Finding_Injector | Sending

definition transaction_failed :: "jstring \<Rightarrow> jstring" where
  "transaction_failed m = js ''Transaction failed: '' @ m"

definition sign_and_send :: "bool \<Rightarrow> extension_module \<Rightarrow> 'api wallet \<Rightarrow> send_point awaited" where
  "sign_and_send in_browser ext w =
     (if \<not> in_browser then Inl (js ''Transaction signing is only available in browser'')
      else if selected_account w = None \<or> wallet_api w = None
      then Inl (js ''No account selected or API not connected'')
      else Inr (if web3_from_address ext then Finding_Injector else Importing_Signer))"

definition signer_imported :: "unit awaited \<Rightarrow> extension_module \<Rightarrow> send_point awaited \<times> extension_module" where
  "signer_imported r ext = (case r of
     Inr _ \<Rightarrow> (Inr Finding_Injector, ext\<lparr>web3_from_address := True\<rparr>)
   | Inl m \<Rightarrow> (Inl (transaction_failed m), ext))"

definition injector_found :: "unit awaited \<Rightarrow> send_point awaited" where
  "injector_found r = (case r of Inr _ \<Rightarrow> Inr Sending | Inl m \<Rightarrow> Inl (transaction_failed m))"

definition sent :: "unit awaited \<Rightarrow> unit awaited" where
  "sent r = (case r of Inr _ \<Rightarrow> Inr () | Inl m \<Rightarrow> Inl (transaction_failed m))"

lemmas wallet_simps = fresh_wallet_def is_connected_def api_created_def connect_wallet_def
  connect_caught_def connect_imported_def connect_enabled_def connect_listed_def
  sign_and_send_def signer_imported_def injector_found_def sent_def
  extension_loaded_def extension_unloaded_def

text \<open>
  The effect runs once, in the first render, when there is no connection yet: its clean-up
  closes none.
\<close>

lemma connection_never_closed: "effect_cleanup fresh_wallet = None"
  by (simp add: effect_cleanup_def fresh_wallet_def)

end
