(* ===== verification/Web_Profile.thy ===== *)
theory Web_Profile
  imports Web_Wallet Utf8_Text Profile_Pallet
begin

text \<open>
  The profile page of the web application (\<open>apps/web/app/userprofile/page.tsx\<close>) with the
  hook of \<open>Web_Wallet\<close> as an event system: what the user types and presses, and what each
  \<open>await\<close>, the status callback and the timer bring.  Rendering is not modelled, but what it
  enables is.  What \<open>polkadot.js\<close> makes of the page's texts and of a stored profile is a
  parameter.
\<close>

section \<open>What the page uses of polkadot.js\<close>

text \<open>
  \<open>createType\<close> for \<open>Vec<u8>\<close>, \<open>Option<Vec<u8>>\<close> and \<open>Option<Option<Vec<u8>>>\<close> (where the page
  passes \<open>null\<close>, the argument is \<open>None\<close>), and the readers of a stored profile's fields.
\<close>

record polkadot =
  create_vec :: "jstring \<Rightarrow> bytes"
  create_option :: "jstring option \<Rightarrow> bytes option"
  create_option_option :: "jstring option \<Rightarrow> bytes option option"
  to_human :: "bytes \<Rightarrow> js_value"
  to_human_option :: "bytes option \<Rightarrow> js_value"
  to_number :: "u64 \<Rightarrow> js_value awaited"

text \<open>
  Documented behaviour: text becomes its UTF-8, \<open>null\<close> is \<open>None\<close> at the outer level, and bytes that
  are printable ASCII are shown as they are.  Text that begins with \<open>0x\<close> is left open: it is
  read and shown as hexadecimal, or as the absence of a value.
\<close>

definition printable :: "jstring \<Rightarrow> bool" where
  "printable s \<longleftrightarrow> (\<forall>u\<in>set s. 32 \<le> u \<and> u \<le> 126)"

definition hex_like :: "jstring \<Rightarrow> bool" where
  "hex_like s \<longleftrightarrow> take 2 s = js ''0x''"

definition polkadot_ok :: "polkadot \<Rightarrow> bool" where
  "polkadot_ok P \<longleftrightarrow>
     (\<forall>s. \<not> hex_like s \<longrightarrow> create_vec P s = utf8_encode s \<and> create_option P (Some s) = Some (utf8_encode s) \<and>
        create_option_option P (Some s) = Some (Some (utf8_encode s))) \<and>
     create_option P None = None \<and> create_option_option P None = None \<and>
     (\<forall>s. printable s \<and> \<not> hex_like s \<longrightarrow> to_human P (utf8_encode s) = Str s) \<and>
     (\<forall>b. to_human_option P (Some b) = to_human P b) \<and> to_human_option P None = Null \<and>
     (\<forall>n. unat n < 2 ^ 53 \<longrightarrow> to_number P n = Inr (Num (uint n)))"

section \<open>State\<close>

datatype form = Set_Form | Update_Form

text \<open>A submitted extrinsic: the form it is from, the account that signs it, and the call.\<close>

record submission =
  sub_form :: form
  sub_signer :: jstring
  sub_call :: profile_call

text \<open>
  What is under way: the effect that connects, the module import, \<open>connectWallet\<close>, queries of
  profiles, \<open>signAndSend\<close>, the status subscription of what was sent and its two-second timer.
\<close>

datatype task =
    Creating_Api
  | Loading_Extension
  | Connecting connect_point
  | Loading_Profile jstring
  | Submitting send_point submission
  | Watching submission
  | Reloading submission

record shown_profile =
  shown_username :: js_value
  shown_avatar :: js_value
  shown_bio :: js_value
  shown_created :: js_value

record 'api profile_page =
  wallet :: "'api wallet"
  extension :: extension_module
  form_username :: jstring
  form_bio :: jstring
  form_avatar :: jstring
  tx_status :: "jstring option"
  shown :: "shown_profile option"
  profile_loading :: bool
  alerts :: "jstring list"
  tasks :: "task list"

definition fresh_page :: "'api profile_page" where
  "fresh_page = \<lparr>wallet = fresh_wallet, extension = extension_unloaded, form_username = [],
     form_bio = [], form_avatar = [], tx_status = None, shown = None, profile_loading = False,
     alerts = [], tasks = [Creating_Api, Loading_Extension]\<rparr>"

definition begin_task :: "task \<Rightarrow> 'api profile_page \<Rightarrow> 'api profile_page" where
  "begin_task t p = p\<lparr>tasks := tasks p @ [t]\<rparr>"

definition end_task :: "task \<Rightarrow> 'api profile_page \<Rightarrow> 'api profile_page" where
  "end_task t p = p\<lparr>tasks := remove1 t (tasks p)\<rparr>"

section \<open>Loading a profile\<close>

definition load_profile :: "jstring \<Rightarrow> 'api profile_page \<Rightarrow> 'api profile_page" where
  "load_profile address p = begin_task (Loading_Profile address) (p\<lparr>profile_loading := True\<rparr>)"

definition profile_fields :: "polkadot \<Rightarrow> 'a user_profile \<Rightarrow> shown_profile awaited" where
  "profile_fields P stored = (case to_number P (created_at stored) of
     Inl m \<Rightarrow> Inl m
   | Inr n \<Rightarrow> Inr \<lparr>shown_username = js_or (to_human P (username stored)) Null,
       shown_avatar = js_or (to_human_option P (avatar stored)) Null,
       shown_bio = js_or (to_human_option P (bio stored)) Null,
       shown_created = js_or n (Num 0)\<rparr>)"

definition profile_answered ::
    "polkadot \<Rightarrow> 'a user_profile option awaited \<Rightarrow> 'api profile_page \<Rightarrow> 'api profile_page" where
  "profile_answered P r p = (case r of
     Inl m \<Rightarrow> p
   | Inr None \<Rightarrow> p\<lparr>shown := None\<rparr>
   | Inr (Some stored) \<Rightarrow> (case profile_fields P stored of
       Inl m \<Rightarrow> p
     | Inr pf \<Rightarrow> p\<lparr>shown := Some pf\<rparr>))\<lparr>profile_loading := False\<rparr>"

text \<open>The effect on \<open>[selectedAccount, api]\<close> after a render in which one of them changed.\<close>

definition after_render :: "'api profile_page \<Rightarrow> 'api profile_page \<Rightarrow> 'api profile_page" where
  "after_render before p =
     (if selected_account (wallet p) = selected_account (wallet before) \<and>
         wallet_api (wallet p) = wallet_api (wallet before) then p
      else case (selected_account (wallet p), wallet_api (wallet p)) of
        (Some a, Some _) \<Rightarrow> load_profile (acc_address a) p
      | _ \<Rightarrow> p)"

section \<open>The balance of the selected account\<close>

text \<open>\<open>AccountBalance\<close>: what it keeps, and what the answer to one of its queries changes.\<close>

record balance_view =
  shown_balance :: "jstring option"
  balance_loading :: bool

definition fresh_balance :: balance_view where
  "fresh_balance = \<lparr>shown_balance = None, balance_loading = True\<rparr>"

definition balance_loaded :: "jstring awaited \<Rightarrow> balance_view \<Rightarrow> balance_view" where
  "balance_loaded r v = (case r of
     Inr free \<Rightarrow> v\<lparr>shown_balance := Some free\<rparr>
   | Inl m \<Rightarrow> v)\<lparr>balance_loading := False\<rparr>"

text \<open>The text that is rendered, less the warning: none for a balance that is missing or empty.\<close>

definition balance_line :: "balance_view \<Rightarrow> jstring option" where
  "balance_line v = (if balance_loading v then Some (js ''Loading balance...'')
     else case shown_balance v of
       Some b \<Rightarrow> if b = [] then None else Some (js ''Balance: '' @ b)
     | None \<Rightarrow> None)"

lemma balance_kept_on_error:
  "balance_line (balance_loaded (Inl m) (balance_loaded r v)) = balance_line (balance_loaded r v)"
  by (simp add: balance_line_def balance_loaded_def split: sum.split)

section \<open>Submitting a form\<close>

text \<open>The part the two handlers share: signing, and what an error of it leaves.\<close>

definition submit_failed :: "jstring \<Rightarrow> 'api profile_page \<Rightarrow> 'api profile_page" where
  "submit_failed m p = p\<lparr>tx_status := Some (js ''Error: '' @ m)\<rparr>"

definition submit :: "submission \<Rightarrow> 'api profile_page \<Rightarrow> 'api profile_page" where
  "submit s p =
     (let p' = p\<lparr>tx_status := Some (js ''Preparing transaction...'')\<rparr> in
      case sign_and_send True (extension p) (wallet p) of
        Inl m \<Rightarrow> submit_failed m p'
      | Inr point \<Rightarrow> begin_task (Submitting point s) p')"

definition handle_set_username :: "polkadot \<Rightarrow> 'api profile_page \<Rightarrow> 'api profile_page" where
  "handle_set_username P p = (case (selected_account (wallet p), wallet_api (wallet p)) of
     (Some a, Some _) \<Rightarrow>
       if trim (form_username p) = []
       then p\<lparr>alerts := alerts p @ [js ''Please connect wallet and enter username'']\<rparr>
       else submit \<lparr>sub_form = Set_Form, sub_signer = acc_address a,
         sub_call = Set_username (create_vec P (form_username p))\<rparr> p
   | _ \<Rightarrow> p\<lparr>alerts := alerts p @ [js ''Please connect wallet and enter username'']\<rparr>)"

text \<open>A field that is blank is passed as \<open>null\<close>, any other as it was typed.\<close>

definition field_param :: "jstring \<Rightarrow> jstring option" where
  "field_param s = (if trim s = [] then None else Some s)"

definition handle_update_profile :: "polkadot \<Rightarrow> 'api profile_page \<Rightarrow> 'api profile_page" where
  "handle_update_profile P p = (case (selected_account (wallet p), wallet_api (wallet p)) of
     (Some a, Some _) \<Rightarrow>
       submit \<lparr>sub_form = Update_Form, sub_signer = acc_address a,
         sub_call = Update_profile (create_option P (field_param (form_username p)))
           (create_option_option P (field_param (form_avatar p)))
           (create_option_option P (field_param (form_bio p)))\<rparr> p
   | _ \<Rightarrow> p\<lparr>alerts := alerts p @ [js ''Please connect wallet'']\<rparr>)"

text \<open>What a send point that was resumed goes on with.\<close>

definition submit_on :: "submission \<Rightarrow> send_point awaited \<Rightarrow> 'api profile_page \<Rightarrow> 'api profile_page" where
  "submit_on s r p = (case r of
     Inl m \<Rightarrow> submit_failed m p
   | Inr Sending \<Rightarrow> begin_task (Watching s) (begin_task (Submitting Sending s) p)
   | Inr point \<Rightarrow> begin_task (Submitting point s) p)"

text \<open>A send that is rejected has no subscription.\<close>

definition submit_sent :: "submission \<Rightarrow> unit awaited \<Rightarrow> 'api profile_page \<Rightarrow> 'api profile_page" where
  "submit_sent s r p = (case sent r of
     Inl m \<Rightarrow> submit_failed m (end_task (Watching s) p)
   | Inr _ \<Rightarrow> p)"

text \<open>What the callback finds in a result, in the order it asks, and the timer it starts.\<close>

datatype tx_report = In_Block jstring | Finalized jstring | Tx_Error jstring | Other_Report

definition status_reported :: "submission \<Rightarrow> tx_report \<Rightarrow> 'api profile_page \<Rightarrow> 'api profile_page" where
  "status_reported s r p = (case r of
     In_Block h \<Rightarrow> begin_task (Reloading s)
       (p\<lparr>tx_status := Some (js ''Transaction included in block '' @ h)\<rparr>)
   | Finalized h \<Rightarrow> p\<lparr>tx_status := Some (js ''Transaction finalized in block '' @ h)\<rparr>
   | Tx_Error status \<Rightarrow> p\<lparr>tx_status := Some (js ''Transaction failed: '' @ status)\<rparr>
   | Other_Report \<Rightarrow> p)"

text \<open>The timer runs the \<open>loadProfile\<close> of the render in which the form was submitted.\<close>

definition reload_due :: "submission \<Rightarrow> 'api profile_page \<Rightarrow> 'api profile_page" where
  "reload_due s p =
     (let p' = (load_profile (sub_signer s) p)\<lparr>tx_status := None\<rparr> in
      case sub_form s of
        Set_Form \<Rightarrow> p'
      | Update_Form \<Rightarrow> p'\<lparr>form_username := [], form_bio := [], form_avatar := []\<rparr>)"

section \<open>Events\<close>

datatype ('api, 'a) page_event =
    Api_Created "'api awaited"
  | Extension_Loaded "unit awaited"
  | Type_Username jstring
  | Type_Bio jstring
  | Type_Avatar jstring
  | Connect_Clicked
  | Extension_Imported "unit awaited"
  | Extensions_Enabled "nat awaited"
  | Accounts_Listed "wallet_account list awaited"
  | Account_Chosen jstring
  | Profile_Answered jstring "'a user_profile option awaited"
  | Set_Username_Clicked
  | Update_Profile_Clicked
  | Signer_Imported submission "unit awaited"
  | Injector_Found submission "unit awaited"
  | Sent submission "unit awaited"
  | Status_Reported submission tx_report
  | Reload_Due submission

text \<open>
  What is rendered and enabled (the connect button without accounts, the selection with
  them, the two submit buttons), the \<open>maxLength\<close> of the inputs, and what is awaited.
\<close>

fun page_possible :: "'api profile_page \<Rightarrow> ('api, 'a) page_event \<Rightarrow> bool" where
  "page_possible p (Api_Created r) = (Creating_Api \<in> set (tasks p))"
| "page_possible p (Extension_Loaded r) = (Loading_Extension \<in> set (tasks p))"
| "page_possible p (Type_Username s) = (length s \<le> 32)"
| "page_possible p (Type_Bio s) = (length s \<le> 256)"
| "page_possible p (Type_Avatar s) = True"
| "page_possible p Connect_Clicked = (\<not> is_connected (wallet p) \<and> \<not> is_connecting (wallet p))"
| "page_possible p (Extension_Imported r) = (Connecting Importing \<in> set (tasks p))"
| "page_possible p (Extensions_Enabled r) = (Connecting Enabling \<in> set (tasks p))"
| "page_possible p (Accounts_Listed r) = (Connecting Listing \<in> set (tasks p))"
| "page_possible p (Account_Chosen a) =
     (is_connected (wallet p) \<and> list_ex (\<lambda>x. acc_address x = a) (accounts (wallet p)))"
| "page_possible p (Profile_Answered a r) = (Loading_Profile a \<in> set (tasks p))"
| "page_possible p Set_Username_Clicked = (is_connected (wallet p) \<and> trim (form_username p) \<noteq> [])"
| "page_possible p Update_Profile_Clicked = is_connected (wallet p)"
| "page_possible p (Signer_Imported s r) = (Submitting Importing_Signer s \<in> set (tasks p))"
| "page_possible p (Injector_Found s r) = (Submitting Finding_Injector s \<in> set (tasks p))"
| "page_possible p (Sent s r) = (Submitting Sending s \<in> set (tasks p))"
| "page_possible p (Status_Reported s r) = (Watching s \<in> set (tasks p))"
| "page_possible p (Reload_Due s) = (Reloading s \<in> set (tasks p))"

definition set_wallet :: "'api wallet \<Rightarrow> 'api profile_page \<Rightarrow> 'api profile_page" where
  "set_wallet w p = p\<lparr>wallet := w\<rparr>"

text \<open>\<open>connectWallet\<close> goes on waiting at a point, or has ended.\<close>

definition connect_on :: "connect_point option \<Rightarrow> 'api profile_page \<Rightarrow> 'api profile_page" where
  "connect_on c p = (case c of None \<Rightarrow> p | Some point \<Rightarrow> begin_task (Connecting point) p)"

definition choose_account :: "jstring \<Rightarrow> 'api wallet \<Rightarrow> 'api wallet" where
  "choose_account a w = w\<lparr>selected_account := find (\<lambda>x. acc_address x = a) (accounts w)\<rparr>"

fun page_react :: "polkadot \<Rightarrow> 'api profile_page \<Rightarrow> ('api, 'a) page_event \<Rightarrow> 'api profile_page" where
  "page_react P p (Api_Created r) = set_wallet (api_created r (wallet p)) (end_task Creating_Api p)"
| "page_react P p (Extension_Loaded r) = (end_task Loading_Extension p)
     \<lparr>extension := (case r of Inr _ \<Rightarrow> extension_loaded | Inl m \<Rightarrow> extension p)\<rparr>"
| "page_react P p (Type_Username s) = p\<lparr>form_username := s\<rparr>"
| "page_react P p (Type_Bio s) = p\<lparr>form_bio := s\<rparr>"
| "page_react P p (Type_Avatar s) = p\<lparr>form_avatar := s\<rparr>"
| "page_react P p Connect_Clicked =
     (case connect_wallet True (extension p) (wallet p) of (c, w) \<Rightarrow> connect_on c (set_wallet w p))"
| "page_react P p (Extension_Imported r) =
     (case connect_imported r (extension p) (wallet p) of (c, ext, w) \<Rightarrow>
        connect_on c (set_wallet w ((end_task (Connecting Importing) p)\<lparr>extension := ext\<rparr>)))"
| "page_react P p (Extensions_Enabled r) =
     (case connect_enabled r (extension p) (wallet p) of (c, w) \<Rightarrow>
        connect_on c (set_wallet w (end_task (Connecting Enabling) p)))"
| "page_react P p (Accounts_Listed r) =
     set_wallet (connect_listed r (wallet p)) (end_task (Connecting Listing) p)"
| "page_react P p (Account_Chosen a) = set_wallet (choose_account a (wallet p)) p"
| "page_react P p (Profile_Answered a r) = profile_answered P r (end_task (Loading_Profile a) p)"
| "page_react P p Set_Username_Clicked = handle_set_username P p"
| "page_react P p Update_Profile_Clicked = handle_update_profile P p"
| "page_react P p (Signer_Imported s r) =
     (case signer_imported r (extension p) of (x, ext) \<Rightarrow>
        submit_on s x ((end_task (Submitting Importing_Signer s) p)\<lparr>extension := ext\<rparr>))"
| "page_react P p (Injector_Found s r) =
     submit_on s (injector_found r) (end_task (Submitting Finding_Injector s) p)"
| "page_react P p (Sent s r) = submit_sent s r (end_task (Submitting Sending s) p)"
| "page_react P p (Status_Reported s r) = status_reported s r p"
| "page_react P p (Reload_Due s) = reload_due s (end_task (Reloading s) p)"

definition page_step :: "polkadot \<Rightarrow> 'api profile_page \<Rightarrow> ('api, 'a) page_event \<Rightarrow> 'api profile_page" where
  "page_step P p ev = after_render p (page_react P p ev)"

abbreviation page_reached :: "polkadot \<Rightarrow> 'a itself \<Rightarrow> 'api profile_page \<Rightarrow> bool" where
  "page_reached P A \<equiv> reached fresh_page page_possible (page_step P :: 'api profile_page \<Rightarrow> ('api, 'a) page_event \<Rightarrow> _)"

end
