(* ===== verification/Web_Profile_Invariants.thy ===== *)
theory Web_Profile_Invariants
  imports Web_Profile
begin

text \<open>
  What holds in every state the profile page reaches: one wallet connection at a time, an
  account selected whenever a wallet is connected, and submissions that are signed by an
  account of the wallet and carry what the forms let through.
\<close>

section \<open>The invariant\<close>

fun connect_task :: "task \<Rightarrow> bool" where
  "connect_task (Connecting c) = True"
| "connect_task _ = False"

definition wallet_inv :: "'api profile_page \<Rightarrow> bool" where
  "wallet_inv p \<longleftrightarrow>
     waiting connect_task (tasks p) = (if is_connecting (wallet p) then 1 else 0) \<and>
     (is_connecting (wallet p) \<longrightarrow> accounts (wallet p) = []) \<and>
     (case selected_account (wallet p) of
        None \<Rightarrow> accounts (wallet p) = []
      | Some a \<Rightarrow> a \<in> set (accounts (wallet p)))"

definition module_inv :: "'api profile_page \<Rightarrow> bool" where
  "module_inv p \<longleftrightarrow> web3_enable (extension p) = web3_accounts (extension p) \<and>
     (Connecting Enabling \<in> set (tasks p) \<or> Connecting Listing \<in> set (tasks p) \<longrightarrow> web3_accounts (extension p))"

fun submission_of :: "task \<Rightarrow> submission option" where
  "submission_of (Submitting pt s) = Some s"
| "submission_of (Watching s) = Some s"
| "submission_of (Reloading s) = Some s"
| "submission_of _ = None"

definition submissions :: "'api profile_page \<Rightarrow> submission set" where
  "submissions p = {s. \<exists>t\<in>set (tasks p). submission_of t = Some s}"

text \<open>What the forms let through.\<close>

definition call_from_form :: "polkadot \<Rightarrow> form \<Rightarrow> profile_call \<Rightarrow> bool" where
  "call_from_form P f c \<longleftrightarrow> (case f of
     Set_Form \<Rightarrow> \<exists>u. trim u \<noteq> [] \<and> length u \<le> 32 \<and> c = Set_username (create_vec P u)
   | Update_Form \<Rightarrow> \<exists>u v b. length u \<le> 32 \<and> length b \<le> 256 \<and>
       c = Update_profile (create_option P (field_param u)) (create_option_option P (field_param v))
         (create_option_option P (field_param b)))"

definition submission_ok :: "polkadot \<Rightarrow> 'api wallet \<Rightarrow> submission \<Rightarrow> bool" where
  "submission_ok P w s \<longleftrightarrow> sub_signer s \<in> acc_address ` set (accounts w) \<and>
     call_from_form P (sub_form s) (sub_call s)"

definition submissions_inv :: "polkadot \<Rightarrow> 'api profile_page \<Rightarrow> bool" where
  "submissions_inv P p \<longleftrightarrow> length (form_username p) \<le> 32 \<and> length (form_bio p) \<le> 256 \<and>
     (\<forall>s\<in>submissions p. submission_ok P (wallet p) s)"

definition page_inv :: "polkadot \<Rightarrow> 'api profile_page \<Rightarrow> bool" where
  "page_inv P p \<longleftrightarrow> wallet_inv p \<and> module_inv p \<and> submissions_inv P p"

section \<open>Tasks that begin and end\<close>

lemma begin_task_simps [simp]:
  "wallet (begin_task t p) = wallet p"
  "extension (begin_task t p) = extension p"
  "form_username (begin_task t p) = form_username p"
  "form_bio (begin_task t p) = form_bio p"
  "form_avatar (begin_task t p) = form_avatar p"
  "shown (begin_task t p) = shown p"
  "tx_status (begin_task t p) = tx_status p"
  "tasks (begin_task t p) = tasks p @ [t]"
  by (simp_all add: begin_task_def)

lemma end_task_simps [simp]:
  "wallet (end_task t p) = wallet p"
  "extension (end_task t p) = extension p"
  "form_username (end_task t p) = form_username p"
  "form_bio (end_task t p) = form_bio p"
  "form_avatar (end_task t p) = form_avatar p"
  "shown (end_task t p) = shown p"
  "tx_status (end_task t p) = tx_status p"
  "tasks (end_task t p) = remove1 t (tasks p)"
  by (simp_all add: end_task_def)

lemma set_wallet_simps [simp]:
  "wallet (set_wallet w p) = w"
  "extension (set_wallet w p) = extension p"
  "form_username (set_wallet w p) = form_username p"
  "form_bio (set_wallet w p) = form_bio p"
  "form_avatar (set_wallet w p) = form_avatar p"
  "shown (set_wallet w p) = shown p"
  "tx_status (set_wallet w p) = tx_status p"
  "tasks (set_wallet w p) = tasks p"
  by (simp_all add: set_wallet_def)

text \<open>
  Most events leave the wallet alone and neither begin nor end a step of a connection; the
  invariants are then about the tasks that remain or are new.
\<close>

definition same_wallet :: "'api profile_page \<Rightarrow> 'api profile_page \<Rightarrow> bool" where
  "same_wallet p q \<longleftrightarrow> wallet q = wallet p \<and> extension q = extension p \<and>
     filter connect_task (tasks q) = filter connect_task (tasks p)"

lemma same_wallet_invs: "same_wallet p q \<Longrightarrow> wallet_inv p \<Longrightarrow> wallet_inv q"
  "same_wallet p q \<Longrightarrow> module_inv p \<Longrightarrow> module_inv q"
proof -
  assume s: "same_wallet p q"
  then show "wallet_inv p \<Longrightarrow> wallet_inv q" by (auto simp: same_wallet_def wallet_inv_def waiting_def split: option.splits)
  have "Connecting c \<in> set (tasks q) \<longleftrightarrow> Connecting c \<in> set (tasks p)" for c
    using s by (auto simp: same_wallet_def dest: arg_cong [where f = "\<lambda>ts. Connecting c \<in> set ts"])
  then show "module_inv p \<Longrightarrow> module_inv q" using s by (simp add: same_wallet_def module_inv_def)
qed

lemma filter_end [simp]:
  "\<not> connect_task t \<Longrightarrow> filter connect_task (remove1 t ts) = filter connect_task ts"
  by (induction ts) auto

lemma same_wallet_refl [simp]: "same_wallet p p"
  by (simp add: same_wallet_def)

lemma same_wallet_load [simp]: "same_wallet p (load_profile a q) = same_wallet p q"
  by (simp add: same_wallet_def load_profile_def)

lemma same_wallet_after_render [simp]: "same_wallet p (after_render q r) = same_wallet p r"
  by (simp add: after_render_def split: option.split)

lemma same_wallet_forms:
  "same_wallet p (handle_set_username P p)" "same_wallet p (handle_update_profile P p)"
  by (auto simp: same_wallet_def handle_set_username_def handle_update_profile_def submit_def
      submit_failed_def Let_def split: option.split sum.split)

lemma same_wallet_submit:
  "same_wallet p q \<Longrightarrow> same_wallet p (submit_on s r q)"
  "same_wallet p q \<Longrightarrow> same_wallet p (submit_sent s x q)"
  "same_wallet p q \<Longrightarrow> same_wallet p (status_reported s y q)"
  "same_wallet p q \<Longrightarrow> same_wallet p (reload_due s q)"
  "same_wallet p q \<Longrightarrow> same_wallet p (profile_answered P z q)"
  by (auto simp: same_wallet_def submit_on_def submit_sent_def status_reported_def reload_due_def
      profile_answered_def submit_failed_def load_profile_def Let_def
      split: sum.split send_point.split tx_report.split form.split option.split)

section \<open>Submissions\<close>

lemma submissions_begin [simp]:
  "submissions (begin_task t p) = set_option (submission_of t) \<union> submissions p"
  by (auto simp: submissions_def)

lemma submissions_end: "submissions (end_task t p) \<subseteq> submissions p"
  using set_remove1_subset [of t "tasks p"] by (auto simp: submissions_def)

lemma submissions_ended: "t \<in> set (tasks p) \<Longrightarrow> submission_of t = Some s \<Longrightarrow> s \<in> submissions p"
  by (auto simp: submissions_def)

lemma submissions_cong: "tasks q = tasks p \<Longrightarrow> submissions q = submissions p"
  by (simp add: submissions_def)

text \<open>An event that adds no submission, or one that is all right.\<close>

definition keeps_submissions :: "polkadot \<Rightarrow> 'api profile_page \<Rightarrow> 'api profile_page \<Rightarrow> bool" where
  "keeps_submissions P p q \<longleftrightarrow> accounts (wallet q) = accounts (wallet p) \<and>
     (length (form_username p) \<le> 32 \<longrightarrow> length (form_username q) \<le> 32) \<and>
     (length (form_bio p) \<le> 256 \<longrightarrow> length (form_bio q) \<le> 256) \<and>
     (\<forall>s\<in>submissions q. s \<in> submissions p \<or> submission_ok P (wallet p) s)"

lemma keeps_submissions_inv: "submissions_inv P p \<Longrightarrow> keeps_submissions P p q \<Longrightarrow> submissions_inv P q"
  by (fastforce simp: submissions_inv_def keeps_submissions_def submission_ok_def)

lemma keeps_load [simp]: "keeps_submissions P p (load_profile a q) = keeps_submissions P p q"
  by (simp add: keeps_submissions_def load_profile_def submissions_def)

lemma keeps_after_render [simp]: "keeps_submissions P p (after_render r q) = keeps_submissions P p q"
  by (simp add: after_render_def split: option.split)

lemma keeps_same_tasks:
  assumes "keeps_submissions P p q" "wallet q' = wallet q" "tasks q' = tasks q"
    and "form_username q' = form_username q \<or> form_username q' = []" "form_bio q' = form_bio q \<or> form_bio q' = []"
  shows "keeps_submissions P p q'"
  using assms submissions_cong [OF assms(3)] by (auto simp: keeps_submissions_def)

lemma keeps_end: "keeps_submissions P p (end_task t p)"
  using submissions_end [of t p] by (auto simp: keeps_submissions_def)

lemma keeps_begin:
  assumes "keeps_submissions P p q"
    and "\<And>s. submission_of t = Some s \<Longrightarrow> s \<in> submissions p \<or> submission_ok P (wallet p) s"
  shows "keeps_submissions P p (begin_task t q)"
  using assms by (auto simp: keeps_submissions_def)

lemma keeps_status [simp]:
  "keeps_submissions P p (q\<lparr>tx_status := x\<rparr>) = keeps_submissions P p q"
  "keeps_submissions P p (q\<lparr>alerts := y\<rparr>) = keeps_submissions P p q"
  "keeps_submissions P p (q\<lparr>extension := e\<rparr>) = keeps_submissions P p q"
  "keeps_submissions P p (q\<lparr>shown := z\<rparr>) = keeps_submissions P p q"
  "keeps_submissions P p (q\<lparr>profile_loading := l\<rparr>) = keeps_submissions P p q"
  by (simp_all add: keeps_submissions_def submissions_def)

lemma keeps_refl [simp]: "keeps_submissions P p p"
  by (simp add: keeps_submissions_def)

lemma keeps_submit_on:
  assumes "keeps_submissions P p q" "s \<in> submissions p"
  shows "keeps_submissions P p (submit_on s r q)"
proof -
  have "keeps_submissions P p (begin_task t q')"
    if "keeps_submissions P p q'" "submission_of t = Some s" for t q'
    using that assms(2) by (intro keeps_begin) auto
  then show ?thesis
    using assms(1) by (auto simp: submit_on_def submit_failed_def split: sum.split send_point.split)
qed

lemma keeps_submit_sent:
  assumes "keeps_submissions P p q"
  shows "keeps_submissions P p (submit_sent s r q)"
proof -
  have "keeps_submissions P p (end_task t q)" for t
    using assms submissions_end [of t q] by (auto simp: keeps_submissions_def)
  then show ?thesis using assms by (simp add: submit_sent_def submit_failed_def split: sum.split)
qed

lemma keeps_status_reported:
  "s \<in> submissions p \<Longrightarrow> keeps_submissions P p (status_reported s r p)"
  by (auto simp: status_reported_def split: tx_report.split intro: keeps_begin)

lemma keeps_reload_due:
  assumes "keeps_submissions P p q"
  shows "keeps_submissions P p (reload_due s q)"
proof -
  have "keeps_submissions P p (load_profile (sub_signer s) q)" using assms by simp
  from keeps_same_tasks [OF this] show ?thesis
    by (simp add: reload_due_def Let_def split: form.split)
qed

lemma keeps_profile_answered:
  "keeps_submissions P p q \<Longrightarrow> keeps_submissions P p (profile_answered P r q)"
  by (auto simp: profile_answered_def split: sum.split option.split)

text \<open>A form that is submitted.\<close>

lemma keeps_submit:
  assumes "submission_ok P (wallet p) s"
  shows "keeps_submissions P p (submit s p)"
  using assms by (auto simp: submit_def submit_failed_def Let_def split: sum.split intro: keeps_begin)

lemma keeps_forms:
  assumes "wallet_inv p" "submissions_inv P p"
  shows "keeps_submissions P p (handle_set_username P p)" "keeps_submissions P p (handle_update_profile P p)"
proof -
  have signer: "acc_address a \<in> acc_address ` set (accounts (wallet p))"
    if "selected_account (wallet p) = Some a" for a
    using assms(1) that by (simp add: wallet_inv_def)
  have forms: "length (form_username p) \<le> 32" "length (form_bio p) \<le> 256"
    using assms(2) by (simp_all add: submissions_inv_def)
  show "keeps_submissions P p (handle_set_username P p)"
    using signer forms
    by (auto simp: handle_set_username_def submission_ok_def call_from_form_def split: option.split
        intro!: keeps_submit)
  have "call_from_form P Update_Form (Update_profile (create_option P (field_param (form_username p)))
      (create_option_option P (field_param (form_avatar p))) (create_option_option P (field_param (form_bio p))))"
    unfolding call_from_form_def using forms by auto
  then show "keeps_submissions P p (handle_update_profile P p)"
    using signer
    by (auto simp: handle_update_profile_def submission_ok_def split: option.split intro!: keeps_submit)
qed

section \<open>The wallet\<close>

lemma no_accounts_no_submissions:
  "submissions_inv P p \<Longrightarrow> accounts (wallet p) = [] \<Longrightarrow> submissions p = {}"
  by (auto simp: submissions_inv_def submission_ok_def)

lemma found_account:
  "list_ex (\<lambda>x. acc_address x = a) xs \<Longrightarrow> \<exists>x\<in>set xs. find (\<lambda>x. acc_address x = a) xs = Some x"
  by (induction xs) auto

lemma accounts_listed_inv:
  assumes "page_inv P p" "Connecting Listing \<in> set (tasks p)"
  shows "page_inv P (set_wallet (connect_listed r (wallet p)) (end_task (Connecting Listing) p))"
proof -
  let ?q = "set_wallet (connect_listed r (wallet p)) (end_task (Connecting Listing) p)"
  have w: "Suc (waiting connect_task (tasks ?q)) = waiting connect_task (tasks p)"
    using waiting_resumed(1) [OF assms(2), of connect_task] by simp
  then have c: "is_connecting (wallet p)" "accounts (wallet p) = []" "selected_account (wallet p) = None"
    using assms(1) by (auto simp: page_inv_def wallet_inv_def split: if_splits option.splits)
  then have "waiting connect_task (tasks ?q) = 0"
    using w assms(1) by (simp add: page_inv_def wallet_inv_def)
  then have "wallet_inv ?q"
    using c by (auto simp: wallet_inv_def connect_listed_def connect_caught_def split: sum.split)
  moreover have "submissions ?q = {}"
    using submissions_end [of _ p] no_accounts_no_submissions [OF _ c(2)] assms(1)
    by (fastforce simp: page_inv_def submissions_def)
  then have "submissions_inv P ?q" using assms(1) by (simp add: page_inv_def submissions_inv_def)
  moreover have "module_inv ?q"
    using assms by (auto simp: page_inv_def module_inv_def)
  ultimately show ?thesis by (simp add: page_inv_def)
qed

lemma page_inv_keeps:
  "page_inv P p \<Longrightarrow> keeps_submissions P p q \<Longrightarrow> wallet_inv q \<Longrightarrow> module_inv q \<Longrightarrow> page_inv P q"
  unfolding page_inv_def using keeps_submissions_inv by blast

text \<open>A step of \<open>connectWallet\<close> that goes on or ends without accounts.\<close>

lemma connect_step_inv:
  assumes "page_inv P p" "Connecting c \<in> set (tasks p)" "c \<noteq> Listing"
    and "case x of None \<Rightarrow> \<exists>m. w = connect_caught m (wallet p)
      | Some d \<Rightarrow> w = wallet p \<and> d \<noteq> Importing \<and> web3_accounts e"
    and "web3_enable e = web3_accounts e" "web3_accounts (extension p) \<longrightarrow> web3_accounts e"
  shows "page_inv P (connect_on x (set_wallet w ((end_task (Connecting c) p)\<lparr>extension := e\<rparr>)))"
proof -
  let ?q = "connect_on x (set_wallet w ((end_task (Connecting c) p)\<lparr>extension := e\<rparr>))"
  have n: "Suc (waiting connect_task (remove1 (Connecting c) (tasks p))) = waiting connect_task (tasks p)"
    using waiting_resumed(1) [OF assms(2), of connect_task] by simp
  then have c: "is_connecting (wallet p)" "waiting connect_task (remove1 (Connecting c) (tasks p)) = 0"
    using assms(1) by (auto simp: page_inv_def wallet_inv_def split: if_splits)
  then have "wallet_inv ?q"
    using assms(1,4)
    by (auto simp: page_inv_def wallet_inv_def connect_on_def connect_caught_def split: option.splits)
  moreover have "module_inv ?q"
    using assms(1,4-6) c(2)
    by (fastforce simp: page_inv_def module_inv_def connect_on_def waiting_0 split: option.splits)
  moreover have "keeps_submissions P p ?q"
    using assms(4) submissions_end [of "Connecting c" p]
    by (auto simp: keeps_submissions_def connect_on_def connect_caught_def submissions_def
        split: option.splits)
  ultimately show ?thesis using page_inv_keeps [OF assms(1)] by blast
qed

lemma connect_clicked_inv:
  assumes "page_inv P p" "accounts (wallet p) = []" "\<not> is_connecting (wallet p)"
  shows "page_inv P (case connect_wallet True (extension p) (wallet p) of (c, w) \<Rightarrow> connect_on c (set_wallet w p))"
    (is "page_inv P ?q")
proof -
  have "keeps_submissions P p ?q"
    by (auto simp: keeps_submissions_def connect_wallet_def connect_on_def submissions_def)
  moreover have "wallet_inv ?q"
    using assms
    by (auto simp: page_inv_def wallet_inv_def connect_wallet_def connect_on_def split: option.splits)
  moreover have "module_inv ?q"
    using assms by (auto simp: page_inv_def module_inv_def connect_wallet_def connect_on_def)
  ultimately show ?thesis using page_inv_keeps [OF assms(1)] by blast
qed

section \<open>Every reachable state\<close>

lemma page_inv_same:
  "page_inv P p \<Longrightarrow> same_wallet p q \<Longrightarrow> keeps_submissions P p q \<Longrightarrow> page_inv P q"
  unfolding page_inv_def using same_wallet_invs keeps_submissions_inv by blast

lemma page_inv_after_render: "page_inv P q \<Longrightarrow> page_inv P (after_render p q)"
  by (erule page_inv_same) simp_all

lemma page_inv_fresh: "page_inv P fresh_page"
  by (simp add: page_inv_def fresh_page_def fresh_wallet_def wallet_inv_def module_inv_def
      submissions_inv_def submissions_def extension_unloaded_def)

lemma end_same_wallet: "\<not> connect_task t \<Longrightarrow> same_wallet p (end_task t p)"
  by (simp add: same_wallet_def)

text \<open>Events that change the wallet or the module without connecting.\<close>

lemma api_created_inv:
  assumes "page_inv P p"
  shows "page_inv P (set_wallet (api_created r (wallet p)) (end_task Creating_Api p))" (is "page_inv P ?q")
proof -
  have "keeps_submissions P p ?q"
    using submissions_end [of Creating_Api p]
    by (auto simp: keeps_submissions_def api_created_def submissions_def split: sum.split)
  moreover have "wallet_inv ?q" "module_inv ?q"
    using assms
    by (auto simp: page_inv_def wallet_inv_def module_inv_def api_created_def waiting_resumed(2)
        split: sum.splits option.splits)
  ultimately show ?thesis using page_inv_keeps [OF assms(1)] by blast
qed

lemma account_chosen_inv:
  assumes "page_inv P p" "list_ex (\<lambda>x. acc_address x = a) (accounts (wallet p))"
  shows "page_inv P (set_wallet (choose_account a (wallet p)) p)" (is "page_inv P ?q")
proof -
  have "keeps_submissions P p ?q"
    by (auto simp: keeps_submissions_def choose_account_def submissions_def)
  moreover have "wallet_inv ?q" "module_inv ?q"
    using assms found_account [OF assms(2)]
    by (auto simp: page_inv_def wallet_inv_def module_inv_def choose_account_def split: option.splits)
  ultimately show ?thesis using page_inv_keeps [OF assms(1)] by blast
qed

lemma module_loaded_inv:
  assumes "page_inv P p" "\<not> connect_task t" "web3_enable e = web3_accounts e"
    and "web3_accounts (extension p) \<longrightarrow> web3_accounts e"
  shows "page_inv P ((end_task t p)\<lparr>extension := e\<rparr>)" (is "page_inv P ?q")
proof -
  have "keeps_submissions P p ?q" using keeps_end [of P p t] by simp
  moreover have "wallet_inv ?q" "module_inv ?q"
    using assms
    by (auto simp: page_inv_def wallet_inv_def module_inv_def waiting_resumed(2) split: option.splits)
  ultimately show ?thesis using page_inv_keeps [OF assms(1)] by blast
qed

lemma typed_inv:
  assumes "page_inv P p" "length u \<le> 32" "length b \<le> 256"
  shows "page_inv P (p\<lparr>form_username := u\<rparr>)" "page_inv P (p\<lparr>form_bio := b\<rparr>)" "page_inv P (p\<lparr>form_avatar := v\<rparr>)"
  by (rule page_inv_same [OF assms(1)];
      use assms(2,3) in \<open>simp add: same_wallet_def keeps_submissions_def submissions_def\<close>)+

text \<open>An event of a submission: a task of it ends, and the submission goes on.\<close>

lemma submission_event_inv:
  assumes "page_inv P p" "t \<in> set (tasks p)" "submission_of t = Some s"
  shows "page_inv P (submit_on s r (end_task t p))" "page_inv P (submit_sent s x (end_task t p))"
    "page_inv P (status_reported s y p)" "page_inv P (reload_due s (end_task t p))"
proof -
  have t: "\<not> connect_task t" using assms(3) by (cases t) simp_all
  note same = same_wallet_submit [OF end_same_wallet [OF t, of p]] same_wallet_submit(3) [OF same_wallet_refl]
  note s = submissions_ended [OF assms(2,3)]
  show "page_inv P (submit_on s r (end_task t p))"
    by (rule page_inv_same [OF assms(1) same(1) keeps_submit_on [OF keeps_end s]])
  show "page_inv P (submit_sent s x (end_task t p))"
    by (rule page_inv_same [OF assms(1) same(2) keeps_submit_sent [OF keeps_end]])
  show "page_inv P (status_reported s y p)"
    by (rule page_inv_same [OF assms(1) same(6) keeps_status_reported [OF s]])
  show "page_inv P (reload_due s (end_task t p))"
    by (rule page_inv_same [OF assms(1) same(4) keeps_reload_due [OF keeps_end]])
qed

lemmas submission_invs =
  submission_event_inv(1) [where t = "Submitting Finding_Injector s" and s = s for s]
  submission_event_inv(2) [where t = "Submitting Sending s" and s = s for s]
  submission_event_inv(3) [where t = "Watching s" and s = s for s]
  submission_event_inv(4) [where t = "Reloading s" and s = s for s]

lemmas typed_invs = typed_inv(1) [where b = "[]"] typed_inv(2) [where u = "[]"]
  typed_inv(3) [where u = "[]" and b = "[]"]

lemma module_invD: "page_inv P p \<Longrightarrow> web3_enable (extension p) = web3_accounts (extension p)"
  by (simp add: page_inv_def module_inv_def)

lemma end_task_extension [simp]: "(end_task t p)\<lparr>extension := extension p\<rparr> = end_task t p"
  by (simp add: end_task_def)

lemma page_react_inv: "page_inv P p \<Longrightarrow> page_possible p ev \<Longrightarrow> page_inv P (page_react P p ev)"
proof (cases ev)
  case (Extension_Loaded r)
  assume p: "page_inv P p" "page_possible p ev"
  from module_invD [OF p(1)] show ?thesis
    unfolding Extension_Loaded page_react.simps
    by (intro module_loaded_inv [OF p(1)]) (auto simp: extension_loaded_def split: sum.split)
next
  case (Extension_Imported r)
  assume p: "page_inv P p" "page_possible p ev"
  with connect_step_inv [OF p(1), where c = Importing and x = "Some Enabling" and w = "wallet p" and e = extension_loaded]
    connect_step_inv [OF p(1), where c = Importing and x = None and e = "extension p"]
  show ?thesis
    using p(2) module_invD [OF p(1)]
    by (auto simp: Extension_Imported connect_imported_def extension_loaded_def split: sum.split)
next
  case (Extensions_Enabled r)
  assume p: "page_inv P p" "page_possible p ev"
  have e: "page_inv P (connect_on x (set_wallet w (end_task (Connecting Enabling) p)))"
    if "case x of None \<Rightarrow> \<exists>m. w = connect_caught m (wallet p)
      | Some d \<Rightarrow> w = wallet p \<and> d \<noteq> Importing \<and> web3_accounts (extension p)" for x w
    using connect_step_inv [OF p(1), where c = Enabling and x = x and w = w and e = "extension p"]
      p(2) that module_invD [OF p(1)]
    by (simp add: Extensions_Enabled)
  show ?thesis
    by (auto simp: Extensions_Enabled connect_enabled_def split: sum.split intro!: e)
next
  case (Signer_Imported s r)
  assume p: "page_inv P p" "page_possible p ev"
  let ?e = "snd (signer_imported r (extension p))"
  let ?q = "(end_task (Submitting Importing_Signer s) p)\<lparr>extension := ?e\<rparr>"
  have q: "page_inv P ?q"
    using p(1) by (intro module_loaded_inv)
      (auto simp: page_inv_def module_inv_def signer_imported_def split: sum.split)
  have "s \<in> submissions p" using p(2) submissions_ended by (fastforce simp: Signer_Imported)
  then have "keeps_submissions P p (submit_on s x ?q)" for x
    using keeps_end [of P p] by (intro keeps_submit_on) simp_all
  moreover have "wallet_inv (submit_on s x ?q)" "module_inv (submit_on s x ?q)" for x
    using same_wallet_invs [OF same_wallet_submit(1) [OF same_wallet_refl]] q by (auto simp: page_inv_def)
  ultimately have "page_inv P (submit_on s x ?q)" for x
    using page_inv_keeps [OF p(1)] by blast
  then show ?thesis by (simp add: Signer_Imported split: prod.split) (metis snd_conv)
next
  case Connect_Clicked
  assume "page_inv P p" "page_possible p ev"
  with connect_clicked_inv [of P p] show ?thesis by (simp add: Connect_Clicked is_connected_def)
next
  case (Account_Chosen a)
  assume "page_inv P p" "page_possible p ev"
  with account_chosen_inv [of P p a] show ?thesis by (simp add: Account_Chosen)
next
  case (Profile_Answered a r)
  assume p: "page_inv P p" "page_possible p ev"
  show ?thesis
    unfolding Profile_Answered page_react.simps
    by (rule page_inv_same [OF p(1) same_wallet_submit(5) [OF end_same_wallet] keeps_profile_answered [OF keeps_end]])
       simp
next
  case Set_Username_Clicked
  assume p: "page_inv P p" "page_possible p ev"
  then show ?thesis
    unfolding Set_Username_Clicked page_react.simps
    by (intro page_inv_same [OF p(1)] same_wallet_forms keeps_forms) (simp_all add: page_inv_def)
next
  case Update_Profile_Clicked
  assume p: "page_inv P p" "page_possible p ev"
  then show ?thesis
    unfolding Update_Profile_Clicked page_react.simps
    by (intro page_inv_same [OF p(1)] same_wallet_forms keeps_forms) (simp_all add: page_inv_def)
qed (simp_all add: api_created_inv typed_invs accounts_listed_inv submission_invs)

interpretation page: page_contract fresh_page page_possible "page_step P" "page_inv P" for P
  by unfold_locales (simp_all add: page_inv_fresh page_step_def page_react_inv page_inv_after_render)

end
