(* ===== verification/Web_Profile_View.thy ===== *)
theory Web_Profile_View
  imports Web_Profile_Invariants
begin

text \<open>
  Which profile the page shows while the chain goes on changing.  When queries are answered
  in the order they were made and the timer of a submission finds its signer still selected,
  it is the selected account's, as of the last answer; the timer of a submission of another
  account brings that one's profile back.
\<close>

section \<open>Queries in order\<close>

definition loads :: "'api profile_page \<Rightarrow> jstring list" where
  "loads p = List.map_filter (\<lambda>t. case t of Loading_Profile a \<Rightarrow> Some a | _ \<Rightarrow> None) (tasks p)"

text \<open>What the page should show of an account, for a chain with the profiles \<open>st\<close>.\<close>

definition view_of :: "polkadot \<Rightarrow> (jstring \<rightharpoonup> 'a user_profile) \<Rightarrow> jstring \<Rightarrow> shown_profile option" where
  "view_of P st a = (case st a of
     None \<Rightarrow> None
   | Some stored \<Rightarrow> (case profile_fields P stored of Inl m \<Rightarrow> None | Inr f \<Rightarrow> Some f))"

definition honest :: "(jstring \<rightharpoonup> 'a user_profile) \<Rightarrow> ('api, 'a) page_event \<Rightarrow> bool" where
  "honest st ev \<longleftrightarrow> (case ev of Profile_Answered a r \<Rightarrow> r = Inr (st a) | _ \<Rightarrow> True)"

definition in_order ::
    "(jstring \<rightharpoonup> 'a user_profile) \<Rightarrow> 'api profile_page \<Rightarrow> ('api, 'a) page_event \<Rightarrow> bool" where
  "in_order st p ev \<longleftrightarrow> page_possible p ev \<and> honest st ev \<and> (case ev of
     Profile_Answered a r \<Rightarrow> loads p \<noteq> [] \<and> hd (loads p) = a
   | _ \<Rightarrow> True)"

definition orderly ::
    "(jstring \<rightharpoonup> 'a user_profile) \<Rightarrow> 'api profile_page \<Rightarrow> ('api, 'a) page_event \<Rightarrow> bool" where
  "orderly st p ev \<longleftrightarrow> in_order st p ev \<and> (case ev of
     Reload_Due s \<Rightarrow> map_option acc_address (selected_account (wallet p)) = Some (sub_signer s)
   | _ \<Rightarrow> True)"

definition shows_selected :: "polkadot \<Rightarrow> (jstring \<rightharpoonup> 'a user_profile) \<Rightarrow> 'api profile_page \<Rightarrow> bool" where
  "shows_selected P st p \<longleftrightarrow> (\<forall>a. selected_account (wallet p) = Some a \<longrightarrow> wallet_api (wallet p) \<noteq> None \<longrightarrow>
     (if loads p = [] then shown p = view_of P st (acc_address a) else last (loads p) = acc_address a))"

lemma loads_simps [simp]:
  "loads (begin_task t p) = loads p @ (case t of Loading_Profile a \<Rightarrow> [a] | _ \<Rightarrow> [])"
  "loads (set_wallet w p) = loads p"
  "loads (p\<lparr>tx_status := x\<rparr>) = loads p"
  "loads (p\<lparr>alerts := y\<rparr>) = loads p"
  "loads (p\<lparr>extension := e\<rparr>) = loads p"
  "loads (p\<lparr>shown := z\<rparr>) = loads p"
  "loads (p\<lparr>profile_loading := l\<rparr>) = loads p"
  "loads (p\<lparr>form_username := u\<rparr>) = loads p"
  "loads (p\<lparr>form_bio := b\<rparr>) = loads p"
  "loads (p\<lparr>form_avatar := v\<rparr>) = loads p"
  by (simp_all add: loads_def List.map_filter_def split: task.split)

lemma loads_end:
  "\<forall>a. t \<noteq> Loading_Profile a \<Longrightarrow> loads (end_task t p) = loads p"
  "loads (end_task (Loading_Profile a) p) = remove1 a (loads p)"
proof -
  have f: "List.map_filter f (remove1 t ts) = List.map_filter f ts" if "f t = None" for f :: "task \<Rightarrow> jstring option" and t ts
    using that by (induction ts) (auto simp: List.map_filter_def)
  show "\<forall>a. t \<noteq> Loading_Profile a \<Longrightarrow> loads (end_task t p) = loads p"
    by (cases t) (simp_all add: loads_def f)
  let ?f = "\<lambda>t. case t of Loading_Profile a \<Rightarrow> Some a | _ \<Rightarrow> None"
  have "List.map_filter ?f (remove1 (Loading_Profile a) ts) = remove1 a (List.map_filter ?f ts)" for ts
    by (induction ts) (auto simp: List.map_filter_def split: task.splits)
  then show "loads (end_task (Loading_Profile a) p) = remove1 a (loads p)" by (simp add: loads_def)
qed

lemma loads_load [simp]: "loads (load_profile a p) = loads p @ [a]"
  by (simp add: load_profile_def)

text \<open>What an event that is no query's leaves as it was.\<close>

definition same_view :: "'api profile_page \<Rightarrow> 'api profile_page \<Rightarrow> bool" where
  "same_view p q \<longleftrightarrow> loads q = loads p \<and> shown q = shown p"

lemma same_view_react:
  assumes "\<And>a r. ev \<noteq> Profile_Answered a r" "\<And>s. ev \<noteq> Reload_Due s"
  shows "same_view p (page_react P p ev)"
proof -
  have on: "same_view p (submit_on s x q)" "same_view p (submit_sent s y q)" "same_view p (connect_on c q)"
    if "same_view p q" for s x y c q
    using that
    by (auto simp: same_view_def submit_on_def submit_sent_def submit_failed_def connect_on_def loads_end
        split: sum.split send_point.split option.split)
  have ended: "same_view p (end_task t p)" if "\<forall>a. t \<noteq> Loading_Profile a" for t
    using that by (simp add: same_view_def loads_end)
  have "same_view p (submit s p)" for s
    by (simp add: same_view_def submit_def submit_failed_def Let_def split: sum.split)
  then have forms: "same_view p (handle_set_username P p)" "same_view p (handle_update_profile P p)"
    by (auto simp: handle_set_username_def handle_update_profile_def same_view_def split: option.split)
  have wallets: "same_view p (set_wallet w q)" "same_view p (q\<lparr>extension := e\<rparr>)" if "same_view p q" for w q e
    using that by (simp_all add: same_view_def)
  show ?thesis
    using assms
    by (cases ev)
       (auto simp: forms status_reported_def intro!: on ended wallets split: prod.split tx_report.split,
        auto simp: same_view_def)
qed

section \<open>The selected account's profile\<close>

lemma shows_after_render:
  assumes "shows_selected P st p" "same_view p q"
  shows "shows_selected P st (after_render p q)"
  using assms
  by (auto simp: shows_selected_def same_view_def after_render_def load_profile_def
      split: if_splits option.splits)

lemma same_selection_after_render:
  "selected_account (wallet q) = selected_account (wallet p) \<Longrightarrow> wallet_api (wallet q) = wallet_api (wallet p) \<Longrightarrow>
     after_render p q = q"
  by (simp add: after_render_def)

lemma answered_view:
  assumes "polkadot_ok P" "\<forall>p. st a = Some p \<longrightarrow> unat (created_at p) < 2 ^ 53"
  shows "wallet (profile_answered P (Inr (st a)) p) = wallet p"
    "loads (profile_answered P (Inr (st a)) p) = loads p"
    "shown (profile_answered P (Inr (st a)) p) = view_of P st a"
  using assms
  by (auto simp: profile_answered_def view_of_def profile_fields_def polkadot_ok_def split: option.split sum.split)

lemma reload_due_view:
  "wallet (reload_due s p) = wallet p" "loads (reload_due s p) = loads p @ [sub_signer s]"
  by (simp_all add: reload_due_def load_profile_def Let_def split: form.split)

text \<open>An event while the chain has the profiles \<open>st\<close>; \<open>before\<close> are those of the last answer.\<close>

definition is_answer :: "('api, 'a) page_event \<Rightarrow> bool" where
  "is_answer ev \<longleftrightarrow> (case ev of Profile_Answered a r \<Rightarrow> True | _ \<Rightarrow> False)"

definition numbers_fit :: "(jstring \<rightharpoonup> 'a user_profile) \<Rightarrow> bool" where
  "numbers_fit st \<longleftrightarrow> (\<forall>p\<in>ran st. unat (created_at p) < 2 ^ 53)"

lemma orderly_step:
  assumes P: "polkadot_ok P" "numbers_fit st"
    and p: "shows_selected P before p" "orderly st p ev"
  shows "shows_selected P (if is_answer ev then st else before) (page_step P p ev)"
proof (cases "(\<exists>a r. ev = Profile_Answered a r) \<or> (\<exists>s. ev = Reload_Due s)")
  case False
  then have "\<not> is_answer ev" by (auto simp: is_answer_def split: page_event.split)
  with False show ?thesis
    unfolding page_step_def by simp (intro shows_after_render [OF p(1)] same_view_react, auto)
next
  case True
  then show ?thesis
  proof
    assume "\<exists>a r. ev = Profile_Answered a r"
    then obtain a where a: "ev = Profile_Answered a (Inr (st a))" "loads p \<noteq> []" "hd (loads p) = a"
      using p(2) by (auto simp: orderly_def in_order_def honest_def)
    let ?q = "profile_answered P (Inr (st a)) (end_task (Loading_Profile a) p)"
    have fit: "\<forall>p. st a = Some p \<longrightarrow> unat (created_at p) < 2 ^ 53"
      using P(2) by (auto simp: numbers_fit_def ran_def)
    have v: "wallet ?q = wallet p" "loads ?q = tl (loads p)" "shown ?q = view_of P st a"
      using answered_view [where st = st and a = a and p = "end_task (Loading_Profile a) p", OF P(1) fit] a(2,3)
      by (cases "loads p"; simp add: loads_end)+
    then have "page_step P p ev = ?q"
      by (simp add: page_step_def a(1) same_selection_after_render)
    with v p(1) a show ?thesis
      by (cases "loads p") (auto simp: shows_selected_def is_answer_def)
  next
    assume "\<exists>s. ev = Reload_Due s"
    then obtain s where s: "ev = Reload_Due s" by blast
    let ?q = "reload_due s (end_task (Reloading s) p)"
    have "page_step P p ev = ?q"
      by (simp add: page_step_def s same_selection_after_render reload_due_view)
    with p(2) s show ?thesis by (auto simp: shows_selected_def reload_due_view orderly_def is_answer_def)
  qed
qed

section \<open>The page and a chain that changes\<close>

text \<open>The page, the profiles the chain has now, and those it had when a query was last answered.\<close>

record ('api, 'a) viewer =
  viewed :: "'api profile_page"
  chain_now :: "jstring \<rightharpoonup> 'a user_profile"
  chain_seen :: "jstring \<rightharpoonup> 'a user_profile"

definition first_view :: "(jstring \<rightharpoonup> 'a user_profile) \<Rightarrow> ('api, 'a) viewer" where
  "first_view st = \<lparr>viewed = fresh_page, chain_now = st, chain_seen = st\<rparr>"

text \<open>The page's events, and the chain changing its profiles in any way.\<close>

datatype ('api, 'a) view_event = On_Page "('api, 'a) page_event" | Chain_Moves "jstring \<rightharpoonup> 'a user_profile"

fun view_possible :: "('api, 'a) viewer \<Rightarrow> ('api, 'a) view_event \<Rightarrow> bool" where
  "view_possible v (On_Page ev) = orderly (chain_now v) (viewed v) ev"
| "view_possible v (Chain_Moves st) = numbers_fit st"

fun view_step :: "polkadot \<Rightarrow> ('api, 'a) viewer \<Rightarrow> ('api, 'a) view_event \<Rightarrow> ('api, 'a) viewer" where
  "view_step P v (On_Page ev) = v\<lparr>viewed := page_step P (viewed v) ev,
     chain_seen := (if is_answer ev then chain_now v else chain_seen v)\<rparr>"
| "view_step P v (Chain_Moves st) = v\<lparr>chain_now := st\<rparr>"

lemma view_contract:
  assumes "polkadot_ok P" "numbers_fit st"
  shows "page_contract (first_view st) view_possible (view_step P)
    (\<lambda>v. numbers_fit (chain_now v) \<and> shows_selected P (chain_seen v) (viewed v))"
proof
  show "numbers_fit (chain_now (first_view st)) \<and> shows_selected P (chain_seen (first_view st)) (viewed (first_view st))"
    using assms(2) by (simp add: first_view_def shows_selected_def fresh_page_def fresh_wallet_def)
next
  fix v e
  assume "numbers_fit (chain_now v) \<and> shows_selected P (chain_seen v) (viewed v)" "view_possible v e"
  then show "numbers_fit (chain_now (view_step P v e)) \<and>
      shows_selected P (chain_seen (view_step P v e)) (viewed (view_step P v e))"
    using orderly_step [OF assms(1), of "chain_now v" "chain_seen v" "viewed v"] by (cases e) (simp_all split: if_splits)
qed

text \<open>
  C10. The chain changes while the page is open, by the page's own submissions and otherwise.  When
  queries are answered in the order they were made, with what the chain has at that moment,
  and the timer of a submission finds its signer selected, then in every state without a
  query under way the page shows the profile of the selected account, or none when it has
  none, as the chain had it when a query was last answered; it is the profile of now unless
  that account's has changed since, as it has between the inclusion of a submission and the
  answer to the query that its timer makes.
\<close>

theorem selected_profile_shown:
  assumes "polkadot_ok P" "numbers_fit st"
    and "reached (first_view st) view_possible (view_step P) v"
    and "selected_account (wallet (viewed v)) = Some a" "wallet_api (wallet (viewed v)) \<noteq> None" "loads (viewed v) = []"
  shows "shown (viewed v) = view_of P (chain_seen v) (acc_address a) \<and>
    (chain_now v (acc_address a) = chain_seen v (acc_address a) \<longrightarrow>
       shown (viewed v) = view_of P (chain_now v) (acc_address a))"
  using page_contract.reached_inv [OF view_contract [OF assms(1,2)] assms(3)] assms(4-6)
  by (auto simp: shows_selected_def view_of_def)

section \<open>A chain with two accounts\<close>

text \<open>Text with the prefix \<open>0x\<close> is read as no bytes at all, or as no value.\<close>

definition demo_polkadot :: polkadot where
  "demo_polkadot = \<lparr>create_vec = (\<lambda>s. if hex_like s then [] else utf8_encode s),
     create_option = (\<lambda>v. Option.bind v (\<lambda>s. if hex_like s then None else Some (utf8_encode s))),
     create_option_option = (\<lambda>v. Option.bind v (\<lambda>s. if hex_like s then None else Some (Some (utf8_encode s)))),
     to_human = (\<lambda>b. Str (utf8_text b)),
     to_human_option = (\<lambda>v. case v of Some b \<Rightarrow> Str (utf8_text b) | None \<Rightarrow> Null),
     to_number = (\<lambda>n. Inr (Num (uint n)))\<rparr>"

lemma demo_polkadot_simps:
  "\<not> hex_like s \<Longrightarrow> create_vec demo_polkadot s = utf8_encode s"
  "create_option demo_polkadot None = None" "create_option_option demo_polkadot None = None"
  "\<not> hex_like s \<Longrightarrow> create_option demo_polkadot (Some s) = Some (utf8_encode s)"
  "\<not> hex_like s \<Longrightarrow> create_option_option demo_polkadot (Some s) = Some (Some (utf8_encode s))"
  by (simp_all add: demo_polkadot_def)

lemma demo_polkadot_ok: "polkadot_ok demo_polkadot"
proof -
  have "plain_text s" if "printable s" for s
    using that by (fastforce simp: printable_def plain_text_def word_le_nat_alt word_less_nat_alt)
  then show ?thesis
    by (simp add: polkadot_ok_def demo_polkadot_def utf8_decode_encode plain_text_usv)
qed

definition demo_account :: "string \<Rightarrow> wallet_account" where
  "demo_account a = \<lparr>acc_address = js a, acc_name = None, acc_source = js ''polkadot-js''\<rparr>"

definition demo_profiles :: "jstring \<rightharpoonup> nat user_profile" where
  "demo_profiles =
     [js ''5Alice'' \<mapsto> \<lparr>account = 0, username = [97], avatar = None, bio = None, created_at = 1\<rparr>,
      js ''5Bob'' \<mapsto> \<lparr>account = 1, username = [98], avatar = None, bio = None, created_at = 2\<rparr>]"

text \<open>Connecting a wallet with two accounts; then the second is chosen.\<close>

definition connecting :: "wallet_account list \<Rightarrow> (unit, 'a) page_event list" where
  "connecting as = [Api_Created (Inr ()), Extension_Loaded (Inr ()), Connect_Clicked,
     Extensions_Enabled (Inr 1), Accounts_Listed (Inr as)]"

lemmas page_simps = page_step_def after_render_def load_profile_def begin_task_def end_task_def
  set_wallet_def connect_on_def connect_wallet_def connect_listed_def connect_enabled_def
  choose_account_def api_created_def fresh_page_def fresh_wallet_def is_connected_def
  extension_loaded_def extension_unloaded_def

lemmas sending_simps = handle_set_username_def handle_update_profile_def submit_def sign_and_send_def submit_on_def injector_found_def
  submit_sent_def sent_def status_reported_def reload_due_def

lemma after_events_in:
  "after_events possible step es start = Some p \<Longrightarrow> reached start possible step p"
  using after_events_reached [OF _ reached_start] .

definition shown_after ::
    "polkadot \<Rightarrow> 'a user_profile option awaited \<Rightarrow> shown_profile option \<Rightarrow> shown_profile option" where
  "shown_after P r old = (case r of
     Inl m \<Rightarrow> old
   | Inr None \<Rightarrow> None
   | Inr (Some stored) \<Rightarrow> (case profile_fields P stored of Inl m \<Rightarrow> old | Inr f \<Rightarrow> Some f))"

lemma profile_answered_eq:
  "profile_answered P r p = p\<lparr>shown := shown_after P r (shown p), profile_loading := False\<rparr>"
  by (simp add: profile_answered_def shown_after_def split: sum.split option.split)

text \<open>
  The second account of a wallet is chosen and takes a username; the page shows its former
  profile until the query of the timer has been answered.
\<close>

definition renaming ::
    "polkadot \<Rightarrow> (jstring \<rightharpoonup> 'a user_profile) \<Rightarrow> (jstring \<rightharpoonup> 'a user_profile) \<Rightarrow> wallet_account \<Rightarrow> wallet_account \<Rightarrow>
     (unit, 'a) view_event list" where
  "renaming P old new a b =
     (let x = acc_address a; y = acc_address b;
          s = \<lparr>sub_form = Set_Form, sub_signer = y, sub_call = Set_username (create_vec P (js ''b''))\<rparr>
      in map On_Page (connecting [a, b] @
          [Profile_Answered x (Inr (old x)), Account_Chosen y, Profile_Answered y (Inr (old y)),
           Type_Username (js ''b''), Set_Username_Clicked, Injector_Found s (Inr ()), Sent s (Inr ())]) @
        Chain_Moves new #
        map On_Page [Status_Reported s (In_Block (js ''0x01'')), Reload_Due s, Profile_Answered y (Inr (new y))])"

lemma trim_b: "trim (js ''b'') = js ''b''"
  by (simp add: trim_def js_def js_space_def)

lemma renaming_run:
  assumes "acc_address a \<noteq> acc_address b" "numbers_fit new"
  shows "\<exists>v. after_events view_possible (view_step P) (renaming P old new a b) (first_view old) = Some v \<and>
    selected_account (wallet (viewed v)) = Some b \<and> wallet_api (wallet (viewed v)) \<noteq> None \<and>
    loads (viewed v) = [] \<and> chain_seen v = new"
  using assms
  by (auto simp: renaming_def connecting_def Let_def page_simps sending_simps orderly_def in_order_def honest_def
      is_answer_def first_view_def loads_def List.map_filter_def trim_b profile_answered_eq)

definition demo_before :: "jstring \<rightharpoonup> nat user_profile" where
  "demo_before = demo_profiles(js ''5Bob'' := None)"

lemma demo_fits: "numbers_fit demo_before" "numbers_fit demo_profiles"
  by (auto simp: numbers_fit_def demo_profiles_def demo_before_def ran_def split: if_splits)

lemma demo_views:
  "map_option shown_username (view_of demo_polkadot demo_profiles (acc_address (demo_account ''5Alice''))) =
     Some (Str (js ''a''))"
  "map_option shown_username (view_of demo_polkadot demo_profiles (acc_address (demo_account ''5Bob''))) =
     Some (Str (js ''b''))"
  by (simp_all add: view_of_def demo_profiles_def demo_account_def profile_fields_def demo_polkadot_def utf8_text_def
      utf8_start_def utf16_units_def js_or_def js_def)

theorem selected_profile_shown_witness:
  "\<exists>v. after_events view_possible (view_step demo_polkadot)
       (renaming demo_polkadot demo_before demo_profiles (demo_account ''5Alice'') (demo_account ''5Bob''))
       (first_view demo_before) = Some v \<and>
     map_option shown_username (shown (viewed v)) = Some (Str (js ''b''))"
proof -
  have "acc_address (demo_account ''5Alice'') \<noteq> acc_address (demo_account ''5Bob'')"
    by (simp add: demo_account_def)
  from renaming_run [OF this demo_fits(2)] obtain v
    where run: "after_events view_possible (view_step demo_polkadot)
       (renaming demo_polkadot demo_before demo_profiles (demo_account ''5Alice'') (demo_account ''5Bob''))
       (first_view demo_before) = Some v"
    and at: "selected_account (wallet (viewed v)) = Some (demo_account ''5Bob'')" "wallet_api (wallet (viewed v)) \<noteq> None"
      "loads (viewed v) = []" and chain: "chain_seen v = demo_profiles"
    by blast
  have "map_option shown_username (shown (viewed v)) = Some (Str (js ''b''))"
    using selected_profile_shown [OF demo_polkadot_ok demo_fits(1) after_events_in [OF run] at] demo_views(2) chain by simp
  with run show ?thesis by blast
qed

section \<open>The timer of a submission\<close>

text \<open>
  A username is submitted from the first account, the second is chosen while the status is
  awaited, and the timer of the submission fires afterwards; every query is answered, with
  what the chain has, before the next event.
\<close>

definition switching ::
    "polkadot \<Rightarrow> (jstring \<rightharpoonup> 'a user_profile) \<Rightarrow> wallet_account \<Rightarrow> wallet_account \<Rightarrow> (unit, 'a) page_event list" where
  "switching P st a b =
     (let x = acc_address a; y = acc_address b;
          s = \<lparr>sub_form = Set_Form, sub_signer = x, sub_call = Set_username (create_vec P (js ''ann''))\<rparr>
      in connecting [a, b] @
        [Profile_Answered x (Inr (st x)), Type_Username (js ''ann''), Set_Username_Clicked,
         Injector_Found s (Inr ()), Sent s (Inr ()), Status_Reported s (In_Block (js ''0x01'')),
         Account_Chosen y, Profile_Answered y (Inr (st y)), Reload_Due s, Profile_Answered x (Inr (st x))])"

lemma trim_ann: "trim (js ''ann'') = js ''ann''"
  by (simp add: trim_def js_def js_space_def)

lemma switching_run:
  fixes a b :: wallet_account
  assumes "acc_address a \<noteq> acc_address b"
  shows "\<exists>q old. after_events (in_order st) (page_step P) (switching P st a b) fresh_page = Some q \<and>
    selected_account (wallet q) = Some b \<and> wallet_api (wallet q) = Some () \<and> loads q = [] \<and>
    shown q = shown_after P (Inr (st (acc_address a))) old"
  using assms
  by (auto simp: switching_def connecting_def Let_def page_simps sending_simps in_order_def honest_def
      loads_def List.map_filter_def trim_ann profile_answered_eq)

text \<open>
  C22. The profile page can show one account's profile as another's: for any two accounts of a
  wallet there is a run, with all queries answered truthfully and in order, after which the
  second account is selected, no query is under way, and the profile shown is what the
  chain has for the first.
\<close>

theorem stale_profile_shown:
  fixes a b :: wallet_account
  assumes "polkadot_ok P" "\<forall>a p. st a = Some p \<longrightarrow> unat (created_at p) < 2 ^ 53"
    and "acc_address a \<noteq> acc_address b"
  shows "\<exists>p. reached fresh_page (in_order st) (page_step P) p \<and> wallet_api (wallet p) = Some () \<and>
    selected_account (wallet p) = Some b \<and> loads p = [] \<and> shown p = view_of P st (acc_address a)"
proof -
  obtain q old where q: "after_events (in_order st) (page_step P) (switching P st a b) fresh_page = Some q"
    "selected_account (wallet q) = Some b" "wallet_api (wallet q) = Some ()" "loads q = []"
    "shown q = shown_after P (Inr (st (acc_address a))) old"
    using switching_run [OF assms(3)] by blast
  have "shown_after P (Inr (st (acc_address a))) old = view_of P st (acc_address a)"
    using assms(1,2)
    by (auto simp: shown_after_def view_of_def profile_fields_def polkadot_ok_def split: option.split)
  with q after_events_in [OF q(1)] show ?thesis by auto
qed

theorem stale_profile_shown_witness:
  "\<exists>p :: unit profile_page. reached fresh_page (in_order demo_profiles) (page_step demo_polkadot) p \<and>
     selected_account (wallet p) = Some (demo_account ''5Bob'') \<and>
     map_option shown_username (shown p) = Some (Str (js ''a''))"
proof -
  have "\<exists>p. reached fresh_page (in_order demo_profiles) (page_step demo_polkadot) p \<and>
      wallet_api (wallet p) = Some () \<and> selected_account (wallet p) = Some (demo_account ''5Bob'') \<and>
      loads p = [] \<and> shown p = view_of demo_polkadot demo_profiles (acc_address (demo_account ''5Alice''))"
    by (rule stale_profile_shown [OF demo_polkadot_ok])
       (simp_all add: demo_profiles_def demo_account_def)
  then obtain p :: "unit profile_page" where p: "reached fresh_page (in_order demo_profiles) (page_step demo_polkadot) p"
    "selected_account (wallet p) = Some (demo_account ''5Bob'')"
    "shown p = view_of demo_polkadot demo_profiles (acc_address (demo_account ''5Alice''))" by blast
  from p(3) demo_views(1) have "map_option shown_username (shown p) = Some (Str (js ''a''))" by simp
  with p(1,2) show ?thesis by blast
qed

end
