(* ===== verification/Web_Connect.thy ===== *)
theory Web_Connect
  imports Web_Profile_View
begin

text \<open>
  The wallet of the profile page: one connection at a time, an account selected whenever a
  wallet is connected, and connection attempts that come to an end.
\<close>

section \<open>The wallet of the page\<close>

text \<open>
  C20. In every state of the profile page at most one \<open>connectWallet\<close> is under way, exactly when
  the page says so, and only while no wallet is connected; an account is selected exactly when
  a wallet is connected, and it is one of the wallet's.
\<close>

theorem page_wallet_consistent:
  assumes "page_reached P TYPE('a) p"
  shows "waiting connect_task (tasks p) = (if is_connecting (wallet p) then 1 else 0) \<and>
    (is_connecting (wallet p) \<longrightarrow> \<not> is_connected (wallet p)) \<and>
    (is_connected (wallet p) \<longleftrightarrow> selected_account (wallet p) \<noteq> None) \<and>
    (\<forall>a. selected_account (wallet p) = Some a \<longrightarrow> a \<in> set (accounts (wallet p)))"
  using page.reached_inv [OF assms]
  by (auto simp: page_inv_def wallet_inv_def is_connected_def split: option.splits)

definition demo_connected :: "(unit, nat) page_event list" where
  "demo_connected = connecting [demo_account ''5Alice'', demo_account ''5Bob'']"

lemma demo_connected_run:
  "\<exists>p. after_events page_possible (page_step demo_polkadot) demo_connected fresh_page = Some p \<and>
     is_connected (wallet p)"
  by (simp add: demo_connected_def connecting_def page_simps)

theorem page_wallet_consistent_witness:
  "\<exists>p. after_events page_possible (page_step demo_polkadot) demo_connected fresh_page = Some p \<and>
     is_connected (wallet p) \<and> selected_account (wallet p) \<noteq> None"
proof -
  obtain p where p: "after_events page_possible (page_step demo_polkadot) demo_connected fresh_page = Some p"
    "is_connected (wallet p)" using demo_connected_run by blast
  with page_wallet_consistent [OF after_events_in [OF p(1)]] show ?thesis by blast
qed

section \<open>A wallet connection comes to an end\<close>

text \<open>The answers \<open>connectWallet\<close> waits for, and how many it still needs at most.\<close>

fun answers_wallet :: "('api, 'a) page_event \<Rightarrow> bool" where
  "answers_wallet (Extension_Imported r) = True"
| "answers_wallet (Extensions_Enabled r) = True"
| "answers_wallet (Accounts_Listed r) = True"
| "answers_wallet ev = False"

fun answers_left :: "task \<Rightarrow> nat" where
  "answers_left (Connecting Importing) = 3"
| "answers_left (Connecting Enabling) = 2"
| "answers_left (Connecting Listing) = 1"
| "answers_left t = 0"

definition connect_left :: "'api profile_page \<Rightarrow> nat" where
  "connect_left p = sum_list (map answers_left (tasks p))"

lemma answers_left_connect: "0 < answers_left t \<longleftrightarrow> connect_task t"
  by (cases t rule: answers_left.cases) simp_all

lemma connect_left_tasks [simp]:
  "connect_left (begin_task t p) = connect_left p + answers_left t"
  "connect_left (set_wallet w p) = connect_left p"
  "connect_left (p\<lparr>extension := e\<rparr>) = connect_left p"
  by (simp_all add: connect_left_def)

lemma connect_left_end: "t \<in> set (tasks p) \<Longrightarrow> connect_left (end_task t p) + answers_left t = connect_left p"
  using sum_list_map_remove1 [of t "tasks p" answers_left] by (simp add: connect_left_def)

lemma connect_left_filter: "connect_left p = sum_list (map answers_left (filter connect_task (tasks p)))"
proof -
  have "sum_list (map answers_left ts) = sum_list (map answers_left (filter connect_task ts))" for ts
    by (induction ts) (use answers_left_connect in auto)
  then show ?thesis by (simp add: connect_left_def)
qed

lemma connect_left_same: "same_wallet p q \<Longrightarrow> connect_left q = connect_left p"
  by (simp add: connect_left_filter same_wallet_def)

lemma connect_left_after_render [simp]: "connect_left (after_render r q) = connect_left q"
  by (simp add: after_render_def load_profile_def connect_left_def split: option.split)

lemma connect_left_other [simp]:
  "\<not> connect_task t \<Longrightarrow> connect_left (end_task t p) = connect_left p"
  "connect_left (p\<lparr>tx_status := x\<rparr>) = connect_left p"
  "connect_left (p\<lparr>alerts := y\<rparr>) = connect_left p"
  "connect_left (p\<lparr>shown := z\<rparr>) = connect_left p"
  "connect_left (p\<lparr>profile_loading := l\<rparr>) = connect_left p"
  "connect_left (p\<lparr>form_username := u\<rparr>) = connect_left p"
  "connect_left (p\<lparr>form_bio := b\<rparr>) = connect_left p"
  "connect_left (p\<lparr>form_avatar := v\<rparr>) = connect_left p"
  by (simp_all add: connect_left_filter)

lemma connect_left_handlers [simp]:
  "connect_left (submit_on s x p) = connect_left p"
  "connect_left (submit_sent s y p) = connect_left p"
  "connect_left (status_reported s r p) = connect_left p"
  "connect_left (reload_due s p) = connect_left p"
  "connect_left (profile_answered P a p) = connect_left p"
  "connect_left (handle_set_username P p) = connect_left p"
  "connect_left (handle_update_profile P p) = connect_left p"
  by (rule connect_left_same; intro same_wallet_submit same_wallet_forms same_wallet_refl)+

lemma connect_left_on [simp]:
  "connect_left (connect_on c p) = connect_left p + (case c of None \<Rightarrow> 0 | Some d \<Rightarrow> answers_left (Connecting d))"
  by (simp add: connect_on_def split: option.split)

lemma connect_left_react:
  assumes "page_possible p ev"
  shows "connect_left (page_react P p ev) + (if answers_wallet ev then 1 else 0) \<le>
    connect_left p + (if ev = Connect_Clicked then 3 else 0)"
proof (cases "answers_wallet ev")
  case True
  then show ?thesis
    using assms connect_left_end [of "Connecting _" p]
    by (cases ev) (fastforce simp: connect_imported_def connect_enabled_def split: sum.split)+
next
  case False
  then show ?thesis
    by (cases ev) (simp_all add: connect_wallet_def split: prod.split)
qed

text \<open>
  C21. Connecting a wallet comes to an end.  Each press of the button is followed by at most three
  answers of the extension; while the page says that it is connecting, one is still awaited
  and, whatever it is, brings the end nearer; when none is, the page does not say so any
  more, whether the connection was made or failed.
\<close>

theorem wallet_connection_ends:
  assumes "page_reached P TYPE('a) p"
    and "after_events page_possible (page_step P :: 'api profile_page \<Rightarrow> ('api, 'a) page_event \<Rightarrow> _) es p = Some q"
  shows "length (filter answers_wallet es) + connect_left q \<le>
      connect_left p + 3 * length (filter (\<lambda>ev. ev = Connect_Clicked) es) \<and>
    (is_connecting (wallet q) \<longleftrightarrow> 0 < connect_left q) \<and>
    (is_connecting (wallet q) \<longrightarrow> (\<exists>ev :: ('api, 'a) page_event. answers_wallet ev \<and> page_possible q ev))"
proof -
  have "length (filter answers_wallet es) + connect_left q \<le>
      connect_left p + 3 * length (filter (\<lambda>ev. ev = Connect_Clicked) es)"
    using assms(2)
  proof (induction es arbitrary: p)
    case (Cons ev es)
    then have "page_possible p ev" "length (filter answers_wallet es) + connect_left q \<le>
        connect_left (page_step P p ev) + 3 * length (filter (\<lambda>ev. ev = Connect_Clicked) es)"
      by (auto split: if_splits)
    with connect_left_react [of p ev P] show ?case by (auto simp: page_step_def split: if_splits)
  qed simp
  moreover have "page_inv P q"
    using page.stays_inv [OF page.reached_inv [OF assms(1)] assms(2)] .
  then have w: "waiting connect_task (tasks q) = (if is_connecting (wallet q) then 1 else 0)"
    by (simp add: page_inv_def wallet_inv_def)
  then have "is_connecting (wallet q) \<longleftrightarrow> (\<exists>t\<in>set (tasks q). connect_task t)"
    using waiting_0 [of connect_task "tasks q"] by (cases "is_connecting (wallet q)") auto
  moreover have "0 < connect_left q \<longleftrightarrow> (\<exists>t\<in>set (tasks q). connect_task t)"
    by (simp add: connect_left_def answers_left_connect [symmetric] sum_list_eq_0_iff flip: neq0_conv)
  moreover have "\<exists>ev :: ('api, 'a) page_event. answers_wallet ev \<and> page_possible q ev"
    if t: "t \<in> set (tasks q)" "connect_task t" for t
  proof -
    obtain c where "t = Connecting c" using t(2) by (cases t) simp_all
    with t(1) show ?thesis
      by (cases c) (auto intro: exI [of _ "Extension_Imported (Inl [])"] exI [of _ "Extensions_Enabled (Inl [])"]
          exI [of _ "Accounts_Listed (Inl [])"])
  qed
  ultimately show ?thesis by blast
qed

theorem wallet_connection_ends_witness:
  "\<exists>q. after_events page_possible (page_step demo_polkadot) demo_connected fresh_page = Some q \<and>
     \<not> is_connecting (wallet q) \<and> connect_left q = 0"
proof -
  obtain q where q: "after_events page_possible (page_step demo_polkadot) demo_connected fresh_page = Some q"
    "is_connected (wallet q)" using demo_connected_run by blast
  from page_wallet_consistent [OF after_events_in [OF q(1)]] q(2) have "\<not> is_connecting (wallet q)" by blast
  with wallet_connection_ends [OF reached_start q(1)] q(1) show ?thesis by blast
qed

end
