(* ===== verification/Web_Chain.thy ===== *)
theory Web_Chain
  imports Web_Connect Index_Properties
begin

text \<open>
  The profile page, the chain and the API together: what a submission of the page does when
  the user-profile pallet dispatches it, and what the index and the page show of it.
\<close>

section \<open>What the update form does to a profile\<close>

text \<open>What a click on the button submits.\<close>

lemma update_submission:
  assumes "page_possible p (Update_Profile_Clicked :: ('api, 'b) page_event)" "wallet_api (wallet p) \<noteq> None"
    and "map_option acc_address (selected_account (wallet p)) = Some x"
  shows "\<lparr>sub_form = Update_Form, sub_signer = x,
      sub_call = Update_profile (create_option P (field_param (form_username p)))
        (create_option_option P (field_param (form_avatar p))) (create_option_option P (field_param (form_bio p)))\<rparr>
    \<in> submissions (page_step P p (Update_Profile_Clicked :: ('api, 'b) page_event))" (is "?s \<in> _")
proof -
  obtain a c where w: "selected_account (wallet p) = Some a" "acc_address a = x" "wallet_api (wallet p) = Some c"
    using assms(2,3) by auto
  have "page_react P p (Update_Profile_Clicked :: ('api, 'b) page_event) = submit ?s p"
    using w by (simp add: handle_update_profile_def)
  moreover have "wallet (submit ?s p) = wallet p \<and> ?s \<in> submissions (submit ?s p)"
    using w by (simp add: submit_def sign_and_send_def Let_def)
  ultimately show ?thesis
    by (simp add: page_step_def same_selection_after_render)
qed

text \<open>What was typed into a field, as the chain is to have it; nothing when it is blank.\<close>

definition typed_bytes :: "jstring \<Rightarrow> bytes option" where
  "typed_bytes s = (if trim s = [] then None else Some (utf8_encode s))"

lemma typed_params:
  assumes "polkadot_ok P" "\<not> hex_like s"
  shows "create_option P (field_param s) = typed_bytes s"
    "create_option_option P (field_param s) = map_option Some (typed_bytes s)"
  using assms by (simp_all add: polkadot_ok_def field_param_def typed_bytes_def)

lemma update_profile_effect:
  assumes "bounded_vec_ok F" "ensure_signed F origin = Inr who"
  shows "fst (update_profile C F origin u av bi s) = Inr () \<longleftrightarrow> update_verdict C (store s) who u av bi = None"
    "update_profile C F origin u av bi s = (Inr (), t) \<Longrightarrow> store t = updated_storage (now F) who u av bi (store s)"
  using update_profile_wp [OF assms(1), of C origin u av bi s] assms(2)
  by (auto simp: wp_def split: prod.splits sum.splits)

text \<open>
  C23. The update form changes the fields that were filled in, and no others.  A click submits a
  call that the selected account signs; for an account that has a profile it succeeds
  exactly when what was typed is within the chain's bounds and the name is not another
  account's, and then each field that was typed has the UTF-8 of its text, and each field that
  was left blank is as it was, so the form cannot clear an avatar or a bio, although the
  call can.  (Text that begins with \<open>0x\<close>, which \<open>polkadot.js\<close> reads as hexadecimal, is left out.)
\<close>

theorem update_form_changes_typed_fields:
  assumes "polkadot_ok P" "bounded_vec_ok F" "ensure_signed F origin = Inr who"
    and "page_possible p (Update_Profile_Clicked :: ('api, 'b) page_event)" "wallet_api (wallet p) \<noteq> None"
    and "map_option acc_address (selected_account (wallet p)) = Some x"
    and "form_username p = u" "form_avatar p = v" "form_bio p = b"
    and "\<not> hex_like u" "\<not> hex_like v" "\<not> hex_like b"
    and "profiles (store st) who = Some old"
  shows "\<exists>s\<in>submissions (page_step P p (Update_Profile_Clicked :: ('api, 'b) page_event)). sub_signer s = x \<and>
    (case profile_dispatch C F origin (sub_call s) st of (r, t) \<Rightarrow>
      (r = Inr () \<longleftrightarrow> update_verdict C (store st) who (typed_bytes u)
         (map_option Some (typed_bytes v)) (map_option Some (typed_bytes b)) = None) \<and>
      (r = Inr () \<longrightarrow> (\<exists>new. profiles (store t) who = Some new \<and>
         username new = (if trim u = [] then username old else utf8_encode u) \<and>
         avatar new = (if trim v = [] then avatar old else Some (utf8_encode v)) \<and>
         bio new = (if trim b = [] then bio old else Some (utf8_encode b)))))"
proof -
  let ?call = "Update_profile (typed_bytes u) (map_option Some (typed_bytes v)) (map_option Some (typed_bytes b))"
  let ?s = "\<lparr>sub_form = Update_Form, sub_signer = x, sub_call = ?call\<rparr>"
  have s: "?s \<in> submissions (page_step P p (Update_Profile_Clicked :: ('api, 'b) page_event))"
    using update_submission [OF assms(4-6), of P] typed_params [OF assms(1)] assms(7-12) by simp
  obtain r t where run: "update_profile C F origin (typed_bytes u) (map_option Some (typed_bytes v))
      (map_option Some (typed_bytes b)) st = (r, t)" by fastforce
  have "\<exists>new. profiles (store t) who = Some new \<and>
         username new = (if trim u = [] then username old else utf8_encode u) \<and>
         avatar new = (if trim v = [] then avatar old else Some (utf8_encode v)) \<and>
         bio new = (if trim b = [] then bio old else Some (utf8_encode b))" if "r = Inr ()"
    using update_profile_effect(2) [OF assms(2,3) run [unfolded that]] assms(13)
    by (simp add: updated_storage_def Let_def edit_profile_def base_profile_def typed_bytes_def)
  then show ?thesis
    using s run update_profile_effect(1) [OF assms(2,3), of C "typed_bytes u" _ _ st]
    by (intro bexI [of _ ?s]) (auto simp: prod_eq_iff)
qed

definition demo_edit :: "(unit, nat) page_event list" where
  "demo_edit = demo_connected @ [Type_Bio (js ''hi'')]"

lemma demo_texts:
  "trim [] = []" "\<not> hex_like []" "trim (js ''hi'') = js ''hi''" "\<not> hex_like (js ''hi'')"
  "utf8_encode (js ''hi'') = [104, 105]"
  by (simp_all add: trim_def js_def js_space_def hex_like_def utf8_encode_def utf8_point_def usv_unit_def
      high_surrogate_def low_surrogate_def)

lemma demo_edit_run:
  "\<exists>p. after_events page_possible (page_step demo_polkadot) demo_edit fresh_page = Some p \<and>
     page_possible p (Update_Profile_Clicked :: (unit, nat) page_event) \<and> wallet_api (wallet p) \<noteq> None \<and>
     map_option acc_address (selected_account (wallet p)) = Some (js ''5Alice'') \<and>
     form_username p = [] \<and> form_avatar p = [] \<and> form_bio p = js ''hi''"
  by (simp add: demo_edit_def demo_connected_def connecting_def page_simps demo_account_def)

definition demo_avatar :: "nat profile_storage" where
  "demo_avatar = demo [signed_by 1 7 (Update_profile (Some [97]) (Some (Some [98])) None)]"

text \<open>A bio is typed by an account that has a name and an avatar.\<close>

theorem update_form_changes_typed_fields_witness:
  "\<exists>p. after_events page_possible (page_step demo_polkadot) demo_edit fresh_page = Some p \<and>
     (\<exists>s\<in>submissions (page_step demo_polkadot p (Update_Profile_Clicked :: (unit, nat) page_event)).
       \<exists>new. profiles (store (snd (profile_dispatch mock_config (plain_frame 3) (Some 7) (sub_call s)
         (fresh_ext demo_avatar)))) 7 = Some new \<and>
       username new = [97] \<and> avatar new = Some [98] \<and> bio new = Some [104, 105])"
proof -
  obtain p where p: "after_events page_possible (page_step demo_polkadot) demo_edit fresh_page = Some p"
    "page_possible p (Update_Profile_Clicked :: (unit, nat) page_event)" "wallet_api (wallet p) \<noteq> None"
    "map_option acc_address (selected_account (wallet p)) = Some (js ''5Alice'')"
    "form_username p = []" "form_avatar p = []" "form_bio p = js ''hi''"
    using demo_edit_run by blast
  obtain old where old: "profiles demo_avatar 7 = Some old" "username old = [97]" "avatar old = Some [98]"
    by (simp add: demo_avatar_def demo_simps)
  have verdict: "update_verdict mock_config demo_avatar 7 None None (Some (Some [104, 105])) = None"
    by (simp add: update_verdict_def too_long_def mock_config_def)
  have "ensure_signed (plain_frame 3) (Some 7) = Inr (7 :: nat)" by (simp add: plain_frame_def)
  from update_form_changes_typed_fields [where C = mock_config and st = "fresh_ext demo_avatar" and old = old,
      OF demo_polkadot_ok bounded_vec_ok_plain this p(2-7)] old verdict p(1)
  show ?thesis by (auto simp: demo_texts typed_bytes_def prod.case_eq_if)
qed

section \<open>A username from the form to the chain, the index and back to the page\<close>

text \<open>What a click on the button submits.\<close>

lemma username_submission:
  assumes "page_possible p (Set_Username_Clicked :: ('api, 'b) page_event)" "wallet_api (wallet p) \<noteq> None"
    and "map_option acc_address (selected_account (wallet p)) = Some x"
  shows "\<lparr>sub_form = Set_Form, sub_signer = x, sub_call = Set_username (create_vec P (form_username p))\<rparr>
    \<in> submissions (page_step P p (Set_Username_Clicked :: ('api, 'b) page_event))"
proof -
  obtain a c where w: "selected_account (wallet p) = Some a" "acc_address a = x" "wallet_api (wallet p) = Some c"
    using assms(2,3) by auto
  let ?s = "\<lparr>sub_form = Set_Form, sub_signer = x, sub_call = Set_username (create_vec P (form_username p))\<rparr>"
  have "page_react P p (Set_Username_Clicked :: ('api, 'b) page_event) = submit ?s p"
    using assms(1) w by (simp add: handle_set_username_def)
  moreover have "wallet (submit ?s p) = wallet p \<and> ?s \<in> submissions (submit ?s p)"
    using w by (simp add: submit_def sign_and_send_def Let_def)
  ultimately show ?thesis
    by (simp add: page_step_def same_selection_after_render)
qed

text \<open>
  C5. A username typed into the page, in any script, arrives everywhere as it was typed, provided
  it does not begin with \<open>0x\<close> (\<open>polkadot.js\<close> reads such text as hexadecimal and other bytes are
  submitted) and is well-formed text without NUL.  A click submits a call, signed by the
  selected account, that the pallet, with a bound of at most 32 bytes, accepts whenever the
  UTF-8 of the name is within the bound and not another account's; the event it deposits
  makes the API's table, when it is up and in step with the chain, give the account this
  name; and the page shows it when it is printable ASCII and the number of the block of the
  profile is below \<open>2 ^ 53\<close>.
\<close>

theorem typed_username_arrives:
  assumes "polkadot_ok P" "bounded_vec_ok F" "ensure_signed F origin = Inr who"
    and "event_json_ok ss58 to_json" "addresses_ok ss58" "table_up R rows valid"
    and "page_possible p (Set_Username_Clicked :: ('api, 'b) page_event)" "wallet_api (wallet p) \<noteq> None"
    and "map_option acc_address (selected_account (wallet p)) = Some (ss58 who)"
    and "form_username p = typed" "usv_text typed" "\<not> hex_like typed"
    and "profile_inv C (store s0)" "unat (max_username_length C) \<le> 32"
    and "username_verdict C (store s0) who (utf8_encode typed) = None"
    and "valid db" "mirrors ss58 (store s0) (rows db)" "0 \<le> n" "n < 2 ^ 63"
  shows "\<exists>s t. s \<in> submissions (page_step P p (Set_Username_Clicked :: ('api, 'b) page_event)) \<and>
    sub_signer s = ss58 who \<and> profile_dispatch C F origin (sub_call s) s0 = (Inr (), t) \<and>
    deposited t = deposited s0 @ [UsernameSet who (utf8_encode typed)] \<and>
    (\<exists>i r. rows (index_event R num to_json (n, h, UsernameSet who (utf8_encode typed)) db) i = Some r \<and>
       r Col_accountId = Str (ss58 who) \<and> r Col_username = Str typed) \<and>
    (\<exists>pr. profiles (store t) who = Some pr \<and> username pr = utf8_encode typed \<and>
       (printable typed \<longrightarrow> unat (created_at pr) < 2 ^ 53 \<longrightarrow>
         map_sum id shown_username (profile_fields P pr) = Inr (Str typed)))"
proof -
  let ?s = "\<lparr>sub_form = Set_Form, sub_signer = ss58 who, sub_call = Set_username (create_vec P typed)\<rparr>"
  let ?name = "utf8_encode typed"
  have ne: "typed \<noteq> []" using assms(7,10) by (auto simp: trim_def)
  have name: "username_bytes ?name" using text_bytes_encode [OF assms(11)] ne by (simp add: username_bytes_def)
  have call: "sub_call ?s = Set_username ?name" using assms(1,12) by (simp add: polkadot_ok_def)
  obtain t where t: "profile_dispatch C F origin (sub_call ?s) s0 = (Inr (), t)"
    "store t = named_storage (now F) who ?name (store s0)"
    "deposited t = deposited s0 @ [UsernameSet who ?name]"
    using assms(3,15) unfolding call by (simp add: set_username_eq [OF assms(2)])
  obtain pr where pr: "profiles (store t) who = Some pr" "username pr = ?name"
    by (simp add: t(2) named_storage_move)
  have "mirrors ss58 (store t) (rows (index_event R num to_json (n, h, UsernameSet who ?name) db))"
    unfolding t(2)
    using index_username_set [OF assms(6,4,5,13,14,16,17) name assms(15,18,19)] by blast
  from mirrors_profile [OF this pr(1)] obtain i r
    where r: "rows (index_event R num to_json (n, h, UsernameSet who ?name) db) i = Some r"
      "r Col_accountId = Str (ss58 who)" "r Col_username = shown_name (username pr)" by blast
  have row: "r Col_username = Str typed"
    using r(3) pr(2) ne by (simp add: shown_name_def shown_encoded [OF assms(11)])
  have "map_sum id shown_username (profile_fields P pr) = Inr (Str typed)"
    if "printable typed" "unat (created_at pr) < 2 ^ 53"
    using that assms(1,12) pr(2) ne by (simp add: profile_fields_def polkadot_ok_def js_or_def)
  with t(1,3) pr r(1,2) row username_submission [OF assms(7,8,9), of P, unfolded assms(10)]
  show ?thesis by (intro exI [of _ ?s] exI [of _ t]) auto
qed

text \<open>A Latin and a Greek letter and a character of two code units.\<close>

definition demo_name :: jstring where
  "demo_name = [97, 955, 55357, 57010]"

lemma demo_name_text:
  "length demo_name = 4" "trim demo_name \<noteq> []" "usv_text demo_name" "\<not> hex_like demo_name"
  "utf8_encode demo_name = [97, 206, 187, 240, 159, 154, 178]"
  by (simp_all add: demo_name_def trim_def js_space_def usv_text_def usv_unit_def high_surrogate_def
      low_surrogate_def utf8_encode_def utf8_point_def pair_point_def js_def hex_like_def)

definition demo_wallet_account :: wallet_account where
  "demo_wallet_account = \<lparr>acc_address = demo_address 7, acc_name = None, acc_source = []\<rparr>"

definition demo_typing :: "jstring \<Rightarrow> (unit, u8) page_event list" where
  "demo_typing name = connecting [demo_wallet_account] @ [Type_Username name]"

lemma demo_typing_run:
  assumes "length name \<le> 32" "trim name \<noteq> []"
  shows "\<exists>p. after_events page_possible (page_step demo_polkadot) (demo_typing name) fresh_page = Some p \<and>
    page_possible p (Set_Username_Clicked :: (unit, u8) page_event) \<and> wallet_api (wallet p) \<noteq> None \<and>
    map_option acc_address (selected_account (wallet p)) = Some (demo_address 7) \<and> form_username p = name"
  using assms by (simp add: demo_typing_def connecting_def page_simps demo_wallet_account_def)

lemma demo_genesis_mirrored: "mirrors demo_address (profile_genesis :: u8 profile_storage) (fst empty_table)"
  by (simp add: mirrors_def profile_genesis_def empty_table_def)

theorem typed_username_arrives_witness:
  "\<exists>p s t. after_events page_possible (page_step demo_polkadot) (demo_typing demo_name) fresh_page = Some p \<and>
     s \<in> submissions (page_step demo_polkadot p (Set_Username_Clicked :: (unit, u8) page_event)) \<and>
     profile_dispatch mock_config (plain_frame 1) (Some (7 :: u8)) (sub_call s) (fresh_ext profile_genesis) =
       (Inr (), t) \<and>
     (\<exists>i r. fst (index_event memory_repository (\<lambda>s. 0) demo_json
         (1, js ''0x00'', UsernameSet 7 [97, 206, 187, 240, 159, 154, 178]) empty_table) i = Some r \<and>
       r Col_username = Str [97, 955, 55357, 57010])"
proof -
  obtain p where p: "after_events page_possible (page_step demo_polkadot) (demo_typing demo_name) fresh_page = Some p"
    "page_possible p (Set_Username_Clicked :: (unit, u8) page_event)" "wallet_api (wallet p) \<noteq> None"
    "map_option acc_address (selected_account (wallet p)) = Some (demo_address 7)" "form_username p = demo_name"
    using demo_typing_run [of demo_name] demo_name_text(1,2) by auto
  have inv: "profile_inv mock_config (store (fresh_ext profile_genesis))"
    by (simp add: profile_genesis_inv)
  have "username_verdict mock_config (store (fresh_ext profile_genesis)) 7 (utf8_encode demo_name) = None"
    by (simp add: username_verdict_def too_long_def taken_by_other_def demo_name_text(5) mock_config_def profile_genesis_def)
  from typed_username_arrives [where origin = "Some 7" and F = "plain_frame 1" and n = 1 and num = "\<lambda>s. 0" and h = "js ''0x00''", OF demo_polkadot_ok bounded_vec_ok_plain _ demo_json_ok demo_addresses_ok
      memory.table_up_axioms p(2-5) demo_name_text(3,4) inv _ this empty_table_valid] p(1)
  show ?thesis
    by (simp add: demo_genesis_mirrored mock_config_def plain_frame_def demo_name_text(5))
       (auto simp: demo_name_def)
qed

section \<open>The bound of the form and the bound of the chain\<close>

text \<open>
  C24. The form bounds a username by 32 UTF-16 code units, the chain by bytes: what the page
  submits is refused as too long exactly when the UTF-8 of the name exceeds the chain's bound
  (for text that does not begin with \<open>0x\<close>, which is not submitted as UTF-8).
  That never happens to names of a third of the bound, and it can happen to names the form
  lets through.
\<close>

theorem typed_username_too_long:
  assumes "polkadot_ok P" "bounded_vec_ok F" "ensure_signed F origin = Inr who"
    and "page_possible p (Set_Username_Clicked :: ('api, 'b) page_event)" "wallet_api (wallet p) \<noteq> None"
    and "map_option acc_address (selected_account (wallet p)) = Some x" "\<not> hex_like (form_username p)"
  shows "\<exists>s\<in>submissions (page_step P p (Set_Username_Clicked :: ('api, 'b) page_event)).
    (fst (profile_dispatch C F origin (sub_call s) init) = Inl (Module UsernameTooLong) \<longleftrightarrow>
       unat (max_username_length C) < length (utf8_encode (form_username p))) \<and>
    (3 * length (form_username p) \<le> unat (max_username_length C) \<longrightarrow>
       fst (profile_dispatch C F origin (sub_call s) init) \<noteq> Inl (Module UsernameTooLong))"
proof -
  let ?s = "\<lparr>sub_form = Set_Form, sub_signer = x, sub_call = Set_username (create_vec P (form_username p))\<rparr>"
  have call: "sub_call ?s = Set_username (utf8_encode (form_username p))"
    using assms(1,7) by (simp add: polkadot_ok_def)
  have "fst (profile_dispatch C F origin (sub_call ?s) init) = Inl (Module UsernameTooLong) \<longleftrightarrow>
      unat (max_username_length C) < length (utf8_encode (form_username p))"
    unfolding call using assms(3)
    by (simp add: set_username_eq [OF assms(2)] username_verdict_def too_long_def)
  with utf8_encode_length [of "form_username p"] username_submission [OF assms(4-6), of P]
  show ?thesis by (intro bexI [of _ ?s]) auto
qed

text \<open>Eleven times the same character of three bytes.\<close>

definition demo_long_name :: jstring where
  "demo_long_name =
     [36710, 36710, 36710, 36710, 36710, 36710, 36710, 36710, 36710, 36710, 36710]"

lemma demo_long_name_text:
  "length demo_long_name = 11" "trim demo_long_name \<noteq> []" "\<not> hex_like demo_long_name"
  "length (utf8_encode demo_long_name) = 33"
  by (simp_all add: demo_long_name_def trim_def js_space_def js_def hex_like_def utf8_encode_def utf8_point_def
      usv_unit_def high_surrogate_def low_surrogate_def)

theorem typed_username_too_long_witness:
  "\<exists>p. after_events page_possible (page_step demo_polkadot) (demo_typing demo_long_name) fresh_page = Some p \<and>
     (\<exists>s\<in>submissions (page_step demo_polkadot p (Set_Username_Clicked :: (unit, u8) page_event)).
       fst (profile_dispatch mock_config (plain_frame 1) (Some (7 :: u8)) (sub_call s) (fresh_ext profile_genesis)) =
         Inl (Module UsernameTooLong))"
proof -
  obtain p where p: "after_events page_possible (page_step demo_polkadot) (demo_typing demo_long_name) fresh_page = Some p"
    "page_possible p (Set_Username_Clicked :: (unit, u8) page_event)" "wallet_api (wallet p) \<noteq> None"
    "map_option acc_address (selected_account (wallet p)) = Some (demo_address 7)" "form_username p = demo_long_name"
    using demo_typing_run [of demo_long_name] demo_long_name_text(1,2) by auto
  have "ensure_signed (plain_frame 1) (Some 7) = Inr 7" by (simp add: plain_frame_def)
  from typed_username_too_long [where C = mock_config and init = "fresh_ext profile_genesis",
      OF demo_polkadot_ok bounded_vec_ok_plain this p(2-4)] p(1,5)
  show ?thesis by (auto simp: demo_long_name_text mock_config_def)
qed

end
