(* ===== verification/Web_Users.thy ===== *)
theory Web_Users
  imports Web_Events Index_Names
begin

text \<open>
  The users page of the web application (\<open>apps/web/app/users/page.tsx\<close>) as an event system,
  and with the API behind it: what its form sends, what the API's validation and service make
  of it, and what the page lists afterwards.
\<close>

section \<open>State\<close>

text \<open>The module insists on the address of the API.\<close>

definition users_api_url :: "jstring option \<Rightarrow> jstring js_outcome" where
  "users_api_url variable = (case variable of
     Some s \<Rightarrow> if s = [] then Inl (Thrown ''NEXT_PUBLIC_API_URL environment variable is required'') else Inr s
   | None \<Rightarrow> Inl (Thrown ''NEXT_PUBLIC_API_URL environment variable is required''))"

record user_form =
  in_account :: jstring
  in_username :: jstring
  in_avatar :: jstring
  in_bio :: jstring

definition empty_form :: user_form where
  "empty_form = \<lparr>in_account = [], in_username = [], in_avatar = [], in_bio = []\<rparr>"

text \<open>
  What is under way: the fetch of the first render, \<open>handleSubmit\<close> at its POST with the body
  it sent, and \<open>handleSubmit\<close> at the fetch after it.
\<close>

datatype users_task = First_Fetch | Posting dto | Fetch_After

record users_page =
  listed_users :: "entity list"
  users_loading :: bool
  users_error :: js_value
  user_fields :: user_form
  submitting :: bool
  users_tasks :: "users_task list"

text \<open>The state after the first render and its effect, which has begun to fetch.\<close>

definition fresh_users_page :: users_page where
  "fresh_users_page = \<lparr>listed_users = [], users_loading = True, users_error = Null,
     user_fields = empty_form, submitting = False, users_tasks = [First_Fetch]\<rparr>"

section \<open>Handlers\<close>

text \<open>
  What \<open>axios\<close> resolves with, or the value of \<open>err.response?.data?.message\<close> when it rejects.
\<close>

type_synonym 'r http_result = "js_value + 'r"

definition fetch_begins :: "users_task \<Rightarrow> users_page \<Rightarrow> users_page" where
  "fetch_begins t p = p\<lparr>users_loading := True, users_tasks := users_tasks p @ [t]\<rparr>"

definition fetch_ends :: "entity list http_result \<Rightarrow> users_page \<Rightarrow> users_page" where
  "fetch_ends r p = (case r of
     Inr data \<Rightarrow> p\<lparr>listed_users := data, users_error := Null\<rparr>
   | Inl m \<Rightarrow> p\<lparr>users_error := js_or m (Str (js ''Failed to fetch users''))\<rparr>)\<lparr>users_loading := False\<rparr>"

text \<open>\<open>{ accountId, ...(username && { username }), ... }\<close>: spreading an empty string adds nothing.\<close>

definition when_given :: "jstring \<Rightarrow> column \<Rightarrow> dto" where
  "when_given s c = (if s = [] then Map.empty else [c \<mapsto> Str s])"

definition user_payload :: "user_form \<Rightarrow> dto" where
  "user_payload f = [Col_accountId \<mapsto> Str (in_account f)] ++ when_given (in_username f) Col_username ++
     when_given (in_avatar f) Col_avatar ++ when_given (in_bio f) Col_bio"

definition submit_user :: "users_page \<Rightarrow> users_page" where
  "submit_user p = p\<lparr>submitting := True, users_error := Null,
     users_tasks := users_tasks p @ [Posting (user_payload (user_fields p))]\<rparr>"

definition user_posted :: "unit http_result \<Rightarrow> users_page \<Rightarrow> users_page" where
  "user_posted r p = (case r of
     Inr _ \<Rightarrow> fetch_begins Fetch_After (p\<lparr>user_fields := empty_form\<rparr>)
   | Inl m \<Rightarrow> p\<lparr>users_error := js_or m (Str (js ''Failed to create user'')), submitting := False\<rparr>)"

definition ended :: "users_task \<Rightarrow> users_page \<Rightarrow> users_page" where
  "ended t p = p\<lparr>users_tasks := remove1 t (users_tasks p)\<rparr>"

section \<open>Events\<close>

datatype user_field = Account_Field | Username_Field | Avatar_Field | Bio_Field

fun set_field :: "user_field \<Rightarrow> jstring \<Rightarrow> user_form \<Rightarrow> user_form" where
  "set_field Account_Field s f = f\<lparr>in_account := s\<rparr>"
| "set_field Username_Field s f = f\<lparr>in_username := s\<rparr>"
| "set_field Avatar_Field s f = f\<lparr>in_avatar := s\<rparr>"
| "set_field Bio_Field s f = f\<lparr>in_bio := s\<rparr>"

text \<open>The \<open>maxLength\<close> of an input.\<close>

definition max_length_of :: "user_field \<Rightarrow> nat option" where
  "max_length_of x = (case x of Username_Field \<Rightarrow> Some 32 | Bio_Field \<Rightarrow> Some 256 | _ \<Rightarrow> None)"

datatype users_event =
    Type_Field user_field jstring
  | Submitted
  | First_Fetched "entity list http_result"
  | User_Posted dto "unit http_result"
  | Fetched_After "entity list http_result"

text \<open>The inputs' bounds, the \<open>required\<close> account, and the button that is disabled while submitting.\<close>

fun users_possible :: "users_page \<Rightarrow> users_event \<Rightarrow> bool" where
  "users_possible p (Type_Field x s) = (\<forall>n\<in>set_option (max_length_of x). length s \<le> n)"
| "users_possible p Submitted = (\<not> submitting p \<and> in_account (user_fields p) \<noteq> [])"
| "users_possible p (First_Fetched r) = (First_Fetch \<in> set (users_tasks p))"
| "users_possible p (User_Posted d r) = (Posting d \<in> set (users_tasks p))"
| "users_possible p (Fetched_After r) = (Fetch_After \<in> set (users_tasks p))"

fun users_step :: "users_page \<Rightarrow> users_event \<Rightarrow> users_page" where
  "users_step p (Type_Field x s) = p\<lparr>user_fields := set_field x s (user_fields p)\<rparr>"
| "users_step p Submitted = submit_user p"
| "users_step p (First_Fetched r) = fetch_ends r (ended First_Fetch p)"
| "users_step p (User_Posted d r) = user_posted r (ended (Posting d) p)"
| "users_step p (Fetched_After r) = (fetch_ends r (ended Fetch_After p))\<lparr>submitting := False\<rparr>"

abbreviation users_reached :: "users_page \<Rightarrow> bool" where
  "users_reached \<equiv> reached fresh_users_page users_possible users_step"

section \<open>One submission at a time, and a valid one\<close>

fun submit_task :: "users_task \<Rightarrow> bool" where
  "submit_task First_Fetch = False"
| "submit_task _ = True"

definition body_ok :: "users_task \<Rightarrow> bool" where
  "body_ok t = (case t of Posting d \<Rightarrow> strict_pipe create_user_dto d | _ \<Rightarrow> True)"

definition users_inv :: "users_page \<Rightarrow> bool" where
  "users_inv p \<longleftrightarrow> waiting submit_task (users_tasks p) = (if submitting p then 1 else 0) \<and>
     length (in_username (user_fields p)) \<le> 32 \<and> length (in_bio (user_fields p)) \<le> 256 \<and>
     (\<forall>t\<in>set (users_tasks p). body_ok t)"

lemma payload_simps [simp]:
  "user_payload f Col_accountId = Some (Str (in_account f))"
  "user_payload f Col_username = (if in_username f = [] then None else Some (Str (in_username f)))"
  "user_payload f Col_avatar = (if in_avatar f = [] then None else Some (Str (in_avatar f)))"
  "user_payload f Col_bio = (if in_bio f = [] then None else Some (Str (in_bio f)))"
  "c \<notin> {Col_accountId, Col_username, Col_avatar, Col_bio} \<Longrightarrow> user_payload f c = None"
  by (auto simp: user_payload_def when_given_def map_add_def)

lemma payload_valid:
  assumes "in_account f \<noteq> []" "length (in_username f) \<le> 32" "length (in_bio f) \<le> 256"
  shows "strict_pipe create_user_dto (user_payload f)"
  using assms by (auto simp: strict_pipe_def column_all rule_holds_def field_def Suc_le_eq)

lemma users_step_inv: "users_inv p \<Longrightarrow> users_possible p e \<Longrightarrow> users_inv (users_step p e)"
proof (cases e)
  case (Type_Field x s)
  assume "users_inv p" "users_possible p e"
  then show ?thesis by (cases x) (simp_all add: Type_Field users_inv_def max_length_of_def)
next
  case (First_Fetched r)
  assume "users_inv p" "users_possible p e"
  then show ?thesis
    using waiting_resumed(2) [of submit_task First_Fetch "users_tasks p"] set_remove1_subset [of First_Fetch "users_tasks p"]
    by (auto simp: users_inv_def First_Fetched fetch_ends_def ended_def split: sum.split)
next
  case (User_Posted d r)
  assume p: "users_inv p" "users_possible p e"
  have "Suc (waiting submit_task (remove1 (Posting d) (users_tasks p))) = waiting submit_task (users_tasks p)"
    using p(2) by (intro waiting_resumed(1)) (simp_all add: User_Posted)
  with p show ?thesis
    using set_remove1_subset [of "Posting d" "users_tasks p"]
    by (auto simp: users_inv_def User_Posted user_posted_def fetch_begins_def ended_def empty_form_def body_ok_def
        split: sum.split if_splits)
next
  case (Fetched_After r)
  assume p: "users_inv p" "users_possible p e"
  have "Suc (waiting submit_task (remove1 Fetch_After (users_tasks p))) = waiting submit_task (users_tasks p)"
    using p(2) by (intro waiting_resumed(1)) (simp_all add: Fetched_After)
  with p show ?thesis
    using set_remove1_subset [of Fetch_After "users_tasks p"]
    by (auto simp: users_inv_def Fetched_After fetch_ends_def ended_def split: sum.split if_splits)
qed (auto simp: users_inv_def submit_user_def payload_valid body_ok_def)

interpretation users: page_contract fresh_users_page users_possible users_step users_inv
  by unfold_locales
     (simp_all add: users_step_inv, simp add: users_inv_def fresh_users_page_def empty_form_def body_ok_def)

text \<open>
  C25. The users page has at most one submission under way, exactly when it says so, and every
  body it sends satisfies the rules the API declares for a new user: no submission is
  answered with a validation error by a pipe that only enforces those rules.
\<close>

theorem form_submissions_valid:
  assumes "users_reached p"
  shows "waiting submit_task (users_tasks p) = (if submitting p then 1 else 0) \<and>
    (\<forall>d. Posting d \<in> set (users_tasks p) \<longrightarrow> strict_pipe create_user_dto d)"
  using users.reached_inv [OF assms] by (auto simp: users_inv_def body_ok_def)

definition demo_submitting :: "users_event list" where
  "demo_submitting = [Type_Field Account_Field (js ''5Ann''), Type_Field Username_Field (js ''ann''), Submitted]"

lemma demo_submitting_run:
  "\<exists>p. after_events users_possible users_step demo_submitting fresh_users_page = Some p \<and>
     Posting [Col_accountId \<mapsto> Str (js ''5Ann''), Col_username \<mapsto> Str (js ''ann'')] \<in> set (users_tasks p)"
  by (simp add: demo_submitting_def fresh_users_page_def empty_form_def max_length_of_def submit_user_def
      user_payload_def when_given_def)

theorem form_submissions_valid_witness:
  "strict_pipe create_user_dto [Col_accountId \<mapsto> Str (js ''5Ann''), Col_username \<mapsto> Str (js ''ann'')]"
proof -
  obtain p where p: "after_events users_possible users_step demo_submitting fresh_users_page = Some p"
    "Posting [Col_accountId \<mapsto> Str (js ''5Ann''), Col_username \<mapsto> Str (js ''ann'')] \<in> set (users_tasks p)"
    using demo_submitting_run by blast
  from form_submissions_valid [OF after_events_reached [OF p(1) reached_start]] p(2) show ?thesis by blast
qed

section \<open>A user created through the page\<close>

text \<open>What the form's fields are in the table; a field left empty is \<open>null\<close> there.\<close>

definition shown_field :: "jstring \<Rightarrow> js_value" where
  "shown_field s = (if s = [] then Null else Str s)"

definition row_of_form :: "user_form \<Rightarrow> entity \<Rightarrow> bool" where
  "row_of_form f r \<longleftrightarrow> r Col_accountId = Str (in_account f) \<and> r Col_username = shown_field (in_username f) \<and>
     r Col_avatar = shown_field (in_avatar f) \<and> r Col_bio = shown_field (in_bio f)"

definition form_storable :: "user_form \<Rightarrow> bool" where
  "form_storable f \<longleftrightarrow> in_account f \<noteq> [] \<and> length (in_account f) \<le> 255 \<and>
     length (in_username f) \<le> 32 \<and> length (in_bio f) \<le> 256 \<and> usv_text (in_account f) \<and>
     usv_text (in_username f) \<and> usv_text (in_avatar f) \<and> usv_text (in_bio f)"

lemma form_may_insert:
  assumes "form_storable f"
  shows "may_insert (new_entity (user_payload f))"
proof -
  have t: "0 \<notin> set s \<and> to_usv s = s" if "usv_text s" for s using that by (simp add: usv_text_def)
  have "can_store (user_column Col_accountId) (Str (in_account f))"
    "in_username f \<noteq> [] \<Longrightarrow> can_store (user_column Col_username) (Str (in_username f))"
    "can_store (user_column Col_avatar) (Str (in_avatar f))" "can_store (user_column Col_bio) (Str (in_bio f))"
    using assms t characters_length [of "in_account f"] characters_length [of "in_username f"]
    by (auto simp: form_storable_def can_store_def column_specs)
  then show ?thesis
    by (auto simp: may_insert_def column_all new_entity_def field_def generated_def store_default with_default_given)
qed

context table_up
begin

text \<open>A new account with a free name is inserted with the form's values.\<close>

lemma form_user_created:
  assumes db: "valid db" and f: "form_storable f"
    and account: "\<And>i r. rows db i = Some r \<Longrightarrow> r Col_accountId \<noteq> Str (in_account f)"
    and name: "\<And>i r. in_username f \<noteq> [] \<Longrightarrow> rows db i = Some r \<Longrightarrow> r Col_username \<noteq> Str (in_username f)"
  obtains u db' i r where "run_prog R (create (user_payload f)) db = (Inr u, db')" "valid db'"
    "rows db i = None" "rows db' = (rows db)(i \<mapsto> r)" "row_of_form f r"
proof -
  have usv: "usv_text (in_account f)" "usv_text (in_username f)" "usv_text (in_avatar f)" "usv_text (in_bio f)"
    using f by (simp_all add: form_storable_def)
  have a: "field (user_payload f) Col_accountId = Str (in_account f)" by (simp add: field_def)
  obtain u db' i r where save: "repo_save R (new_entity (user_payload f)) db = (Inr u, db')" "valid db'"
    and r: "rows db i = None" "rows db' = (rows db)(i \<mapsto> r)"
    and c: "\<And>c. \<not> generated c \<Longrightarrow> r c = converted (user_column c) (with_default c (field (user_payload f) c))"
    using new_row [OF db form_may_insert [OF f] a usv_textD(2) [OF usv(1)]] account by blast
  have "row_of_form f r"
    using c [of Col_accountId] c [of Col_username] c [of Col_avatar] c [of Col_bio] usv [THEN usv_textD(2)]
    by (simp add: row_of_form_def shown_field_def generated_def converted_def with_default_def column_specs
        field_def)
  moreover have "repo_find_one R Col_accountId (Str (in_account f)) db = Inr None"
    using db usv(1) by (cases rule: lookup_account) (use account in auto)
  moreover have "in_username f \<noteq> [] \<longrightarrow> repo_find_one R Col_username (Str (in_username f)) db = Inr None"
    using db usv(2) by (cases rule: lookup_name) (use name in auto)
  ultimately show thesis
    using that [of u db' i r] save r
    by (auto simp: create_def field_def)
qed

end

text \<open>
  C9. A user entered in the form of the users page appears in its list: with the API's table
  up, an account that has no row and a username that no row has (or none), the POST the page
  sends is accepted and creates a row with exactly the values typed; once the page has
  fetched the list again it shows that row, with the form emptied and no error.
\<close>

theorem form_user_listed:
  assumes "table_up R rows valid" "valid db" "form_storable f"
    and "\<And>i r. rows db i = Some r \<Longrightarrow> r Col_accountId \<noteq> Str (in_account f)"
    and "\<And>i r. in_username f \<noteq> [] \<Longrightarrow> rows db i = Some r \<Longrightarrow> r Col_username \<noteq> Str (in_username f)"
    and "\<forall>d. strict_pipe create_user_dto d \<longrightarrow> pipe create_user_dto d"
    and "user_fields p = f" "\<not> submitting p"
  shows "\<exists>u db' us q. run_prog R (handle_request pipe (Post_User (user_payload f))) db = (Inr (One u), db') \<and>
    run_prog R (handle_request pipe Get_All) db' = (Inr (Many us), db') \<and>
    after_events users_possible users_step
      [Submitted, User_Posted (user_payload f) (Inr ()), Fetched_After (Inr us)] p = Some q \<and>
    (\<exists>r\<in>set (listed_users q). row_of_form f r) \<and> users_error q = Null \<and>
    user_fields q = empty_form \<and> \<not> submitting q"
proof -
  obtain u db' i r where created: "run_prog R (create (user_payload f)) db = (Inr u, db')" "valid db'"
    "rows db' = (rows db)(i \<mapsto> r)" "row_of_form f r"
    by (rule table_up.form_user_created [OF assms(1-3)]) (use assms(4,5) in blast)+
  have pipe: "pipe create_user_dto (user_payload f)"
    using assms(3,6) payload_valid by (simp add: form_storable_def)
  then have post: "run_prog R (handle_request pipe (Post_User (user_payload f))) db = (Inr (One u), db')"
    using created(1) by simp
  obtain us where us: "repo_find_all R Col_createdAt db' = Inr us"
    using table_up.list_up [OF assms(1) created(2)] by blast
  then have get: "run_prog R (handle_request pipe Get_All) db' = (Inr (Many us), db')"
    by (simp add: find_all_def)
  have "set us = ran (rows db')"
    using us user_table.listed [OF table_up.axioms(1) [OF assms(1)] created(2)] by blast
  then have "r \<in> set us" using ranI [of "rows db'" i r] created(3) by simp
  with created(4) assms(3,7,8) have "\<exists>q. after_events users_possible users_step
      [Submitted, User_Posted (user_payload f) (Inr ()), Fetched_After (Inr us)] p = Some q \<and>
      (\<exists>r\<in>set (listed_users q). row_of_form f r) \<and> users_error q = Null \<and>
      user_fields q = empty_form \<and> \<not> submitting q"
    by (auto simp: form_storable_def submit_user_def user_posted_def fetch_begins_def fetch_ends_def ended_def)
  with post get show ?thesis by blast
qed

definition demo_form :: user_form where
  "demo_form = \<lparr>in_account = js ''5Ann'', in_username = js ''ann'', in_avatar = [], in_bio = js ''hi''\<rparr>"

lemma demo_form_storable: "form_storable demo_form"
  by (simp add: form_storable_def demo_form_def plain_usv_text) (simp add: plain_usv_text plain_text_def js_def)

theorem form_user_listed_witness:
  "\<exists>u db' us q. run_prog memory_repository (handle_request strict_pipe (Post_User (user_payload demo_form)))
       empty_table = (Inr (One u), db') \<and>
     run_prog memory_repository (handle_request strict_pipe Get_All) db' = (Inr (Many us), db') \<and>
     after_events users_possible users_step
       [Submitted, User_Posted (user_payload demo_form) (Inr ()), Fetched_After (Inr us)]
       (fresh_users_page\<lparr>user_fields := demo_form\<rparr>) = Some q \<and>
     (\<exists>r\<in>set (listed_users q). row_of_form demo_form r) \<and> users_error q = Null \<and>
     user_fields q = empty_form \<and> \<not> submitting q"
proof -
  have "fst empty_table i = None" for i by (simp add: empty_table_def)
  moreover have "user_fields (fresh_users_page\<lparr>user_fields := demo_form\<rparr>) = demo_form"
    "\<not> submitting (fresh_users_page\<lparr>user_fields := demo_form\<rparr>)"
    by (simp_all add: fresh_users_page_def)
  ultimately show ?thesis
    by (intro form_user_listed [OF memory.table_up_axioms empty_table_valid demo_form_storable]) simp_all
qed

end
