(* ===== verification/Spec2Isabelle.thy ===== *)
theory Spec2Isabelle
  imports
    Profile_Properties Profile_Liveness Profile_Events Counter_Properties Weight_Properties
    Runtime_Outcomes Runtime_Apis Stored_Values Unit_Tests
    Node_Chain_Spec Node_Rpc Node_Sharing Node_Command_Properties Build_Scripts
    Index_Limits Index_Overlap Api_Startup Web_Chain Web_Users
begin

text \<open>
  A verification development of the Substrate chain in \<open>packages/solochain-template\<close> (three
  pallets, the runtime that composes them with seven framework pallets, and the node that
  runs it), of the API in \<open>apps/api\<close>, which follows the chain's events into a table of
  users, and of the web application in \<open>apps/web\<close>, which submits the pallet's calls and
  shows profiles and users.  Paths below are relative to \<open>packages/solochain-template\<close>, those
  of the API to \<open>apps/api/src\<close>, those of the web application to \<open>apps/web/app\<close>.

  \<^bold>\<open>Parts of the program and the theories that model them.\<close>

  \<^item> \<open>pallets/user-profile/src/lib.rs\<close>: accounts claim usernames, edit a profile and record
    race statistics.  \<open>Profile_Pallet\<close> has the storage (three maps in one record), events,
    errors and the calls \<open>set_username\<close>, \<open>update_profile\<close> and \<open>update_stats\<close>, statement by
    statement.  \<open>Profile_Effects\<close> proves what each call does on every branch;
    \<open>Profile_Invariants\<close> the agreement of the username index with the profiles and the
    bounds; \<open>Profile_Registry\<close> the refinement to an abstract registry of names;
    \<open>Profile_Events\<close> that the events tell the storage; \<open>Profile_Liveness\<close> that usernames can
    be taken and change hands; \<open>Profile_Properties\<close> the other properties.
  \<^item> \<open>pallets/simple-counter\<close> and \<open>pallets/template\<close>: \<open>Counter_Pallet\<close> and
    \<open>Template_Pallet\<close>, with their refinement to bounded numbers in \<open>Counter_Properties\<close>.
  \<^item> \<open>pallets/*/src/weights.rs\<close>: \<open>Weights\<close>; \<open>Weight_Properties\<close> compares the declared
    weights with the accesses the modelled calls record.
  \<^item> \<open>pallets/*/src/benchmarking.rs\<close> and \<open>runtime/src/benchmarks.rs\<close>: \<open>Pallet_Benchmarks\<close>.
  \<^item> \<open>pallets/*/src/mock.rs\<close> and \<open>pallets/*/src/tests.rs\<close>: \<open>Unit_Tests\<close>, in which a test is an
    action that fails where an assertion would.
  \<^item> \<open>runtime/src/lib.rs\<close> and \<open>runtime/src/configs/mod.rs\<close>: \<open>Runtime_Config\<close> (constants and
    the pallets' configurations), \<open>Runtime_Dispatch\<close> (storage, events, errors, calls and
    dispatch of the composed runtime), \<open>Runtime_Properties\<close>, and \<open>Runtime_Outcomes\<close> for what
    a local pallet's call can deposit, return and write.
  \<^item> The stored types that derive \<open>Encode\<close> and \<open>Decode\<close> (\<open>UserProfile\<close>, \<open>UserStats\<close>, the session
    keys): \<open>Stored_Values\<close>, over the contract of a codec in \<open>Codec\<close>.
  \<^item> \<open>runtime/src/genesis_config_presets.rs\<close>: \<open>Genesis\<close>; \<open>runtime/src/apis.rs\<close>:
    \<open>Runtime_Apis\<close>, one function per \<open>impl\<close> block.
  \<^item> \<open>node/src/chain_spec.rs\<close> and \<open>load_spec\<close>: \<open>Node_Chain_Spec\<close>;
    \<open>node/src/benchmarking.rs\<close>: \<open>Node_Benchmarking\<close>; \<open>node/src/rpc.rs\<close>: \<open>Node_Rpc\<close>;
    \<open>node/src/service.rs\<close>: \<open>Node_Service\<close>, \<open>Node_Service_Properties\<close> and
    \<open>Node_Sharing\<close>, over the host calls of \<open>Node_Host\<close>; \<open>node/src/cli.rs\<close> and
    \<open>node/src/command.rs\<close>: \<open>Node_Command\<close> and \<open>Node_Command_Properties\<close>; \<open>node/src/main.rs\<close>,
    \<open>node/build.rs\<close> and \<open>runtime/build.rs\<close>: \<open>Build_Scripts\<close>.
  \<^item> The API.  \<open>users/users.service.ts\<close> and \<open>users/entities/user.entity.ts\<close>:
    \<open>Users_Service\<close>; what it relies on of its repository, with a table in memory that
    provides it: \<open>Users_Table\<close>; \<open>users/users.controller.ts\<close> and \<open>users/dto\<close>:
    \<open>Users_Requests\<close>.  \<open>blockchain/blockchain.service.ts\<close> and
    \<open>blockchain/event-processor.ts\<close>: \<open>Event_Processor\<close>, with the queue between them in
    \<open>Event_Queue\<close>; \<open>main.ts\<close>, \<open>database/database.module.ts\<close>, the connection to the chain
    and the routes of \<open>app.service.ts\<close> and \<open>blockchain/blockchain.controller.ts\<close>:
    \<open>Api_Startup\<close>.  \<open>Index_Sync\<close> has the effect of the handlers on the table,
    \<open>Index_Names\<close> the uniqueness of usernames under all requests and jobs,
    \<open>Index_Registry\<close> and \<open>Index_Properties\<close> the simulation of the pallet's registry by
    the table, \<open>Index_Limits\<close> what the index decodes, refuses and loses, \<open>Index_Overlap\<close> what
    two operations can do whose calls interleave.
  \<^item> The web application.  \<open>hooks/usePolkadot.ts\<close> (connection to a node, wallet, signing):
    \<open>Web_Wallet\<close>; \<open>userprofile/page.tsx\<close>: \<open>Web_Profile\<close>, with its invariants in
    \<open>Web_Profile_Invariants\<close>, which profile it shows while the chain changes in
    \<open>Web_Profile_View\<close>, its wallet connections in \<open>Web_Connect\<close>, and the page, the chain and
    the index together in \<open>Web_Chain\<close>; \<open>users/page.tsx\<close>, alone and with the
    API behind it: \<open>Web_Users\<close>.

  \<^bold>\<open>Shared library.\<close>

  \<^item> \<open>Prelude\<close>: Rust's integer operations, state-and-error actions with early return
    (\<open>try_then\<close> is \<open>?\<close>), weakest preconditions.
  \<^item> \<open>Frame\<close>: what the pallets use of FRAME.  \<open>Storage_Items\<close>: the contract of a storage
    item, a storage map and two independent items, as locales interpreted on every item the
    pallets declare and on the pallets' parts of the runtime's storage.
  \<^item> \<open>Pallet_Contract\<close>: reachable storages, runs and blocks of extrinsics, and the contract of
    a pallet (genesis satisfies the invariant, every successful call keeps it) from which
    reachable storages, failing extrinsics and whole blocks are handled once; interpreted on
    the user-profile pallet, the counter's and the profiles' event logs, and the runtime.
  \<^item> \<open>Codec\<close>: the locale \<open>codec\<close> (what is encoded is read back, whatever follows), the locale
    \<open>scale\<close> of the primitive encodings with their lengths, and the published SCALE format as
    an instance of it, on which the witnesses run.
  \<^item> \<open>Js_Values\<close>: the ECMAScript the API uses: values of a JSON document, property access,
    truthiness, strings of UTF-16 units, hexadecimal and UTF-8.  \<open>Utf8_Text\<close>: UTF-8 of text
    and its decoding, with what becomes of surrogates without a partner.
  \<^item> \<open>Web_Events\<close>: a page as a system of events, and the contract of an invariant of one
    (\<open>page_contract\<close>), interpreted on both pages.

  \<^bold>\<open>How state and control are modelled.\<close>  A dispatchable is an action on the pallet's storage,
  the events deposited and the accesses made; an \<open>Err\<close> leaves the state of the point of
  failure.  FRAME runs dispatchables in a storage layer: \<open>storage_layer\<close> is the hypothesis on
  that layer (commit on \<open>Ok\<close>, or restore), and the properties say where it is needed.  The
  node's service is a sequence of calls of other crates; each call is recorded with its
  arguments, its answer comes from a parameter, and a startup is compared with a plan.
  An asynchronous function of the API is a tree of its repository calls (\<open>prog\<close>), run alone
  (\<open>run_prog\<close>) or interleaved with others (\<open>programs_step\<close>); an exception is a value.
  A page of the web application is a record of its \<open>useState\<close> values and of what is under way.
  An event is something the user types or presses, or the answer to an \<open>await\<close>, a callback or
  a timer that is under way; the handlers are split at their awaits, \<open>page_possible\<close> and
  \<open>users_possible\<close> say what is rendered and enabled, and an effect runs after the event that
  changed what it depends on.  A handler that waits keeps what its closure holds: the
  submission of a form carries the signer and the call of the render it was made in.

  \<^bold>\<open>Parameters.\<close>  Code outside the repository is a parameter: the framework's functions
  (\<open>frame\<close>), weights and database costs (\<open>weight_api\<close>), the keyring and JSON (\<open>keyring\<close>,
  \<open>preset_api\<close>), the specification builder, signing and eras, the RPC module, every crate the
  service calls (\<open>host\<close>), the command line's runners (\<open>cli_env\<close>), the primitive encodings
  (\<open>scale\<close>), the framework pallets' calls (\<open>framework_dispatch\<close>), what the runtime APIs hand
  over to (\<open>api_env\<close>), what the unit tests use of the framework (\<open>mock\<close>), the repository
  (\<open>repository\<close>), the validation pipe, the queue and its steps, \<open>toJSON\<close> and addresses of
  \<open>polkadot.js\<close>, what the profile page makes of texts and stored values with it (\<open>polkadot\<close>),
  and the answers of the wallet, the node and the API to the pages, which are in the events.
  Hypotheses on them state their documented behaviour and are named (\<open>bounded_vec_ok\<close>,
  \<open>storage_layer\<close>, \<open>shallow_layer\<close>, \<open>weight_laws\<close>,
  \<open>keyring_ok\<close>, \<open>extensions_ok\<close>, \<open>eras_ok\<close>, \<open>extends_client\<close>, \<open>merge_ok\<close>,
  \<open>runner_ok\<close>, \<open>api_env_ok\<close>, \<open>scale\<close>, \<open>mock_ok\<close>,
  \<open>user_table\<close>, \<open>table_up\<close>, \<open>pipe_ok\<close>, \<open>job_queue\<close>, \<open>bull_ok\<close>, \<open>event_json_ok\<close>, \<open>addresses_ok\<close>,
  \<open>polkadot_ok\<close>); every property with a hypothesis has a witness in which the parameters are
  concrete.

  The runtime's properties are about runs of the local pallets' calls and of those framework
  calls that write profile storage only by dispatching profile calls (\<open>spares_profiles\<close>): root
  can write any storage (\<open>set_storage\<close>, \<open>kill_storage\<close>), and after that nothing is promised.
  The properties of the profile page leave text out that begins with \<open>0x\<close> (\<open>hex_like\<close>), which
  \<open>polkadot.js\<close> reads as hexadecimal.

  \<^bold>\<open>What the properties show.\<close>  Non-empty usernames are unique and the index agrees with
  the profiles in every reachable storage, in the pallet and in the composed runtime; the calls
  implement an abstract registry and a bounded counter; events determine the stored state; calls
  act on their signer only; a free username can always be taken; a call's events, errors and
  writes are its pallet's; stored values survive their encoding, within the declared lengths;
  the pallets' unit tests pass (\<open>unit_tests_pass\<close>); the small pallets' weights cover their
  accesses.  Some properties state where the code falls short: the empty username, avatar and
  bio lost by \<open>set_username\<close>, statistics zeroed by a first \<open>set_username\<close>, and user-profile
  weights that miss accesses.  Genesis presets are sound and are the ones the node's chain
  specifications name; benchmark extrinsics verify in the runtime; a startup of the node follows
  its plan, works on one client, backend and task manager, runs consensus tasks exactly when
  configured, and no subcommand joins the network. The API's table of users follows the registry
  of the chain, for usernames that are text in any script, once the queue of events has come to
  its end, which it always does (\<open>queue_comes_to_an_end\<close>, of the model of the queue); requests
  and jobs in sequence keep the usernames of the table distinct.  Where it falls short is stated
  as well: statistics never arrive, held or NUL-differing names are refused, cleared fields
  stay, the block of creation moves, and overlapping operations can share a name. A username
  typed into the profile page arrives on the chain, in the API's table and, when it is
  printable, back on the page; the update form changes the fields that were typed; the page
  connects one wallet at a time, every connection comes to an end, and it shows the selected
  account's profile as of the last answer when answers are in order; the users page sends only
  valid bodies, one at a time, and lists the user it created.  Here too the limits are stated: a
  timer can show another account's profile, a name the form accepts can be too long for the
  chain, and the update form cannot clear a field.  Where one record holds the storage of
  several pallets, that they do not touch each other's is a choice of the model, not a property.

  \<^bold>\<open>Bounds.\<close>  Integers have the width of the source (\<open>u32\<close>, \<open>u64\<close>, \<open>u128\<close>), JavaScript's
  numbers are integers, as in the events; all functions are total without fuel: the source's
  iterations are over lists (the registered benchmarks, the merged RPC modules, the presets, the
  events of a block, the bytes of a text) and structural here.  The retries of a job are steps
  of a relation; their number is bounded by the attempts the source asks for.

  \<^bold>\<open>Not modelled.\<close>  Storage hashers, metadata and the macro-generated code around the
  calls, the encoding of calls, the framework pallets and \<open>Executive\<close> (parameters), the type
  aliases of framework types in \<open>runtime/src/lib.rs\<close> (they carry no behaviour); of the API the
  log output and the module classes and decorators that only wire others; of the web application
  the static pages \<open>page.tsx\<close> and \<open>layout.tsx\<close>, markup and style, the warning of a low balance
  and the interval at which the balance is read, and what still arrives when a page has been
  left. \<open>bull_step\<close> is a model of the queue, of which the source gives the options of the jobs:
  a job that stalls because its worker dies is repeated by Bull beyond its attempts, which it
  leaves out.  \<open>on_new_head\<close> handles one block to its end; the source's callbacks of consecutive
  blocks are asynchronous and can interleave the jobs they add.
\<close>

end
